(* ===== verification/Prelude.thy ===== *)
theory Prelude
  imports Main "HOL-Library.State_Monad" "HOL-Library.Char_ord"
begin

text \<open>
  Shared vocabulary of the development.

  \<^item> \<open>goerror\<close> is Go's \<open>error\<close> value: a plain error (\<open>errors.New\<close>, \<open>fmt.Errorf\<close>) carries its
    text, an \<open>*APIError\<close> of \<open>internal/chord/errors.go\<close> carries status, code and message. A Go
    result \<open>(T, error)\<close> is a value of \<open>goerror + 'a\<close>.
  \<^item> A method on a node runs in the state monad of \<open>HOL-Library.State_Monad\<close> over \<open>gst\<close>: the
    node's own state \<open>nd\<close>, the rest of the world \<open>wd\<close> (peers, tracker, clock, scheduler) and the
    goroutines started so far with \<open>go f()\<close>. One \<open>modify\<close> is one critical section of the node's
    mutex; \<open>rpc\<close> is a call through an interface, made without the mutex.
  \<^item> The locale \<open>kept_invariant\<close> is the interface between a node's critical sections and the methods
    composed of them: \<open>safe\<close> says that an action only takes steps of a relation that keeps an
    invariant, and what its result satisfies.
\<close>

named_theorems safe_intros "decomposition of actions into safe parts"
named_theorems node_defs "definitions of the node's critical sections"

section \<open>Errors as values\<close>

datatype goerror =
    GoError string
  | APIError (StatusCode: int) (Code: string) (Message: string)
  | GoPanic string

abbreviation ok :: "'a \<Rightarrow> goerror + 'a" where
  "ok x \<equiv> Inr x"

abbreviation err :: "goerror \<Rightarrow> goerror + 'a" where
  "err e \<equiv> Inl e"

abbreviation is_ok :: "goerror + 'a \<Rightarrow> bool" where
  "is_ok r \<equiv> \<not> isl r"

section \<open>Lists\<close>

lemma distinct_map_filter [simp]: "distinct (map f xs) \<Longrightarrow> distinct (map f (filter P xs))"
  by (induction xs) auto

lemma distinct_map_take [simp]: "distinct (map f xs) \<Longrightarrow> distinct (map f (take k xs))"
  by (simp flip: take_map)

lemma filter_length_mono: "length (filter P xs) \<le> length xs"
  by simp

text \<open>
  Iteration over a Go map visits every key once, in an order the runtime chooses. \<open>map_iter orc ks\<close>
  is the iteration over the keys \<open>ks\<close> that follows the runtime's choice \<open>orc\<close>; every permutation
  of \<open>ks\<close> is the iteration for some \<open>orc\<close>.
\<close>

definition map_iter :: "'k list \<Rightarrow> 'k list \<Rightarrow> 'k list" where
  "map_iter orc ks =
     remdups (filter (\<lambda>k. k \<in> set ks) orc) @ filter (\<lambda>k. k \<notin> set orc) ks"

lemma set_map_iter [simp]: "set (map_iter orc ks) = set ks"
  by (auto simp: map_iter_def)

lemma distinct_map_iter [simp]: "distinct ks \<Longrightarrow> distinct (map_iter orc ks)"
  by (auto simp: map_iter_def)

lemma map_iter_Nil [simp]: "map_iter orc [] = []"
  by (simp add: map_iter_def)

lemma map_iter_any_permutation:
  assumes "distinct orc" and "set orc = set ks"
  shows "map_iter orc ks = orc"
proof -
  have "filter (\<lambda>k. k \<in> set ks) orc = orc"
    using assms(2) by (auto simp: filter_id_conv)
  moreover have "filter (\<lambda>k. k \<notin> set orc) ks = []"
    using assms(2) by (auto simp: filter_empty_conv)
  ultimately show ?thesis
    using assms(1) by (simp add: map_iter_def distinct_remdups_id)
qed

section \<open>The state monad of a node\<close>

record ('n, 'w, 't) gst =
  nd :: 'n
  wd :: 'w
  spawned :: "'t list"

type_synonym ('n, 'w, 't, 'a) act = "(('n, 'w, 't) gst, 'a) state"

definition asks :: "('n \<Rightarrow> 'a) \<Rightarrow> ('n, 'w, 't, 'a) act" where
  "asks f = State (\<lambda>s. (f (nd s), s))"

definition modify :: "('n \<Rightarrow> 'n) \<Rightarrow> ('n, 'w, 't, unit) act" where
  "modify f = State (\<lambda>s. ((), s\<lparr>nd := f (nd s)\<rparr>))"

text \<open>A critical section that also computes a result under the lock.\<close>

definition atomically :: "('n \<Rightarrow> 'a \<times> 'n) \<Rightarrow> ('n, 'w, 't, 'a) act" where
  "atomically f = State (\<lambda>s. (fst (f (nd s)), s\<lparr>nd := snd (f (nd s))\<rparr>))"

definition rpc :: "('w \<Rightarrow> 'a \<times> 'w) \<Rightarrow> ('n, 'w, 't, 'a) act" where
  "rpc f = State (\<lambda>s. (fst (f (wd s)), s\<lparr>wd := snd (f (wd s))\<rparr>))"

definition observe :: "('w \<Rightarrow> 'a) \<Rightarrow> ('n, 'w, 't, 'a) act" where
  "observe f = State (\<lambda>s. (f (wd s), s))"

definition spawn :: "'t \<Rightarrow> ('n, 'w, 't, unit) act" where
  "spawn t = State (\<lambda>s. ((), s\<lparr>spawned := spawned s @ [t]\<rparr>))"

abbreviation ret :: "'a \<Rightarrow> ('s, 'a) state" where
  "ret \<equiv> State_Monad.return"

text \<open>\<open>if_then c m\<close> is Go's \<open>if c { m }\<close>; \<open>for_each\<close> and \<open>for_map\<close> are \<open>range\<close> loops without and with
  collected results.\<close>

definition if_then :: "bool \<Rightarrow> ('s, unit) state \<Rightarrow> ('s, unit) state" where
  "if_then c m = (if c then m else ret ())"

fun for_each :: "'b list \<Rightarrow> ('b \<Rightarrow> ('s, unit) state) \<Rightarrow> ('s, unit) state" where
  "for_each [] f = ret ()"
| "for_each (x # xs) f = State_Monad.bind (f x) (\<lambda>_. for_each xs f)"

fun for_map :: "'b list \<Rightarrow> ('b \<Rightarrow> ('s, 'a) state) \<Rightarrow> ('s, 'a list) state" where
  "for_map [] f = ret []"
| "for_map (x # xs) f =
     State_Monad.bind (f x) (\<lambda>y. State_Monad.bind (for_map xs f) (\<lambda>ys. ret (y # ys)))"

lemma run_asks [simp]: "run_state (asks f) s = (f (nd s), s)"
  by (simp add: asks_def)

lemma run_modify [simp]: "run_state (modify f) s = ((), s\<lparr>nd := f (nd s)\<rparr>)"
  by (simp add: modify_def)

lemma run_atomically [simp]:
  "run_state (atomically f) s = (fst (f (nd s)), s\<lparr>nd := snd (f (nd s))\<rparr>)"
  by (simp add: atomically_def)

lemma run_rpc [simp]: "run_state (rpc f) s = (fst (f (wd s)), s\<lparr>wd := snd (f (wd s))\<rparr>)"
  by (simp add: rpc_def)

lemma run_observe [simp]: "run_state (observe f) s = (f (wd s), s)"
  by (simp add: observe_def)

lemma run_spawn [simp]: "run_state (spawn t) s = ((), s\<lparr>spawned := spawned s @ [t]\<rparr>)"
  by (simp add: spawn_def)

lemma run_if_then [simp]: "run_state (if_then c m) s = (if c then run_state m s else ((), s))"
  by (simp add: if_then_def)

section \<open>Runs made of steps that keep an invariant\<close>

text \<open>
  \<open>safe m D\<close>: started in a state whose node satisfies the invariant, the action \<open>m\<close> takes the node
  through steps of the relation only (its critical sections) and returns a value with the property
  \<open>D\<close>, which may rest on the invariant at the moments the node was read. As every step keeps the
  invariant, steps of other goroutines may come in between; \<open>D\<close> may therefore only speak of what is
  fixed. The rules follow the shape of the code.
\<close>

locale kept_invariant =
  fixes step :: "'n \<Rightarrow> 'n \<Rightarrow> bool"
    and inv :: "'n \<Rightarrow> bool"
  assumes kept: "step n n' \<Longrightarrow> inv n \<Longrightarrow> inv n'"
begin

definition safe :: "('n, 'w, 't, 'a) act \<Rightarrow> ('a \<Rightarrow> bool) \<Rightarrow> bool" where
  "safe m D \<longleftrightarrow>
     (\<forall>s. inv (nd s) \<longrightarrow> step\<^sup>*\<^sup>* (nd s) (nd (snd (run_state m s))) \<and> D (fst (run_state m s)))"

lemma kept_steps: "step\<^sup>*\<^sup>* n n' \<Longrightarrow> inv n \<Longrightarrow> inv n'"
  by (induction rule: rtranclp_induct) (auto intro: kept)

lemma safe_inv: "safe m D \<Longrightarrow> inv (nd s) \<Longrightarrow> inv (nd (snd (run_state m s)))"
  unfolding safe_def using kept_steps by blast

lemma safe_steps: "safe m D \<Longrightarrow> inv (nd s) \<Longrightarrow> step\<^sup>*\<^sup>* (nd s) (nd (snd (run_state m s)))"
  by (simp add: safe_def)

lemma safe_result: "safe m D \<Longrightarrow> inv (nd s) \<Longrightarrow> D (fst (run_state m s))"
  by (simp add: safe_def)

lemma safe_weaken: "safe m D \<Longrightarrow> (\<And>a. D a \<Longrightarrow> D' a) \<Longrightarrow> safe m D'"
  by (simp add: safe_def)

lemma safe_any: "safe m D \<Longrightarrow> safe m (\<lambda>_. True)"
  by (simp add: safe_def)

lemma safe_bind:
  fixes m :: "('n, 'b, 'c, 'a) act"
  assumes m: "safe m D" and f: "\<And>a. D a \<Longrightarrow> safe (f a) D'"
  shows "safe (State_Monad.bind m f) D'"
  unfolding safe_def
proof (intro allI impI)
  fix s :: "('n, 'b, 'c) gst" assume i: "inv (nd s)"
  let ?a = "fst (run_state m s)" and ?t = "snd (run_state m s)"
  have "safe (f ?a) D'" using f safe_result [OF m i] by blast
  with safe_inv [OF m i] safe_steps [OF m i]
  show "step\<^sup>*\<^sup>* (nd s) (nd (snd (run_state (State_Monad.bind m f) s))) \<and>
      D' (fst (run_state (State_Monad.bind m f) s))"
    by (auto simp: case_prod_beta safe_def)
qed

lemma safe_ret: "D x \<Longrightarrow> safe (ret x) D"
  by (simp add: safe_def)

lemma safe_asks: "(\<And>n. inv n \<Longrightarrow> D (f n)) \<Longrightarrow> safe (asks f) D"
  by (simp add: safe_def)

lemma safe_modify: "(\<And>n. inv n \<Longrightarrow> step\<^sup>*\<^sup>* n (f n)) \<Longrightarrow> D () \<Longrightarrow> safe (modify f) D"
  by (simp add: safe_def)

lemma safe_atomically:
  "(\<And>n. inv n \<Longrightarrow> step\<^sup>*\<^sup>* n (snd (f n)) \<and> D (fst (f n))) \<Longrightarrow> safe (atomically f) D"
  by (simp add: safe_def)

lemma safe_rpc: "(\<And>w. D (fst (f w))) \<Longrightarrow> safe (rpc f) D"
  by (simp add: safe_def)

lemma safe_observe: "(\<And>w. D (f w)) \<Longrightarrow> safe (observe f) D"
  by (simp add: safe_def)

lemma safe_spawn: "D () \<Longrightarrow> safe (spawn t) D"
  by (simp add: safe_def)

lemma safe_if_then: "(c \<Longrightarrow> safe m D) \<Longrightarrow> D () \<Longrightarrow> safe (if_then c m) D"
  by (simp add: if_then_def safe_ret)

lemma safe_if: "(c \<Longrightarrow> safe m D) \<Longrightarrow> (\<not> c \<Longrightarrow> safe m' D) \<Longrightarrow> safe (if c then m else m') D"
  by simp

lemma safe_case_option:
  "(y = None \<Longrightarrow> safe m D) \<Longrightarrow> (\<And>x. y = Some x \<Longrightarrow> safe (f x) D) \<Longrightarrow>
   safe (case y of None \<Rightarrow> m | Some x \<Rightarrow> f x) D"
  by (cases y) auto

lemma safe_case_sum:
  "(\<And>x. y = Inl x \<Longrightarrow> safe (f x) D) \<Longrightarrow> (\<And>x. y = Inr x \<Longrightarrow> safe (g x) D) \<Longrightarrow>
   safe (case y of Inl x \<Rightarrow> f x | Inr x \<Rightarrow> g x) D"
  by (cases y) auto

lemma safe_case_prod:
  "(\<And>a b. p = (a, b) \<Longrightarrow> safe (f a b) D) \<Longrightarrow> safe (case p of (a, b) \<Rightarrow> f a b) D"
  by (cases p) auto

lemma safe_let: "(\<And>x. x = e \<Longrightarrow> safe (f x) D) \<Longrightarrow> safe (let x = e in f x) D"
  by simp

lemma safe_for_each:
  "(\<And>x. x \<in> set xs \<Longrightarrow> safe (f x) (\<lambda>_. True)) \<Longrightarrow> safe (for_each xs f) (\<lambda>_. True)"
  by (induction xs) (auto intro!: safe_ret safe_bind)

lemma safe_for_map:
  "(\<And>x. x \<in> set xs \<Longrightarrow> safe (f x) D) \<Longrightarrow>
   safe (for_map xs f) (\<lambda>ys. length ys = length xs \<and> list_all D ys)"
proof (induction xs)
  case (Cons x xs)
  then have "safe (f x) D" and "safe (for_map xs f) (\<lambda>ys. length ys = length xs \<and> list_all D ys)"
    by auto
  then show ?case
    by (auto intro!: safe_bind safe_ret elim!: safe_bind)
qed (simp add: safe_ret)

text \<open>The rules without a property of the result, collected for \<open>intro\<close>.\<close>

definition moves :: "('n, 'w, 't, 'a) act \<Rightarrow> bool" where
  "moves m \<longleftrightarrow> safe m (\<lambda>_. True)"

lemma moves_safe: "moves m \<Longrightarrow> safe m (\<lambda>_. True)"
  by (simp add: moves_def)

lemma safe_moves: "safe m D \<Longrightarrow> moves m"
  by (simp add: moves_def safe_def)

lemma moves_after: "safe m D \<Longrightarrow> (\<And>a. D a \<Longrightarrow> moves (f a)) \<Longrightarrow> moves (State_Monad.bind m f)"
  unfolding moves_def by (rule safe_bind)

lemma moves_bind [safe_intros]: "moves m \<Longrightarrow> (\<And>a. moves (f a)) \<Longrightarrow> moves (State_Monad.bind m f)"
  unfolding moves_def by (rule safe_bind)

lemma moves_basic [safe_intros]:
  "moves (ret x)" "moves (asks g)" "moves (rpc h)" "moves (observe k)" "moves (spawn t)"
  by (simp_all add: moves_def safe_def)

lemma moves_if_then [safe_intros]: "(c \<Longrightarrow> moves m) \<Longrightarrow> moves (if_then c m)"
  unfolding moves_def by (rule safe_if_then) auto

lemma moves_if [safe_intros]: "(c \<Longrightarrow> moves m) \<Longrightarrow> (\<not> c \<Longrightarrow> moves m') \<Longrightarrow> moves (if c then m else m')"
  by simp

lemma moves_cases [safe_intros]:
  "moves m \<Longrightarrow> (\<And>x. moves (f x)) \<Longrightarrow> moves (case y of None \<Rightarrow> m | Some x \<Rightarrow> f x)"
  "(\<And>x. moves (l x)) \<Longrightarrow> (\<And>x. moves (r x)) \<Longrightarrow> moves (case z of Inl x \<Rightarrow> l x | Inr x \<Rightarrow> r x)"
  "(\<And>a b. moves (p a b)) \<Longrightarrow> moves (case q of (a, b) \<Rightarrow> p a b)"
  "(\<And>x. moves (e1 x)) \<Longrightarrow> (\<And>x c x'. moves (e2 x c x')) \<Longrightarrow> (\<And>x. moves (e3 x)) \<Longrightarrow>
   moves (case e of GoError x \<Rightarrow> e1 x | APIError x c x' \<Rightarrow> e2 x c x' | GoPanic x \<Rightarrow> e3 x)"
proof -
  show "moves m \<Longrightarrow> (\<And>x. moves (f x)) \<Longrightarrow> moves (case y of None \<Rightarrow> m | Some x \<Rightarrow> f x)"
    by (cases y) auto
  show "(\<And>x. moves (l x)) \<Longrightarrow> (\<And>x. moves (r x)) \<Longrightarrow> moves (case z of Inl x \<Rightarrow> l x | Inr x \<Rightarrow> r x)"
    by (cases z) auto
  show "(\<And>a b. moves (p a b)) \<Longrightarrow> moves (case q of (a, b) \<Rightarrow> p a b)"
    by (cases q) auto
  show "(\<And>x. moves (e1 x)) \<Longrightarrow> (\<And>x c x'. moves (e2 x c x')) \<Longrightarrow> (\<And>x. moves (e3 x)) \<Longrightarrow>
      moves (case e of GoError x \<Rightarrow> e1 x | APIError x c x' \<Rightarrow> e2 x c x' | GoPanic x \<Rightarrow> e3 x)"
    by (cases e) auto
qed

lemma moves_let [safe_intros]: "(\<And>x. moves (f x)) \<Longrightarrow> moves (let x = e in f x)"
  by simp

lemma moves_for_each [safe_intros]: "(\<And>x. x \<in> set xs \<Longrightarrow> moves (f x)) \<Longrightarrow> moves (for_each xs f)"
  unfolding moves_def by (rule safe_for_each)

lemma moves_for_map [safe_intros]: "(\<And>x. x \<in> set xs \<Longrightarrow> moves (f x)) \<Longrightarrow> moves (for_map xs f)"
  unfolding moves_def by (rule safe_any [OF safe_for_map])

lemma moves_modify: "(\<And>n. inv n \<Longrightarrow> step n (f n)) \<Longrightarrow> moves (modify f)"
  unfolding moves_def by (rule safe_modify) auto

lemma moves_atomically: "(\<And>n. inv n \<Longrightarrow> step n (snd (f n))) \<Longrightarrow> moves (atomically f)"
  unfolding moves_def by (rule safe_atomically) auto

lemma moves_steps: "moves m \<Longrightarrow> inv (nd s) \<Longrightarrow> step\<^sup>*\<^sup>* (nd s) (nd (snd (run_state m s)))"
  unfolding moves_def by (rule safe_steps)

lemma moves_inv: "moves m \<Longrightarrow> inv (nd s) \<Longrightarrow> inv (nd (snd (run_state m s)))"
  unfolding moves_def by (rule safe_inv)

end

end
