(* ===== verification/GoStd.thy ===== *)
theory GoStd
  imports Prelude "HOL-Library.Word"
begin

text \<open>
  The part of Go and of its standard library that the modelled code uses.

  Strings are Go's byte strings (\<open>char\<close> is a byte). Integers are \<open>int\<close>; where the code can leave
  the 64-bit range the wrap-around is written out with \<open>wrap64\<close>. A \<open>time.Duration\<close> is its number of
  nanoseconds; a \<open>time.Time\<close> is its number of nanoseconds since January 1 of year 1, the zero time,
  so that \<open>IsZero\<close> is \<open>t = 0\<close>. \<open>TrimSpace\<close> and \<open>ToLower\<close> are modelled on their ASCII fast paths; text
  outside ASCII is outside the model.

  \<open>golib\<close> holds the library code whose result is not computed here: \<open>net/url.Parse\<close> and the digest
  of \<open>crypto/sha1\<close>. What the proofs need of them is stated in \<open>sha1_ok\<close> and \<open>url_Parse_ok\<close>, both
  documented behaviour of those packages, and both satisfied by a concrete instance below.
\<close>

section \<open>64-bit integers\<close>

definition wrap64 :: "int \<Rightarrow> int" where
  "wrap64 x = signed_take_bit 63 x"

lemma wrap64_word: "wrap64 x = sint (word_of_int x :: 64 word)"
  by (simp add: wrap64_def sint_sbintrunc')

lemma wrap64_id: "- (2 ^ 63) \<le> x \<Longrightarrow> x < 2 ^ 63 \<Longrightarrow> wrap64 x = x"
  by (simp add: wrap64_def signed_take_bit_int_eq_self_iff)

lemma wrap64_bounds: "- (2 ^ 63) \<le> wrap64 x \<and> wrap64 x < 2 ^ 63"
  unfolding wrap64_def
  using signed_take_bit_int_greater_eq_minus_exp [of 63 x] signed_take_bit_int_less_exp [of 63 x]
  by simp

section \<open>time\<close>

type_synonym gotime = int
type_synonym duration = int

definition Second :: duration where
  "Second = 1000000000"

definition maxDuration :: duration where
  "maxDuration = 9223372036854775807"

definition minDuration :: duration where
  "minDuration = - 9223372036854775808"

abbreviation IsZero :: "gotime \<Rightarrow> bool" where
  "IsZero t \<equiv> t = 0"

text \<open>\<open>t.Sub(u)\<close> saturates; \<open>t.Add(d)\<close> wraps in the 64-bit seconds.\<close>

definition time_Sub :: "gotime \<Rightarrow> gotime \<Rightarrow> duration" where
  "time_Sub t u = max minDuration (min maxDuration (t - u))"

definition time_Add :: "gotime \<Rightarrow> duration \<Rightarrow> gotime" where
  "time_Add t d = wrap64 ((t + d) div Second) * Second + (t + d) mod Second"

text \<open>Seconds from year 1 to the Unix epoch; \<open>time.Unix(s, 0)\<close> and \<open>t.Unix()\<close>.\<close>

definition unixToInternal :: int where
  "unixToInternal = 62135596800"

definition time_Unix :: "int \<Rightarrow> gotime" where
  "time_Unix s = wrap64 (s + unixToInternal) * Second"

definition toUnix :: "gotime \<Rightarrow> int" where
  "toUnix t = wrap64 (t div Second - unixToInternal)"

text \<open>Times the process can meet: the clock is in the 64-bit range of seconds.\<close>

definition clock_range :: "gotime \<Rightarrow> bool" where
  "clock_range t \<longleftrightarrow> 0 \<le> t \<and> t < 2 ^ 62 * Second"

lemma time_Add_exact:
  "- (2 ^ 63) * Second \<le> t + d \<Longrightarrow> t + d < 2 ^ 63 * Second \<Longrightarrow> time_Add t d = t + d"
proof -
  assume *: "- (2 ^ 63) * Second \<le> t + d" "t + d < 2 ^ 63 * Second"
  then have "- (2 ^ 63) \<le> (t + d) div Second" "(t + d) div Second < 2 ^ 63"
    by (simp_all add: Second_def)
  then have "wrap64 ((t + d) div Second) = (t + d) div Second"
    by (rule wrap64_id)
  then show ?thesis
    by (simp add: time_Add_def)
qed

lemma time_Sub_le: "ttl < maxDuration \<Longrightarrow> minDuration \<le> ttl \<Longrightarrow> time_Sub t u \<le> ttl \<longleftrightarrow> t - u \<le> ttl"
  by (auto simp: time_Sub_def maxDuration_def minDuration_def)

lemma time_Sub_mono: "t \<le> t' \<Longrightarrow> time_Sub t u \<le> time_Sub t' u"
  by (simp add: time_Sub_def)

lemma time_Sub_self [simp]: "time_Sub t t = 0"
  by (simp add: time_Sub_def maxDuration_def minDuration_def)

section \<open>strings, strconv, encoding/hex\<close>

definition digit_char :: "nat \<Rightarrow> char" where
  "digit_char d = char_of (48 + d)"

fun utoa :: "nat \<Rightarrow> string" where
  "utoa n = (if n < 10 then [digit_char n] else utoa (n div 10) @ [digit_char (n mod 10)])"

declare utoa.simps [simp del]

text \<open>\<open>strconv.Itoa\<close>, and the verb \<open>%d\<close>.\<close>

definition itoa :: "int \<Rightarrow> string" where
  "itoa i = (if i < 0 then CHR ''-'' # utoa (nat (- i)) else utoa (nat i))"

definition is_digit :: "char \<Rightarrow> bool" where
  "is_digit c \<longleftrightarrow> CHR ''0'' \<le> c \<and> c \<le> CHR ''9''"

definition digit_val :: "char \<Rightarrow> nat" where
  "digit_val c = of_char c - 48"

definition parse_digits :: "string \<Rightarrow> nat option" where
  "parse_digits s =
     (if s \<noteq> [] \<and> list_all is_digit s
      then Some (foldl (\<lambda>n c. 10 * n + digit_val c) 0 s) else None)"

text \<open>\<open>strconv.ParseInt(s, 10, 64)\<close>, and \<open>strconv.Atoi\<close> on a 64-bit platform.\<close>

definition ParseInt64 :: "string \<Rightarrow> int option" where
  "ParseInt64 s =
     (let (neg, ds) = (case s of
            c # r \<Rightarrow> if c = CHR ''-'' then (True, r)
                     else if c = CHR ''+'' then (False, r) else (False, s)
          | [] \<Rightarrow> (False, []))
      in case parse_digits ds of
           None \<Rightarrow> None
         | Some n \<Rightarrow>
             if neg then (if int n \<le> 2 ^ 63 then Some (- int n) else None)
             else (if int n < 2 ^ 63 then Some (int n) else None))"

definition is_space :: "char \<Rightarrow> bool" where
  "is_space c \<longleftrightarrow> c \<in> {CHR '' '', CHR 0x09, CHR 0x0A, CHR 0x0B, CHR 0x0C, CHR 0x0D}"

definition TrimSpace :: "string \<Rightarrow> string" where
  "TrimSpace s = rev (dropWhile is_space (rev (dropWhile is_space s)))"

definition Trim :: "string \<Rightarrow> char list \<Rightarrow> string" where
  "Trim s cs = rev (dropWhile (\<lambda>c. c \<in> set cs) (rev (dropWhile (\<lambda>c. c \<in> set cs) s)))"

definition lower_char :: "char \<Rightarrow> char" where
  "lower_char c =
     (if CHR ''A'' \<le> c \<and> c \<le> CHR ''Z'' then char_of (of_char c + (32::nat)) else c)"

definition ToLower :: "string \<Rightarrow> string" where
  "ToLower s = map lower_char s"

definition HasPrefix :: "string \<Rightarrow> string \<Rightarrow> bool" where
  "HasPrefix s p \<longleftrightarrow> take (length p) s = p"

definition TrimPrefix :: "string \<Rightarrow> string \<Rightarrow> string" where
  "TrimPrefix s p = (if HasPrefix s p then drop (length p) s else s)"

fun IndexByte :: "string \<Rightarrow> char \<Rightarrow> nat option" where
  "IndexByte [] c = None"
| "IndexByte (x # xs) c = (if x = c then Some 0 else map_option Suc (IndexByte xs c))"

definition LastIndexByte :: "string \<Rightarrow> char \<Rightarrow> nat option" where
  "LastIndexByte s c = map_option (\<lambda>i. length s - Suc i) (IndexByte (rev s) c)"

fun join_with :: "string \<Rightarrow> string list \<Rightarrow> string" where
  "join_with sep [] = []"
| "join_with sep [x] = x"
| "join_with sep (x # y # xs) = x @ sep @ join_with sep (y # xs)"

fun split_on :: "char \<Rightarrow> string \<Rightarrow> string list" where
  "split_on c [] = [[]]"
| "split_on c (x # xs) =
     (if x = c then [] # split_on c xs
      else case split_on c xs of [] \<Rightarrow> [[x]] | p # ps \<Rightarrow> (x # p) # ps)"

definition newline :: string where
  "newline = [CHR 0x0A]"

definition hex_digit :: "nat \<Rightarrow> char" where
  "hex_digit d = (if d < 10 then char_of (48 + d) else char_of (87 + d))"

definition hex_byte :: "char \<Rightarrow> string" where
  "hex_byte b = [hex_digit (of_char b div 16), hex_digit (of_char b mod 16)]"

text \<open>\<open>hex.EncodeToString\<close>.\<close>

definition hex_EncodeToString :: "string \<Rightarrow> string" where
  "hex_EncodeToString bs = concat (map hex_byte bs)"

lemma length_hex_EncodeToString [simp]: "length (hex_EncodeToString bs) = 2 * length bs"
  by (induction bs) (simp_all add: hex_EncodeToString_def hex_byte_def)

section \<open>net/url and net\<close>

record URL =
  Scheme :: string
  HasUser :: bool
  Host :: string
  Path :: string
  RawQuery :: string
  Fragment :: string

definition validOptionalPort :: "string \<Rightarrow> bool" where
  "validOptionalPort p = (case p of [] \<Rightarrow> True | c # ds \<Rightarrow> c = CHR '':'' \<and> list_all is_digit ds)"

definition splitHostPort :: "string \<Rightarrow> string \<times> string" where
  "splitHostPort hp =
     (let (host, port) = (case LastIndexByte hp (CHR '':'') of
            None \<Rightarrow> (hp, [])
          | Some i \<Rightarrow> if validOptionalPort (drop i hp) then (take i hp, drop (Suc i) hp)
                      else (hp, []))
      in if host \<noteq> [] \<and> hd host = CHR ''['' \<and> last host = CHR '']''
         then (butlast (tl host), port) else (host, port))"

abbreviation Hostname :: "URL \<Rightarrow> string" where
  "Hostname u \<equiv> fst (splitHostPort (Host u))"

abbreviation Port :: "URL \<Rightarrow> string" where
  "Port u \<equiv> snd (splitHostPort (Host u))"

text \<open>\<open>net.LookupPort("tcp", port)\<close> on the digits \<open>Port\<close> returns; \<open>net.JoinHostPort\<close>.\<close>

definition LookupPort_ok :: "string \<Rightarrow> bool" where
  "LookupPort_ok p = (case parse_digits p of None \<Rightarrow> False | Some n \<Rightarrow> n \<le> 65535)"

definition JoinHostPort :: "string \<Rightarrow> string \<Rightarrow> string" where
  "JoinHostPort h p =
     (if CHR '':'' \<in> set h then ''['' @ h @ '']:'' @ p else h @ '':'' @ p)"

record golib =
  url_Parse :: "string \<Rightarrow> goerror + URL"
  sha1_Sum :: "string \<Rightarrow> string"

definition sha1_ok :: "golib \<Rightarrow> bool" where
  "sha1_ok L \<longleftrightarrow> (\<forall>m. length (sha1_Sum L m) = 20)"

text \<open>
  \<open>url.Parse\<close> on \<open>https://<authority>\<close>, where the authority is a host of lower-case letters, digits,
  dots and hyphens and an optional port, returns that authority and nothing else.
\<close>

definition host_char :: "char \<Rightarrow> bool" where
  "host_char c \<longleftrightarrow>
     (CHR ''a'' \<le> c \<and> c \<le> CHR ''z'') \<or> is_digit c \<or> c = CHR ''.'' \<or> c = CHR ''-''"

definition plain_authority :: "string \<Rightarrow> bool" where
  "plain_authority a \<longleftrightarrow>
     takeWhile host_char a \<noteq> [] \<and> validOptionalPort (dropWhile host_char a)"

definition https_url :: "string \<Rightarrow> URL" where
  "https_url a =
     \<lparr>Scheme = ''https'', HasUser = False, Host = a, Path = [], RawQuery = [], Fragment = []\<rparr>"

definition url_Parse_ok :: "golib \<Rightarrow> bool" where
  "url_Parse_ok L \<longleftrightarrow>
     (\<forall>a. plain_authority a \<longrightarrow> url_Parse L (''https://'' @ a) = Inr (https_url a))"

text \<open>A concrete library for witnesses: it parses plain authorities only, and its digest is the
  last twenty bytes of the message, padded.\<close>

definition demo_lib :: golib where
  "demo_lib =
     \<lparr>url_Parse = (\<lambda>s. if HasPrefix s ''https://'' \<and> plain_authority (TrimPrefix s ''https://'')
                       then Inr (https_url (TrimPrefix s ''https://''))
                       else Inl (GoError ''parse'')),
      sha1_Sum = (\<lambda>m. take 20 (rev m @ replicate 20 (CHR ''0'')))\<rparr>"

lemma demo_lib_ok: "sha1_ok demo_lib" "url_Parse_ok demo_lib"
  by (auto simp: sha1_ok_def url_Parse_ok_def demo_lib_def HasPrefix_def TrimPrefix_def min_def)

section \<open>Decimal numbers and lines of text\<close>

definition no_newline :: "string \<Rightarrow> bool" where
  "no_newline s \<longleftrightarrow> CHR 0x0A \<notin> set s"

lemma is_digit_code: "is_digit c \<longleftrightarrow> 48 \<le> (of_char c :: nat) \<and> (of_char c :: nat) \<le> 57"
  by (simp add: is_digit_def less_eq_char_def)

lemma of_digit_char [simp]: "d < 10 \<Longrightarrow> of_char (digit_char d) = (48 + d :: nat)"
  by (simp add: digit_char_def)

lemma utoa_digits: "list_all is_digit (utoa n) \<and> utoa n \<noteq> [] \<and> foldl (\<lambda>n c. 10 * n + digit_val c) 0 (utoa n) = n"
proof (induction n rule: utoa.induct)
  case (1 n)
  show ?case
  proof (cases "n < 10")
    case True
    then show ?thesis by (simp add: utoa.simps [of n] is_digit_code digit_val_def)
  next
    case False
    then show ?thesis
      using 1 [OF False] by (simp add: utoa.simps [of n] is_digit_code digit_val_def)
  qed
qed

lemma parse_digits_utoa [simp]: "parse_digits (utoa n) = Some n"
  using utoa_digits by (simp add: parse_digits_def)

lemma utoa_hd: "utoa n = c # r \<Longrightarrow> is_digit c"
  using utoa_digits [of n] by simp

lemma ParseInt64_itoa:
  assumes "- (2 ^ 63) \<le> i" and "i < 2 ^ 63"
  shows "ParseInt64 (itoa i) = Some i"
proof (cases "i < 0")
  case True
  then show ?thesis using assms by (simp add: ParseInt64_def itoa_def)
next
  case False
  obtain c r where cr: "utoa (nat i) = c # r" using utoa_digits [of "nat i"] by (cases "utoa (nat i)") auto
  then have "c \<noteq> CHR ''-''" "c \<noteq> CHR ''+''" using utoa_hd [OF cr] by (auto simp: is_digit_code)
  then show ?thesis
    using False assms cr parse_digits_utoa [of "nat i"] by (simp add: ParseInt64_def itoa_def)
qed

lemma itoa_inj: "itoa i = itoa j \<longleftrightarrow> i = j"
proof
  assume eq: "itoa i = itoa j"
  have neg: "(case itoa k of c # _ \<Rightarrow> c = CHR ''-'' | [] \<Rightarrow> False) \<longleftrightarrow> k < 0" for k
    using utoa_hd [of "nat k"] by (auto simp: itoa_def is_digit_code split: list.splits)
  have inj: "utoa m = utoa n \<longleftrightarrow> m = n" for m n
    using parse_digits_utoa option.inject by metis
  from neg [of i] neg [of j] eq have "i < 0 \<longleftrightarrow> j < 0" by simp
  with eq inj show "i = j" by (cases "i < 0") (auto simp: itoa_def)
qed simp

lemma no_newline_digits: "list_all is_digit s \<Longrightarrow> no_newline s"
  by (auto simp: no_newline_def list_all_iff is_digit_code)

lemma no_newline_itoa [simp]: "no_newline (itoa i)"
  using no_newline_digits utoa_digits by (auto simp: itoa_def no_newline_def)

text \<open>A text is split at its first line feed in one way only.\<close>

lemma line_split:
  "x @ newline @ r = y @ newline @ s \<Longrightarrow> no_newline x \<Longrightarrow> no_newline y \<Longrightarrow> x = y \<and> r = s"
  by (induction x arbitrary: y) (case_tac y; auto simp: newline_def no_newline_def)+

end
