(* ===== verification/Ident.thy ===== *)
theory Ident
  imports GoStd
begin

text \<open>
  Identifiers (\<open>internal/chord/id.go\<close>): URI normalisation, node IDs as 40 lower-case hexadecimal
  digits, their value on the ring of size \<open>2 ^ 160\<close>, finger starts and the interval tests every
  routing decision rests on.

  The intervals are characterised by \<open>cw a x\<close>, the clockwise distance from \<open>a\<close> to \<open>x\<close> on the ring,
  and \<open>key_of\<close> reads a valid ID as a ring position. Theory \<open>Ring\<close> builds the ring geometry on them.
\<close>

section \<open>URIs\<close>

definition NormalizeURI :: "golib \<Rightarrow> string \<Rightarrow> goerror + string" where
  "NormalizeURI L raw =
     (case url_Parse L (TrimSpace raw) of
        Inl e \<Rightarrow> Inl e
      | Inr u \<Rightarrow>
          if Scheme u \<noteq> ''https'' then Inl (GoError ''uri must use https scheme'')
          else if Host u = [] \<or> HasUser u \<or> RawQuery u \<noteq> [] \<or> Fragment u \<noteq> []
          then Inl (GoError ''uri must be an absolute https URI without userinfo, query, or fragment'')
          else if Path u \<noteq> [] \<and> Path u \<noteq> ''/'' then Inl (GoError ''uri must not include a path'')
          else
            let host = ToLower (Hostname u)
            in if host = [] then Inl (GoError ''uri host is required'')
               else
                 let host' = (if CHR '':'' \<in> set host then ''['' @ host @ '']'' else host);
                     port = (if Port u = ''443'' then [] else Port u)
                 in if port \<noteq> []
                    then (if LookupPort_ok port
                          then Inr (''https://'' @ JoinHostPort (Trim host' ''[]'') port)
                          else Inl (GoError ''invalid uri port''))
                    else Inr (''https://'' @ host'))"

definition HashURI :: "golib \<Rightarrow> string \<Rightarrow> goerror + string" where
  "HashURI L uri =
     (case NormalizeURI L uri of
        Inl e \<Rightarrow> Inl e
      | Inr normalized \<Rightarrow> Inr (hex_EncodeToString (sha1_Sum L normalized)))"

section \<open>Node IDs and ring positions\<close>

definition DefaultM :: nat where
  "DefaultM = 160"

definition ringSize :: nat where
  "ringSize = 2 ^ DefaultM"

definition is_hex :: "char \<Rightarrow> bool" where
  "is_hex c \<longleftrightarrow> \<not> ((c < CHR ''0'' \<or> c > CHR ''9'') \<and> (c < CHR ''a'' \<or> c > CHR ''f''))"

definition ValidateID :: "string \<Rightarrow> bool" where
  "ValidateID nid \<longleftrightarrow> length nid = 40 \<and> list_all is_hex nid"

text \<open>\<open>n.SetString(id, 16)\<close>, and \<open>n.Text(16)\<close>.\<close>

definition hex_val :: "char \<Rightarrow> nat" where
  "hex_val c = (if c \<le> CHR ''9'' then of_char c - 48 else of_char c - 87)"

definition SetString16 :: "string \<Rightarrow> nat" where
  "SetString16 s = foldl (\<lambda>n c. 16 * n + hex_val c) 0 s"

fun Text16 :: "nat \<Rightarrow> string" where
  "Text16 n = (if n < 16 then [hex_digit n] else Text16 (n div 16) @ [hex_digit (n mod 16)])"

declare Text16.simps [simp del]

definition idToBig :: "string \<Rightarrow> goerror + nat" where
  "idToBig nid =
     (if \<not> ValidateID nid then Inl (GoError ''invalid node id'') else Inr (SetString16 nid))"

definition bigToID :: "nat \<Rightarrow> string" where
  "bigToID n = ToLower (replicate (40 - length (Text16 n)) (CHR ''0'') @ Text16 n)"

definition FingerStart :: "string \<Rightarrow> int \<Rightarrow> goerror + string" where
  "FingerStart selfID index =
     (if index < 0 \<or> index \<ge> int DefaultM then Inl (GoError ''finger index out of range'')
      else case idToBig selfID of
             Inl e \<Rightarrow> Inl e
           | Inr self \<Rightarrow>
               let offset = 2 ^ nat index; start = (self + offset) mod ringSize
               in Inr (bigToID start))"

definition InRangeOpenClosed :: "string \<Rightarrow> string \<Rightarrow> string \<Rightarrow> bool" where
  "InRangeOpenClosed xID aID bID =
     (case (idToBig xID, idToBig aID, idToBig bID) of
        (Inr x, Inr a, Inr b) \<Rightarrow>
          if a < b then x > a \<and> x \<le> b
          else if a > b then x > a \<or> x \<le> b
          else True
      | _ \<Rightarrow> False)"

definition InRangeOpenOpen :: "string \<Rightarrow> string \<Rightarrow> string \<Rightarrow> bool" where
  "InRangeOpenOpen xID aID bID =
     (case (idToBig xID, idToBig aID, idToBig bID) of
        (Inr x, Inr a, Inr b) \<Rightarrow>
          if a < b then x > a \<and> x < b
          else if a > b then x > a \<or> x < b
          else x \<noteq> a
      | _ \<Rightarrow> False)"

section \<open>Clockwise distance\<close>

definition cw :: "nat \<Rightarrow> nat \<Rightarrow> nat" where
  "cw a x = (if a \<le> x then x - a else x + ringSize - a)"

lemma cw_self [simp]: "cw a a = 0"
  by (simp add: cw_def)

lemma cw_less: "a < ringSize \<Longrightarrow> x < ringSize \<Longrightarrow> cw a x < ringSize"
  by (auto simp: cw_def)

lemma cw_zero_iff: "a < ringSize \<Longrightarrow> x < ringSize \<Longrightarrow> cw a x = 0 \<longleftrightarrow> x = a"
  by (auto simp: cw_def)

lemma cw_mod:
  assumes "a < ringSize" and "x < ringSize"
  shows "int (cw a x) = (int x - int a) mod int ringSize"
proof (cases "a \<le> x")
  case True
  then have "int (cw a x) = int x - int a"
    by (simp add: cw_def of_nat_diff)
  then show ?thesis
    using True assms by (simp add: mod_pos_pos_trivial)
next
  case False
  then have "int (cw a x) = (int x - int a) + int ringSize"
    using assms by (simp add: cw_def of_nat_diff)
  moreover have "((int x - int a) + int ringSize) mod int ringSize = (int x - int a) + int ringSize"
    using False assms by (intro mod_pos_pos_trivial) auto
  ultimately show ?thesis
    by (metis mod_add_self2)
qed

lemma cw_inj: "a < ringSize \<Longrightarrow> x < ringSize \<Longrightarrow> y < ringSize \<Longrightarrow> cw a x = cw a y \<longleftrightarrow> x = y"
  by (auto simp: cw_def split: if_splits)

text \<open>Going on clockwise from \<open>a\<close> to \<open>x\<close> leaves the rest of the way to any point beyond \<open>x\<close>.\<close>

lemma cw_split:
  "a < ringSize \<Longrightarrow> x < ringSize \<Longrightarrow> b < ringSize \<Longrightarrow> cw a x \<le> cw a b \<Longrightarrow>
   cw a b = cw a x + cw x b"
  by (auto simp: cw_def split: if_splits)

lemma cw_swap: "a < ringSize \<Longrightarrow> x < ringSize \<Longrightarrow> a \<noteq> x \<Longrightarrow> cw a x + cw x a = ringSize"
  by (auto simp: cw_def)

section \<open>Hexadecimal text\<close>

abbreviation code :: "char \<Rightarrow> nat" where
  "code c \<equiv> of_char c"

lemma is_hex_code: "is_hex c \<longleftrightarrow> (48 \<le> code c \<and> code c \<le> 57) \<or> (97 \<le> code c \<and> code c \<le> 102)"
  by (auto simp: is_hex_def less_char_def not_less)

lemma hex_val_code: "hex_val c = (if code c \<le> 57 then code c - 48 else code c - 87)"
  by (simp add: hex_val_def less_eq_char_def)

lemma code_hex_digit: "d < 16 \<Longrightarrow> code (hex_digit d) = (if d < 10 then 48 + d else 87 + d)"
  by (simp add: hex_digit_def)

lemma is_hex_hex_digit [simp]: "d < 16 \<Longrightarrow> is_hex (hex_digit d)"
  by (simp add: is_hex_code code_hex_digit)

lemma hex_val_hex_digit [simp]: "d < 16 \<Longrightarrow> hex_val (hex_digit d) = d"
  by (simp add: hex_val_code code_hex_digit)

lemma hex_val_less: "is_hex c \<Longrightarrow> hex_val c < 16"
  by (auto simp: is_hex_code hex_val_code)

lemma hex_digit_hex_val [simp]: "is_hex c \<Longrightarrow> hex_digit (hex_val c) = c"
proof -
  assume "is_hex c"
  then have "code (hex_digit (hex_val c)) = code c"
    using hex_val_less by (auto simp: code_hex_digit is_hex_code hex_val_code)
  then show ?thesis
    by (simp add: of_char_eq_iff)
qed

lemma lower_hex [simp]: "is_hex c \<Longrightarrow> lower_char c = c"
  by (auto simp: is_hex_code lower_char_def less_eq_char_def)

lemma ToLower_hex: "list_all is_hex s \<Longrightarrow> ToLower s = s"
  by (induction s) (auto simp: ToLower_def)

lemma hex_byte_hex [simp]: "list_all is_hex (hex_byte b)"
proof -
  have "code b < 256" by (rule nat_of_char_less_256)
  then have "code b div 16 < 16" by (simp add: less_mult_imp_div_less)
  then show ?thesis by (simp add: hex_byte_def)
qed

lemma hex_EncodeToString_hex [simp]: "list_all is_hex (hex_EncodeToString bs)"
  by (induction bs) (simp_all add: hex_EncodeToString_def)

lemma SetString16_snoc: "SetString16 (s @ [c]) = 16 * SetString16 s + hex_val c"
  by (simp add: SetString16_def)

lemma SetString16_Nil [simp]: "SetString16 [] = 0"
  by (simp add: SetString16_def)

lemma SetString16_append: "SetString16 (s @ t) = SetString16 s * 16 ^ length t + SetString16 t"
  by (induction t rule: rev_induct)
     (simp_all add: SetString16_snoc algebra_simps flip: append_assoc)

lemma SetString16_less: "list_all is_hex s \<Longrightarrow> SetString16 s < 16 ^ length s"
proof (induction s rule: rev_induct)
  case Nil
  then show ?case by simp
next
  case (snoc c s)
  then have "SetString16 s < 16 ^ length s" and "hex_val c < 16"
    by (auto simp: hex_val_less)
  then show ?case by (simp add: SetString16_snoc)
qed

lemma SetString16_zeros [simp]: "SetString16 (replicate k (CHR ''0'')) = 0"
  by (induction k) (simp_all add: SetString16_snoc hex_val_code replicate_append_same [symmetric])

lemma SetString16_Text16 [simp]: "SetString16 (Text16 n) = n"
proof (induction n rule: Text16.induct)
  case (1 n)
  show ?case
  proof (cases "n < 16")
    case True
    then show ?thesis
      by (subst Text16.simps) (simp add: SetString16_snoc [of "[]", simplified])
  next
    case False
    with 1 show ?thesis
      by (subst Text16.simps) (simp add: SetString16_snoc)
  qed
qed

lemma Text16_hex [simp]: "list_all is_hex (Text16 n)"
proof (induction n rule: Text16.induct)
  case (1 n)
  then show ?case by (subst Text16.simps) auto
qed

lemma length_Text16: "n < 16 ^ Suc k \<Longrightarrow> length (Text16 n) \<le> Suc k"
proof (induction k arbitrary: n)
  case 0
  then show ?case by (subst Text16.simps) simp
next
  case (Suc k)
  show ?case
  proof (cases "n < 16")
    case True
    then show ?thesis by (subst Text16.simps) simp
  next
    case False
    from Suc.prems have "n div 16 < 16 ^ Suc k"
      by (simp add: less_mult_imp_div_less mult.commute)
    then have "length (Text16 (n div 16)) \<le> Suc k" by (rule Suc.IH)
    with False show ?thesis by (subst Text16.simps) simp
  qed
qed

section \<open>Round trips between IDs and ring positions\<close>

lemma ringSize_hex: "ringSize = 16 ^ 40"
  by (simp add: ringSize_def DefaultM_def)

abbreviation key_of :: "string \<Rightarrow> nat" where
  "key_of \<equiv> SetString16"

lemma key_of_less [simp]: "ValidateID i \<Longrightarrow> key_of i < ringSize"
  using SetString16_less [of i] by (simp add: ValidateID_def ringSize_hex)

lemma idToBig_valid [simp]: "ValidateID i \<Longrightarrow> idToBig i = Inr (key_of i)"
  by (simp add: idToBig_def)

lemma idToBig_invalid [simp]: "\<not> ValidateID i \<Longrightarrow> idToBig i = Inl (GoError ''invalid node id'')"
  by (simp add: idToBig_def)

lemma length_Text16_ring: "n < ringSize \<Longrightarrow> length (Text16 n) \<le> 40"
  using length_Text16 [of n 39] by (simp add: ringSize_hex)

lemma is_hex_zero [simp]: "is_hex (CHR ''0'')"
  by (simp add: is_hex_code)

lemma bigToID_plain: "bigToID n = replicate (40 - length (Text16 n)) (CHR ''0'') @ Text16 n"
proof -
  have "list_all is_hex (replicate (40 - length (Text16 n)) (CHR ''0'') @ Text16 n)"
    using Text16_hex [of n] by (auto simp: list_all_iff)
  then show ?thesis by (simp only: bigToID_def ToLower_hex)
qed

lemma ValidateID_bigToID [simp]: "n < ringSize \<Longrightarrow> ValidateID (bigToID n)"
  using length_Text16_ring [of n] Text16_hex [of n]
  by (auto simp: ValidateID_def bigToID_plain list_all_iff)

lemma key_of_bigToID [simp]: "key_of (bigToID n) = n"
  by (simp add: bigToID_plain SetString16_append)

lemma SetString16_inj:
  "length s = length t \<Longrightarrow> list_all is_hex s \<Longrightarrow> list_all is_hex t \<Longrightarrow>
   SetString16 s = SetString16 t \<Longrightarrow> s = t"
proof (induction s arbitrary: t rule: rev_induct)
  case Nil
  then show ?case by simp
next
  case (snoc c s)
  then obtain d t' where t: "t = t' @ [d]"
    by (cases t rule: rev_cases) auto
  with snoc.prems have hex: "hex_val c < 16" "hex_val d < 16"
    and eq: "16 * SetString16 s + hex_val c = 16 * SetString16 t' + hex_val d"
    by (auto simp: hex_val_less SetString16_snoc)
  from eq have "(16 * SetString16 s + hex_val c) mod 16 = (16 * SetString16 t' + hex_val d) mod 16"
    by (rule arg_cong)
  with hex have "hex_val c = hex_val d"
    by simp
  moreover from this eq have "SetString16 s = SetString16 t'"
    by simp
  moreover have "c = d"
  proof -
    have "hex_digit (hex_val c) = c" and "hex_digit (hex_val d) = d"
      using snoc.prems t by simp_all
    then show ?thesis
      using \<open>hex_val c = hex_val d\<close> by (rule box_equals [rotated 1, OF _ _ arg_cong])
  qed
  ultimately show ?case
    using snoc t by simp
qed

lemma key_of_inj: "ValidateID i \<Longrightarrow> ValidateID j \<Longrightarrow> key_of i = key_of j \<longleftrightarrow> i = j"
  by (auto simp: ValidateID_def intro: SetString16_inj)

lemma bigToID_key_of [simp]: "ValidateID i \<Longrightarrow> bigToID (key_of i) = i"
  by (rule key_of_inj [THEN iffD1]) simp_all

text \<open>The interval tests in terms of clockwise distance.\<close>

lemma open_closed_cw:
  "a < ringSize \<Longrightarrow> x < ringSize \<Longrightarrow> b < ringSize \<Longrightarrow>
   (if a < b then x > a \<and> x \<le> b else if a > b then x > a \<or> x \<le> b else True) \<longleftrightarrow>
   a = b \<or> 0 < cw a x \<and> cw a x \<le> cw a b"
  by (auto simp: cw_def)

lemma open_open_cw:
  "a < ringSize \<Longrightarrow> x < ringSize \<Longrightarrow> b < ringSize \<Longrightarrow>
   (if a < b then x > a \<and> x < b else if a > b then x > a \<or> x < b else x \<noteq> a) \<longleftrightarrow>
   0 < cw a x \<and> (a = b \<or> cw a x < cw a b)"
  by (auto simp: cw_def)

lemma InRangeOpenClosed_cw:
  assumes "ValidateID x" and "ValidateID a" and "ValidateID b"
  shows "InRangeOpenClosed x a b \<longleftrightarrow>
    a = b \<or> 0 < cw (key_of a) (key_of x) \<and> cw (key_of a) (key_of x) \<le> cw (key_of a) (key_of b)"
  using assms open_closed_cw [of "key_of a" "key_of x" "key_of b"]
  by (simp add: InRangeOpenClosed_def key_of_inj)

lemma InRangeOpenOpen_cw:
  assumes "ValidateID x" and "ValidateID a" and "ValidateID b"
  shows "InRangeOpenOpen x a b \<longleftrightarrow>
    0 < cw (key_of a) (key_of x) \<and>
    (a = b \<or> cw (key_of a) (key_of x) < cw (key_of a) (key_of b))"
  using assms open_open_cw [of "key_of a" "key_of x" "key_of b"]
  by (simp add: InRangeOpenOpen_def key_of_inj)

lemma InRange_valid:
  "InRangeOpenClosed x a b \<Longrightarrow> ValidateID x \<and> ValidateID a \<and> ValidateID b"
  "InRangeOpenOpen x a b \<Longrightarrow> ValidateID x \<and> ValidateID a \<and> ValidateID b"
  by (auto simp: InRangeOpenClosed_def InRangeOpenOpen_def idToBig_def split: if_splits)

lemma InRangeOpenOpen_irrefl [simp]: "\<not> InRangeOpenOpen a a b"
  using InRange_valid(2) [of a a b] InRangeOpenOpen_cw [of a a b] by auto

text \<open>A step into the open interval brings the walker closer to the target.\<close>

lemma InRangeOpenOpen_progress:
  assumes "InRangeOpenOpen x a b" and "a \<noteq> b"
  shows "cw (key_of x) (key_of b) < cw (key_of a) (key_of b)"
proof -
  from assms(1) have v: "ValidateID x" "ValidateID a" "ValidateID b"
    by (simp_all add: InRange_valid)
  with assms have "0 < cw (key_of a) (key_of x)" "cw (key_of a) (key_of x) < cw (key_of a) (key_of b)"
    by (auto simp: InRangeOpenOpen_cw)
  with v show ?thesis
    using cw_split [of "key_of a" "key_of x" "key_of b"] by simp
qed

section \<open>Properties of the operations\<close>

lemma HashURI_valid: "sha1_ok L \<Longrightarrow> HashURI L uri = Inr i \<Longrightarrow> ValidateID i"
  by (auto simp: HashURI_def ValidateID_def sha1_ok_def split: sum.splits)

lemma FingerStart_ok:
  assumes "ValidateID i" and "k < DefaultM"
  shows "FingerStart i (int k) = Inr (bigToID ((key_of i + 2 ^ k) mod ringSize))"
  using assms by (simp add: FingerStart_def)

lemma mod_ringSize [simp]: "n mod ringSize < ringSize"
  by (simp add: ringSize_def)

text \<open>Identifiers and ring positions correspond one to one.\<close>

theorem id_roundtrip:
  "(\<forall>n < ringSize. idToBig (bigToID n) = Inr n) \<and>
   (\<forall>i n. idToBig i = Inr n \<longrightarrow> n < ringSize \<and> bigToID n = i)"
  by (auto simp: idToBig_def split: if_splits)

lemma id_roundtrip_witness:
  "idToBig (bigToID 255) = Inr 255 \<and> bigToID (key_of (bigToID 255)) = bigToID 255"
proof -
  have "(255::nat) < ringSize" by (simp add: ringSize_hex)
  then have "idToBig (bigToID 255) = Inr 255" using id_roundtrip by blast
  moreover from this have "bigToID 255 = bigToID 255 \<and> key_of (bigToID 255) = 255" by simp
  ultimately show ?thesis by simp
qed

end
