(* ===== verification/Float64.thy ===== *)
theory Float64
  imports Complex_Main "HOL-Library.Log_Nat"
begin

text \<open>
  Go's \<open>float64\<close> on finite values: a float is the rational it denotes, and every operation rounds its
  exact result to the nearest representable one, ties to even, with a 53-bit significand and the
  subnormal exponent \<open>-1074\<close>. Infinities and NaN are outside the model; the code computes with
  weights, fractions and round-trip times, far from the largest finite value.
\<close>

type_synonym f64 = rat

definition pow2 :: "int \<Rightarrow> rat" where
  "pow2 e = (if 0 \<le> e then 2 ^ nat e else 1 / 2 ^ nat (- e))"

text \<open>\<open>ilog2 x\<close> is the exponent \<open>e\<close> with \<open>2 ^ e \<le> x < 2 ^ (e + 1)\<close>, for \<open>x > 0\<close>.\<close>

definition ilog2 :: "rat \<Rightarrow> int" where
  "ilog2 x =
     (let (n, d) = quotient_of x;
          e = int (floorlog 2 (nat n)) - int (floorlog 2 (nat d))
      in if pow2 e \<le> x then e else e - 1)"

text \<open>Round half to even.\<close>

definition rne :: "rat \<Rightarrow> int" where
  "rne x =
     (let f = \<lfloor>x\<rfloor>; r = x - of_int f
      in if r < 1 / 2 then f else if r > 1 / 2 then f + 1 else if even f then f else f + 1)"

definition f64_round :: "rat \<Rightarrow> f64" where
  "f64_round x =
     (if x = 0 then 0
      else let e = max (ilog2 \<bar>x\<bar> - 52) (- 1074) in of_int (rne (x / pow2 e)) * pow2 e)"

definition fadd :: "f64 \<Rightarrow> f64 \<Rightarrow> f64" where
  "fadd a b = f64_round (a + b)"

definition fsub :: "f64 \<Rightarrow> f64 \<Rightarrow> f64" where
  "fsub a b = f64_round (a - b)"

definition fmul :: "f64 \<Rightarrow> f64 \<Rightarrow> f64" where
  "fmul a b = f64_round (a * b)"

definition fdiv :: "f64 \<Rightarrow> f64 \<Rightarrow> f64" where
  "fdiv a b = f64_round (a / b)"

text \<open>\<open>float64(i)\<close>, and \<open>int(x)\<close>, which truncates towards zero.\<close>

definition f64_of_int :: "int \<Rightarrow> f64" where
  "f64_of_int i = f64_round (of_int i)"

definition int_of_f64 :: "f64 \<Rightarrow> int" where
  "int_of_f64 x = (if 0 \<le> x then \<lfloor>x\<rfloor> else - \<lfloor>- x\<rfloor>)"

lemma pow2_pos [simp]: "0 < pow2 e"
  by (simp add: pow2_def)

lemma rne_nonneg: "0 \<le> x \<Longrightarrow> 0 \<le> rne x"
  by (simp add: rne_def Let_def)

lemma rne_of_int [simp]: "rne (of_int i) = i"
  by (simp add: rne_def Let_def)

lemma f64_round_0 [simp]: "f64_round 0 = 0"
  by (simp add: f64_round_def)

lemma f64_round_nonneg: "0 \<le> x \<Longrightarrow> 0 \<le> f64_round x"
  by (simp add: f64_round_def Let_def rne_nonneg less_imp_le zero_le_divide_iff)

lemma f_nonneg:
  "0 \<le> a \<Longrightarrow> 0 \<le> b \<Longrightarrow> 0 \<le> fadd a b"
  "b \<le> a \<Longrightarrow> 0 \<le> fsub a b"
  "0 \<le> a \<Longrightarrow> 0 \<le> b \<Longrightarrow> 0 \<le> fmul a b"
  "0 \<le> a \<Longrightarrow> 0 \<le> b \<Longrightarrow> 0 \<le> fdiv a b"
  "0 \<le> i \<Longrightarrow> 0 \<le> f64_of_int i"
  by (simp_all add: fadd_def fsub_def fmul_def fdiv_def f64_of_int_def f64_round_nonneg)

lemma int_of_f64_nonneg: "0 \<le> x \<Longrightarrow> 0 \<le> int_of_f64 x"
  by (simp add: int_of_f64_def)

text \<open>Integers of up to 53 bits are represented exactly.\<close>

lemma ilog2_of_nat:
  assumes "0 < n"
  shows "ilog2 (of_nat n) = int (floorlog 2 n) - 1"
proof -
  have "quotient_of (of_nat n) = (int n, 1)"
    using quotient_of_int [of "int n"] by (simp add: of_rat_of_nat_eq)
  moreover have "floorlog 2 (nat 1) = 1"
    by (simp add: floorlog_def)
  moreover have "2 ^ (floorlog 2 n - 1) \<le> n" and "0 < floorlog 2 n"
    using assms floorlog_bounds [of n 2] by (auto simp: floorlog_def)
  then have "pow2 (int (floorlog 2 n) - 1) \<le> of_nat n"
    by (simp add: pow2_def nat_diff_distrib)
  ultimately show ?thesis
    by (simp add: ilog2_def)
qed

lemma f64_of_int_exact:
  assumes "0 \<le> i" and "i < 2 ^ 53"
  shows "f64_of_int i = of_int i"
proof (cases "i = 0")
  case False
  define n where "n = nat i"
  with assms False have n: "0 < n" "n < 2 ^ 53" and i: "i = int n" by auto
  have "floorlog 2 n \<le> 53"
    using n by (auto simp: floorlog_le_iff)
  then have e: "max (ilog2 \<bar>of_int i :: rat\<bar> - 52) (- 1074) \<le> 0"
    using n by (simp add: i ilog2_of_nat)
  define e where "e = max (ilog2 \<bar>of_int i :: rat\<bar> - 52) (- 1074)"
  have "of_int i / pow2 e = of_int (i * 2 ^ nat (- e))"
    using e by (cases "e = 0") (auto simp: e_def [symmetric] pow2_def field_simps)
  then have "of_int (rne (of_int i / pow2 e)) * pow2 e = of_int i"
    using pow2_pos [of e] by (metis less_irrefl nonzero_eq_divide_eq rne_of_int)
  with False show ?thesis
    by (simp add: f64_of_int_def f64_round_def Let_def e_def)
qed (simp add: f64_of_int_def)

lemma int_of_f64_of_int: "0 \<le> i \<Longrightarrow> i < 2 ^ 53 \<Longrightarrow> int_of_f64 (f64_of_int i) = i"
  by (simp add: f64_of_int_exact int_of_f64_def)

end
