(* ===== verification/Types.thy ===== *)
theory Types
  imports Ident Float64
begin

text \<open>
  The data of \<open>internal/chord/types.go\<close>, \<open>errors.go\<close> and the proof record of \<open>vnode_proof.go\<close>: the
  protocol constants, statuses, node descriptors and the request and response messages. Go pointers
  that may be \<open>nil\<close> are options; \<open>json.RawMessage\<close> is its bytes, empty when absent. Struct fields keep
  their names, with a short prefix where two structs share one.
\<close>

section \<open>Constants\<close>

definition DefaultSuccessorListSize :: int where
  "DefaultSuccessorListSize = 5"

definition DefaultSuccessorListSiblingCap :: f64 where
  "DefaultSuccessorListSiblingCap = 1 / 2"

definition DefaultMaintenanceInterval :: duration where
  "DefaultMaintenanceInterval = 60 * Second"

definition DefaultMaxHops :: int where
  "DefaultMaxHops = 161"

definition DefaultSuspiciousThreshold :: int where
  "DefaultSuspiciousThreshold = 1"

definition DefaultFailedThreshold :: int where
  "DefaultFailedThreshold = 3"

definition DefaultTrackerSeedCount :: int where
  "DefaultTrackerSeedCount = 5"

definition DefaultMaxVNodes :: int where
  "DefaultMaxVNodes = 8"

definition DefaultTrackerHeartbeatActiveInterval :: duration where
  "DefaultTrackerHeartbeatActiveInterval = 60 * Second"

definition DefaultTrackerHeartbeatQuietInterval :: duration where
  "DefaultTrackerHeartbeatQuietInterval = 300 * Second"

definition DefaultTrackerCRLInterval :: duration where
  "DefaultTrackerCRLInterval = 600 * Second"

definition DefaultPredecessorListSize :: int where
  "DefaultPredecessorListSize = 2"

definition DefaultFixFingersBatchSizeActive :: int where
  "DefaultFixFingersBatchSizeActive = 8"

definition DefaultFixFingersBatchSizeQuiet :: int where
  "DefaultFixFingersBatchSizeQuiet = 4"

definition DefaultRoutingCacheSize :: int where
  "DefaultRoutingCacheSize = 1000"

definition DefaultRoutingCacheTTL :: duration where
  "DefaultRoutingCacheTTL = 30 * Second"

definition DefaultRTTEWMAAlpha :: f64 where
  "DefaultRTTEWMAAlpha = f64_round (3 / 10)"

definition DefaultRTTSampleExpiry :: duration where
  "DefaultRTTSampleExpiry = 300 * Second"

definition DefaultTopologyChangeWindow :: duration where
  "DefaultTopologyChangeWindow = 120 * Second"

definition DefaultTimeoutPingSameRegion :: duration where
  "DefaultTimeoutPingSameRegion = 2 * Second"

definition DefaultTimeoutPingCrossRegion :: duration where
  "DefaultTimeoutPingCrossRegion = 5 * Second"

definition DefaultTimeoutFindSuccessorSame :: duration where
  "DefaultTimeoutFindSuccessorSame = 5 * Second"

definition DefaultTimeoutFindSuccessorCross :: duration where
  "DefaultTimeoutFindSuccessorCross = 15 * Second"

definition DefaultTimeoutFixFingersSame :: duration where
  "DefaultTimeoutFixFingersSame = 5 * Second"

definition DefaultTimeoutFixFingersCross :: duration where
  "DefaultTimeoutFixFingersCross = 30 * Second"

definition DefaultPingLivenessTimeout :: duration where
  "DefaultPingLivenessTimeout = 2 * Second"

definition DefaultInvariantAuditInterval :: duration where
  "DefaultInvariantAuditInterval = 300 * Second"

definition DefaultStabilizeActiveInterval :: duration where
  "DefaultStabilizeActiveInterval = 15 * Second"

definition DefaultStabilizeQuietInterval :: duration where
  "DefaultStabilizeQuietInterval = 60 * Second"

definition DefaultFixFingersActiveInterval :: duration where
  "DefaultFixFingersActiveInterval = 10 * Second"

definition DefaultFixFingersQuietInterval :: duration where
  "DefaultFixFingersQuietInterval = 30 * Second"

definition DefaultCheckPredecessorActiveInterval :: duration where
  "DefaultCheckPredecessorActiveInterval = 10 * Second"

definition DefaultCheckPredecessorQuietInterval :: duration where
  "DefaultCheckPredecessorQuietInterval = 30 * Second"

definition DefaultLatencyProbeActiveInterval :: duration where
  "DefaultLatencyProbeActiveInterval = 30 * Second"

definition DefaultLatencyProbeQuietInterval :: duration where
  "DefaultLatencyProbeQuietInterval = 120 * Second"

definition DefaultStabilizeDebounceThreshold :: int where
  "DefaultStabilizeDebounceThreshold = 3"

definition DefaultVNodeMaintenanceJitter :: duration where
  "DefaultVNodeMaintenanceJitter = 5 * Second"

section \<open>Durations in seconds\<close>

text \<open>\<open>int64(d.Seconds())\<close>: the whole seconds and the rest are added as floats, and the sum, rounded, is
  truncated towards zero.\<close>

definition duration_secs :: "duration \<Rightarrow> int" where
  "duration_secs d =
     (let sec = (if 0 \<le> d then d div Second else - ((- d) div Second));
          nsec = d - sec * Second
      in int_of_f64 (fadd (f64_of_int sec) (fdiv (f64_of_int nsec) (f64_of_int Second))))"

lemma duration_secs_whole:
  assumes "0 \<le> k" and "k < 2 ^ 53"
  shows "duration_secs (k * Second) = k"
proof -
  have "f64_of_int 0 = 0" by (simp add: f64_of_int_def)
  then have "duration_secs (k * Second) = int_of_f64 (f64_round (f64_of_int k))"
    using assms(1) by (simp add: duration_secs_def Let_def fadd_def fdiv_def Second_def)
  also have "f64_round (f64_of_int k) = f64_of_int k"
    using f64_of_int_exact [OF assms] by (simp add: f64_of_int_def)
  finally show ?thesis by (simp only: int_of_f64_of_int [OF assms])
qed

section \<open>Error codes\<close>

definition ErrInvalidRequest :: string where "ErrInvalidRequest = ''INVALID_REQUEST''"
definition ErrNodeNotFound :: string where "ErrNodeNotFound = ''NODE_NOT_FOUND''"
definition ErrIDCollision :: string where "ErrIDCollision = ''ID_COLLISION''"
definition ErrNodeIsolated :: string where "ErrNodeIsolated = ''NODE_ISOLATED''"
definition ErrNodeJoining :: string where "ErrNodeJoining = ''NODE_JOINING''"
definition ErrMaxHopsExceeded :: string where "ErrMaxHopsExceeded = ''MAX_HOPS_EXCEEDED''"
definition ErrNodeLeaving :: string where "ErrNodeLeaving = ''NODE_LEAVING''"
definition ErrUpstreamTimeout :: string where "ErrUpstreamTimeout = ''UPSTREAM_TIMEOUT''"
definition ErrLoopDetected :: string where "ErrLoopDetected = ''LOOP_DETECTED''"
definition ErrUpstream :: string where "ErrUpstream = ''UPSTREAM_ERROR''"
definition ErrInvalidVNodeProof :: string where "ErrInvalidVNodeProof = ''INVALID_VNODE_PROOF''"
definition ErrProofExpired :: string where "ErrProofExpired = ''PROOF_EXPIRED''"

text \<open>\<open>NewAPIError\<close>; its detail map is always empty.\<close>

definition NewAPIError :: "int \<Rightarrow> string \<Rightarrow> string \<Rightarrow> goerror" where
  "NewAPIError st c message = APIError st c message"

text \<open>\<open>err.Error()\<close>.\<close>

definition errorText :: "goerror \<Rightarrow> string" where
  "errorText e = (case e of GoError s \<Rightarrow> s | APIError _ c m \<Rightarrow> c @ '': '' @ m | GoPanic s \<Rightarrow> s)"

section \<open>Nodes\<close>

text \<open>\<open>Status\<close> is a string type with five named values; a descriptor built without one has the empty
  string, and a peer may send any other.\<close>

datatype Status =
    StatusInitializing
  | StatusJoining
  | StatusActive
  | StatusLeaving
  | StatusIsolated
  | StatusString string

datatype FingerStatus = FingerOK | FingerSuspicious | FingerUnknown

datatype MaintenanceMode = ActiveMaintenance | QuietMaintenance

record VNodeProof =
  vpVNodeID :: string
  vpAnchorID :: string
  vpIndex :: int
  vpIssuedAt :: int
  vpExpiresAt :: int
  vpAnchorPub :: string
  vpSignature :: string

record VNodeEntry =
  veVNodeID :: string
  veIndex :: int
  veStatus :: Status
  veProof :: "VNodeProof option"

record NodeInfo =
  NodeID :: string
  URI :: string
  niStatus :: Status
  JoinedAt :: gotime
  LastSeen :: gotime
  Certificate :: string
  Region :: string
  Version :: string
  Capabilities :: "string list"
  AnchorID :: string
  niVNodeProof :: "VNodeProof option"
  Vnodes :: "VNodeEntry list"

definition emptyNodeInfo :: NodeInfo where
  "emptyNodeInfo =
     \<lparr>NodeID = [], URI = [], niStatus = StatusString [], JoinedAt = 0, LastSeen = 0,
      Certificate = [], Region = [], Version = [], Capabilities = [], AnchorID = [],
      niVNodeProof = None, Vnodes = []\<rparr>"

definition Core :: "NodeInfo \<Rightarrow> NodeInfo" where
  "Core n = emptyNodeInfo\<lparr>NodeID := NodeID n, URI := URI n, Region := Region n, AnchorID := AnchorID n\<rparr>"

lemma Core_simps [simp]:
  "NodeID (Core n) = NodeID n" "URI (Core n) = URI n" "Region (Core n) = Region n"
  "AnchorID (Core n) = AnchorID n" "Core (Core n) = Core n"
  by (simp_all add: Core_def emptyNodeInfo_def)

lemma NodeID_empty [simp]: "NodeID emptyNodeInfo = []"
  by (simp add: emptyNodeInfo_def)

record FingerEntry =
  feIndex :: int
  feStart :: string
  feNode :: NodeInfo
  feStatus :: FingerStatus
  feValid :: bool
  feLastVerified :: gotime

section \<open>Messages\<close>

text \<open>The map of round-trip times is its list of entries, with distinct keys, in the order the runtime
  iterates over it.\<close>

record PiggybackData =
  SenderSuccessorList :: "string list"
  SenderRegion :: string
  SenderRTTHints :: "(string \<times> int) list"

record FindSuccessorRequest =
  fsID :: string
  fsHopCount :: int
  fsMaxHops :: int
  fsVisitedNodes :: "string list"
  fsRequesterRegion :: string
  fsPreferRegion :: string

record FindSuccessorResponse =
  frFound :: bool
  frSuccessor :: "NodeInfo option"
  frNextHop :: "NodeInfo option"
  frHopCount :: int
  frCached :: bool
  frPiggyback :: "PiggybackData option"

record JoinRequest =
  jqNode :: NodeInfo

record JoinResponse =
  jrSuccessor :: NodeInfo
  jrSuccessorList :: "NodeInfo list"

record NotifyRequest =
  nqNode :: NodeInfo

record NotifyResponse =
  nrAccepted :: bool
  nrPredecessor :: "NodeInfo option"

type_synonym RectifyRequest = NotifyRequest
type_synonym RectifyResponse = NotifyResponse

record PredecessorResponse =
  prPredecessor :: "NodeInfo option"
  prPredecessorList :: "NodeInfo list"

record SuccessorListResponse =
  slSuccessorList :: "NodeInfo list"

record PingResponse =
  pgNodeID :: string
  pgStatus :: Status
  pgTimestamp :: gotime

record LeaveRequest =
  lvRole :: string
  lvNewPredecessor :: "NodeInfo option"
  lvNewSuccessor :: "NodeInfo option"

record LeaveResponse =
  lvAcknowledged :: bool

record StateResponse =
  stNodeID :: string
  stURI :: string
  stStatus :: Status
  stPredecessor :: "NodeInfo option"
  stPredecessorList :: "NodeInfo list"
  stSuccessor :: NodeInfo
  stSuccessorList :: "NodeInfo list"
  stFingerTable :: "FingerEntry list"
  stLastMaintenanceAt :: "gotime option"
  stNextFingerIndex :: int
  stMaintenanceMode :: "MaintenanceMode option"
  stRegion :: string
  stSuccessorListValid :: bool
  stLastInvariantCheck :: "gotime option"
  stIsStableBaseMember :: bool
  stSnapshotTimestamp :: gotime

definition emptyState :: StateResponse where
  "emptyState =
     \<lparr>stNodeID = [], stURI = [], stStatus = StatusString [], stPredecessor = None,
      stPredecessorList = [], stSuccessor = emptyNodeInfo, stSuccessorList = [],
      stFingerTable = [], stLastMaintenanceAt = None, stNextFingerIndex = 0,
      stMaintenanceMode = None, stRegion = [], stSuccessorListValid = False,
      stLastInvariantCheck = None, stIsStableBaseMember = False, stSnapshotTimestamp = 0\<rparr>"

record InvariantReportResponse =
  irNodeID :: string
  irStatus :: Status
  irSuccessor :: NodeInfo
  irSuccessorList :: "NodeInfo list"
  irSuccessorListValid :: bool
  irLastInvariantCheck :: "gotime option"
  irViolations :: "string list"
  irSnapshotTimestamp :: gotime

record FingerTableResponse =
  ftNodeID :: string
  ftFingerTable :: "FingerEntry list"
  ftNextRepairIndex :: int

record RTTResponse =
  rtSamples :: "(string \<times> int) list"
  rtRegion :: string

record NodeStatusResponse =
  nsMaintenanceMode :: MaintenanceMode
  nsLastChangeTime :: gotime
  nsCacheHits :: int
  nsCacheMisses :: int
  nsCacheSize :: int
  nsRegion :: string

record VNodeInfoResponse =
  viVNodeID :: string
  viAnchorID :: string
  viIndex :: int
  viProof :: "VNodeProof option"
  viAnchorURI :: string

section \<open>Tracker messages\<close>

text \<open>Pointers are options; \<open>VNodeHeartbeat\<close> embeds a heartbeat that carries no further batch, and
  the batch of a heartbeat is its list of such snapshots.\<close>

record HeartbeatSnapshot =
  hbStatus :: Status
  hbSuccessorID :: "string option"
  hbPredecessorID :: "string option"
  hbSuccessorListSize :: int
  hbSuccessorListCapacity :: int
  hbFingerTableCoverage :: f64
  hbUptimeSeconds :: int
  hbMaintenanceCycles :: nat
  hbCertExpiresAt :: "int option"
  hbRegion :: string
  hbMaintenanceMode :: MaintenanceMode
  hbCacheHits :: int
  hbCacheMisses :: int
  hbCacheSize :: int
  hbPredecessorListSize :: int
  hbSuccessorList :: "string list"
  hbPredecessorList :: "string list"
  hbRTTSamples :: "(string \<times> int) list"
  hbFingerNodes :: "string list"

record VNodeHeartbeat =
  vhVNodeID :: string
  vhHeartbeat :: HeartbeatSnapshot

record TrackerHeartbeat = HeartbeatSnapshot +
  hbVNodeHeartbeats :: "VNodeHeartbeat list"
  hbCRLVersion :: "int option"

record TrackerHeartbeatVNodeError =
  teVNodeID :: string
  teCode :: string

record TrackerHeartbeatVNodesResult =
  tvUpdated :: int
  tvErrors :: "TrackerHeartbeatVNodeError list"

record TrackerHeartbeatResult =
  thAcknowledged :: bool
  thTrackerTime :: string
  thVNodes :: "TrackerHeartbeatVNodesResult option"
  thCRLVersion :: "int option"
  thCRL :: string

text \<open>The messages of a key transfer, which no code of the repository sends or handles.\<close>

record TransferKeyEntry =
  tkKey :: string
  tkValue :: string
  tkVersion :: int

record TransferKeysRequest =
  trqFromID :: string
  trqRangeLo :: string
  trqRangeHi :: string
  trqEntries :: "TransferKeyEntry list"
  trqRequestKeys :: bool
  trqBatchSeq :: int
  trqIsLast :: bool

record TransferKeysResponse =
  trsReceived :: int
  trsBatchSeq :: int
  trsAckToken :: string
  trsEntries :: "TransferKeyEntry list"

record TransferAckRequest =
  taFromID :: string
  taRangeLo :: string
  taRangeHi :: string
  taTotalKeys :: int
  taAckToken :: string

record TransferAckResponse =
  taStatus :: string

end
