(* ===== verification/Lru.thy ===== *)
theory Lru
  imports Prelude "HOL-Library.AList"
begin

text \<open>
  The shape shared by the size-bounded caches of \<open>internal/chord\<close>: a Go map from keys to entries
  together with a \<open>container/list\<close> of the entries, most recently used first. The map is an
  association list without duplicate keys (its storage order is never observed, iteration goes
  through \<open>map_iter\<close>), the list holds the keys of its elements.

  The locale \<open>lru\<close> states what the caches promise and derives from it, once, the facts about
  sequences of insertions: the bound, freshness of the value found, and retention of recent keys.
\<close>

section \<open>List operations\<close>

text \<open>\<open>MoveToFront\<close>, \<open>Remove\<close> of an element, and \<open>Back\<close>.\<close>

definition MoveToFront :: "'k \<Rightarrow> 'k list \<Rightarrow> 'k list" where
  "MoveToFront k ks = k # removeAll k ks"

definition Back :: "'k list \<Rightarrow> 'k option" where
  "Back ks = (if ks = [] then None else Some (last ks))"

definition lru_wf :: "('k \<times> 'v) list \<Rightarrow> 'k list \<Rightarrow> bool" where
  "lru_wf al ks \<longleftrightarrow> distinct (map fst al) \<and> distinct ks \<and> set ks = fst ` set al"

lemma lru_wf_dom: "lru_wf al ks \<Longrightarrow> set ks = dom (map_of al)"
  by (simp add: lru_wf_def dom_map_of_conv_image_fst)

lemma lru_wf_length: "lru_wf al ks \<Longrightarrow> length ks = length al"
  by (metis distinct_card length_map list.set_map lru_wf_def)

lemma lru_wf_Nil [simp]: "lru_wf [] []"
  by (simp add: lru_wf_def)

lemma lru_wf_map_of: "lru_wf al ks \<Longrightarrow> k \<in> set ks \<longleftrightarrow> map_of al k \<noteq> None"
  by (simp add: lru_wf_dom domIff)

lemma lru_wf_front: "lru_wf al ks \<Longrightarrow> k \<in> set ks \<Longrightarrow> lru_wf al (MoveToFront k ks)"
  by (auto simp: lru_wf_def MoveToFront_def distinct_removeAll)

lemma dom_delete_alist: "fst ` set (AList.delete k al) = fst ` set al - {k}"
  by (induction al) auto

lemma lru_wf_touch:
  "lru_wf al ks \<Longrightarrow> k \<in> set ks \<Longrightarrow> lru_wf (AList.update k v al) (MoveToFront k ks)"
  by (auto simp: lru_wf_def MoveToFront_def distinct_removeAll distinct_update dom_update)

lemma lru_wf_insert:
  "lru_wf al ks \<Longrightarrow> k \<notin> set ks \<Longrightarrow> lru_wf (AList.update k v al) (k # ks)"
  by (auto simp: lru_wf_def distinct_update dom_update)

lemma lru_wf_delete: "lru_wf al ks \<Longrightarrow> lru_wf (AList.delete k al) (removeAll k ks)"
  by (auto simp: lru_wf_def distinct_delete dom_delete_alist distinct_removeAll)

lemma length_removeAll_distinct: "distinct ks \<Longrightarrow> k \<in> set ks \<Longrightarrow> Suc (length (removeAll k ks)) = length ks"
  by (induction ks) auto

lemma length_MoveToFront: "distinct ks \<Longrightarrow> k \<in> set ks \<Longrightarrow> length (MoveToFront k ks) = length ks"
  by (simp add: MoveToFront_def length_removeAll_distinct)

lemma removeAll_last: "distinct ks \<Longrightarrow> ks \<noteq> [] \<Longrightarrow> removeAll (last ks) ks = butlast ks"
  by (induction ks rule: rev_induct) auto

section \<open>The interface\<close>

text \<open>
  \<open>put\<close> inserts a key with a value, \<open>peek\<close> reads the stored value without touching the cache, \<open>order\<close>
  lists the keys, most recently used first.
\<close>

locale lru =
  fixes wf :: "'c \<Rightarrow> bool"
    and peek :: "'c \<Rightarrow> 'k \<Rightarrow> 'v option"
    and order :: "'c \<Rightarrow> 'k list"
    and cap :: "'c \<Rightarrow> nat"
    and put :: "'k \<Rightarrow> 'v \<Rightarrow> 'c \<Rightarrow> 'c"
    and valid_kv :: "'k \<Rightarrow> 'v \<Rightarrow> bool"
  assumes wf_order: "wf c \<Longrightarrow> distinct (order c) \<and> set (order c) = dom (peek c) \<and> length (order c) \<le> cap c"
    and wf_put: "wf c \<Longrightarrow> valid_kv k v \<Longrightarrow> wf (put k v c)"
    and cap_put: "cap (put k v c) = cap c"
    and peek_put_same: "wf c \<Longrightarrow> valid_kv k v \<Longrightarrow> peek (put k v c) k = Some v"
    and peek_put_other: "wf c \<Longrightarrow> valid_kv k v \<Longrightarrow> k' \<noteq> k \<Longrightarrow> k' \<in> set (order (put k v c)) \<Longrightarrow>
      peek (put k v c) k' = peek c k'"
    and order_put: "wf c \<Longrightarrow> valid_kv k v \<Longrightarrow>
      order (put k v c) = take (cap c) (k # removeAll k (order c))"
begin

definition puts :: "('k \<times> 'v) list \<Rightarrow> 'c \<Rightarrow> 'c" where
  "puts kvs c = fold (\<lambda>(k, v). put k v) kvs c"

lemma puts_Nil [simp]: "puts [] c = c"
  by (simp add: puts_def)

lemma puts_snoc [simp]: "puts (kvs @ [(k, v)]) c = put k v (puts kvs c)"
  by (simp add: puts_def)

lemma wf_puts: "wf c \<Longrightarrow> \<forall>(k, v) \<in> set kvs. valid_kv k v \<Longrightarrow> wf (puts kvs c)"
  by (induction kvs rule: rev_induct) (auto intro: wf_put)

lemma cap_puts: "cap (puts kvs c) = cap c"
  by (induction kvs rule: rev_induct) (auto simp: cap_put)

text \<open>The cache never holds more entries than its capacity, whatever is inserted.\<close>

lemma card_bounded: "wf c \<Longrightarrow> \<forall>(k, v) \<in> set kvs. valid_kv k v \<Longrightarrow> card (dom (peek (puts kvs c))) \<le> cap c"
  using wf_order [OF wf_puts] cap_puts by (metis distinct_card)

text \<open>A value found after insertions is the last one inserted under its key, or the initial one.\<close>

lemma peek_last:
  assumes "wf c" and "\<forall>(k, v) \<in> set kvs. valid_kv k v" and "peek (puts kvs c) k = Some v"
  shows "map_of (rev kvs) k = Some v \<or> k \<notin> fst ` set kvs \<and> peek c k = Some v"
  using assms(2,3)
proof (induction kvs rule: rev_induct)
  case (snoc kv kvs)
  obtain k' v' where kv: "kv = (k', v')" by fastforce
  have wf: "wf (puts kvs c)" using snoc.prems assms(1) by (auto intro: wf_puts)
  have vk: "valid_kv k' v'" using snoc.prems kv by auto
  show ?case
  proof (cases "k' = k")
    case True
    then show ?thesis using snoc.prems kv wf vk by (simp add: peek_put_same)
  next
    case False
    have "k \<in> set (order (put k' v' (puts kvs c)))"
      using snoc.prems kv wf_order [OF wf_put [OF wf vk]] by auto
    then have "peek (puts kvs c) k = Some v"
      using snoc.prems kv False peek_put_other [OF wf vk, of k] by auto
    then show ?thesis using snoc False kv by auto
  qed
qed (use assms in simp)

text \<open>A key inserted survives as long as fewer than \<open>cap\<close> distinct keys are inserted after it.\<close>

lemma recent_order:
  assumes "wf c" and "valid_kv k v" and "\<forall>(k, v) \<in> set later. valid_kv k v"
    and "card (insert k (fst ` set later)) \<le> cap c" and "k \<notin> fst ` set later"
  shows "\<exists>pre rest. order (puts later (put k v c)) = pre @ k # rest \<and> set pre \<subseteq> fst ` set later"
  using assms(3-5)
proof (induction later rule: rev_induct)
  case Nil
  then have "0 < cap c" by simp
  then have "order (put k v c) = [] @ k # take (cap c - 1) (removeAll k (order c))"
    using order_put [OF assms(1,2)] by (simp add: take_Cons')
  then show ?case by fastforce
next
  case (snoc kv later)
  obtain k' v' where kv: "kv = (k', v')" by fastforce
  let ?c = "puts later (put k v c)"
  have "card (insert k (fst ` set later)) \<le> card (insert k (fst ` set (later @ [kv])))"
    by (intro card_mono) auto
  with snoc obtain pre rest where pr: "order ?c = pre @ k # rest" "set pre \<subseteq> fst ` set later"
    by force
  have wf: "wf ?c" using snoc.prems assms(1,2) by (auto intro!: wf_puts wf_put)
  have vk: "valid_kv k' v'" and ne: "k' \<noteq> k" using snoc.prems kv by auto
  let ?pre = "k' # removeAll k' pre"
  have "distinct (?pre @ [k])"
    using wf_order [OF wf] pr ne by (auto simp: distinct_removeAll)
  moreover have "set (?pre @ [k]) \<subseteq> insert k (fst ` set (later @ [kv]))"
    using pr kv by auto
  ultimately have "length (?pre @ [k]) \<le> cap c"
    using snoc.prems(2) by (metis card_mono distinct_card finite_imageI finite_insert finite_set le_trans)
  then have "order (puts (later @ [kv]) (put k v c)) =
      ?pre @ k # take (cap c - length (?pre @ [k])) (removeAll k' rest)"
    using order_put [OF wf vk] pr ne kv by (simp add: cap_puts cap_put take_Cons')
  moreover have "set ?pre \<subseteq> fst ` set (later @ [kv])" using pr kv by auto
  ultimately show ?case by metis
qed

lemma recent_retained:
  assumes "wf c" and "valid_kv k v" and "\<forall>(k, v) \<in> set later. valid_kv k v"
    and "card (insert k (fst ` set later)) \<le> cap c" and "k \<notin> fst ` set later"
  shows "peek (puts later (put k v c)) k = Some v"
proof -
  have wf: "wf (puts later (put k v c))"
    using assms by (auto intro!: wf_puts wf_put)
  obtain pre rest where "order (puts later (put k v c)) = pre @ k # rest"
    using recent_order [OF assms] by blast
  then have "k \<in> dom (peek (puts later (put k v c)))"
    using wf_order [OF wf] by (metis in_set_conv_decomp)
  then obtain v' where v': "peek (puts later (put k v c)) k = Some v'" by auto
  with peek_last [of "put k v c" later k v'] assms have "peek (put k v c) k = Some v'"
    by (metis (no_types, lifting) wf_put map_of_eq_None_iff option.distinct(1) set_rev)
  with v' assms show ?thesis by (simp add: peek_put_same)
qed

end

end
