(* ===== verification/RttCache.thy ===== *)
theory RttCache
  imports Types "HOL-Library.AList"
begin

text \<open>
  The round-trip-time cache (\<open>internal/chord/rtt_cache.go\<close>): one exponentially weighted average per
  peer, in milliseconds, forgotten \<open>expiry\<close> after its last sample. Every method takes the instant
  the clock shows inside its critical section. The locale \<open>expiring\<close> is the promise shared by the
  caches with a background clean-up: removing expired entries is never observable.
\<close>

record rttSample =
  ewmaMs :: f64
  rttUpdatedAt :: gotime

record RTTCache =
  samples :: "(string \<times> rttSample) list"
  alpha :: f64
  expiry :: duration

definition NewRTTCache :: "f64 \<Rightarrow> duration \<Rightarrow> RTTCache" where
  "NewRTTCache a e =
     \<lparr>samples = [],
      alpha = (if a \<le> 0 \<or> a > 1 then DefaultRTTEWMAAlpha else a),
      expiry = (if e \<le> 0 then DefaultRTTSampleExpiry else e)\<rparr>"

definition RTTCache_Record :: "string \<Rightarrow> int \<Rightarrow> gotime \<Rightarrow> RTTCache \<Rightarrow> RTTCache" where
  "RTTCache_Record nodeID rttMs now c =
     (if nodeID = [] \<or> rttMs < 0 then c
      else case map_of (samples c) nodeID of
             Some s \<Rightarrow>
               c\<lparr>samples := AList.update nodeID
                    \<lparr>ewmaMs = fadd (fmul (alpha c) (f64_of_int rttMs)) (fmul (fsub 1 (alpha c)) (ewmaMs s)),
                     rttUpdatedAt = now\<rparr> (samples c)\<rparr>
           | None \<Rightarrow>
               c\<lparr>samples := AList.update nodeID
                    \<lparr>ewmaMs = f64_of_int rttMs, rttUpdatedAt = now\<rparr> (samples c)\<rparr>)"

definition RTTCache_Get :: "string \<Rightarrow> gotime \<Rightarrow> RTTCache \<Rightarrow> int option" where
  "RTTCache_Get nodeID now c =
     (case map_of (samples c) nodeID of
        None \<Rightarrow> None
      | Some s \<Rightarrow>
          if time_Sub now (rttUpdatedAt s) > expiry c then None else Some (int_of_f64 (ewmaMs s)))"

definition RTTCache_Snapshot :: "gotime \<Rightarrow> RTTCache \<Rightarrow> (string \<times> int) list" where
  "RTTCache_Snapshot now c =
     map (\<lambda>(k, s). (k, int_of_f64 (ewmaMs s)))
       (filter (\<lambda>(k, s). time_Sub now (rttUpdatedAt s) \<le> expiry c) (samples c))"

definition RTTCache_Cleanup :: "gotime \<Rightarrow> RTTCache \<Rightarrow> RTTCache" where
  "RTTCache_Cleanup now c =
     c\<lparr>samples := filter (\<lambda>(k, s). \<not> time_Sub now (rttUpdatedAt s) > expiry c) (samples c)\<rparr>"

section \<open>Expiring stores\<close>

locale expiring =
  fixes wf :: "'c \<Rightarrow> bool"
    and live :: "'c \<Rightarrow> gotime \<Rightarrow> 'k \<Rightarrow> 'v option"
    and cleanup :: "gotime \<Rightarrow> 'c \<Rightarrow> 'c"
  assumes wf_cleanup: "wf c \<Longrightarrow> wf (cleanup now c)"
    and live_cleanup: "wf c \<Longrightarrow> now \<le> now' \<Longrightarrow> live (cleanup now c) now' k = live c now' k"
    and live_antimono: "now \<le> now' \<Longrightarrow> live c now' k = Some v \<Longrightarrow> live c now k = Some v"
begin

definition cleanups :: "gotime list \<Rightarrow> 'c \<Rightarrow> 'c" where
  "cleanups ts c = fold cleanup ts c"

lemma wf_cleanups: "wf c \<Longrightarrow> wf (cleanups ts c)"
  unfolding cleanups_def by (induction ts arbitrary: c) (auto intro: wf_cleanup)

text \<open>However often the clean-up ran before, a lookup sees what it would have seen without it.\<close>

lemma live_cleanups: "wf c \<Longrightarrow> \<forall>t \<in> set ts. t \<le> now \<Longrightarrow> live (cleanups ts c) now k = live c now k"
  unfolding cleanups_def
  by (induction ts arbitrary: c) (auto simp: live_cleanup wf_cleanup)

lemma expired_stays: "live c now k = None \<Longrightarrow> now \<le> now' \<Longrightarrow> live c now' k = None"
  using live_antimono [of now now' c k] by (cases "live c now' k") auto

end

section \<open>Properties\<close>

definition rtt_wf :: "RTTCache \<Rightarrow> bool" where
  "rtt_wf c \<longleftrightarrow>
     distinct (map fst (samples c)) \<and> 0 < alpha c \<and> alpha c \<le> 1 \<and>
     (\<forall>(k, s) \<in> set (samples c). k \<noteq> [] \<and> 0 \<le> ewmaMs s)"

lemma alpha_default: "0 < DefaultRTTEWMAAlpha" "DefaultRTTEWMAAlpha \<le> 1"
  by (code_simp, code_simp)

lemma rtt_wf_new: "rtt_wf (NewRTTCache a e)"
  by (simp add: rtt_wf_def NewRTTCache_def alpha_default not_le)

lemma rtt_wf_ewma: "rtt_wf c \<Longrightarrow> map_of (samples c) k = Some s \<Longrightarrow> 0 \<le> ewmaMs s"
  by (auto simp: rtt_wf_def dest!: map_of_SomeD)

lemma AList_update_set: "(k', v') \<in> set (AList.update k v al) \<Longrightarrow> (k', v') = (k, v) \<or> (k', v') \<in> set al"
  by (induction al) (auto split: if_splits)

lemma rtt_wf_Record: "rtt_wf c \<Longrightarrow> rtt_wf (RTTCache_Record nid rttMs now c)"
  using rtt_wf_ewma [of c nid]
  by (fastforce simp: RTTCache_Record_def rtt_wf_def distinct_update f_nonneg
      split: option.splits dest!: AList_update_set)

lemma rtt_wf_Cleanup: "rtt_wf c \<Longrightarrow> rtt_wf (RTTCache_Cleanup now c)"
  by (auto simp: RTTCache_Cleanup_def rtt_wf_def)

lemma RTTCache_Get_nonneg: "rtt_wf c \<Longrightarrow> RTTCache_Get nid now c = Some r \<Longrightarrow> 0 \<le> r"
  by (auto simp: RTTCache_Get_def int_of_f64_nonneg rtt_wf_ewma split: option.splits if_splits)

lemma map_of_filter_distinct:
  "distinct (map fst al) \<Longrightarrow>
   map_of (filter P al) k = (case map_of al k of None \<Rightarrow> None | Some v \<Rightarrow> if P (k, v) then Some v else None)"
  by (induction al) (auto split: option.splits dest: map_of_SomeD intro: rev_image_eqI)

lemma RTTCache_Snapshot_Get:
  assumes "rtt_wf c"
  shows "map_of (RTTCache_Snapshot now c) nid = RTTCache_Get nid now c"
proof -
  have "map_of (RTTCache_Snapshot now c) nid = map_option (\<lambda>s. int_of_f64 (ewmaMs s))
      (map_of (filter (\<lambda>(k, s). time_Sub now (rttUpdatedAt s) \<le> expiry c) (samples c)) nid)"
    by (simp only: RTTCache_Snapshot_def map_of_map comp_def)
  then show ?thesis
    using assms by (auto simp: rtt_wf_def map_of_filter_distinct RTTCache_Get_def split: option.splits)
qed

interpretation rtt: expiring rtt_wf "\<lambda>c now k. RTTCache_Get k now c" RTTCache_Cleanup
proof
  fix c :: RTTCache and now now' k v
  show "rtt_wf c \<Longrightarrow> rtt_wf (RTTCache_Cleanup now c)"
    by (rule rtt_wf_Cleanup)
  show "rtt_wf c \<Longrightarrow> now \<le> now' \<Longrightarrow> RTTCache_Get k now' (RTTCache_Cleanup now c) = RTTCache_Get k now' c"
    using time_Sub_mono [of now now']
    by (cases "map_of (samples c) k")
      (auto simp: RTTCache_Get_def RTTCache_Cleanup_def rtt_wf_def map_of_filter_distinct
        intro: order.strict_trans2)
  show "now \<le> now' \<Longrightarrow> RTTCache_Get k now' c = Some v \<Longrightarrow> RTTCache_Get k now c = Some v"
    using time_Sub_mono [of now now']
    by (cases "map_of (samples c) k")
      (auto simp: RTTCache_Get_def split: if_splits dest: order.strict_trans2)
qed

end
