(* ===== verification/RoutingCache.thy ===== *)
theory RoutingCache
  imports Types Lru RttCache
begin

text \<open>
  The cache of lookup results (\<open>internal/chord/routing_cache.go\<close>): bounded, least recently used first
  out, with a time to live. An entry stored for a target answers for the target itself and, when it
  has a predecessor, for the interval from that predecessor to the successor it holds. The order in
  which Go iterates over the entries is the argument \<open>orc\<close>.
\<close>

record routingEntry =
  targetID :: string
  predecessorID :: string
  reSuccessor :: NodeInfo
  reCachedAt :: gotime

record RoutingCache =
  capacity :: int
  rcTtl :: duration
  items :: "(string \<times> routingEntry) list"
  order :: "string list"
  hits :: int
  misses :: int

definition NewRoutingCache :: "int \<Rightarrow> duration \<Rightarrow> RoutingCache" where
  "NewRoutingCache n ttl =
     \<lparr>capacity = (if n \<le> 0 then DefaultRoutingCacheSize else n),
      rcTtl = (if ttl \<le> 0 then DefaultRoutingCacheTTL else ttl),
      items = [], order = [], hits = 0, misses = 0\<rparr>"

definition rc_evict :: "routingEntry \<Rightarrow> RoutingCache \<Rightarrow> RoutingCache" where
  "rc_evict e c =
     c\<lparr>order := removeAll (targetID e) (order c), items := AList.delete (targetID e) (items c)\<rparr>"

definition rc_evictLRU :: "RoutingCache \<Rightarrow> RoutingCache" where
  "rc_evictLRU c =
     (case Back (order c) of
        None \<Rightarrow> c
      | Some k \<Rightarrow> (case map_of (items c) k of None \<Rightarrow> c | Some e \<Rightarrow> rc_evict e c))"

definition rc_hit :: "string \<Rightarrow> RoutingCache \<Rightarrow> RoutingCache" where
  "rc_hit k c = c\<lparr>order := MoveToFront k (order c), hits := wrap64 (hits c + 1)\<rparr>"

definition rc_miss :: "RoutingCache \<Rightarrow> RoutingCache" where
  "rc_miss c = c\<lparr>misses := wrap64 (misses c + 1)\<rparr>"

definition rc_expired :: "gotime \<Rightarrow> RoutingCache \<Rightarrow> routingEntry \<Rightarrow> bool" where
  "rc_expired now c e \<longleftrightarrow> time_Sub now (reCachedAt e) > rcTtl c"

text \<open>The entries in iteration order.\<close>

definition rc_iter :: "string list \<Rightarrow> RoutingCache \<Rightarrow> routingEntry list" where
  "rc_iter orc c = map (\<lambda>k. the (map_of (items c) k)) (map_iter orc (map fst (items c)))"

definition RoutingCache_Get ::
  "string list \<Rightarrow> string \<Rightarrow> gotime \<Rightarrow> RoutingCache \<Rightarrow> NodeInfo option \<times> RoutingCache" where
  "RoutingCache_Get orc target now c =
     (case map_of (items c) target of
        Some e \<Rightarrow>
          if rc_expired now c e then (None, rc_miss (rc_evict e c))
          else (Some (reSuccessor e), rc_hit (targetID e) c)
      | None \<Rightarrow>
          (case find (\<lambda>e. \<not> rc_expired now c e \<and> predecessorID e \<noteq> [] \<and>
                          InRangeOpenClosed target (predecessorID e) (NodeID (reSuccessor e)))
                 (rc_iter orc c) of
             Some e \<Rightarrow> (Some (reSuccessor e), rc_hit (targetID e) c)
           | None \<Rightarrow> (None, rc_miss c)))"

definition RoutingCache_Put ::
  "string \<Rightarrow> string \<Rightarrow> NodeInfo \<Rightarrow> gotime \<Rightarrow> RoutingCache \<Rightarrow> RoutingCache" where
  "RoutingCache_Put target pred successor now c =
     (if target = [] \<or> NodeID successor = [] then c
      else
        let e = \<lparr>targetID = target, predecessorID = pred, reSuccessor = successor, reCachedAt = now\<rparr>
        in case map_of (items c) target of
             Some _ \<Rightarrow>
               c\<lparr>items := AList.update target e (items c), order := MoveToFront target (order c)\<rparr>
           | None \<Rightarrow>
               let c' = (if int (length (order c)) \<ge> capacity c then rc_evictLRU c else c)
               in c'\<lparr>order := target # order c', items := AList.update target e (items c')\<rparr>)"

definition RoutingCache_InvalidateAll :: "RoutingCache \<Rightarrow> RoutingCache" where
  "RoutingCache_InvalidateAll c = c\<lparr>items := [], order := []\<rparr>"

definition RoutingCache_Cleanup :: "string list \<Rightarrow> gotime \<Rightarrow> RoutingCache \<Rightarrow> RoutingCache" where
  "RoutingCache_Cleanup orc now c =
     fold (\<lambda>e c'. if rc_expired now c' e then rc_evict e c' else c') (rc_iter orc c) c"

definition RoutingCache_Stats :: "RoutingCache \<Rightarrow> int \<times> int \<times> int" where
  "RoutingCache_Stats c = (hits c, misses c, int (length (items c)))"

section \<open>Well-formedness\<close>

definition rc_wf :: "RoutingCache \<Rightarrow> bool" where
  "rc_wf c \<longleftrightarrow>
     lru_wf (items c) (order c) \<and> 0 < capacity c \<and> 0 < rcTtl c \<and>
     int (length (order c)) \<le> capacity c \<and>
     (\<forall>(k, e) \<in> set (items c). targetID e = k \<and> k \<noteq> [] \<and> NodeID (reSuccessor e) \<noteq> [])"

lemma rc_wf_new: "rc_wf (NewRoutingCache n ttl)"
  by (simp add: rc_wf_def NewRoutingCache_def DefaultRoutingCacheSize_def DefaultRoutingCacheTTL_def
      Second_def)

lemma rc_wf_item: "rc_wf c \<Longrightarrow> map_of (items c) k = Some e \<Longrightarrow>
    targetID e = k \<and> k \<noteq> [] \<and> NodeID (reSuccessor e) \<noteq> [] \<and> k \<in> set (order c)"
  by (auto simp: rc_wf_def lru_wf_map_of dest: map_of_SomeD)

lemma rc_wf_order: "rc_wf c \<Longrightarrow> k \<in> set (order c) \<longleftrightarrow> map_of (items c) k \<noteq> None"
  by (auto simp: rc_wf_def lru_wf_map_of)

lemma AList_delete_set: "(k', v') \<in> set (AList.delete k al) \<Longrightarrow> (k', v') \<in> set al"
  by (induction al) (auto split: if_splits)

lemma length_removeAll_le: "length (removeAll k ks) \<le> length ks"
  by (simp add: removeAll_filter_not_eq)

lemma rc_wf_evict: "rc_wf c \<Longrightarrow> rc_wf (rc_evict e c)"
  unfolding rc_wf_def rc_evict_def
  by (auto simp: lru_wf_delete dest!: AList_delete_set
      intro: order.trans [OF of_nat_mono [OF length_removeAll_le]])

lemma rc_wf_hit: "rc_wf c \<Longrightarrow> k \<in> set (order c) \<Longrightarrow> rc_wf (rc_hit k c)"
  by (simp add: rc_wf_def rc_hit_def lru_wf_front length_MoveToFront lru_wf_def del: Product_Type.split_paired_All)
    (auto simp: MoveToFront_def distinct_removeAll)

lemma rc_wf_miss [simp]: "rc_wf (rc_miss c) = rc_wf c"
  by (simp add: rc_wf_def rc_miss_def)

lemma rc_evictLRU_wf:
  assumes "rc_wf c"
  shows "rc_wf (rc_evictLRU c)" and "order (rc_evictLRU c) = butlast (order c)"
    and "items (rc_evictLRU c) =
      (if order c = [] then items c else AList.delete (last (order c)) (items c))"
    and "capacity (rc_evictLRU c) = capacity c" and "rcTtl (rc_evictLRU c) = rcTtl c"
proof -
  have d: "distinct (order c)" using assms by (simp add: rc_wf_def lru_wf_def)
  have "rc_evictLRU c = (if order c = [] then c
     else c\<lparr>order := butlast (order c), items := AList.delete (last (order c)) (items c)\<rparr>)
     \<and> rc_wf (rc_evictLRU c)"
  proof (cases "order c = []")
    case False
    then obtain e where e: "map_of (items c) (last (order c)) = Some e" "targetID e = last (order c)"
      using rc_wf_order [OF assms, of "last (order c)"] rc_wf_item [OF assms] by fastforce
    then have "rc_evictLRU c = rc_evict e c"
      using False by (simp add: rc_evictLRU_def Back_def)
    then show ?thesis
      using False e d rc_wf_evict [OF assms, of e] by (simp add: rc_evict_def removeAll_last)
  qed (use assms in \<open>simp add: rc_evictLRU_def Back_def\<close>)
  then have wf: "rc_wf (rc_evictLRU c)" and eq: "rc_evictLRU c = (if order c = [] then c
     else c\<lparr>order := butlast (order c), items := AList.delete (last (order c)) (items c)\<rparr>)"
    by (rule conjunct2, rule conjunct1)
  show "rc_wf (rc_evictLRU c)" by (rule wf)
  show "order (rc_evictLRU c) = butlast (order c)"
    "items (rc_evictLRU c) = (if order c = [] then items c else AList.delete (last (order c)) (items c))"
    "capacity (rc_evictLRU c) = capacity c" "rcTtl (rc_evictLRU c) = rcTtl c"
    by (simp_all add: eq)
qed

lemma rc_iter_set: "e \<in> set (rc_iter orc c) \<longleftrightarrow> (\<exists>k. map_of (items c) k = Some e)"
  by (force simp: rc_iter_def dom_map_of_conv_image_fst [symmetric] image_iff)

lemma find_SomeD: "find P xs = Some x \<Longrightarrow> x \<in> set xs \<and> P x"
  by (auto simp: find_Some_iff)

lemma rc_iter_order: "rc_wf c \<Longrightarrow> e \<in> set (rc_iter orc c) \<Longrightarrow> targetID e \<in> set (order c)"
  by (auto simp: rc_iter_set dest: rc_wf_item)

lemma rc_wf_Get: "rc_wf c \<Longrightarrow> rc_wf (snd (RoutingCache_Get orc k now c))"
  by (auto simp: RoutingCache_Get_def rc_wf_evict
      intro!: rc_wf_hit dest: rc_wf_item rc_iter_order find_SomeD split: option.splits)

lemma rc_wf_touch:
  assumes "rc_wf c" and "map_of (items c) k = Some e0" and "targetID e = k" and "NodeID (reSuccessor e) \<noteq> []"
  shows "rc_wf (c\<lparr>items := AList.update k e (items c), order := MoveToFront k (order c)\<rparr>)"
proof -
  have "k \<noteq> []" and k: "k \<in> set (order c)" using assms rc_wf_item by auto
  moreover have "length (MoveToFront k (order c)) = length (order c)"
    using assms k by (simp add: rc_wf_def lru_wf_def length_MoveToFront)
  ultimately show ?thesis
    using assms by (fastforce simp: rc_wf_def lru_wf_touch dest!: AList_update_set)
qed

lemma rc_wf_insert:
  assumes "rc_wf c" and "k \<notin> set (order c)" and "int (length (order c)) < capacity c"
    and "targetID e = k" and "k \<noteq> []" and "NodeID (reSuccessor e) \<noteq> []"
  shows "rc_wf (c\<lparr>order := k # order c, items := AList.update k e (items c)\<rparr>)"
  using assms by (fastforce simp: rc_wf_def lru_wf_insert dest!: AList_update_set)

text \<open>\<open>Put\<close> as one list operation on the recency list.\<close>

lemma RoutingCache_Put_wf:
  fixes p :: string and now :: gotime
  assumes wf: "rc_wf c" and k: "k \<noteq> []" "NodeID s \<noteq> []"
  defines "c' \<equiv> RoutingCache_Put k p s now c"
    and "e \<equiv> \<lparr>targetID = k, predecessorID = p, reSuccessor = s, reCachedAt = now\<rparr>"
  shows "rc_wf c'" and "order c' = take (nat (capacity c)) (k # removeAll k (order c))"
    and "map_of (items c') k = Some e" and "capacity c' = capacity c" and "rcTtl c' = rcTtl c"
    and "set (items c') \<subseteq> insert (k, e) (set (items c))"
    and "\<And>k'. k' \<noteq> k \<Longrightarrow> k' \<in> set (order c') \<Longrightarrow> map_of (items c') k' = map_of (items c) k'"
proof -
  have e: "targetID e = k" "NodeID (reSuccessor e) \<noteq> []" by (simp_all add: e_def k)
  have len: "length (order c) \<le> nat (capacity c)" "0 < capacity c" "distinct (order c)"
    using wf by (auto simp: rc_wf_def lru_wf_def)
  have "rc_wf c' \<and> order c' = take (nat (capacity c)) (k # removeAll k (order c)) \<and>
    map_of (items c') k = Some e \<and> capacity c' = capacity c \<and> rcTtl c' = rcTtl c \<and>
    set (items c') \<subseteq> insert (k, e) (set (items c)) \<and>
    (\<forall>k'. k' \<noteq> k \<longrightarrow> k' \<in> set (order c') \<longrightarrow> map_of (items c') k' = map_of (items c) k')"
  proof (cases "map_of (items c) k")
    case (Some e0)
    then have c': "c' = c\<lparr>items := AList.update k e (items c), order := MoveToFront k (order c)\<rparr>"
      by (simp add: c'_def RoutingCache_Put_def k e_def)
    have "k \<in> set (order c)" using Some rc_wf_order [OF wf] by simp
    then have "length (k # removeAll k (order c)) \<le> nat (capacity c)"
      using len length_MoveToFront [of "order c" k] by (simp add: MoveToFront_def)
    then show ?thesis
      unfolding c' using rc_wf_touch [OF wf Some e(1,2)]
      by (auto simp: MoveToFront_def update_conv' dest!: AList_update_set)
  next
    case None
    let ?d = "if int (length (order c)) \<ge> capacity c then rc_evictLRU c else c"
    have c': "c' = ?d\<lparr>order := k # order ?d, items := AList.update k e (items ?d)\<rparr>"
      using None by (simp add: c'_def RoutingCache_Put_def k e_def Let_def)
    have kn: "k \<notin> set (order c)" using None rc_wf_order [OF wf] by simp
    have full: "capacity c \<le> int (length (order c)) \<Longrightarrow> nat (capacity c) = length (order c)"
      using len by simp
    have d: "rc_wf ?d" "capacity ?d = capacity c" "rcTtl ?d = rcTtl c"
      "order ?d = take (nat (capacity c) - 1) (order c)"
      "set (items ?d) \<subseteq> set (items c)"
      using rc_evictLRU_wf [OF wf] wf len full
      by (auto simp: butlast_conv_take dest: AList_delete_set)
    have kd: "k \<notin> set (order ?d)" using kn d(4) by (metis in_set_takeD)
    have ld: "int (length (order ?d)) < capacity ?d" using d(2,4) len by auto
    have keep: "map_of (items ?d) k' = map_of (items c) k'" if "k' \<in> set (order ?d)" for k'
      using that rc_evictLRU_wf(2,3) [OF wf] len(3)
      by (cases "order c" rule: rev_cases) (auto simp: delete_conv')
    have rm: "removeAll k (order c) = order c" using kn by simp
    have wf': "rc_wf c'" unfolding c' by (rule rc_wf_insert [OF d(1) kd ld e(1) k(1) e(2)])
    have ord: "order c' = take (nat (capacity c)) (k # order c)"
      using d(4) len by (simp add: c' take_Cons')
    have sub: "set (items c') \<subseteq> insert (k, e) (set (items c))"
      using d(5) by (auto simp: c' dest!: AList_update_set split del: if_split)
    have oth: "map_of (items c') k' = map_of (items c) k'" if "k' \<noteq> k" "k' \<in> set (order c')" for k'
      using that keep by (simp add: c' update_conv' split del: if_split)
    show ?thesis
      using wf' ord sub oth d(2,3) rm by (simp add: c' update_conv' split del: if_split)
  qed
  then show "rc_wf c'" "order c' = take (nat (capacity c)) (k # removeAll k (order c))"
    "map_of (items c') k = Some e" "capacity c' = capacity c" "rcTtl c' = rcTtl c"
    "set (items c') \<subseteq> insert (k, e) (set (items c))"
    "\<And>k'. k' \<noteq> k \<Longrightarrow> k' \<in> set (order c') \<Longrightarrow> map_of (items c') k' = map_of (items c) k'"
    by auto
qed

lemma rc_wf_Put: "rc_wf c \<Longrightarrow> rc_wf (RoutingCache_Put k p s now c)"
  using RoutingCache_Put_wf(1) [of c k s p now] by (auto simp: RoutingCache_Put_def)

lemma rc_wf_InvalidateAll: "rc_wf c \<Longrightarrow> rc_wf (RoutingCache_InvalidateAll c)"
  by (simp add: rc_wf_def RoutingCache_InvalidateAll_def)

text \<open>The clean-up removes exactly the expired entries.\<close>

lemma rc_evict_map_of:
  "map_of (items (rc_evict e c)) k = (if k = targetID e then None else map_of (items c) k)"
  by (simp add: rc_evict_def delete_conv')

lemma rc_expired_evict [simp]: "rc_expired now (rc_evict e c) = rc_expired now c"
  by (simp add: rc_evict_def rc_expired_def fun_eq_iff)

lemma rc_cleanup_fold:
  fixes now :: gotime
  assumes "rc_wf c" and "\<forall>e \<in> set es. map_of (items c) (targetID e) \<in> {None, Some e}"
  defines "c' \<equiv> fold (\<lambda>e c'. if rc_expired now c' e then rc_evict e c' else c') es c"
  shows "rc_wf c' \<and> rcTtl c' = rcTtl c \<and> set (items c') \<subseteq> set (items c) \<and>
    (\<forall>k. map_of (items c') k =
      (case map_of (items c) k of None \<Rightarrow> None
       | Some e \<Rightarrow> if e \<in> set es \<and> rc_expired now c e then None else Some e))"
  using assms(1,2) unfolding c'_def
proof (induction es arbitrary: c)
  case Nil
  then show ?case by (auto split: option.splits)
next
  case (Cons e es)
  let ?c = "if rc_expired now c e then rc_evict e c else c"
  have wf: "rc_wf ?c" using Cons.prems by (simp add: rc_wf_evict)
  have "\<forall>e \<in> set es. map_of (items ?c) (targetID e) \<in> {None, Some e}"
    using Cons.prems by (auto simp: rc_evict_map_of)
  note IH = Cons.IH [OF wf this]
  have sub: "set (items ?c) \<subseteq> set (items c)"
    by (auto simp: rc_evict_def dest: AList_delete_set)
  have ttl: "rcTtl ?c = rcTtl c" by (simp add: rc_evict_def)
  have exp: "rc_expired now ?c = rc_expired now c" by simp
  have m: "map_of (items ?c) k = (case map_of (items c) k of None \<Rightarrow> None
       | Some e' \<Rightarrow> if e' = e \<and> rc_expired now c e then None else Some e')" for k
  proof (cases "map_of (items c) k")
    case (Some e')
    then have "targetID e' = k" using rc_wf_item [OF Cons.prems(1)] by blast
    then have "e' = e \<longleftrightarrow> targetID e = k" using Cons.prems(2) Some by auto
    then show ?thesis using Some by (simp add: rc_evict_map_of)
  qed (simp add: rc_evict_map_of)
  let ?c' = "fold (\<lambda>e c'. if rc_expired now c' e then rc_evict e c' else c') es ?c"
  have step: "fold (\<lambda>e c'. if rc_expired now c' e then rc_evict e c' else c') (e # es) c = ?c'"
    by simp
  show ?case
    unfolding step
  proof (intro conjI allI)
    show "rc_wf ?c'" "rcTtl ?c' = rcTtl c" "set (items ?c') \<subseteq> set (items c)"
      using IH sub ttl by (blast, metis, blast)
    fix k
    have "map_of (items ?c') k = (case map_of (items ?c) k of None \<Rightarrow> None
       | Some e' \<Rightarrow> if e' \<in> set es \<and> rc_expired now c e' then None else Some e')"
      using IH exp by metis
    then show "map_of (items ?c') k = (case map_of (items c) k of None \<Rightarrow> None
       | Some e' \<Rightarrow> if e' \<in> set (e # es) \<and> rc_expired now c e' then None else Some e')"
      unfolding m by (auto split: option.splits)
  qed
qed

lemma RoutingCache_Cleanup_spec:
  fixes orc :: "string list" and now :: gotime
  assumes "rc_wf c"
  defines "c' \<equiv> RoutingCache_Cleanup orc now c"
  shows "rc_wf c'" and "rcTtl c' = rcTtl c" and "set (items c') \<subseteq> set (items c)"
    and "map_of (items c') k = (case map_of (items c) k of None \<Rightarrow> None
      | Some e \<Rightarrow> if rc_expired now c e then None else Some e)"
proof -
  have "\<forall>e \<in> set (rc_iter orc c). map_of (items c) (targetID e) \<in> {None, Some e}"
    using rc_wf_item [OF assms(1)] by (fastforce simp: rc_iter_set)
  note * = rc_cleanup_fold [OF assms(1) this, of now]
  show "rc_wf c'" "rcTtl c' = rcTtl c" "set (items c') \<subseteq> set (items c)"
    using * by (simp_all add: c'_def RoutingCache_Cleanup_def)
  have "map_of (items c') k = (case map_of (items c) k of None \<Rightarrow> None
       | Some e \<Rightarrow> if e \<in> set (rc_iter orc c) \<and> rc_expired now c e then None else Some e)"
    using * by (simp add: c'_def RoutingCache_Cleanup_def)
  also have "\<dots> = (case map_of (items c) k of None \<Rightarrow> None
      | Some e \<Rightarrow> if rc_expired now c e then None else Some e)"
    by (auto simp: rc_iter_set split: option.splits)
  finally show "map_of (items c') k = \<dots>" .
qed

text \<open>The entry that answers for its own key, if it has not expired.\<close>

definition rc_exact :: "RoutingCache \<Rightarrow> gotime \<Rightarrow> string \<Rightarrow> NodeInfo option" where
  "rc_exact c now k =
     (case map_of (items c) k of None \<Rightarrow> None
      | Some e \<Rightarrow> if rc_expired now c e then None else Some (reSuccessor e))"

interpretation rc_exp: expiring rc_wf rc_exact "RoutingCache_Cleanup orc" for orc
proof
  fix c :: RoutingCache and now now' k v
  show "rc_wf c \<Longrightarrow> rc_wf (RoutingCache_Cleanup orc now c)"
    by (rule RoutingCache_Cleanup_spec)
  show "rc_wf c \<Longrightarrow> now \<le> now' \<Longrightarrow> rc_exact (RoutingCache_Cleanup orc now c) now' k = rc_exact c now' k"
    using time_Sub_mono [of now now']
    by (auto simp: rc_exact_def RoutingCache_Cleanup_spec rc_expired_def split: option.splits
        intro: order.strict_trans2)
  show "now \<le> now' \<Longrightarrow> rc_exact c now' k = Some v \<Longrightarrow> rc_exact c now k = Some v"
    using time_Sub_mono [of now now']
    by (auto simp: rc_exact_def rc_expired_def split: option.splits if_splits
        dest: order.strict_trans2)
qed

interpretation rc_lru: lru rc_wf "\<lambda>c. map_of (items c)" order "\<lambda>c. nat (capacity c)"
  "\<lambda>k e. RoutingCache_Put k (predecessorID e) (reSuccessor e) (reCachedAt e)"
  "\<lambda>k e. k \<noteq> [] \<and> targetID e = k \<and> NodeID (reSuccessor e) \<noteq> []"
proof
  fix c :: RoutingCache and k k' :: string and e :: routingEntry
  let ?put = "RoutingCache_Put k (predecessorID e) (reSuccessor e) (reCachedAt e) c"
  show "rc_wf c \<Longrightarrow> distinct (order c) \<and> set (order c) = dom (map_of (items c)) \<and>
      length (order c) \<le> nat (capacity c)"
    by (simp add: rc_wf_def lru_wf_def dom_map_of_conv_image_fst le_nat_iff)
  show "nat (capacity ?put) = nat (capacity c)"
    by (auto simp: RoutingCache_Put_def rc_evictLRU_def rc_evict_def Let_def split: option.splits)
  assume wf: "rc_wf c" and k: "k \<noteq> [] \<and> targetID e = k \<and> NodeID (reSuccessor e) \<noteq> []"
  note put = RoutingCache_Put_wf [OF wf, where k = k and s = "reSuccessor e"
    and p = "predecessorID e" and now = "reCachedAt e"]
  show "rc_wf ?put" using put k by simp
  show "map_of (items ?put) k = Some e" using put(3) k by (cases e) auto
  show "order ?put = take (nat (capacity c)) (k # removeAll k (order c))" using put k by simp
  show "k' \<noteq> k \<Longrightarrow> k' \<in> set (order ?put) \<Longrightarrow> map_of (items ?put) k' = map_of (items c) k'"
    using put(7) k by simp
qed

section \<open>What a lookup may return\<close>

definition rc_covers :: "routingEntry \<Rightarrow> string \<Rightarrow> bool" where
  "rc_covers e k \<longleftrightarrow> k = targetID e \<or>
     predecessorID e \<noteq> [] \<and> InRangeOpenClosed k (predecessorID e) (NodeID (reSuccessor e))"

lemma rc_iter_item: "rc_wf c \<Longrightarrow> e \<in> set (rc_iter orc c) \<Longrightarrow> (targetID e, e) \<in> set (items c)"
  by (auto simp: rc_iter_set dest: rc_wf_item map_of_SomeD)

lemma RoutingCache_Get_covered:
  assumes "rc_wf c" and "RoutingCache_Get orc k now c = (Some s, c')"
  shows "\<exists>e. (targetID e, e) \<in> set (items c) \<and> reSuccessor e = s \<and> rc_covers e k \<and> \<not> rc_expired now c e"
proof (cases "map_of (items c) k")
  case (Some e)
  then have "targetID e = k" "(k, e) \<in> set (items c)"
    using rc_wf_item [OF assms(1)] by (auto dest: map_of_SomeD)
  then show ?thesis
    using assms(2) Some by (auto simp: RoutingCache_Get_def rc_covers_def split: if_splits)
next
  case None
  with assms(2) obtain e where e: "reSuccessor e = s" "e \<in> set (rc_iter orc c)"
      "\<not> rc_expired now c e" "rc_covers e k"
    by (auto simp: RoutingCache_Get_def rc_covers_def split: option.splits dest!: find_SomeD)
  then show ?thesis using rc_iter_item [OF assms(1)] by blast
qed

lemma RoutingCache_Get_items: "set (items (snd (RoutingCache_Get orc k now c))) \<subseteq> set (items c)"
  by (auto simp: RoutingCache_Get_def rc_miss_def rc_hit_def rc_evict_def
      split: option.splits dest: AList_delete_set)

text \<open>\<open>rc_sound P\<close>: whatever the cache may answer is right by \<open>P\<close>.\<close>

definition rc_sound :: "(string \<Rightarrow> NodeInfo \<Rightarrow> bool) \<Rightarrow> RoutingCache \<Rightarrow> bool" where
  "rc_sound P c \<longleftrightarrow> rc_wf c \<and>
     (\<forall>(k, e) \<in> set (items c). \<forall>x. ValidateID x \<longrightarrow> rc_covers e x \<longrightarrow> P x (reSuccessor e))"

lemma rc_sound_Get:
  assumes "rc_sound P c" and "ValidateID k"
  shows "rc_sound P (snd (RoutingCache_Get orc k now c))"
    and "fst (RoutingCache_Get orc k now c) = Some s \<Longrightarrow> P k s"
proof -
  have wf: "rc_wf c" using assms by (simp add: rc_sound_def)
  show "rc_sound P (snd (RoutingCache_Get orc k now c))"
    using assms rc_wf_Get [OF wf] RoutingCache_Get_items unfolding rc_sound_def by blast
  show "P k s" if "fst (RoutingCache_Get orc k now c) = Some s"
  proof -
    from that have "RoutingCache_Get orc k now c = (Some s, snd (RoutingCache_Get orc k now c))"
      by (metis prod.collapse)
    from RoutingCache_Get_covered [OF wf this] show ?thesis
      using assms by (auto simp: rc_sound_def)
  qed
qed

lemma rc_sound_Put:
  assumes "rc_sound P c"
    and "\<And>x. ValidateID x \<Longrightarrow> x = k \<or> p \<noteq> [] \<and> InRangeOpenClosed x p (NodeID s) \<Longrightarrow> P x s"
  shows "rc_sound P (RoutingCache_Put k p s now c)"
proof (cases "k = [] \<or> NodeID s = []")
  case True
  then show ?thesis using assms by (auto simp: RoutingCache_Put_def)
next
  case False
  have wf: "rc_wf c" using assms(1) by (simp add: rc_sound_def)
  note put = RoutingCache_Put_wf [OF wf, where k = k and s = s and p = p and now = now]
  show ?thesis
    using False put(1,6) assms by (fastforce simp: rc_sound_def rc_covers_def)
qed

lemma rc_sound_new: "rc_sound P (NewRoutingCache n ttl)"
  by (simp add: rc_sound_def rc_wf_new) (simp add: NewRoutingCache_def)

lemma rc_sound_InvalidateAll: "rc_sound P c \<Longrightarrow> rc_sound P (RoutingCache_InvalidateAll c)"
  by (simp add: rc_sound_def rc_wf_InvalidateAll) (simp add: RoutingCache_InvalidateAll_def)

section \<open>The cache over its whole life\<close>

inductive rc_reachable :: "int \<Rightarrow> duration \<Rightarrow> RoutingCache \<Rightarrow> bool" for n ttl where
  new: "rc_reachable n ttl (NewRoutingCache n ttl)"
| get: "rc_reachable n ttl c \<Longrightarrow> rc_reachable n ttl (snd (RoutingCache_Get orc k now c))"
| put: "rc_reachable n ttl c \<Longrightarrow> rc_reachable n ttl (RoutingCache_Put k p s now c)"
| invalidate: "rc_reachable n ttl c \<Longrightarrow> rc_reachable n ttl (RoutingCache_InvalidateAll c)"
| cleanup: "rc_reachable n ttl c \<Longrightarrow> rc_reachable n ttl (RoutingCache_Cleanup orc now c)"

lemma capacity_ops [simp]:
  "capacity (snd (RoutingCache_Get orc k now c)) = capacity c"
  "capacity (RoutingCache_Put k p s now c) = capacity c"
  "capacity (RoutingCache_InvalidateAll c) = capacity c"
  by (auto simp: RoutingCache_Get_def RoutingCache_Put_def RoutingCache_InvalidateAll_def rc_miss_def
      rc_hit_def rc_evict_def rc_evictLRU_def Let_def split: option.splits)

lemma capacity_Cleanup [simp]: "capacity (RoutingCache_Cleanup orc now c) = capacity c"
proof -
  have "capacity (fold (\<lambda>e c'. if rc_expired now c' e then rc_evict e c' else c') es c) = capacity c"
    for es
    by (induction es arbitrary: c) (auto simp: rc_evict_def)
  then show ?thesis by (simp add: RoutingCache_Cleanup_def)
qed

lemma rc_reachable_wf: "rc_reachable n ttl c \<Longrightarrow> rc_wf c \<and> capacity c = capacity (NewRoutingCache n ttl)"
  by (induction rule: rc_reachable.induct)
    (auto simp: rc_wf_new rc_wf_Get rc_wf_Put rc_wf_InvalidateAll RoutingCache_Cleanup_spec(1))

text \<open>The routing cache is bounded: whatever sequence of lookups, insertions, invalidations and
  clean-ups is run, the map and the recency list hold the same keys, each once, and never more of
  them than the configured capacity (or the default one, for a capacity that is not positive).\<close>

theorem routing_cache_bounded:
  assumes "rc_reachable n ttl c"
  shows "distinct (order c) \<and> set (order c) = fst ` set (items c) \<and>
    int (length (items c)) \<le> (if n \<le> 0 then DefaultRoutingCacheSize else n)"
proof -
  have "lru_wf (items c) (order c)" "int (length (order c)) \<le> capacity c"
    and "capacity c = (if n \<le> 0 then DefaultRoutingCacheSize else n)"
    using rc_reachable_wf [OF assms] by (auto simp: rc_wf_def NewRoutingCache_def)
  then show ?thesis
    using lru_wf_length [of "items c" "order c"] by (simp add: lru_wf_def)
qed

lemma routing_cache_bounded_witness:
  "length (items (RoutingCache_Put ''a'' ''b'' (emptyNodeInfo\<lparr>NodeID := ''c''\<rparr>) 5 (NewRoutingCache 2 7))) = 1 \<and>
   int (length (items (RoutingCache_Put ''a'' ''b'' (emptyNodeInfo\<lparr>NodeID := ''c''\<rparr>) 5 (NewRoutingCache 2 7)))) \<le> 2"
proof -
  have "rc_reachable 2 7 (RoutingCache_Put ''a'' ''b'' (emptyNodeInfo\<lparr>NodeID := ''c''\<rparr>) 5 (NewRoutingCache 2 7))"
    by (intro rc_reachable.intros)
  from routing_cache_bounded [OF this] show ?thesis
    by (simp add: RoutingCache_Put_def NewRoutingCache_def Let_def)
qed

text \<open>C20: A hit is justified: the node returned is the one stored in an entry that has not expired
  and whose key is the target, or whose interval from its predecessor to its successor contains the
  target, whatever order the entries are visited in.\<close>

theorem routing_cache_hit_covered:
  assumes "rc_reachable n ttl c" and "RoutingCache_Get orc k now c = (Some s, c')"
  shows "\<exists>e. (targetID e, e) \<in> set (items c) \<and> reSuccessor e = s \<and> \<not> rc_expired now c e \<and>
    (k = targetID e \<or> InRangeOpenClosed k (predecessorID e) (NodeID s))"
  using RoutingCache_Get_covered [OF conjunct1 [OF rc_reachable_wf [OF assms(1)]] assms(2)]
  by (auto simp: rc_covers_def)

lemma routing_cache_hit_covered_witness:
  "\<exists>e. (targetID e, e) \<in> set (items (RoutingCache_Put ''a'' [] (emptyNodeInfo\<lparr>NodeID := ''c''\<rparr>) 5 (NewRoutingCache 2 7))) \<and>
     NodeID (reSuccessor e) = ''c''"
proof -
  let ?c = "RoutingCache_Put ''a'' [] (emptyNodeInfo\<lparr>NodeID := ''c''\<rparr>) 5 (NewRoutingCache 2 7)"
  have "rc_reachable 2 7 ?c"
    by (intro rc_reachable.intros)
  moreover have "RoutingCache_Get [] ''a'' 6 ?c =
      (Some (emptyNodeInfo\<lparr>NodeID := ''c''\<rparr>), snd (RoutingCache_Get [] ''a'' 6 ?c))"
    by (simp add: RoutingCache_Get_def RoutingCache_Put_def NewRoutingCache_def Let_def rc_expired_def
        time_Sub_def minDuration_def maxDuration_def)
  ultimately show ?thesis
    by (rule routing_cache_hit_covered [THEN exE]) (auto simp: emptyNodeInfo_def)
qed

text \<open>Recently stored results stay: a result put for a target is still the entry of that target
  after any later insertions under other targets, as long as they concern fewer distinct targets
  than the capacity leaves room for.\<close>

theorem routing_cache_recent_retained:
  fixes later :: "(string \<times> routingEntry) list"
  assumes "rc_reachable n ttl c" and "k \<noteq> []" and "NodeID s \<noteq> []"
    and "\<forall>(k', e) \<in> set later. k' \<noteq> [] \<and> k' \<noteq> k \<and> targetID e = k' \<and> NodeID (reSuccessor e) \<noteq> []"
    and "int (card (fst ` set later)) < capacity c"
  shows "map_of (items (fold (\<lambda>(k, e). RoutingCache_Put k (predecessorID e) (reSuccessor e) (reCachedAt e))
      later (RoutingCache_Put k p s now c))) k =
    Some \<lparr>targetID = k, predecessorID = p, reSuccessor = s, reCachedAt = now\<rparr>"
proof -
  let ?e = "\<lparr>targetID = k, predecessorID = p, reSuccessor = s, reCachedAt = now\<rparr>"
  have "k \<notin> fst ` set later" using assms(4) by auto
  moreover from this have "card (insert k (fst ` set later)) \<le> nat (capacity c)"
    using assms(5) by auto
  ultimately show ?thesis
    using rc_lru.recent_retained [of c k ?e later] rc_reachable_wf [OF assms(1)] assms(2-4)
    by (auto simp: rc_lru.puts_def)
qed

lemma routing_cache_recent_retained_witness:
  "map_of (items (fold (\<lambda>(k, e). RoutingCache_Put k (predecessorID e) (reSuccessor e) (reCachedAt e))
      [(''b'', \<lparr>targetID = ''b'', predecessorID = [], reSuccessor = emptyNodeInfo\<lparr>NodeID := ''d''\<rparr>, reCachedAt = 6\<rparr>)]
      (RoutingCache_Put ''a'' [] (emptyNodeInfo\<lparr>NodeID := ''c''\<rparr>) 5 (NewRoutingCache 2 7)))) ''a'' =
    Some \<lparr>targetID = ''a'', predecessorID = [], reSuccessor = emptyNodeInfo\<lparr>NodeID := ''c''\<rparr>, reCachedAt = 5\<rparr>"
  by (rule routing_cache_recent_retained [OF rc_reachable.new [of 2 7]]) (auto simp: NewRoutingCache_def)

end
