(* ===== verification/Base64.thy ===== *)
theory Base64
  imports GoStd
begin

text \<open>
  Go's \<open>base64.StdEncoding\<close> on byte strings: groups of three bytes become four characters, padded with
  \<open>=\<close>. Decoding skips carriage returns and line feeds, ignores the unused low bits of a padded group
  and fails on everything else, as the library does.
\<close>

definition b64_char :: "nat \<Rightarrow> char" where
  "b64_char d = char_of
     (if d < 26 then 65 + d else if d < 52 then 71 + d else if d < 62 then d - 4
      else if d = 62 then 43 else (47 :: nat))"

definition b64_val :: "char \<Rightarrow> nat option" where
  "b64_val c = (let n = of_char c :: nat in
     if 65 \<le> n \<and> n \<le> 90 then Some (n - 65)
     else if 97 \<le> n \<and> n \<le> 122 then Some (n - 71)
     else if 48 \<le> n \<and> n \<le> 57 then Some (n + 4)
     else if n = 43 then Some 62 else if n = 47 then Some 63 else None)"

fun b64_enc :: "nat list \<Rightarrow> string" where
  "b64_enc [] = []"
| "b64_enc [a] = [b64_char (a div 4), b64_char (a mod 4 * 16), CHR ''='', CHR ''='']"
| "b64_enc [a, b] =
     [b64_char (a div 4), b64_char (a mod 4 * 16 + b div 16), b64_char (b mod 16 * 4), CHR ''='']"
| "b64_enc (a # b # c # r) =
     b64_char (a div 4) # b64_char (a mod 4 * 16 + b div 16) #
     b64_char (b mod 16 * 4 + c div 64) # b64_char (c mod 64) # b64_enc r"

fun b64_dec :: "string \<Rightarrow> nat list option" where
  "b64_dec [] = Some []"
| "b64_dec (w # x # y # z # r) =
     (case (b64_val w, b64_val x) of
        (Some a, Some b) \<Rightarrow>
          (case (b64_val y, b64_val z) of
             (Some c, Some d) \<Rightarrow>
               map_option (\<lambda>t. (a * 4 + b div 16) # (b mod 16 * 16 + c div 4) # (c mod 4 * 64 + d) # t)
                 (b64_dec r)
           | (Some c, None) \<Rightarrow>
               if z = CHR ''='' \<and> r = [] then Some [a * 4 + b div 16, b mod 16 * 16 + c div 4] else None
           | (None, _) \<Rightarrow>
               if y = CHR ''='' \<and> z = CHR ''='' \<and> r = [] then Some [a * 4 + b div 16] else None)
      | _ \<Rightarrow> None)"
| "b64_dec _ = None"

definition base64_Encode :: "string \<Rightarrow> string" where
  "base64_Encode s = b64_enc (map of_char s)"

definition base64_Decode :: "string \<Rightarrow> string option" where
  "base64_Decode s =
     map_option (map char_of) (b64_dec (filter (\<lambda>c. of_char c \<notin> {10, 13 :: nat}) s))"

lemma of_char_b64: "d < 64 \<Longrightarrow> of_char (b64_char d) =
    (if d < 26 then 65 + d else if d < 52 then 71 + d else if d < 62 then d - 4
     else if d = 62 then 43 else (47 :: nat))"
  by (auto simp: b64_char_def)

lemma b64_val_char [simp]: "d < 64 \<Longrightarrow> b64_val (b64_char d) = Some d"
  by (auto simp: b64_val_def of_char_b64 Let_def)

lemma b64_char_keep [simp]: "d < 64 \<Longrightarrow> of_char (b64_char d) \<noteq> (10 :: nat) \<and> of_char (b64_char d) \<noteq> (13 :: nat)"
  by (auto simp: of_char_b64)

lemma b64_pad [simp]: "b64_val (CHR ''='') = None"
  by (simp add: b64_val_def)

lemma digit_group:
  fixes x y :: nat
  shows "y < 16 \<Longrightarrow> (x * 16 + y) div 16 = x" "y < 16 \<Longrightarrow> (x * 16 + y) mod 16 = y"
    "y < 4 \<Longrightarrow> (x * 4 + y) div 4 = x" "y < 4 \<Longrightarrow> (x * 4 + y) mod 4 = y"
  by auto

lemma b64_bounds:
  fixes a b :: nat
  assumes "a < 256" and "b < 256"
  shows "a div 4 < 64" "a mod 4 * 16 < 64" "a mod 4 * 16 + b div 16 < 64" "a mod 16 * 4 < 64"
    "a mod 16 * 4 + b div 64 < 64" "a mod 64 < 64" "b div 16 < 16" "b div 64 < 4"
proof -
  show *: "b div 16 < 16" "b div 64 < 4" "a div 4 < 64"
    using assms by (auto simp: less_mult_imp_div_less)
  have "a mod 4 < 4" "a mod 16 < 16" by simp_all
  then show "a mod 4 * 16 < 64" "a mod 4 * 16 + b div 16 < 64" "a mod 16 * 4 < 64"
    "a mod 16 * 4 + b div 64 < 64" "a mod 64 < 64"
    using * by linarith+
qed

lemma b64_dec_enc: "list_all (\<lambda>b. b < 256) bs \<Longrightarrow> b64_dec (b64_enc bs) = Some bs"
proof (induction bs rule: b64_enc.induct)
  case (2 a)
  then have "a < 256" by simp
  note h = b64_bounds [OF this, of 0]
  show ?case by (simp add: b64_val_char [OF h(1)] b64_val_char [OF h(2)] div_mult_mod_eq)
next
  case (3 a b)
  then have "a < 256" "b < 256" by simp_all
  note h = b64_bounds [OF this] b64_bounds [OF this(2,1)]
  show ?case
    by (simp add: b64_val_char [OF h(1)] b64_val_char [OF h(3)] b64_val_char [OF h(12)]
        digit_group(1,2) [OF h(7)] mod_less [OF h(7)] div_mult_mod_eq)
next
  case (4 a b c r)
  then have ab: "a < 256" "b < 256" "c < 256" and IH: "b64_dec (b64_enc r) = Some r" by auto
  note h = b64_bounds [OF ab(1,2)] and k = b64_bounds [OF ab(2,3)] and l = b64_bounds [OF ab(3,3)]
  show ?case
    by (simp add: b64_val_char [OF h(1)] b64_val_char [OF h(3)] b64_val_char [OF k(5)]
        b64_val_char [OF l(6)] digit_group(1,2) [OF h(7)] digit_group(3,4) [OF k(8)]
        mod_less [OF h(7)] mod_less [OF k(8)] div_mult_mod_eq IH)
qed simp

lemma b64_enc_keep:
  "list_all (\<lambda>b. b < 256) bs \<Longrightarrow> filter (\<lambda>c. of_char c \<notin> {10, 13 :: nat}) (b64_enc bs) = b64_enc bs"
proof (induction bs rule: b64_enc.induct)
  case (2 a)
  then show ?case using b64_bounds(1,2) [of a 0] by simp
next
  case (3 a b)
  then show ?case using b64_bounds(1,3) [of a b] b64_bounds(4) [of b 0] by simp
next
  case (4 a b c r)
  then show ?case
    using b64_bounds(1,3) [of a b] b64_bounds(5) [of b c] b64_bounds(6) [of c c] by simp
qed simp

lemma list_all_of_char [simp]: "list_all (\<lambda>b. b < (256::nat)) (map of_char s)"
  by (simp add: list_all_iff)

theorem base64_roundtrip: "base64_Decode (base64_Encode s) = Some s"
  by (simp add: base64_Decode_def base64_Encode_def b64_enc_keep [simplified] b64_dec_enc comp_def)

section \<open>RawURLEncoding\<close>

text \<open>
  \<open>base64.RawURLEncoding\<close>: the characters \<open>-\<close> and \<open>_\<close> for 62 and 63, and no padding. A last group of
  two or three characters stands for one or two bytes; a lone character is an error.
\<close>

definition url_char :: "nat \<Rightarrow> char" where
  "url_char d = (if d = 62 then CHR ''-'' else if d = 63 then CHR ''_'' else b64_char d)"

definition url_val :: "char \<Rightarrow> nat option" where
  "url_val c =
     (if c = CHR ''-'' then Some 62 else if c = CHR ''_'' then Some 63
      else if c = CHR ''+'' \<or> c = CHR ''/'' then None else b64_val c)"

fun raw_enc :: "nat list \<Rightarrow> string" where
  "raw_enc [] = []"
| "raw_enc [a] = [url_char (a div 4), url_char (a mod 4 * 16)]"
| "raw_enc [a, b] = [url_char (a div 4), url_char (a mod 4 * 16 + b div 16), url_char (b mod 16 * 4)]"
| "raw_enc (a # b # c # r) =
     url_char (a div 4) # url_char (a mod 4 * 16 + b div 16) #
     url_char (b mod 16 * 4 + c div 64) # url_char (c mod 64) # raw_enc r"

text \<open>Decoding, on the values of the characters.\<close>

fun raw_group :: "nat list \<Rightarrow> nat list option" where
  "raw_group [] = Some []"
| "raw_group [a] = None"
| "raw_group [a, b] = Some [a * 4 + b div 16]"
| "raw_group [a, b, c] = Some [a * 4 + b div 16, b mod 16 * 16 + c div 4]"
| "raw_group (a # b # c # d # r) =
     map_option (\<lambda>t. (a * 4 + b div 16) # (b mod 16 * 16 + c div 4) # (c mod 4 * 64 + d) # t) (raw_group r)"

fun all_some :: "'a option list \<Rightarrow> 'a list option" where
  "all_some [] = Some []"
| "all_some (None # r) = None"
| "all_some (Some x # r) = map_option ((#) x) (all_some r)"

definition rawurl_Encode :: "string \<Rightarrow> string" where
  "rawurl_Encode s = raw_enc (map of_char s)"

definition rawurl_Decode :: "string \<Rightarrow> string option" where
  "rawurl_Decode s =
     (case all_some (map url_val (filter (\<lambda>c. of_char c \<notin> {10, 13 :: nat}) s)) of
        None \<Rightarrow> None
      | Some vs \<Rightarrow> map_option (map char_of) (raw_group vs))"

lemma url_val_char [simp]: "d < 64 \<Longrightarrow> url_val (url_char d) = Some d"
proof -
  assume d: "d < 64"
  show ?thesis
  proof (cases "d < 62")
    case True
    have ne: "b64_char d \<noteq> CHR ''-'' \<and> b64_char d \<noteq> CHR ''_'' \<and> b64_char d \<noteq> CHR ''+'' \<and> b64_char d \<noteq> CHR ''/''"
    proof (intro conjI notI)
      have n: "of_char (b64_char d) \<noteq> (45 :: nat) \<and> of_char (b64_char d) \<noteq> (95 :: nat) \<and>
          of_char (b64_char d) \<noteq> (43 :: nat) \<and> of_char (b64_char d) \<noteq> (47 :: nat)"
        using True d by (simp add: of_char_b64) arith
      show "b64_char d = CHR ''-'' \<Longrightarrow> False" using n by simp
      show "b64_char d = CHR ''_'' \<Longrightarrow> False" using n by simp
      show "b64_char d = CHR ''+'' \<Longrightarrow> False" using n by simp
      show "b64_char d = CHR ''/'' \<Longrightarrow> False" using n by simp
    qed
    then show ?thesis using True d by (simp add: url_char_def url_val_def)
  next
    case False
    then have "d = 62 \<or> d = 63" using d by auto
    then show ?thesis by (auto simp: url_char_def url_val_def)
  qed
qed

lemma url_char_keep [simp]:
  "d < 64 \<Longrightarrow> of_char (url_char d) \<noteq> (10 :: nat) \<and> of_char (url_char d) \<noteq> (13 :: nat)"
  by (simp add: url_char_def)

lemma raw_enc_keep:
  "list_all (\<lambda>b. b < 256) bs \<Longrightarrow> filter (\<lambda>c. of_char c \<notin> {10, 13 :: nat}) (raw_enc bs) = raw_enc bs"
proof (induction bs rule: raw_enc.induct)
  case (2 a)
  then show ?case using b64_bounds(1,2) [of a 0] by simp
next
  case (3 a b)
  then show ?case using b64_bounds(1,3) [of a b] b64_bounds(4) [of b 0] by simp
next
  case (4 a b c r)
  then show ?case
    using b64_bounds(1,3) [of a b] b64_bounds(5) [of b c] b64_bounds(6) [of c c] by simp
qed simp

lemma raw_dec_enc:
  "list_all (\<lambda>b. b < 256) bs \<Longrightarrow> \<exists>vs. all_some (map url_val (raw_enc bs)) = Some vs \<and> raw_group vs = Some bs"
proof (induction bs rule: raw_enc.induct)
  case (2 a)
  then have "a < 256" by simp
  note h = b64_bounds [OF this, of 0]
  show ?case by (simp add: url_val_char [OF h(1)] url_val_char [OF h(2)] div_mult_mod_eq)
next
  case (3 a b)
  then have "a < 256" "b < 256" by simp_all
  note h = b64_bounds [OF this] b64_bounds [OF this(2,1)]
  show ?case
    by (simp add: url_val_char [OF h(1)] url_val_char [OF h(3)] url_val_char [OF h(12)]
        digit_group(1,2) [OF h(7)] mod_less [OF h(7)] div_mult_mod_eq)
next
  case (4 a b c r)
  then have ab: "a < 256" "b < 256" "c < 256" by auto
  obtain vs where vs: "all_some (map url_val (raw_enc r)) = Some vs" "raw_group vs = Some r"
    using 4 by auto
  note h = b64_bounds [OF ab(1,2)] and k = b64_bounds [OF ab(2,3)] and l = b64_bounds [OF ab(3,3)]
  show ?case
    by (simp add: url_val_char [OF h(1)] url_val_char [OF h(3)] url_val_char [OF k(5)]
        url_val_char [OF l(6)] digit_group(1,2) [OF h(7)] digit_group(3,4) [OF k(8)]
        mod_less [OF h(7)] mod_less [OF k(8)] div_mult_mod_eq vs)
qed simp

theorem rawurl_roundtrip: "rawurl_Decode (rawurl_Encode s) = Some s"
proof -
  obtain vs where "all_some (map url_val (raw_enc (map of_char s))) = Some vs" "raw_group vs = Some (map of_char s)"
    using raw_dec_enc [OF list_all_of_char] by blast
  then show ?thesis
    by (simp add: rawurl_Decode_def rawurl_Encode_def raw_enc_keep [simplified] comp_def)
qed

end
