(* ===== verification/VNodeProofs.thy ===== *)
theory VNodeProofs
  imports Types Base64
begin

text \<open>
  Virtual node identities and the signed proofs an anchor issues for them
  (\<open>internal/chord/vnode_proof.go\<close>). \<open>crypto/ed25519\<close> is the record \<open>ed25519\<close> of its three functions;
  \<open>ed25519_ok\<close> is its documented contract: a signature made with a private key verifies under that
  key's public half, and has the documented length.
\<close>

section \<open>Ed25519\<close>

record ed25519 =
  ed_Public :: "string \<Rightarrow> string"
  ed_Sign :: "string \<Rightarrow> string \<Rightarrow> string"
  ed_Verify :: "string \<Rightarrow> string \<Rightarrow> string \<Rightarrow> bool"

definition ed25519_ok :: "ed25519 \<Rightarrow> bool" where
  "ed25519_ok K \<longleftrightarrow>
     (\<forall>k. length (ed_Public K k) = 32) \<and>
     (\<forall>k m. length (ed_Sign K k m) = 64 \<and> ed_Verify K (ed_Public K k) m (ed_Sign K k m))"

text \<open>An instance for witnesses: the public key is a padded copy of the key, and a signature is a
  padded digest of key and message.\<close>

definition pad_to :: "nat \<Rightarrow> string \<Rightarrow> string" where
  "pad_to n s = take n (s @ replicate n (CHR ''0''))"

lemma length_pad_to [simp]: "length (pad_to n s) = n"
  by (simp add: pad_to_def)

definition demo_ed :: ed25519 where
  "demo_ed =
     \<lparr>ed_Public = pad_to 32, ed_Sign = (\<lambda>k m. pad_to 64 (rev m @ pad_to 32 k)),
      ed_Verify = (\<lambda>p m s. s = pad_to 64 (rev m @ p))\<rparr>"

lemma demo_ed_ok: "ed25519_ok demo_ed"
  by (simp add: ed25519_ok_def demo_ed_def)

text \<open>\<open>ed25519.Verify\<close> panics on a public key of the wrong length.\<close>

definition ed25519_Verify :: "ed25519 \<Rightarrow> string \<Rightarrow> string \<Rightarrow> string \<Rightarrow> goerror + bool" where
  "ed25519_Verify K pub m s =
     (if length pub \<noteq> 32 then Inl (GoPanic ''ed25519: bad public key length'')
      else Inr (ed_Verify K pub m s))"

section \<open>Proofs\<close>

definition DeriveVNodeID :: "golib \<Rightarrow> string \<Rightarrow> int \<Rightarrow> string" where
  "DeriveVNodeID L anchorID index =
     (let input = ''chord-vnode-v4'' @ newline @ anchorID @ newline @ itoa index
      in hex_EncodeToString (sha1_Sum L input))"

definition buildProofCanonical :: "VNodeProof \<Rightarrow> string" where
  "buildProofCanonical p =
     ''chord-vnode-proof-v4'' @ newline @ vpVNodeID p @ newline @ vpAnchorID p @ newline @
     itoa (vpIndex p) @ newline @ itoa (vpIssuedAt p) @ newline @ itoa (vpExpiresAt p)"

definition SignVNodeProof ::
  "golib \<Rightarrow> ed25519 \<Rightarrow> string \<Rightarrow> int \<Rightarrow> string \<Rightarrow> duration \<Rightarrow> gotime \<Rightarrow> VNodeProof" where
  "SignVNodeProof L K anchorID index privKey ttl t =
     (let vnodeID = DeriveVNodeID L anchorID index;
          now = toUnix t;
          pubKey = ed_Public K privKey;
          proof = \<lparr>vpVNodeID = vnodeID, vpAnchorID = anchorID, vpIndex = index, vpIssuedAt = now,
                   vpExpiresAt = wrap64 (now + duration_secs ttl),
                   vpAnchorPub = base64_Encode pubKey, vpSignature = []\<rparr>;
          sig = ed_Sign K privKey (buildProofCanonical proof)
      in proof\<lparr>vpSignature := base64_Encode sig\<rparr>)"

definition VerifyVNodeProof ::
  "golib \<Rightarrow> ed25519 \<Rightarrow> VNodeProof \<Rightarrow> string \<Rightarrow> duration \<Rightarrow> gotime \<Rightarrow> goerror + unit" where
  "VerifyVNodeProof L K p anchorPubKey clockSkew t =
     (let now = toUnix t
      in if wrap64 (vpExpiresAt p + duration_secs clockSkew) < now
         then Inl (NewAPIError 403 ErrProofExpired ''vnode proof has expired'')
         else if DeriveVNodeID L (vpAnchorID p) (vpIndex p) \<noteq> vpVNodeID p
         then Inl (NewAPIError 403 ErrInvalidVNodeProof ''vnode_id does not match derived value'')
         else case base64_Decode (vpSignature p) of
                None \<Rightarrow> Inl (NewAPIError 403 ErrInvalidVNodeProof ''malformed proof signature'')
              | Some sig \<Rightarrow>
                  if length sig \<noteq> 64
                  then Inl (NewAPIError 403 ErrInvalidVNodeProof ''malformed proof signature'')
                  else case ed25519_Verify K anchorPubKey (buildProofCanonical p) sig of
                         Inl e \<Rightarrow> Inl e
                       | Inr False \<Rightarrow>
                           Inl (NewAPIError 403 ErrInvalidVNodeProof ''proof signature verification failed'')
                       | Inr True \<Rightarrow> Inr ())"

lemma DeriveVNodeID_valid: "sha1_ok L \<Longrightarrow> ValidateID (DeriveVNodeID L a i)"
  by (simp add: DeriveVNodeID_def ValidateID_def sha1_ok_def)

lemma buildProofCanonical_signature [simp]:
  "buildProofCanonical (p\<lparr>vpSignature := s\<rparr>) = buildProofCanonical p"
  by (simp add: buildProofCanonical_def)

lemma ValidateID_no_newline: "ValidateID i \<Longrightarrow> no_newline i"
  by (auto simp: ValidateID_def no_newline_def list_all_iff is_hex_code)

section \<open>Properties\<close>

text \<open>C17: A proof an anchor signs verifies under the anchor's public key exactly while the verifier's
  clock has not passed its expiry plus the tolerated skew (computed in 64-bit arithmetic).\<close>

theorem vnode_proof_sign_verify:
  assumes "ed25519_ok K"
  shows "VerifyVNodeProof L K (SignVNodeProof L K a i priv ttl t) (ed_Public K priv) skew t' = Inr () \<longleftrightarrow>
    toUnix t' \<le> wrap64 (wrap64 (toUnix t + duration_secs ttl) + duration_secs skew)"
  using assms
  by (simp add: VerifyVNodeProof_def SignVNodeProof_def Let_def base64_roundtrip ed25519_Verify_def
      ed25519_ok_def buildProofCanonical_def not_less)

lemma duration_secs_demo: "duration_secs (60 * Second) = 60" "duration_secs (5 * Second) = 5" "duration_secs 0 = 0"
  using duration_secs_whole [of 60] duration_secs_whole [of 5] duration_secs_whole [of 0] by simp_all

lemmas duration_secs_demo_ns = duration_secs_demo [unfolded Second_def, simplified]

lemma vnode_proof_sign_verify_witness:
  "VerifyVNodeProof demo_lib demo_ed (SignVNodeProof demo_lib demo_ed ''anchor'' 1 ''key'' (60 * Second) (time_Unix 1000))
     (ed_Public demo_ed ''key'') (5 * Second) (time_Unix 1065) = Inr ()"
  unfolding vnode_proof_sign_verify [OF demo_ed_ok]
  by (simp add: toUnix_def time_Unix_def unixToInternal_def duration_secs_demo_ns wrap64_id Second_def)

text \<open>C18: Verification is sound: an accepted proof has not expired, its virtual node ID is the one
  derived from its anchor and index, and its signature is a 64-byte Ed25519 signature of its
  canonical text under the given key.\<close>

theorem vnode_proof_verify_sound:
  assumes "VerifyVNodeProof L K p pub skew t = Inr ()"
  shows "toUnix t \<le> wrap64 (vpExpiresAt p + duration_secs skew) \<and>
    vpVNodeID p = DeriveVNodeID L (vpAnchorID p) (vpIndex p) \<and>
    (\<exists>sig. base64_Decode (vpSignature p) = Some sig \<and> length sig = 64 \<and>
       ed_Verify K pub (buildProofCanonical p) sig)"
  using assms
  by (auto simp: VerifyVNodeProof_def Let_def ed25519_Verify_def split: if_splits option.splits sum.splits bool.splits)

lemma vnode_proof_verify_sound_witness:
  "vpVNodeID (SignVNodeProof demo_lib demo_ed ''anchor'' 1 ''key'' (60 * Second) (time_Unix 1000)) =
   DeriveVNodeID demo_lib ''anchor'' 1"
proof -
  let ?p = "SignVNodeProof demo_lib demo_ed ''anchor'' 1 ''key'' (60 * Second) (time_Unix 1000)"
  have "VerifyVNodeProof demo_lib demo_ed ?p (ed_Public demo_ed ''key'') 0 (time_Unix 1001) = Inr ()"
    using demo_ed_ok
    by (simp add: VerifyVNodeProof_def SignVNodeProof_def Let_def base64_roundtrip ed25519_Verify_def
        ed25519_ok_def buildProofCanonical_def toUnix_def time_Unix_def unixToInternal_def duration_secs_demo_ns wrap64_id Second_def)
  from vnode_proof_verify_sound [OF this] show ?thesis
    by (simp add: SignVNodeProof_def Let_def)
qed

text \<open>C19: The canonical text determines what is signed: two proofs whose IDs contain no line feed (as
  valid node IDs never do) have the same canonical text only if they agree on the virtual node, the
  anchor, the index and both times. A signature can not be moved to another statement.\<close>

theorem vnode_proof_canonical_injective:
  assumes "buildProofCanonical p = buildProofCanonical q"
    and "no_newline (vpVNodeID p)" "no_newline (vpAnchorID p)"
    and "no_newline (vpVNodeID q)" "no_newline (vpAnchorID q)"
  shows "vpVNodeID p = vpVNodeID q \<and> vpAnchorID p = vpAnchorID q \<and> vpIndex p = vpIndex q \<and>
    vpIssuedAt p = vpIssuedAt q \<and> vpExpiresAt p = vpExpiresAt q"
proof -
  have 1: "vpVNodeID p = vpVNodeID q" and
    2: "vpAnchorID p @ newline @ itoa (vpIndex p) @ newline @ itoa (vpIssuedAt p) @ newline @ itoa (vpExpiresAt p) =
      vpAnchorID q @ newline @ itoa (vpIndex q) @ newline @ itoa (vpIssuedAt q) @ newline @ itoa (vpExpiresAt q)"
    using assms by (auto simp: buildProofCanonical_def dest: line_split)
  from line_split [OF 2 assms(3,5)] show ?thesis
    using 1 by (auto dest!: line_split simp: itoa_inj)
qed

lemma vnode_proof_canonical_injective_witness:
  fixes p :: VNodeProof
  defines "p \<equiv> SignVNodeProof demo_lib demo_ed ''anchor'' 1 ''key'' (60 * Second) 0"
  shows "vpIndex p = vpIndex (p\<lparr>vpSignature := []\<rparr>)"
proof -
  have "no_newline (vpVNodeID p)" "no_newline (vpAnchorID p)"
    using DeriveVNodeID_valid [OF demo_lib_ok(1), of "''anchor''" 1]
    by (auto simp: p_def SignVNodeProof_def Let_def ValidateID_no_newline) (simp add: no_newline_def newline_def)
  then show ?thesis
    using vnode_proof_canonical_injective [of p "p\<lparr>vpSignature := []\<rparr>"] by simp
qed

end
