(* ===== verification/NodeState.thy ===== *)
theory NodeState
  imports Types RoutingCache RttCache VNodeProofs
begin

text \<open>
  A Chord node (\<open>internal/chord/node.go\<close>): its configuration, its state, construction, snapshots and
  the small critical sections the other theories build on.

  Pointers to functions (\<open>OnCRLRefresh\<close>, \<open>CurrentCRLVersion\<close>, the vnode provider) and interfaces
  (\<open>client\<close>, \<open>tracker\<close>) are recorded as present or absent; the calls go to the environment \<open>env\<close>.
  The timeouts handed to the HTTP client and the options no code reads are left out. A cache passed
  in \<open>SharedRTTCache\<close> or \<open>SharedRoutingCache\<close> is a value here: what the sharing nodes do to it appears
  as steps of the environment (\<open>shared_rtt\<close> and \<open>shared_routes\<close> in \<open>NodeSteps\<close>).
\<close>

section \<open>Configuration\<close>

record Options =
  o_SuccessorListSize :: int
  o_MaintenanceInterval :: duration
  o_MaxHops :: int
  o_SuspiciousThreshold :: int
  o_FailedThreshold :: int
  o_TrackerSeedCount :: int
  o_PingLivenessTimeout :: duration
  o_StabilizeAtomicState :: bool
  o_ValidateAfterStabilize :: bool
  o_RectifyEndpointAlias :: bool
  o_InvariantAuditInterval :: duration
  o_StableBaseMinSize :: int
  o_StableBaseMembers :: "string list"
  o_NodeCertificate :: string
  o_NodeCertExpiresAt :: "int option"
  o_OnCRLRefresh :: bool
  o_CurrentCRLVersion :: bool
  o_TrackerHeartbeatActiveInterval :: duration
  o_TrackerHeartbeatQuietInterval :: duration
  o_TrackerCRLInterval :: duration
  o_VNodeIndex :: int
  o_AnchorID :: string
  o_VNodeProofPtr :: "VNodeProof option"
  o_MaxVNodes :: int
  o_VNodeMaintenanceJitter :: duration
  o_SuccessorListSiblingCap :: f64
  o_SharedRTTCache :: "RTTCache option"
  o_SharedRoutingCache :: "RoutingCache option"
  o_VNodeEntries :: "VNodeEntry list"
  o_Region :: string
  o_PredecessorListSize :: int
  o_FixFingersBatchSizeActive :: int
  o_FixFingersBatchSizeQuiet :: int
  o_RoutingCacheEnabled :: bool
  o_RoutingCacheSize :: int
  o_RoutingCacheTTL :: duration
  o_LatencyWeightID :: f64
  o_LatencyWeightRTT :: f64
  o_LatencyWeightRegion :: f64
  o_ParallelLookupEnabled :: bool
  o_ParallelLookupCandidates :: int
  o_LatencyProbeIntervalActive :: duration
  o_LatencyProbeIntervalQuiet :: duration
  o_RTTEWMAAlpha :: f64
  o_RTTSampleExpiry :: duration
  o_PiggybackEnabled :: bool
  o_StabilizeDebounceThreshold :: int
  o_TopologyChangeWindow :: duration
  o_StabilizeActiveInterval :: duration
  o_StabilizeQuietInterval :: duration
  o_FixFingersActiveInterval :: duration
  o_FixFingersQuietInterval :: duration
  o_CheckPredecessorActiveInterval :: duration
  o_CheckPredecessorQuietInterval :: duration

definition DefaultOptions :: Options where
  "DefaultOptions =
     \<lparr>o_SuccessorListSize = DefaultSuccessorListSize,
      o_MaintenanceInterval = DefaultMaintenanceInterval, o_MaxHops = DefaultMaxHops,
      o_SuspiciousThreshold = DefaultSuspiciousThreshold,
      o_FailedThreshold = DefaultFailedThreshold, o_TrackerSeedCount = DefaultTrackerSeedCount,
      o_PingLivenessTimeout = DefaultPingLivenessTimeout, o_StabilizeAtomicState = True,
      o_ValidateAfterStabilize = True, o_RectifyEndpointAlias = True,
      o_InvariantAuditInterval = DefaultInvariantAuditInterval, o_StableBaseMinSize = 0,
      o_StableBaseMembers = [], o_NodeCertificate = [], o_NodeCertExpiresAt = None,
      o_OnCRLRefresh = False, o_CurrentCRLVersion = False,
      o_TrackerHeartbeatActiveInterval = DefaultTrackerHeartbeatActiveInterval,
      o_TrackerHeartbeatQuietInterval = DefaultTrackerHeartbeatQuietInterval,
      o_TrackerCRLInterval = DefaultTrackerCRLInterval, o_VNodeIndex = 0, o_AnchorID = [],
      o_VNodeProofPtr = None, o_MaxVNodes = 0, o_VNodeMaintenanceJitter = 0,
      o_SuccessorListSiblingCap = 0, o_SharedRTTCache = None, o_SharedRoutingCache = None,
      o_VNodeEntries = [], o_Region = [], o_PredecessorListSize = DefaultPredecessorListSize,
      o_FixFingersBatchSizeActive = DefaultFixFingersBatchSizeActive,
      o_FixFingersBatchSizeQuiet = DefaultFixFingersBatchSizeQuiet, o_RoutingCacheEnabled = True,
      o_RoutingCacheSize = DefaultRoutingCacheSize, o_RoutingCacheTTL = DefaultRoutingCacheTTL,
      o_LatencyWeightID = f64_round (6 / 10), o_LatencyWeightRTT = f64_round (3 / 10),
      o_LatencyWeightRegion = f64_round (1 / 10), o_ParallelLookupEnabled = False,
      o_ParallelLookupCandidates = 3,
      o_LatencyProbeIntervalActive = DefaultLatencyProbeActiveInterval,
      o_LatencyProbeIntervalQuiet = DefaultLatencyProbeQuietInterval,
      o_RTTEWMAAlpha = DefaultRTTEWMAAlpha, o_RTTSampleExpiry = DefaultRTTSampleExpiry,
      o_PiggybackEnabled = True, o_StabilizeDebounceThreshold = DefaultStabilizeDebounceThreshold,
      o_TopologyChangeWindow = DefaultTopologyChangeWindow,
      o_StabilizeActiveInterval = DefaultStabilizeActiveInterval,
      o_StabilizeQuietInterval = DefaultStabilizeQuietInterval,
      o_FixFingersActiveInterval = DefaultFixFingersActiveInterval,
      o_FixFingersQuietInterval = DefaultFixFingersQuietInterval,
      o_CheckPredecessorActiveInterval = DefaultCheckPredecessorActiveInterval,
      o_CheckPredecessorQuietInterval = DefaultCheckPredecessorQuietInterval\<rparr>"

section \<open>State\<close>

record Node =
  n_self :: NodeInfo
  n_predecessor :: "NodeInfo option"
  n_predecessorList :: "NodeInfo list"
  n_successor :: NodeInfo
  n_successorList :: "NodeInfo list"
  n_successorListValid :: bool
  n_lastInvariantCheck :: "gotime option"
  n_fingers :: "FingerEntry list"
  n_status :: Status
  n_joinedAt :: gotime
  n_startedAt :: gotime
  n_lastMaintenanceAt :: "gotime option"
  n_nextFingerIndex :: int
  n_maintenanceCycles :: nat
  n_client :: bool
  n_tracker :: bool
  n_options :: Options
  n_failures :: "string \<rightharpoonup> int"
  n_bootstrapSeeds :: "NodeInfo list"
  n_region :: string
  n_maintenanceMode :: MaintenanceMode
  n_lastChangeTime :: gotime
  n_stabilizeDebounceCount :: int
  n_topologyChangeCh :: bool
  n_rttCache :: RTTCache
  n_routingCache :: "RoutingCache option"
  n_lastTrackerHeartbeatAt :: gotime
  n_lastCRLRefreshAt :: gotime
  n_vnodeProvider :: bool

text \<open>
  The environment: the libraries, the clock, the order of map iterations, then what is behind the
  \<open>PeerClient\<close> and \<open>TrackerClient\<close> interfaces and the callbacks. A call may change the world: it is a
  function of the world that returns Go's results and the new world. The part without the interfaces,
  \<open>benv\<close>, is all a request handler needs that calls no one.
\<close>

record 'w benv =
  e_lib :: golib
  e_now :: "'w \<Rightarrow> gotime"
  e_orc :: "'w \<Rightarrow> string list"

record 'w env = "'w benv" +
  pc_Ping :: "string \<Rightarrow> 'w \<Rightarrow> (goerror + unit) \<times> 'w"
  pc_PingLiveness :: "string \<Rightarrow> 'w \<Rightarrow> (goerror + unit) \<times> 'w"
  pc_PingWithLatency :: "string \<Rightarrow> 'w \<Rightarrow> (goerror + int) \<times> 'w"
  pc_FindSuccessor :: "NodeInfo \<Rightarrow> FindSuccessorRequest \<Rightarrow> 'w \<Rightarrow> (goerror + FindSuccessorResponse) \<times> 'w"
  pc_Join :: "string \<Rightarrow> JoinRequest \<Rightarrow> 'w \<Rightarrow> (goerror + JoinResponse) \<times> 'w"
  pc_Notify :: "NodeInfo \<Rightarrow> NotifyRequest \<Rightarrow> 'w \<Rightarrow> (goerror + NotifyResponse) \<times> 'w"
  pc_Rectify :: "NodeInfo \<Rightarrow> RectifyRequest \<Rightarrow> 'w \<Rightarrow> (goerror + RectifyResponse) \<times> 'w"
  pc_State :: "NodeInfo \<Rightarrow> 'w \<Rightarrow> (goerror + StateResponse) \<times> 'w"
  pc_Predecessor :: "NodeInfo \<Rightarrow> 'w \<Rightarrow> (goerror + PredecessorResponse) \<times> 'w"
  pc_SuccessorList :: "NodeInfo \<Rightarrow> 'w \<Rightarrow> (goerror + SuccessorListResponse) \<times> 'w"
  pc_Leave :: "NodeInfo \<Rightarrow> LeaveRequest \<Rightarrow> 'w \<Rightarrow> (goerror + unit) \<times> 'w"
  tr_Seeds :: "int \<Rightarrow> string list \<Rightarrow> 'w \<Rightarrow> (goerror + NodeInfo list) \<times> 'w"
  tr_Register :: "NodeInfo \<Rightarrow> 'w \<Rightarrow> (goerror + string) \<times> 'w"
  tr_Deregister :: "string \<Rightarrow> 'w \<Rightarrow> (goerror + unit) \<times> 'w"
  tr_Heartbeat :: "string \<Rightarrow> TrackerHeartbeat \<Rightarrow> 'w \<Rightarrow> (goerror + TrackerHeartbeatResult option) \<times> 'w"
  tr_FetchCRL :: "'w \<Rightarrow> (goerror + string) \<times> 'w"
  cb_OnCRLRefresh :: "string \<Rightarrow> 'w \<Rightarrow> unit \<times> 'w"
  cb_CurrentCRLVersion :: "'w \<Rightarrow> int \<times> 'w"
  cb_vnodes :: "'w \<Rightarrow> Node option list"
  e_Sleep :: "duration \<Rightarrow> 'w \<Rightarrow> unit \<times> 'w"

text \<open>The goroutines a node starts outside its maintenance loops.\<close>

datatype task = FetchPredecessorOf NodeInfo | WarmUpFingerTable

type_synonym ('w, 'a) nact = "(Node, 'w, task, 'a) act"

definition now :: "('w, 'z) benv_scheme \<Rightarrow> ('w, gotime) nact" where
  "now E = observe (e_now E)"

section \<open>Validation and construction\<close>

definition NewNodeInfoFromURI :: "golib \<Rightarrow> string \<Rightarrow> goerror + NodeInfo" where
  "NewNodeInfoFromURI L uri =
     (case NormalizeURI L uri of
        Inl e \<Rightarrow> Inl e
      | Inr normalized \<Rightarrow>
          (case HashURI L normalized of
             Inl e \<Rightarrow> Inl e
           | Inr i \<Rightarrow> Inr (emptyNodeInfo\<lparr>NodeID := i, URI := normalized\<rparr>)))"

definition ValidateNodeInfo :: "golib \<Rightarrow> NodeInfo \<Rightarrow> goerror + unit" where
  "ValidateNodeInfo L node =
     (if \<not> ValidateID (NodeID node)
      then Inl (GoError ''node_id must be 40 lowercase hex characters'')
      else case NormalizeURI L (URI node) of
             Inl e \<Rightarrow> Inl e
           | Inr normalized \<Rightarrow>
               if normalized \<noteq> URI node then Inl (GoError ''uri must be normalized'')
               else if AnchorID node \<noteq> [] then Inr ()
               else case HashURI L (URI node) of
                      Inl e \<Rightarrow> Inl e
                    | Inr expected \<Rightarrow>
                        if expected \<noteq> NodeID node
                        then Inl (GoError ''node_id does not match sha1(uri)'') else Inr ())"

text \<open>A loop that stops at the first error.\<close>

fun collect :: "(goerror + 'a) list \<Rightarrow> goerror + 'a list" where
  "collect [] = Inr []"
| "collect (Inl e # r) = Inl e"
| "collect (Inr x # r) = (case collect r of Inl e \<Rightarrow> Inl e | Inr xs \<Rightarrow> Inr (x # xs))"

definition defaulted :: "int \<Rightarrow> int \<Rightarrow> int" where
  "defaulted v d = (if v \<le> 0 then d else v)"

definition NewNode_options :: "Options \<Rightarrow> Options" where
  "NewNode_options opts =
     (let o1 = opts\<lparr>
            o_SuccessorListSize := defaulted (o_SuccessorListSize opts) DefaultSuccessorListSize,
            o_MaintenanceInterval := defaulted (o_MaintenanceInterval opts) DefaultMaintenanceInterval,
            o_MaxHops := defaulted (o_MaxHops opts) DefaultMaxHops,
            o_TrackerSeedCount := defaulted (o_TrackerSeedCount opts) DefaultTrackerSeedCount,
            o_PingLivenessTimeout := defaulted (o_PingLivenessTimeout opts) DefaultPingLivenessTimeout,
            o_TrackerHeartbeatActiveInterval :=
              defaulted (o_TrackerHeartbeatActiveInterval opts) DefaultTrackerHeartbeatActiveInterval,
            o_TrackerHeartbeatQuietInterval :=
              defaulted (o_TrackerHeartbeatQuietInterval opts) DefaultTrackerHeartbeatQuietInterval,
            o_TrackerCRLInterval := defaulted (o_TrackerCRLInterval opts) DefaultTrackerCRLInterval\<rparr>
      in o1\<lparr>o_StableBaseMinSize := defaulted (o_StableBaseMinSize o1) (o_SuccessorListSize o1 + 1)\<rparr>)"

definition NewNode_fingers :: "NodeInfo \<Rightarrow> goerror + FingerEntry list" where
  "NewNode_fingers self =
     collect (map (\<lambda>i. case FingerStart (NodeID self) (int i) of
                         Inl e \<Rightarrow> Inl e
                       | Inr start \<Rightarrow>
                           Inr \<lparr>feIndex = int i, feStart = start, feNode = Core self, feStatus = FingerUnknown,
                                feValid = False, feLastVerified = 0\<rparr>) [0 ..< DefaultM])"

definition NewNode ::
  "golib \<Rightarrow> string \<Rightarrow> Options \<Rightarrow> bool \<Rightarrow> bool \<Rightarrow> gotime \<Rightarrow> goerror + Node" where
  "NewNode L uri opts client tracker t =
     (case (if o_AnchorID opts \<noteq> [] \<and> o_VNodeIndex opts > 0
            then (case NormalizeURI L uri of
                    Inl e \<Rightarrow> Inl e
                  | Inr normalized \<Rightarrow>
                      Inr (emptyNodeInfo\<lparr>NodeID := DeriveVNodeID L (o_AnchorID opts) (o_VNodeIndex opts),
                                         URI := normalized\<rparr>))
            else NewNodeInfoFromURI L uri) of
        Inl e \<Rightarrow> Inl e
      | Inr self \<Rightarrow>
          (let opts = NewNode_options opts
           in case NewNode_fingers self of
                Inl e \<Rightarrow> Inl e
              | Inr fingers \<Rightarrow>
                  if o_PredecessorListSize opts < 0
                  then Inl (GoPanic ''makeslice: cap out of range'')
                  else
                    Inr \<lparr>n_self = self\<lparr>Region := o_Region opts\<rparr>,
                         n_predecessor = None, n_predecessorList = [],
                         n_successor = Core self, n_successorList = [Core self],
                         n_successorListValid = True, n_lastInvariantCheck = None,
                         n_fingers = fingers, n_status = StatusInitializing,
                         n_joinedAt = 0, n_startedAt = t, n_lastMaintenanceAt = None,
                         n_nextFingerIndex = 0, n_maintenanceCycles = 0,
                         n_client = client, n_tracker = tracker, n_options = opts,
                         n_failures = Map.empty, n_bootstrapSeeds = [],
                         n_region = o_Region opts, n_maintenanceMode = QuietMaintenance,
                         n_lastChangeTime = 0, n_stabilizeDebounceCount = 0,
                         n_topologyChangeCh = False,
                         n_rttCache = (case o_SharedRTTCache opts of
                             Some c \<Rightarrow> c
                           | None \<Rightarrow> NewRTTCache (o_RTTEWMAAlpha opts) (o_RTTSampleExpiry opts)),
                         n_routingCache = (case o_SharedRoutingCache opts of
                             Some c \<Rightarrow> Some c
                           | None \<Rightarrow>
                               if o_RoutingCacheEnabled opts
                               then Some (NewRoutingCache (o_RoutingCacheSize opts) (o_RoutingCacheTTL opts))
                               else None),
                         n_lastTrackerHeartbeatAt = 0, n_lastCRLRefreshAt = 0,
                         n_vnodeProvider = False\<rparr>))"

end
