(* ===== verification/NodeOps.thy ===== *)
theory NodeOps
  imports NodeState "HOL-Library.Sublist"
begin

text \<open>
  The methods of a node that only read it or change it inside one critical section: snapshots and
  reports (\<open>node.go\<close>), the merge of successor lists (\<open>protocol.go\<close>), the ring invariant check, the
  failure counters and the repair order of the fingers (\<open>maintenance.go\<close>). A method that reads under
  the lock is a function of the node, one that writes is a function on nodes; the methods that call
  peers or the tracker are composed of these in later theories.
\<close>

section \<open>Snapshots\<close>

definition IsVNode :: "Node \<Rightarrow> bool" where
  "IsVNode n \<longleftrightarrow> o_VNodeIndex (n_options n) > 0 \<and> o_AnchorID (n_options n) \<noteq> []"

definition identityLocked :: "Node \<Rightarrow> NodeInfo" where
  "identityLocked n =
     (let info = (n_self n)\<lparr>niStatus := n_status n, JoinedAt := n_joinedAt n\<rparr>
      in if o_AnchorID (n_options n) \<noteq> []
         then info\<lparr>AnchorID := o_AnchorID (n_options n), niVNodeProof := o_VNodeProofPtr (n_options n)\<rparr>
         else info)"

definition Self :: "('w, NodeInfo) nact" where
  "Self = asks identityLocked"

definition VNodeInfo :: "Node \<Rightarrow> VNodeInfoResponse" where
  "VNodeInfo n =
     \<lparr>viVNodeID = NodeID (n_self n), viAnchorID = o_AnchorID (n_options n),
      viIndex = o_VNodeIndex (n_options n), viProof = o_VNodeProofPtr (n_options n),
      viAnchorURI = URI (n_self n)\<rparr>"

definition isStableBaseMemberLocked :: "Node \<Rightarrow> bool" where
  "isStableBaseMemberLocked n =
     (if o_AnchorID (n_options n) \<noteq> [] \<and> o_VNodeIndex (n_options n) > 0 then False
      else URI (n_self n) \<in> set (o_StableBaseMembers (n_options n)))"

definition StateOf :: "gotime \<Rightarrow> Node \<Rightarrow> StateResponse" where
  "StateOf t n =
     \<lparr>stNodeID = NodeID (n_self n), stURI = URI (n_self n), stStatus = n_status n,
      stPredecessor = n_predecessor n, stPredecessorList = n_predecessorList n,
      stSuccessor = n_successor n, stSuccessorList = n_successorList n,
      stFingerTable = n_fingers n, stLastMaintenanceAt = n_lastMaintenanceAt n,
      stNextFingerIndex = n_nextFingerIndex n, stMaintenanceMode = Some (n_maintenanceMode n),
      stRegion = n_region n, stSuccessorListValid = n_successorListValid n,
      stLastInvariantCheck = n_lastInvariantCheck n,
      stIsStableBaseMember = isStableBaseMemberLocked n, stSnapshotTimestamp = t\<rparr>"

definition FingerTable :: "Node \<Rightarrow> FingerTableResponse" where
  "FingerTable n =
     \<lparr>ftNodeID = NodeID (n_self n), ftFingerTable = n_fingers n, ftNextRepairIndex = n_nextFingerIndex n\<rparr>"

definition PingOf :: "gotime \<Rightarrow> Node \<Rightarrow> PingResponse" where
  "PingOf t n = \<lparr>pgNodeID = NodeID (n_self n), pgStatus = n_status n, pgTimestamp = t\<rparr>"

definition PredecessorOf :: "Node \<Rightarrow> PredecessorResponse" where
  "PredecessorOf n = \<lparr>prPredecessor = n_predecessor n, prPredecessorList = n_predecessorList n\<rparr>"

definition SuccessorListOf :: "Node \<Rightarrow> SuccessorListResponse" where
  "SuccessorListOf n = \<lparr>slSuccessorList = n_successorList n\<rparr>"

definition RTTData :: "gotime \<Rightarrow> Node \<Rightarrow> RTTResponse" where
  "RTTData t n = \<lparr>rtSamples = RTTCache_Snapshot t (n_rttCache n), rtRegion = n_region n\<rparr>"

definition NodeStatusInfo :: "Node \<Rightarrow> NodeStatusResponse" where
  "NodeStatusInfo n =
     (let (h, m, s) = (case n_routingCache n of Some c \<Rightarrow> RoutingCache_Stats c | None \<Rightarrow> (0, 0, 0))
      in \<lparr>nsMaintenanceMode = n_maintenanceMode n, nsLastChangeTime = n_lastChangeTime n,
          nsCacheHits = h, nsCacheMisses = m, nsCacheSize = s, nsRegion = n_region n\<rparr>)"

definition buildPiggyback :: "gotime \<Rightarrow> Node \<Rightarrow> PiggybackData option" where
  "buildPiggyback t n =
     (if \<not> o_PiggybackEnabled (n_options n) then None
      else Some \<lparr>SenderSuccessorList = map NodeID (n_successorList n), SenderRegion = n_region n,
                 SenderRTTHints = RTTCache_Snapshot t (n_rttCache n)\<rparr>)"

section \<open>The successor list invariant\<close>

text \<open>The three loops of \<open>successorListViolations\<close>.\<close>

fun dup_violations :: "int \<Rightarrow> string list \<Rightarrow> NodeInfo list \<Rightarrow> string list" where
  "dup_violations i seen [] = []"
| "dup_violations i seen (node # r) =
     (if NodeID node = []
      then (''successor_list['' @ itoa i @ ''] has empty node_id'') # dup_violations (i + 1) seen r
      else (if NodeID node \<in> set seen
            then [''successor_list['' @ itoa i @ ''] duplicates node_id='' @ NodeID node] else []) @
           dup_violations (i + 1) (NodeID node # seen) r)"

fun order_violations :: "string \<Rightarrow> int \<Rightarrow> NodeInfo list \<Rightarrow> string list" where
  "order_violations selfID i (a # b # r) =
     (if NodeID a = selfID \<or> NodeID b = selfID \<or> InRangeOpenOpen (NodeID b) (NodeID a) selfID then []
      else [''successor_list order violation at '' @ itoa i @ '': '' @ NodeID a @ '' -> '' @ NodeID b]) @
     order_violations selfID (i + 1) (b # r)"
| "order_violations selfID i _ = []"

definition successorListViolations :: "string \<Rightarrow> string \<Rightarrow> NodeInfo list \<Rightarrow> string list" where
  "successorListViolations selfID successorID l =
     (case l of
        [] \<Rightarrow> [''successor_list is empty'']
      | a # _ \<Rightarrow>
          (if successorID \<noteq> [] \<and> NodeID a \<noteq> successorID
           then [''successor_list[0]='' @ NodeID a @ '' does not match successor='' @ successorID] else []) @
          dup_violations 0 [] l @ order_violations selfID 0 l)"

definition InvariantReport :: "gotime \<Rightarrow> Node \<Rightarrow> InvariantReportResponse" where
  "InvariantReport t n =
     (let violations = successorListViolations (NodeID (n_self n)) (NodeID (n_successor n)) (n_successorList n)
      in \<lparr>irNodeID = NodeID (n_self n), irStatus = n_status n, irSuccessor = n_successor n,
          irSuccessorList = n_successorList n,
          irSuccessorListValid = (n_successorListValid n \<and> violations = []),
          irLastInvariantCheck = n_lastInvariantCheck n, irViolations = violations,
          irSnapshotTimestamp = t\<rparr>)"

section \<open>Critical sections\<close>

definition SetVNodeEntries :: "VNodeEntry list \<Rightarrow> Node \<Rightarrow> Node" where
  "SetVNodeEntries es n = n\<lparr>n_options := (n_options n)\<lparr>o_VNodeEntries := es\<rparr>\<rparr>"

definition SetVNodeProvider :: "bool \<Rightarrow> Node \<Rightarrow> Node" where
  "SetVNodeProvider p n = n\<lparr>n_vnodeProvider := p\<rparr>"

definition switchMode :: "MaintenanceMode \<Rightarrow> Node \<Rightarrow> Node" where
  "switchMode mode n = n\<lparr>n_maintenanceMode := mode\<rparr>"

text \<open>The send on the one-place channel, dropped when it is full, and the cache invalidation.\<close>

definition signalTopologyChange :: "Node \<Rightarrow> Node" where
  "signalTopologyChange n = n\<lparr>n_topologyChangeCh := True\<rparr>"

definition invalidateRoutes :: "Node \<Rightarrow> Node" where
  "invalidateRoutes n =
     (case n_routingCache n of
        None \<Rightarrow> n
      | Some c \<Rightarrow> n\<lparr>n_routingCache := Some (RoutingCache_InvalidateAll c)\<rparr>)"

definition emitTopologyChange :: "('w, unit) nact" where
  "emitTopologyChange =
     State_Monad.bind (modify signalTopologyChange) (\<lambda>_. modify invalidateRoutes)"

definition activateSingle :: "gotime \<Rightarrow> Node \<Rightarrow> Node" where
  "activateSingle t n =
     n\<lparr>n_joinedAt := t, n_status := StatusActive, n_predecessor := None,
       n_successor := Core (n_self n), n_successorList := [Core (n_self n)],
       n_successorListValid := True, n_lastInvariantCheck := Some t,
       n_fingers := map (\<lambda>f. f\<lparr>feNode := Core (n_self n), feStatus := FingerOK\<rparr>) (n_fingers n)\<rparr>"

definition ActivateSingleNode :: "('w, 'z) benv_scheme \<Rightarrow> ('w, unit) nact" where
  "ActivateSingleNode E = State_Monad.bind (now E) (\<lambda>t. modify (activateSingle t))"

definition setBootstrapSeeds :: "NodeInfo list \<Rightarrow> Node \<Rightarrow> Node" where
  "setBootstrapSeeds seeds n = n\<lparr>n_bootstrapSeeds := seeds\<rparr>"

definition shouldRetryBootstrapLocked :: "Node \<Rightarrow> bool" where
  "shouldRetryBootstrapLocked n =
     (if \<not> n_client n \<or> n_status n \<noteq> StatusActive then False
      else if n_predecessor n \<noteq> None \<or> NodeID (n_successor n) \<noteq> NodeID (n_self n) then False
      else n_tracker n \<or> n_bootstrapSeeds n \<noteq> [])"

fun dedupe_loop :: "string \<Rightarrow> string list \<Rightarrow> NodeInfo list \<Rightarrow> NodeInfo list" where
  "dedupe_loop excludeID seen [] = []"
| "dedupe_loop excludeID seen (node # r) =
     (if NodeID node = [] \<or> NodeID node = excludeID \<or> NodeID node \<in> set seen
      then dedupe_loop excludeID seen r
      else Core node # dedupe_loop excludeID (NodeID node # seen) r)"

definition dedupeNodes :: "NodeInfo list \<Rightarrow> string \<Rightarrow> NodeInfo list" where
  "dedupeNodes nodes excludeID = dedupe_loop excludeID [] nodes"

section \<open>Merging successor lists\<close>

fun merge_loop ::
  "int \<Rightarrow> int \<Rightarrow> string list \<Rightarrow> (string \<Rightarrow> int) \<Rightarrow> NodeInfo list \<Rightarrow> NodeInfo list \<Rightarrow> NodeInfo list" where
  "merge_loop limit maxFromAnchor seen anchorCount out [] = out"
| "merge_loop limit maxFromAnchor seen anchorCount out (c # r) =
     (if NodeID c = [] \<or> NodeID c \<in> set seen
      then merge_loop limit maxFromAnchor seen anchorCount out r
      else if AnchorID c \<noteq> [] \<and> anchorCount (AnchorID c) \<ge> maxFromAnchor
      then merge_loop limit maxFromAnchor seen anchorCount out r
      else
        let anchorCount' = (if AnchorID c \<noteq> []
                            then anchorCount(AnchorID c := anchorCount (AnchorID c) + 1) else anchorCount);
            out' = out @ [Core c]
        in if int (length out') = limit then out'
           else merge_loop limit maxFromAnchor (NodeID c # seen) anchorCount' out' r)"

definition successorLimit :: "Node \<Rightarrow> int" where
  "successorLimit n =
     (let limit = o_SuccessorListSize (n_options n)
      in if limit \<le> 0 then DefaultSuccessorListSize else limit)"

definition maxFromAnchor :: "Node \<Rightarrow> int" where
  "maxFromAnchor n =
     (let siblingCap = o_SuccessorListSiblingCap (n_options n);
          cap = (if siblingCap \<le> 0 then DefaultSuccessorListSiblingCap else siblingCap);
          m = int_of_f64 (fmul (f64_of_int (successorLimit n)) cap)
      in if m < 1 then 1 else m)"

definition mergeSuccessorListLocked :: "NodeInfo \<Rightarrow> NodeInfo list \<Rightarrow> Node \<Rightarrow> NodeInfo list" where
  "mergeSuccessorListLocked successor remote n =
     (let out = merge_loop (successorLimit n) (maxFromAnchor n) [NodeID (n_self n)] (\<lambda>_. 0) []
                  (Core successor # remote)
      in if out = [] then [Core (n_self n)] else out)"

section \<open>Failure counters\<close>

definition failuresOf :: "string \<Rightarrow> Node \<Rightarrow> int" where
  "failuresOf nodeID n = (case n_failures n nodeID of None \<Rightarrow> 0 | Some k \<Rightarrow> k)"

definition markFailure :: "string \<Rightarrow> Node \<Rightarrow> (int \<times> bool) \<times> Node" where
  "markFailure nodeID n =
     (let failures = failuresOf nodeID n + 1;
          n1 = n\<lparr>n_failures := (n_failures n)(nodeID \<mapsto> failures)\<rparr>
      in if failures \<ge> o_FailedThreshold (n_options n) \<and> o_FailedThreshold (n_options n) > 0
         then ((failures, True),
               n1\<lparr>n_fingers := map (\<lambda>f. if NodeID (feNode f) = nodeID
                      then f\<lparr>feNode := Core (n_self n), feStatus := FingerUnknown, feValid := False\<rparr>
                      else f) (n_fingers n),
                  n_successorList := filter (\<lambda>s. NodeID s \<noteq> nodeID) (n_successorList n)\<rparr>)
         else ((failures, False),
               n1\<lparr>n_fingers := map (\<lambda>f. if NodeID (feNode f) = nodeID
                      then f\<lparr>feStatus := FingerSuspicious, feValid := False\<rparr> else f) (n_fingers n)\<rparr>))"

definition markSuccess :: "string \<Rightarrow> Node \<Rightarrow> Node" where
  "markSuccess nodeID n =
     n\<lparr>n_failures := (n_failures n)(nodeID := None),
       n_fingers := map (\<lambda>f. if NodeID (feNode f) = nodeID then f\<lparr>feStatus := FingerOK\<rparr> else f)
         (n_fingers n)\<rparr>"

definition fingerCoverageLocked :: "Node \<Rightarrow> f64" where
  "fingerCoverageLocked n =
     (if n_fingers n = [] then 0
      else fdiv (f64_of_int (int (length (filter (\<lambda>f. feStatus f = FingerOK) (n_fingers n)))))
             (f64_of_int (int (length (n_fingers n)))))"

section \<open>Repair order of the fingers\<close>

definition prioritized :: "int list" where
  "prioritized = [159, 140, 120, 100, 80, 60, 40, 20, 10, 5, 2, 1]"

definition remaining :: "int list" where
  "remaining = filter (\<lambda>i. i \<notin> set prioritized) (map int [0 ..< DefaultM])"

definition exponentialJumpIndex :: "int \<Rightarrow> int" where
  "exponentialJumpIndex pos =
     (let pos = (if pos \<ge> int DefaultM then pos mod int DefaultM else pos);
          nPriority = int (length prioritized)
      in if pos < nPriority then prioritized ! nat pos
         else let idx = pos - nPriority
              in if idx < int (length remaining) then remaining ! nat idx else pos mod int DefaultM)"

definition nextKFingerIndices :: "int \<Rightarrow> Node \<Rightarrow> int list \<times> Node" where
  "nextKFingerIndices k n =
     (if k \<le> 0 then ([], n)
      else let start = n_nextFingerIndex n
           in (map (\<lambda>i. exponentialJumpIndex ((start + int i) mod int DefaultM)) [0 ..< nat k],
               n\<lparr>n_nextFingerIndex := (start + k) mod int DefaultM\<rparr>))"

text \<open>\<open>sampleFingers\<close>, for \<open>max\<close> between 1 and 160: every \<open>step\<close>-th finger.\<close>

fun sample_loop :: "nat \<Rightarrow> nat \<Rightarrow> FingerEntry list \<Rightarrow> string list \<Rightarrow> NodeInfo list \<Rightarrow> NodeInfo list" where
  "sample_loop m k [] seen out = out"
| "sample_loop m 0 (f # r) seen out = sample_loop m 0 r seen out"
| "sample_loop m (Suc k) (f # r) seen out =
     (if length out \<ge> m then out
      else let node = feNode f;
               rest = drop k r
           in if NodeID node \<noteq> [] \<and> NodeID node \<notin> set seen
              then sample_loop m (Suc k) rest (NodeID node # seen) (out @ [node])
              else sample_loop m (Suc k) rest seen out)"

definition sampleFingers :: "nat \<Rightarrow> Node \<Rightarrow> NodeInfo list" where
  "sampleFingers m n =
     (let step = max 1 (DefaultM div m) in sample_loop m step (n_fingers n) [NodeID (n_self n)] [])"

section \<open>Mode-dependent intervals\<close>

definition by_mode :: "(Options \<Rightarrow> int) \<Rightarrow> int \<Rightarrow> (Options \<Rightarrow> int) \<Rightarrow> int \<Rightarrow> Node \<Rightarrow> int" where
  "by_mode active dactive quiet dquiet n =
     (if n_maintenanceMode n = ActiveMaintenance
      then (if active (n_options n) > 0 then active (n_options n) else dactive)
      else if quiet (n_options n) > 0 then quiet (n_options n) else dquiet)"

definition getStabilizeInterval :: "Node \<Rightarrow> duration" where
  "getStabilizeInterval =
     by_mode o_StabilizeActiveInterval DefaultStabilizeActiveInterval
       o_StabilizeQuietInterval DefaultStabilizeQuietInterval"

definition getFixFingersInterval :: "Node \<Rightarrow> duration" where
  "getFixFingersInterval =
     by_mode o_FixFingersActiveInterval DefaultFixFingersActiveInterval
       o_FixFingersQuietInterval DefaultFixFingersQuietInterval"

definition getCheckPredecessorInterval :: "Node \<Rightarrow> duration" where
  "getCheckPredecessorInterval =
     by_mode o_CheckPredecessorActiveInterval DefaultCheckPredecessorActiveInterval
       o_CheckPredecessorQuietInterval DefaultCheckPredecessorQuietInterval"

definition getLatencyProbeInterval :: "Node \<Rightarrow> duration" where
  "getLatencyProbeInterval =
     by_mode o_LatencyProbeIntervalActive DefaultLatencyProbeActiveInterval
       o_LatencyProbeIntervalQuiet DefaultLatencyProbeQuietInterval"

definition getBatchSize :: "Node \<Rightarrow> int" where
  "getBatchSize =
     by_mode o_FixFingersBatchSizeActive DefaultFixFingersBatchSizeActive
       o_FixFingersBatchSizeQuiet DefaultFixFingersBatchSizeQuiet"

definition getTrackerHeartbeatInterval :: "Node \<Rightarrow> duration" where
  "getTrackerHeartbeatInterval =
     by_mode o_TrackerHeartbeatActiveInterval DefaultTrackerHeartbeatActiveInterval
       o_TrackerHeartbeatQuietInterval DefaultTrackerHeartbeatQuietInterval"

definition getTrackerCRLInterval :: "Node \<Rightarrow> duration" where
  "getTrackerCRLInterval n =
     (if o_TrackerCRLInterval (n_options n) > 0 then o_TrackerCRLInterval (n_options n)
      else DefaultTrackerCRLInterval)"

section \<open>Lemmas on merging\<close>

definition ids :: "NodeInfo list \<Rightarrow> string list" where
  "ids = map NodeID"

lemma ids_simps [simp]:
  "ids [] = []" "ids (x # xs) = NodeID x # ids xs" "ids (xs @ ys) = ids xs @ ids ys"
  "length (ids xs) = length xs" "set (ids xs) = NodeID ` set xs" "ids xs = [] \<longleftrightarrow> xs = []"
  by (simp_all add: ids_def)

lemma successorLimit_pos: "0 < successorLimit n"
  by (simp add: successorLimit_def DefaultSuccessorListSize_def Let_def)

lemma maxFromAnchor_pos: "1 \<le> maxFromAnchor n"
  by (simp add: maxFromAnchor_def Let_def)

text \<open>The three outcomes for a candidate: passed over, taken as the last one, taken.\<close>

definition eligible :: "int \<Rightarrow> string list \<Rightarrow> (string \<Rightarrow> int) \<Rightarrow> NodeInfo \<Rightarrow> bool" where
  "eligible mx seen ac c \<longleftrightarrow>
     NodeID c \<noteq> [] \<and> NodeID c \<notin> set seen \<and> (AnchorID c \<noteq> [] \<longrightarrow> ac (AnchorID c) < mx)"

definition counted :: "(string \<Rightarrow> int) \<Rightarrow> NodeInfo \<Rightarrow> string \<Rightarrow> int" where
  "counted ac c = (if AnchorID c \<noteq> [] then ac(AnchorID c := ac (AnchorID c) + 1) else ac)"

lemma merge_loop_step:
  "merge_loop lm mx seen ac out (c # r) =
     (if \<not> eligible mx seen ac c then merge_loop lm mx seen ac out r
      else if int (length out) + 1 = lm then out @ [Core c]
      else merge_loop lm mx (NodeID c # seen) (counted ac c) (out @ [Core c]) r)"
  by (auto simp: eligible_def counted_def Let_def)

declare merge_loop.simps(2) [simp del]

lemma merge_loop_extends: "\<exists>t. merge_loop lm mx seen ac out cs = out @ t"
proof (induction cs arbitrary: seen ac out)
  case (Cons c cs)
  then show ?case
    unfolding merge_loop_step by (metis append.assoc)
qed simp

lemma merge_loop_inv:
  assumes "int (length out) < lm" and "distinct (ids out)" and "set (ids out) \<subseteq> set seen"
    and "[] \<notin> set (ids out)" and "me \<in> set seen" and "me \<notin> set (ids out)"
    and "\<forall>x \<in> set out. Core x = x"
  shows "int (length (merge_loop lm mx seen ac out cs)) \<le> lm \<and>
    distinct (ids (merge_loop lm mx seen ac out cs)) \<and>
    [] \<notin> set (ids (merge_loop lm mx seen ac out cs)) \<and>
    me \<notin> set (ids (merge_loop lm mx seen ac out cs)) \<and>
    (\<forall>x \<in> set (merge_loop lm mx seen ac out cs). Core x = x) \<and>
    set (merge_loop lm mx seen ac out cs) \<subseteq> set out \<union> Core ` set cs"
  using assms
proof (induction cs arbitrary: seen ac out)
  case (Cons c cs)
  show ?case
  proof (cases "eligible mx seen ac c")
    case False
    then show ?thesis using Cons.IH [of out seen ac] Cons.prems by (auto simp: merge_loop_step)
  next
    case True
    then have c: "NodeID c \<noteq> []" "NodeID c \<notin> set (ids out)" "NodeID c \<noteq> me" "NodeID c \<notin> set seen"
      using Cons.prems by (auto simp: eligible_def)
    show ?thesis
    proof (cases "int (length out) + 1 = lm")
      case True
      then have "merge_loop lm mx seen ac out (c # cs) = out @ [Core c]"
        using \<open>eligible mx seen ac c\<close> by (simp add: merge_loop_step)
      then show ?thesis using True c Cons.prems by auto
    next
      case False
      then have eq: "merge_loop lm mx seen ac out (c # cs) =
          merge_loop lm mx (NodeID c # seen) (counted ac c) (out @ [Core c]) cs"
        using \<open>eligible mx seen ac c\<close> by (simp add: merge_loop_step)
      have P: "int (length (out @ [Core c])) < lm" "distinct (ids (out @ [Core c]))"
        "set (ids (out @ [Core c])) \<subseteq> set (NodeID c # seen)" "[] \<notin> set (ids (out @ [Core c]))"
        "me \<in> set (NodeID c # seen)" "me \<notin> set (ids (out @ [Core c]))" "\<forall>x \<in> set (out @ [Core c]). Core x = x"
        using Cons.prems c False by auto
      show ?thesis
        unfolding eq using Cons.IH [OF P, of "counted ac c"] by (simp add: subset_iff)
    qed
  qed
qed auto

text \<open>The result of the merge is an ordered selection from the candidates.\<close>

lemma merge_loop_subseq: "subseq (ids (merge_loop lm mx seen ac out cs)) (ids out @ ids cs)"
proof (induction cs arbitrary: seen ac out)
  case (Cons c cs)
  have skip: "subseq (ids out @ ids cs) (ids out @ ids (c # cs))"
    by (intro list_emb_append_mono) auto
  have stop: "subseq (ids (out @ [Core c])) (ids out @ ids (c # cs))"
    using list_emb_append_mono [of "(=)" "ids out" "ids out" "[NodeID c]" "NodeID c # ids cs"] by simp
  show ?case
    using subseq_order.trans [OF Cons.IH skip] Cons.IH [of "NodeID c # seen" "counted ac c" "out @ [Core c]"] stop
    by (auto simp: merge_loop_step)
qed simp

text \<open>At most \<open>mx\<close> entries of one anchor.\<close>

definition anchored :: "string \<Rightarrow> NodeInfo list \<Rightarrow> int" where
  "anchored a xs = int (length (filter (\<lambda>x. AnchorID x = a) xs))"

lemma merge_loop_anchors:
  assumes "\<And>a. a \<noteq> [] \<Longrightarrow> ac a = anchored a out \<and> anchored a out \<le> mx" and "a \<noteq> []"
  shows "anchored a (merge_loop lm mx seen ac out cs) \<le> mx"
  using assms(1)
proof (induction cs arbitrary: seen ac out)
  case (Cons c cs)
  show ?case
  proof (cases "eligible mx seen ac c")
    case False
    then show ?thesis using Cons by (auto simp: merge_loop_step)
  next
    case True
    have *: "counted ac c b = anchored b (out @ [Core c]) \<and> anchored b (out @ [Core c]) \<le> mx"
      if "b \<noteq> []" for b
      using that True Cons.prems [OF that] by (auto simp: anchored_def counted_def eligible_def)
    then show ?thesis
      using True Cons.IH [of "counted ac c" "out @ [Core c]"] * [OF assms(2)] by (simp add: merge_loop_step)
  qed
qed (use assms(2) in auto)

lemma mergeSuccessorListLocked_wf:
  fixes s :: NodeInfo and r :: "NodeInfo list"
  assumes "NodeID (n_self n) \<noteq> []"
  defines "out \<equiv> mergeSuccessorListLocked s r n"
  shows "out \<noteq> []" and "int (length out) \<le> successorLimit n" and "distinct (ids out)"
    and "[] \<notin> set (ids out)" and "NodeID (n_self n) \<in> set (ids out) \<Longrightarrow> out = [Core (n_self n)]"
    and "\<forall>x \<in> set out. Core x = x"
    and "set out \<subseteq> insert (Core (n_self n)) (insert (Core s) (Core ` set r))"
proof -
  let ?m = "merge_loop (successorLimit n) (maxFromAnchor n) [NodeID (n_self n)] (\<lambda>_. 0) [] (Core s # r)"
  have "int (length ?m) \<le> successorLimit n \<and> distinct (ids ?m) \<and> [] \<notin> set (ids ?m) \<and>
      NodeID (n_self n) \<notin> set (ids ?m) \<and> (\<forall>x \<in> set ?m. Core x = x) \<and>
      set ?m \<subseteq> set [] \<union> Core ` set (Core s # r)"
    by (rule merge_loop_inv) (auto simp: successorLimit_pos assms)
  then show "out \<noteq> []" "int (length out) \<le> successorLimit n" "distinct (ids out)" "[] \<notin> set (ids out)"
    "NodeID (n_self n) \<in> set (ids out) \<Longrightarrow> out = [Core (n_self n)]" "\<forall>x \<in> set out. Core x = x"
    "set out \<subseteq> insert (Core (n_self n)) (insert (Core s) (Core ` set r))"
    using successorLimit_pos [of n] assms(1) by (auto simp: out_def mergeSuccessorListLocked_def Let_def)
qed

lemma mergeSuccessorListLocked_head:
  assumes "NodeID s \<noteq> []" and "NodeID s \<noteq> NodeID (n_self n)"
  shows "\<exists>t. mergeSuccessorListLocked s r n = Core s # t"
proof -
  have "eligible (maxFromAnchor n) [NodeID (n_self n)] (\<lambda>_. 0) (Core s)"
    using assms maxFromAnchor_pos [of n] by (simp add: eligible_def)
  then have "\<exists>t. merge_loop (successorLimit n) (maxFromAnchor n) [NodeID (n_self n)] (\<lambda>_. 0) [] (Core s # r) = [Core s] @ t"
    using merge_loop_extends [of "successorLimit n" "maxFromAnchor n" _ _ "[Core s]" r]
    by (simp add: merge_loop_step)
  then show ?thesis by (auto simp: mergeSuccessorListLocked_def Let_def)
qed

text \<open>C4: Merging a remote successor list yields a well-formed one: between one and the configured
  number of entries, no ID twice and none empty, the node itself only as the sole entry of an
  otherwise empty list, the given successor first whenever it is a different node, the candidates in
  the order they came, and no anchor with more entries than its share.\<close>

theorem merge_successor_list:
  fixes s :: NodeInfo and r :: "NodeInfo list"
  assumes "NodeID (n_self n) \<noteq> []"
  defines "out \<equiv> mergeSuccessorListLocked s r n"
  shows "1 \<le> length out \<and> int (length out) \<le> successorLimit n \<and>
    distinct (ids out) \<and> [] \<notin> set (ids out) \<and>
    (NodeID (n_self n) \<in> set (ids out) \<longrightarrow> out = [Core (n_self n)]) \<and>
    (NodeID s \<noteq> [] \<longrightarrow> NodeID s \<noteq> NodeID (n_self n) \<longrightarrow> hd out = Core s) \<and>
    (out = [Core (n_self n)] \<or> subseq (ids out) (NodeID s # ids r)) \<and>
    (\<forall>a. a \<noteq> [] \<longrightarrow> out \<noteq> [Core (n_self n)] \<longrightarrow> anchored a out \<le> maxFromAnchor n)"
proof (intro conjI impI allI)
  show "1 \<le> length out" "int (length out) \<le> successorLimit n" "distinct (ids out)" "[] \<notin> set (ids out)"
    using mergeSuccessorListLocked_wf [OF assms(1), of s r]
    by (auto simp: out_def Suc_le_eq)
  show "out = [Core (n_self n)]" if "NodeID (n_self n) \<in> set (ids out)"
    using mergeSuccessorListLocked_wf(5) [OF assms(1)] that by (simp add: out_def)
  show "hd out = Core s" if "NodeID s \<noteq> []" "NodeID s \<noteq> NodeID (n_self n)"
    using mergeSuccessorListLocked_head [OF that, of r] by (auto simp: out_def)
  let ?m = "merge_loop (successorLimit n) (maxFromAnchor n) [NodeID (n_self n)] (\<lambda>_. 0) [] (Core s # r)"
  have out: "out = ?m \<or> out = [Core (n_self n)]"
    by (simp add: out_def mergeSuccessorListLocked_def Let_def)
  then show "out = [Core (n_self n)] \<or> subseq (ids out) (NodeID s # ids r)"
    using merge_loop_subseq [of _ _ _ _ "[]" "Core s # r"] by auto
  show "anchored a out \<le> maxFromAnchor n" if "a \<noteq> []" "out \<noteq> [Core (n_self n)]" for a
    using out that merge_loop_anchors [of "\<lambda>_. 0" "[]" "maxFromAnchor n" a] maxFromAnchor_pos [of n]
    by (auto simp: anchored_def)
qed

section \<open>Lemmas on the repair order\<close>

lemma length_prioritized: "length prioritized = 12"
  by (simp add: prioritized_def)

lemma remaining_code: "length remaining = 148" "distinct (prioritized @ remaining)"
  "set (prioritized @ remaining) = int ` {0 ..< 160}"
proof -
  show "length remaining = 148" by code_simp
  show "distinct (prioritized @ remaining)"
    by (auto simp: remaining_def distinct_map) (simp add: prioritized_def)
  have "set prioritized \<subseteq> int ` {0 ..< 160}" by code_simp
  then show "set (prioritized @ remaining) = int ` {0 ..< 160}"
    by (auto simp: remaining_def DefaultM_def)
qed

lemma exponentialJumpIndex_nth:
  "p < 160 \<Longrightarrow> exponentialJumpIndex (int p) = (prioritized @ remaining) ! p"
  by (auto simp: exponentialJumpIndex_def DefaultM_def Let_def remaining_code nth_append
      length_prioritized nat_diff_distrib' of_nat_diff)

lemma exponentialJumpIndex_map: "map (\<lambda>i. exponentialJumpIndex (int i)) [0 ..< 160] = prioritized @ remaining"
  by (rule nth_equalityI) (simp_all add: remaining_code length_prioritized exponentialJumpIndex_nth)

text \<open>The indices handed out by \<open>j\<close> consecutive batches of \<open>k\<close>.\<close>

fun finger_batches :: "nat \<Rightarrow> int \<Rightarrow> Node \<Rightarrow> int list" where
  "finger_batches 0 k n = []"
| "finger_batches (Suc j) k n =
     (let (idx, n') = nextKFingerIndices k n in idx @ finger_batches j k n')"

lemma finger_batches_eq:
  assumes "0 < k" and "0 \<le> n_nextFingerIndex n" 
  shows "finger_batches j k n =
    map (\<lambda>i. exponentialJumpIndex ((n_nextFingerIndex n + int i) mod 160)) [0 ..< j * nat k]"
  using assms(2)
proof (induction j arbitrary: n)
  case (Suc j)
  let ?n = "n\<lparr>n_nextFingerIndex := (n_nextFingerIndex n + k) mod 160\<rparr>"
  have "finger_batches j k ?n =
      map (\<lambda>i. exponentialJumpIndex ((n_nextFingerIndex n + int (i + nat k)) mod 160)) [0 ..< j * nat k]"
    using Suc.IH [of ?n] assms(1) by (simp add: mod_simps algebra_simps)
  moreover have "[0 ..< Suc j * nat k] = [0 ..< nat k] @ map (\<lambda>i. i + nat k) [0 ..< j * nat k]"
    using upt_add_eq_append [of 0 "nat k" "j * nat k"] map_add_upt [of "nat k" "j * nat k"]
    by (simp add: add.commute)
  ultimately show ?case
    using assms(1) by (simp add: nextKFingerIndices_def Let_def DefaultM_def comp_def)
qed simp

text \<open>C16: The repair schedule reaches every finger: whatever index it has come to, consecutive batches
  of \<open>k\<close> that together make up at least 160 positions contain all finger indices from 0 to 159, and
  never anything else. So a batch size of 4 or 8 refreshes the whole table within 40 or 20 rounds.\<close>

theorem finger_batches_cover:
  assumes "0 < k" and "0 \<le> n_nextFingerIndex n" and "160 \<le> int j * k"
  shows "set (finger_batches j k n) = int ` {0 ..< 160}"
proof -
  let ?s = "n_nextFingerIndex n"
  have all: "(\<lambda>p. exponentialJumpIndex p) ` int ` {0 ..< 160} = int ` {0 ..< 160}"
  proof -
    have "(\<lambda>i. exponentialJumpIndex (int i)) ` {0 ..< 160} = set (map (\<lambda>i. exponentialJumpIndex (int i)) [0 ..< 160])"
      by simp
    then show ?thesis
      by (simp only: exponentialJumpIndex_map remaining_code(3) image_image)
  qed
  have pos: "(\<lambda>i. (?s + int i) mod 160) ` {0 ..< j * nat k} = int ` {0 ..< 160}"
  proof (intro equalityI subsetI)
    fix p assume "p \<in> int ` {0 ..< 160}"
    then have p: "0 \<le> p" "p < 160" by auto
    let ?i = "nat ((p - ?s) mod 160)"
    have "int ?i < int (j * nat k)"
      using pos_mod_bound [of 160 "p - ?s"] assms by (simp add: order.strict_trans2)
    then have "?i < j * nat k" by linarith
    moreover have "(?s + int ?i) mod 160 = p"
      using p by (simp add: mod_simps)
    ultimately show "p \<in> (\<lambda>i. (?s + int i) mod 160) ` {0 ..< j * nat k}"
      by (metis (no_types, lifting) atLeastLessThan_iff image_eqI le0)
  next
    fix p assume "p \<in> (\<lambda>i. (?s + int i) mod 160) ` {0 ..< j * nat k}"
    then obtain i where "p = (?s + int i) mod 160" by auto
    then have "0 \<le> p" "p < 160" by simp_all
    then show "p \<in> int ` {0 ..< 160}" by (metis atLeastLessThan_iff image_eqI int_nat_eq le0 nat_less_iff of_nat_numeral)
  qed
  have "set (finger_batches j k n) =
      (\<lambda>p. exponentialJumpIndex p) ` (\<lambda>i. (?s + int i) mod 160) ` {0 ..< j * nat k}"
    by (simp add: finger_batches_eq [OF assms(1,2)] image_image)
  then show ?thesis
    by (simp only: pos all)
qed

section \<open>A concrete node\<close>

text \<open>A fresh node with default options, for examples; \<open>NewNode_fresh\<close> in \<open>NodeInvariant\<close> relates it
  to \<open>NewNode\<close>.\<close>

definition demo_id :: "char \<Rightarrow> string" where
  "demo_id c = replicate 39 (CHR ''0'') @ [c]"

definition demo_info :: "char \<Rightarrow> NodeInfo" where
  "demo_info c = emptyNodeInfo\<lparr>NodeID := demo_id c, URI := ''https://'' @ [c]\<rparr>"

definition fresh_fingers :: "NodeInfo \<Rightarrow> FingerEntry list" where
  "fresh_fingers self =
     map (\<lambda>i. \<lparr>feIndex = int i, feStart = bigToID ((key_of (NodeID self) + 2 ^ i) mod ringSize),
               feNode = Core self, feStatus = FingerUnknown, feValid = False, feLastVerified = 0\<rparr>)
       [0 ..< DefaultM]"

definition fresh_node :: "NodeInfo \<Rightarrow> Options \<Rightarrow> bool \<Rightarrow> bool \<Rightarrow> gotime \<Rightarrow> Node" where
  "fresh_node self opts client tracker t =
     \<lparr>n_self = self, n_predecessor = None, n_predecessorList = [], n_successor = Core self,
      n_successorList = [Core self], n_successorListValid = True, n_lastInvariantCheck = None,
      n_fingers = fresh_fingers self, n_status = StatusInitializing, n_joinedAt = 0, n_startedAt = t,
      n_lastMaintenanceAt = None, n_nextFingerIndex = 0, n_maintenanceCycles = 0,
      n_client = client, n_tracker = tracker, n_options = opts, n_failures = Map.empty,
      n_bootstrapSeeds = [], n_region = o_Region opts, n_maintenanceMode = QuietMaintenance,
      n_lastChangeTime = 0, n_stabilizeDebounceCount = 0, n_topologyChangeCh = False,
      n_rttCache = NewRTTCache (o_RTTEWMAAlpha opts) (o_RTTSampleExpiry opts),
      n_routingCache = (if o_RoutingCacheEnabled opts
                        then Some (NewRoutingCache (o_RoutingCacheSize opts) (o_RoutingCacheTTL opts)) else None),
      n_lastTrackerHeartbeatAt = 0, n_lastCRLRefreshAt = 0, n_vnodeProvider = False\<rparr>"

definition demo_node :: "char \<Rightarrow> Node" where
  "demo_node c = fresh_node (demo_info c) DefaultOptions True True 1"

lemma demo_id_valid: "is_hex c \<Longrightarrow> ValidateID (demo_id c)"
  by (simp add: demo_id_def ValidateID_def list_all_iff)

lemma demo_simps [simp]:
  "NodeID (demo_info c) = demo_id c" "NodeID (n_self (demo_node c)) = demo_id c" "demo_id c \<noteq> []"
  "demo_id c = demo_id d \<longleftrightarrow> c = d" "n_options (demo_node c) = DefaultOptions"
  "n_nextFingerIndex (demo_node c) = 0" "AnchorID (demo_info c) = []"
  by (simp_all add: demo_info_def demo_node_def fresh_node_def demo_id_def emptyNodeInfo_def)

lemma merge_successor_list_witness:
  "ids (mergeSuccessorListLocked (demo_info (CHR ''2'')) [demo_info (CHR ''3''), demo_info (CHR ''2''), demo_info (CHR ''1'')]
      (demo_node (CHR ''1''))) = [demo_id (CHR ''2''), demo_id (CHR ''3'')] \<and>
   distinct (ids (mergeSuccessorListLocked (demo_info (CHR ''2'')) [demo_info (CHR ''3''), demo_info (CHR ''2''), demo_info (CHR ''1'')]
      (demo_node (CHR ''1''))))"
  using merge_successor_list [of "demo_node (CHR ''1'')" "demo_info (CHR ''2'')"
      "[demo_info (CHR ''3''), demo_info (CHR ''2''), demo_info (CHR ''1'')]"]
  by (simp add: mergeSuccessorListLocked_def merge_loop_step eligible_def counted_def successorLimit_def
      DefaultOptions_def DefaultSuccessorListSize_def)

lemma finger_batches_cover_witness:
  "set (finger_batches 40 4 (demo_node (CHR ''1''))) = int ` {0 ..< 160}"
  by (rule finger_batches_cover) simp_all

end
