(* ===== verification/Ring.thy ===== *)
theory Ring
  imports Ident
begin

text \<open>
  The ring as the routing code sees it. The locale \<open>ring_space\<close> is the interface: identifiers with a
  position on the ring and the two interval tests. Inside it, for a finite set of nodes, \<open>owner\<close> is
  the node responsible for a key (the first one at or after it clockwise) and \<open>next_node\<close> the true
  successor of a node; the lemmas relate them to the interval tests the code evaluates. The
  interpretation \<open>ring\<close> discharges the interface for the IDs of \<open>Ident\<close>.
\<close>

locale ring_space =
  fixes valid :: "'i \<Rightarrow> bool"
    and pos :: "'i \<Rightarrow> nat"
    and between :: "'i \<Rightarrow> 'i \<Rightarrow> 'i \<Rightarrow> bool"
    and upto_end :: "'i \<Rightarrow> 'i \<Rightarrow> 'i \<Rightarrow> bool"
  assumes pos_less: "valid i \<Longrightarrow> pos i < ringSize"
    and pos_inj: "valid i \<Longrightarrow> valid j \<Longrightarrow> pos i = pos j \<Longrightarrow> i = j"
    and between_cw: "valid x \<Longrightarrow> valid a \<Longrightarrow> valid b \<Longrightarrow>
      between x a b \<longleftrightarrow> 0 < cw (pos a) (pos x) \<and> (a = b \<or> cw (pos a) (pos x) < cw (pos a) (pos b))"
    and upto_end_cw: "valid x \<Longrightarrow> valid a \<Longrightarrow> valid b \<Longrightarrow>
      upto_end x a b \<longleftrightarrow> a = b \<or> 0 < cw (pos a) (pos x) \<and> cw (pos a) (pos x) \<le> cw (pos a) (pos b)"
begin

text \<open>\<open>is_owner N k n\<close>: no node of \<open>N\<close> lies between the key and \<open>n\<close>. \<open>is_next N a s\<close>: \<open>s\<close> is the first
  node of \<open>N\<close> after \<open>a\<close>, or \<open>a\<close> itself when it is alone.\<close>

definition is_owner :: "'i set \<Rightarrow> 'i \<Rightarrow> 'i \<Rightarrow> bool" where
  "is_owner N k n \<longleftrightarrow> n \<in> N \<and> (\<forall>m \<in> N. cw (pos k) (pos n) \<le> cw (pos k) (pos m))"

definition is_next :: "'i set \<Rightarrow> 'i \<Rightarrow> 'i \<Rightarrow> bool" where
  "is_next N a s \<longleftrightarrow>
     (if N = {a} then s = a
      else s \<in> N \<and> s \<noteq> a \<and> (\<forall>m \<in> N. m \<noteq> a \<longrightarrow> cw (pos a) (pos s) \<le> cw (pos a) (pos m)))"

lemma cw_pos_inj:
  "valid a \<Longrightarrow> valid x \<Longrightarrow> valid y \<Longrightarrow> cw (pos a) (pos x) = cw (pos a) (pos y) \<longleftrightarrow> x = y"
  using cw_inj [of "pos a" "pos x" "pos y"] pos_less pos_inj by auto

lemma cw_pos_zero: "valid a \<Longrightarrow> valid x \<Longrightarrow> cw (pos a) (pos x) = 0 \<longleftrightarrow> x = a"
  using cw_zero_iff [of "pos a" "pos x"] pos_less pos_inj by auto

lemma owner_unique:
  assumes "\<forall>m \<in> N. valid m" and "valid k" and "is_owner N k n" and "is_owner N k n'"
  shows "n = n'"
proof -
  from assms(3,4) have "cw (pos k) (pos n) = cw (pos k) (pos n')"
    by (auto simp: is_owner_def intro: antisym)
  with assms show ?thesis
    by (auto simp: is_owner_def cw_pos_inj)
qed

lemma owner_exists: "finite N \<Longrightarrow> N \<noteq> {} \<Longrightarrow> \<exists>n. is_owner N k n"
  using ex_min_if_finite [of "(\<lambda>m. cw (pos k) (pos m)) ` N"]
  by (force simp: is_owner_def not_less)

text \<open>The test made by \<open>HandleFindSuccessor\<close>: when the key is in the interval from a node to its true
  successor, that successor owns the key.\<close>

lemma upto_next_owner:
  assumes N: "\<forall>m \<in> N. valid m" and k: "valid k" and a: "a \<in> N"
    and s: "is_next N a s" and u: "s = a \<or> upto_end k a s"
  shows "is_owner N k s"
proof (cases "N = {a}")
  case True
  with s show ?thesis by (simp add: is_next_def is_owner_def)
next
  case False
  with s have sN: "s \<in> N" "s \<noteq> a"
    and min: "\<And>m. m \<in> N \<Longrightarrow> m \<noteq> a \<Longrightarrow> cw (pos a) (pos s) \<le> cw (pos a) (pos m)"
    by (auto simp: is_next_def)
  from N a sN have va: "valid a" "valid s" by auto
  with u k sN have ks: "0 < cw (pos a) (pos k)" "cw (pos a) (pos k) \<le> cw (pos a) (pos s)"
    by (auto simp: upto_end_cw)
  have "cw (pos k) (pos s) \<le> cw (pos k) (pos m)" if m: "m \<in> N" for m
  proof (cases "m = a")
    case True
    have "cw (pos a) (pos s) < ringSize"
      using va by (simp add: cw_less pos_less)
    moreover have "cw (pos a) (pos k) + cw (pos k) (pos a) = ringSize"
      using ks va k by (intro cw_swap) (auto simp: pos_less)
    moreover have "cw (pos a) (pos s) = cw (pos a) (pos k) + cw (pos k) (pos s)"
      using ks va k by (intro cw_split) (auto simp: pos_less)
    ultimately show ?thesis using True by simp
  next
    case False
    with m min have le: "cw (pos a) (pos s) \<le> cw (pos a) (pos m)" by simp
    have "cw (pos a) (pos m) = cw (pos a) (pos k) + cw (pos k) (pos m)"
      using ks le va k m N by (intro cw_split) (auto simp: pos_less)
    moreover have "cw (pos a) (pos s) = cw (pos a) (pos k) + cw (pos k) (pos s)"
      using ks va k by (intro cw_split) (auto simp: pos_less)
    ultimately show ?thesis using le by simp
  qed
  with sN show ?thesis by (simp add: is_owner_def)
qed

text \<open>When the test fails, the true successor is itself a node on the way to the key: the lookup
  always has a candidate that makes progress.\<close>

lemma not_upto_next_between:
  assumes "valid a" and "valid s" and "valid k" and "s \<noteq> a" and "k \<noteq> a" and "\<not> upto_end k a s"
  shows "between s a k"
proof -
  have "cw (pos a) (pos k) \<noteq> 0" and "cw (pos a) (pos s) \<noteq> 0"
    using assms by (simp_all add: cw_pos_zero)
  with assms show ?thesis
    by (auto simp: upto_end_cw between_cw not_le)
qed

lemma next_self_key:
  assumes "valid a" and "valid s" and "s \<noteq> a"
  shows "between s a a"
  using assms cw_pos_zero [of a s] by (auto simp: between_cw)

lemma between_closer:
  assumes "valid x" and "valid a" and "valid k" and "a \<noteq> k" and "between x a k"
  shows "cw (pos x) (pos k) < cw (pos a) (pos k)"
proof -
  from assms have *: "0 < cw (pos a) (pos x)" "cw (pos a) (pos x) < cw (pos a) (pos k)"
    by (auto simp: between_cw)
  then have "cw (pos a) (pos k) = cw (pos a) (pos x) + cw (pos x) (pos k)"
    using assms by (intro cw_split) (auto simp: pos_less)
  with * show ?thesis by simp
qed

end

interpretation ring: ring_space ValidateID key_of InRangeOpenOpen InRangeOpenClosed
  by unfold_locales (auto simp: key_of_inj InRangeOpenOpen_cw InRangeOpenClosed_cw)

end
