(* ===== verification/Lookup.thy ===== *)
theory Lookup
  imports NodeOps Ring
begin

text \<open>
  Routing (\<open>internal/chord/lookup.go\<close>): the choice of the next hop, the \<open>find_successor\<close> handler, the
  iterative lookup with its hop budget and visited list, the parallel variant, and the cache they
  share. Floating-point scores are computed with \<open>Float64\<close>.
\<close>

section \<open>Candidates\<close>

text \<open>The three loops of \<open>collectCandidates\<close>, each over its list from the end, as one function of the
  elements already in the order visited.\<close>

fun collect_loop :: "(NodeInfo \<Rightarrow> bool) \<Rightarrow> string list \<times> NodeInfo list \<Rightarrow> NodeInfo list \<Rightarrow> string list \<times> NodeInfo list" where
  "collect_loop P acc [] = acc"
| "collect_loop P (seen, out) (node # r) =
     (if NodeID node = [] \<or> NodeID node \<in> set seen then collect_loop P (seen, out) r
      else if P node then collect_loop P (NodeID node # seen, out @ [node]) r
      else collect_loop P (seen, out) r)"

definition collectCandidates ::
  "NodeInfo \<Rightarrow> string \<Rightarrow> FingerEntry list \<Rightarrow> NodeInfo list \<Rightarrow> NodeInfo list" where
  "collectCandidates self tid fingers successors =
     (let eligible = (\<lambda>node. InRangeOpenOpen (NodeID node) (NodeID self) tid);
          good = filter (\<lambda>f. \<not> (feStatus f = FingerSuspicious \<or> \<not> feValid f)) (rev fingers);
          (seen, out) = collect_loop eligible ([NodeID self], []) (map feNode good);
          (seen, out) = (if out = [] then collect_loop eligible (seen, out) (map feNode (rev fingers))
                         else (seen, out))
      in snd (collect_loop eligible (seen, out) (rev successors)))"

definition BitLen :: "nat \<Rightarrow> int" where
  "BitLen n = int (floorlog 2 n)"

definition candidate_score :: "gotime \<Rightarrow> Node \<Rightarrow> nat \<Rightarrow> NodeInfo \<Rightarrow> nat \<Rightarrow> f64" where
  "candidate_score t n target c cBig =
     (let wID0 = o_LatencyWeightID (n_options n);
          wID = (if wID0 = 0 then 1 else wID0);
          wRTT = (if wID0 = 0 then 0 else o_LatencyWeightRTT (n_options n));
          wRegion = (if wID0 = 0 then 0 else o_LatencyWeightRegion (n_options n));
          diff = int target - int cBig;
          diff = (if diff < 0 then diff + int ringSize else diff);
          idProx = fsub 1 (fdiv (f64_of_int (BitLen (nat diff))) (f64_of_int (int DefaultM + 1)));
          score = fadd 0 (fmul wID idProx);
          score = (if wRTT > 0
                   then (case RTTCache_Get (NodeID c) t (n_rttCache n) of
                           Some rttMs \<Rightarrow> fadd score (fmul wRTT (fdiv 1 (fadd 1 (fdiv (f64_of_int rttMs) 100))))
                         | None \<Rightarrow> score)
                   else score)
      in if wRegion > 0 \<and> Region c \<noteq> [] \<and> Region c = n_region n then fadd score wRegion else score)"

fun best_loop :: "gotime \<Rightarrow> Node \<Rightarrow> nat \<Rightarrow> NodeInfo \<Rightarrow> f64 \<Rightarrow> NodeInfo list \<Rightarrow> NodeInfo" where
  "best_loop t n target best bestScore [] = best"
| "best_loop t n target best bestScore (c # r) =
     (case idToBig (NodeID c) of
        Inl _ \<Rightarrow> best_loop t n target best bestScore r
      | Inr cBig \<Rightarrow>
          let score = candidate_score t n target c cBig
          in if score > bestScore then best_loop t n target c score r
             else best_loop t n target best bestScore r)"

definition closestPrecedingNode ::
  "gotime \<Rightarrow> Node \<Rightarrow> NodeInfo \<Rightarrow> string \<Rightarrow> FingerEntry list \<Rightarrow> NodeInfo list \<Rightarrow> NodeInfo" where
  "closestPrecedingNode t n self tid fingers successors =
     (case collectCandidates self tid fingers successors of
        [] \<Rightarrow> self
      | [c] \<Rightarrow> c
      | c # d # r \<Rightarrow>
          (case idToBig tid of
             Inl _ \<Rightarrow> c
           | Inr target \<Rightarrow> best_loop t n target c (- 1) (c # d # r)))"

definition topKClosestPreceding ::
  "NodeInfo \<Rightarrow> string \<Rightarrow> FingerEntry list \<Rightarrow> NodeInfo list \<Rightarrow> int \<Rightarrow> NodeInfo list" where
  "topKClosestPreceding self tid fingers successors k =
     (let candidates = collectCandidates self tid fingers successors
      in if int (length candidates) \<le> k then candidates else take (nat k) candidates)"

section \<open>Cache access\<close>

definition cache_get :: "string list \<Rightarrow> string \<Rightarrow> gotime \<Rightarrow> Node \<Rightarrow> NodeInfo option \<times> Node" where
  "cache_get orc target t n =
     (case n_routingCache n of
        None \<Rightarrow> (None, n)
      | Some c \<Rightarrow>
          let (r, c') = RoutingCache_Get orc target t c in (r, n\<lparr>n_routingCache := Some c'\<rparr>))"

definition cache_put :: "string \<Rightarrow> string \<Rightarrow> NodeInfo \<Rightarrow> gotime \<Rightarrow> Node \<Rightarrow> Node" where
  "cache_put target pred successor t n =
     (case n_routingCache n of
        None \<Rightarrow> n
      | Some c \<Rightarrow> n\<lparr>n_routingCache := Some (RoutingCache_Put target pred successor t c)\<rparr>)"

definition record_rtt :: "string \<Rightarrow> int \<Rightarrow> gotime \<Rightarrow> Node \<Rightarrow> Node" where
  "record_rtt nodeID rttMs t n = n\<lparr>n_rttCache := RTTCache_Record nodeID rttMs t (n_rttCache n)\<rparr>"

definition routingCache_Get :: "('w, 'z) benv_scheme \<Rightarrow> string \<Rightarrow> ('w, NodeInfo option) nact" where
  "routingCache_Get E target =
     do { t \<leftarrow> now E; orc \<leftarrow> observe (e_orc E); atomically (cache_get orc target t) }"

definition routingCache_Put ::
  "('w, 'z) benv_scheme \<Rightarrow> string \<Rightarrow> string \<Rightarrow> NodeInfo \<Rightarrow> ('w, unit) nact" where
  "routingCache_Put E target pred successor =
     do { t \<leftarrow> now E; modify (cache_put target pred successor t) }"

definition rttCache_Record :: "('w, 'z) benv_scheme \<Rightarrow> string \<Rightarrow> int \<Rightarrow> ('w, unit) nact" where
  "rttCache_Record E nodeID rttMs = do { t \<leftarrow> now E; modify (record_rtt nodeID rttMs t) }"

definition piggyback :: "('w, 'z) benv_scheme \<Rightarrow> ('w, PiggybackData option) nact" where
  "piggyback E = do { t \<leftarrow> now E; asks (buildPiggyback t) }"

definition applyPiggyback :: "('w, 'z) benv_scheme \<Rightarrow> PiggybackData option \<Rightarrow> ('w, unit) nact" where
  "applyPiggyback E pb =
     (case pb of
        None \<Rightarrow> ret ()
      | Some p \<Rightarrow>
          for_each (SenderRTTHints p)
            (\<lambda>(nodeID, rttMs). if_then (ValidateID nodeID) (rttCache_Record E nodeID rttMs)))"

section \<open>The handler\<close>

definition emptyFindResponse :: FindSuccessorResponse where
  "emptyFindResponse =
     \<lparr>frFound = False, frSuccessor = None, frNextHop = None, frHopCount = 0, frCached = False,
      frPiggyback = None\<rparr>"

definition HandleFindSuccessor ::
  "('w, 'z) benv_scheme \<Rightarrow> FindSuccessorRequest \<Rightarrow> ('w, goerror + FindSuccessorResponse) nact" where
  "HandleFindSuccessor E req =
     (if \<not> ValidateID (fsID req)
      then ret (Inl (NewAPIError 400 ErrInvalidRequest ''id must be 40 lowercase hex characters''))
      else do {
        opts \<leftarrow> asks n_options;
        let maxHops = (if fsMaxHops req \<le> 0 then o_MaxHops opts else fsMaxHops req);
        if fsHopCount req \<ge> maxHops
        then ret (Inl (NewAPIError 503 ErrMaxHopsExceeded ''maximum hop count exceeded''))
        else do {
          cached \<leftarrow> routingCache_Get E (fsID req);
          case cached of
            Some s \<Rightarrow> do {
              pb \<leftarrow> piggyback E;
              ret (Inr (emptyFindResponse\<lparr>frFound := True, frSuccessor := Some s,
                     frHopCount := fsHopCount req, frCached := True, frPiggyback := pb\<rparr>)) }
          | None \<Rightarrow> do {
              (self, status, successor, fingers, successors) \<leftarrow>
                asks (\<lambda>n. (Core (n_self n), n_status n, n_successor n, n_fingers n, n_successorList n));
              if status = StatusLeaving
              then ret (Inl (NewAPIError 503 ErrNodeLeaving ''node is leaving''))
              else if status = StatusIsolated
              then ret (Inl (NewAPIError 503 ErrNodeIsolated ''node is isolated''))
              else if NodeID self \<in> set (fsVisitedNodes req)
              then ret (Inl (NewAPIError 503 ErrLoopDetected ''lookup loop detected''))
              else if NodeID successor = NodeID self
                      \<or> InRangeOpenClosed (fsID req) (NodeID self) (NodeID successor)
              then do {
                pb \<leftarrow> piggyback E;
                routingCache_Put E (fsID req) (NodeID self) successor;
                ret (Inr (emptyFindResponse\<lparr>frFound := True, frSuccessor := Some successor,
                       frHopCount := fsHopCount req, frPiggyback := pb\<rparr>)) }
              else do {
                t \<leftarrow> now E;
                next \<leftarrow> asks (\<lambda>n. closestPrecedingNode t n self (fsID req) fingers successors);
                pb \<leftarrow> piggyback E;
                if NodeID next = NodeID self
                then ret (Inr (emptyFindResponse\<lparr>frFound := True, frSuccessor := Some successor,
                            frHopCount := fsHopCount req, frPiggyback := pb\<rparr>))
                else ret (Inr (emptyFindResponse\<lparr>frNextHop := Some next,
                            frHopCount := fsHopCount req + 1, frPiggyback := pb\<rparr>)) } } } })"

section \<open>Lookups\<close>

text \<open>One round of \<open>lookupIterative\<close> per unit of the first argument, which starts at \<open>MaxHops\<close>.\<close>

fun lookup_loop ::
  "nat \<Rightarrow> 'w env \<Rightarrow> string \<Rightarrow> int \<Rightarrow> int \<Rightarrow> NodeInfo \<Rightarrow> string list \<Rightarrow> ('w, goerror + NodeInfo) nact" where
  "lookup_loop 0 E nid maxHops hop current visited =
     ret (Inl (NewAPIError 503 ErrMaxHopsExceeded ''maximum hop count exceeded''))"
| "lookup_loop (Suc k) E nid maxHops hop current visited =
     (if NodeID current \<in> set visited
      then ret (Inl (NewAPIError 503 ErrLoopDetected ''lookup loop detected''))
      else do {
        let req = \<lparr>fsID = nid, fsHopCount = hop, fsMaxHops = maxHops, fsVisitedNodes = visited,
                   fsRequesterRegion = [], fsPreferRegion = []\<rparr>;
        self \<leftarrow> Self;
        client \<leftarrow> asks n_client;
        r \<leftarrow> (if NodeID current = NodeID self then HandleFindSuccessor E req
              else if \<not> client then ret (Inl (NewAPIError 503 ErrUpstream ''peer client is not configured''))
              else rpc (pc_FindSuccessor E current req));
        case r of
          Inl e \<Rightarrow> ret (Inl e)
        | Inr resp \<Rightarrow>
            if frFound resp
            then (case frSuccessor resp of
                    None \<Rightarrow> ret (Inl (NewAPIError 503 ErrUpstream ''find_successor response missing successor''))
                  | Some s \<Rightarrow> do {
                      let result = Core s;
                      if_then (\<not> frCached resp) (routingCache_Put E nid (NodeID current) result);
                      applyPiggyback E (frPiggyback resp);
                      ret (Inr result) })
            else (case frNextHop resp of
                    None \<Rightarrow> ret (Inl (NewAPIError 503 ErrUpstream ''find_successor response missing next_hop''))
                  | Some h \<Rightarrow> do {
                      applyPiggyback E (frPiggyback resp);
                      lookup_loop k E nid maxHops (hop + 1) (Core h) (visited @ [NodeID current]) }) })"

definition lookupIterative :: "'w env \<Rightarrow> string \<Rightarrow> ('w, goerror + NodeInfo) nact" where
  "lookupIterative E nid =
     do {
       self \<leftarrow> Self;
       opts \<leftarrow> asks n_options;
       lookup_loop (nat (o_MaxHops opts)) E nid (o_MaxHops opts) 0 (Core self) []
     }"

text \<open>The parallel variant: every candidate is asked; the answers arrive in an order the scheduler
  chooses, and the first one that names a successor wins.\<close>

definition parallel_answer :: "goerror + FindSuccessorResponse \<Rightarrow> NodeInfo option" where
  "parallel_answer r =
     (case r of
        Inl _ \<Rightarrow> None
      | Inr resp \<Rightarrow>
          if \<not> frFound resp then None
          else case frSuccessor resp of
                 None \<Rightarrow> None
               | Some s \<Rightarrow> if NodeID (Core s) \<noteq> [] then Some (Core s) else None)"

definition lookupParallel :: "'w env \<Rightarrow> string \<Rightarrow> ('w, goerror + NodeInfo) nact" where
  "lookupParallel E nid =
     do {
       (self, fingers, successors, opts) \<leftarrow>
         asks (\<lambda>n. (Core (n_self n), n_fingers n, n_successorList n, n_options n));
       let k = (if o_ParallelLookupCandidates opts \<le> 0 then 3 else o_ParallelLookupCandidates opts);
       let candidates = topKClosestPreceding self nid fingers successors k;
       if candidates = [] then lookupIterative E nid
       else do {
         client \<leftarrow> asks n_client;
         answers \<leftarrow> for_map candidates (\<lambda>peer.
           if \<not> client then ret (NodeID peer, None)
           else do {
             r \<leftarrow> rpc (pc_FindSuccessor E peer
                   \<lparr>fsID = nid, fsHopCount = 0, fsMaxHops = o_MaxHops opts, fsVisitedNodes = [],
                    fsRequesterRegion = [], fsPreferRegion = []\<rparr>);
             ret (NodeID peer, parallel_answer r) });
         orc \<leftarrow> observe (e_orc E);
         let arrivals = map (\<lambda>i. the (map_of answers i)) (map_iter orc (map fst answers));
         case find (\<lambda>a. a \<noteq> None) arrivals of
           Some (Some s) \<Rightarrow> do { routingCache_Put E nid (NodeID self) s; ret (Inr s) }
         | _ \<Rightarrow> lookupIterative E nid } }"

definition LookupSuccessor :: "'w env \<Rightarrow> string \<Rightarrow> ('w, goerror + NodeInfo) nact" where
  "LookupSuccessor E nid =
     (if \<not> ValidateID nid
      then ret (Inl (NewAPIError 400 ErrInvalidRequest ''id must be 40 lowercase hex characters''))
      else do {
        cached \<leftarrow> routingCache_Get E nid;
        case cached of
          Some s \<Rightarrow> ret (Inr s)
        | None \<Rightarrow> do {
            opts \<leftarrow> asks n_options;
            if o_ParallelLookupEnabled opts \<and> o_ParallelLookupCandidates opts > 1
            then lookupParallel E nid else lookupIterative E nid } })"

end
