(* ===== verification/Protocol.thy ===== *)
theory Protocol
  imports Lookup
begin

text \<open>
  The ring protocol's handlers (\<open>internal/chord/protocol.go\<close>) and the calls they share with the
  maintenance loops: liveness pings and rectification of a peer (\<open>maintenance.go\<close>).
\<close>

section \<open>Calls to peers\<close>

definition markSuccessOf :: "string \<Rightarrow> ('w, unit) nact" where
  "markSuccessOf nodeID = modify (markSuccess nodeID)"

definition pingLiveness :: "'w env \<Rightarrow> NodeInfo \<Rightarrow> ('w, bool) nact" where
  "pingLiveness E target =
     (if NodeID target = [] then ret False
      else do {
        selfID \<leftarrow> asks (\<lambda>n. NodeID (n_self n));
        client \<leftarrow> asks n_client;
        if NodeID target = selfID then ret True
        else if \<not> client then ret False
        else do {
          r \<leftarrow> rpc (pc_PingLiveness E (URI target));
          case r of
            Inl _ \<Rightarrow> ret False
          | Inr _ \<Rightarrow> do { markSuccessOf (NodeID target); ret True } } })"

definition rectifyPeer :: "'w env \<Rightarrow> NodeInfo \<Rightarrow> RectifyRequest \<Rightarrow> ('w, unit) nact" where
  "rectifyPeer E target req =
     do {
       selfID \<leftarrow> asks (\<lambda>n. NodeID (n_self n));
       client \<leftarrow> asks n_client;
       if \<not> client \<or> NodeID target = [] \<or> NodeID target = selfID then ret ()
       else do {
         r \<leftarrow> rpc (pc_Rectify E target req);
         case r of
           Inl _ \<Rightarrow> do { _ \<leftarrow> rpc (pc_Notify E target req); ret () }
         | Inr _ \<Rightarrow> ret () } }"

section \<open>Join\<close>

definition successorListFor :: "'w env \<Rightarrow> NodeInfo \<Rightarrow> ('w, NodeInfo list) nact" where
  "successorListFor E successor =
     do {
       self \<leftarrow> Self;
       if NodeID successor = NodeID self then asks n_successorList
       else do {
         client \<leftarrow> asks n_client;
         if \<not> client then ret [Core successor]
         else do {
           opts \<leftarrow> asks n_options;
           atomic \<leftarrow> (if o_StabilizeAtomicState opts then rpc (pc_State E successor)
                     else ret (Inl (GoError [])));
           case atomic of
             Inr st \<Rightarrow> ret (Core successor # stSuccessorList st)
           | Inl _ \<Rightarrow> do {
               r \<leftarrow> rpc (pc_SuccessorList E successor);
               case r of
                 Inl _ \<Rightarrow> ret [Core successor]
               | Inr l \<Rightarrow> ret (Core successor # slSuccessorList l) } } } }"

definition HandleJoin :: "'w env \<Rightarrow> JoinRequest \<Rightarrow> ('w, goerror + JoinResponse) nact" where
  "HandleJoin E req =
     (case ValidateNodeInfo (e_lib E) (jqNode req) of
        Inl e \<Rightarrow> ret (Inl (NewAPIError 400 ErrInvalidRequest (errorText e)))
      | Inr _ \<Rightarrow> do {
          (status, selfID) \<leftarrow> asks (\<lambda>n. (n_status n, NodeID (n_self n)));
          if status = StatusLeaving
          then ret (Inl (NewAPIError 503 ErrNodeLeaving ''node is leaving''))
          else if status = StatusIsolated
          then ret (Inl (NewAPIError 503 ErrNodeIsolated ''node is isolated''))
          else if NodeID (jqNode req) = selfID
          then ret (Inl (NewAPIError 409 ErrIDCollision ''node id collides with this node''))
          else do {
            r \<leftarrow> LookupSuccessor E (NodeID (jqNode req));
            case r of
              Inl e \<Rightarrow> ret (Inl e)
            | Inr successor \<Rightarrow> do {
                l \<leftarrow> successorListFor E successor;
                ret (Inr \<lparr>jrSuccessor = Core successor, jrSuccessorList = l\<rparr>) } } })"

section \<open>Rectify\<close>

definition predecessorLimit :: "Node \<Rightarrow> int" where
  "predecessorLimit n =
     (let p = o_PredecessorListSize (n_options n) in if p \<le> 0 then DefaultPredecessorListSize else p)"

text \<open>The critical section of \<open>HandleRectify\<close>; its results are whether the candidate was accepted and
  the predecessor afterwards.\<close>

definition acceptPredecessor ::
  "NodeInfo \<Rightarrow> NodeInfo option \<Rightarrow> bool \<Rightarrow> Node \<Rightarrow> (bool \<times> NodeInfo option) \<times> Node" where
  "acceptPredecessor candidate currentPredecessor predecessorAlive n =
     (if (case n_predecessor n of
            None \<Rightarrow> True
          | Some p \<Rightarrow>
              (case currentPredecessor of
                 Some c \<Rightarrow> NodeID p = NodeID c \<and> \<not> predecessorAlive
               | None \<Rightarrow> False) \<or>
              InRangeOpenOpen (NodeID candidate) (NodeID p) (NodeID (n_self n)))
      then
        let newList = candidate # (case n_predecessor n of
                                     Some p \<Rightarrow> if 1 < predecessorLimit n then [p] else []
                                   | None \<Rightarrow> [])
        in ((True, Some candidate), n\<lparr>n_predecessorList := newList, n_predecessor := Some candidate\<rparr>)
      else ((False, n_predecessor n), n))"

definition HandleRectify :: "'w env \<Rightarrow> RectifyRequest \<Rightarrow> ('w, goerror + RectifyResponse) nact" where
  "HandleRectify E req =
     (case ValidateNodeInfo (e_lib E) (nqNode req) of
        Inl e \<Rightarrow> ret (Inl (NewAPIError 400 ErrInvalidRequest (errorText e)))
      | Inr _ \<Rightarrow> do {
          let candidate = Core (nqNode req);
          (status, selfID, currentPredecessor) \<leftarrow>
            asks (\<lambda>n. (n_status n, NodeID (n_self n), n_predecessor n));
          if status = StatusLeaving
          then ret (Inl (NewAPIError 503 ErrNodeLeaving ''node is leaving''))
          else if status = StatusJoining
          then ret (Inl (NewAPIError 503 ErrNodeJoining ''node is joining''))
          else if NodeID candidate = selfID
          then ret (Inl (NewAPIError 400 ErrInvalidRequest ''candidate cannot be this node''))
          else do {
            client \<leftarrow> asks n_client;
            alive \<leftarrow> (case currentPredecessor of
                        Some p \<Rightarrow> if NodeID p \<noteq> selfID \<and> client then pingLiveness E p else ret True
                      | None \<Rightarrow> ret True);
            (accepted, currentPred) \<leftarrow>
              atomically (acceptPredecessor candidate currentPredecessor alive);
            if_then accepted (do {
              emitTopologyChange;
              if_then client (spawn (FetchPredecessorOf candidate)) });
            ret (Inr \<lparr>nrAccepted = accepted, nrPredecessor = currentPred\<rparr>) } })"

definition HandleNotify :: "'w env \<Rightarrow> NotifyRequest \<Rightarrow> ('w, goerror + NotifyResponse) nact" where
  "HandleNotify E req = HandleRectify E req"

text \<open>The goroutine started by an accepted rectification.\<close>

definition fillPredecessorList :: "NodeInfo \<Rightarrow> NodeInfo \<Rightarrow> Node \<Rightarrow> Node" where
  "fillPredecessorList candidate pred n =
     (let p = predecessorLimit n; l = n_predecessorList n
      in if l \<noteq> [] \<and> NodeID (hd l) = NodeID candidate
         then (if int (length l) < p then n\<lparr>n_predecessorList := l @ [Core pred]\<rparr>
               else if length l \<ge> 2 then n\<lparr>n_predecessorList := l[1 := Core pred]\<rparr> else n)
         else n)"

definition fetchPredecessorOf :: "'w env \<Rightarrow> NodeInfo \<Rightarrow> ('w, unit) nact" where
  "fetchPredecessorOf E candidate =
     do {
       r \<leftarrow> rpc (pc_Predecessor E candidate);
       selfID \<leftarrow> asks (\<lambda>n. NodeID (n_self n));
       case r of
         Inl _ \<Rightarrow> ret ()
       | Inr resp \<Rightarrow>
           (case prPredecessor resp of
              None \<Rightarrow> ret ()
            | Some p \<Rightarrow> if_then (NodeID p \<noteq> selfID) (modify (fillPredecessorList candidate p))) }"

section \<open>Leave\<close>

definition handleLeave :: "LeaveRequest \<Rightarrow> Node \<Rightarrow> (goerror + LeaveResponse) \<times> Node" where
  "handleLeave req n =
     (if lvRole req = ''predecessor_leaving''
      then (Inr \<lparr>lvAcknowledged = True\<rparr>, n\<lparr>n_predecessor := lvNewPredecessor req\<rparr>)
      else if lvRole req = ''successor_leaving''
      then (Inr \<lparr>lvAcknowledged = True\<rparr>,
            (case lvNewSuccessor req of
               None \<Rightarrow> n
             | Some s \<Rightarrow>
                 n\<lparr>n_successor := Core s,
                   n_successorList := mergeSuccessorListLocked (Core s) (n_successorList n) n\<rparr>))
      else (Inl (NewAPIError 400 ErrInvalidRequest ''unknown leave role''), n))"

definition HandleLeave :: "LeaveRequest \<Rightarrow> ('w, goerror + LeaveResponse) nact" where
  "HandleLeave req = atomically (handleLeave req)"

end
