(* ===== verification/Maintenance.thy ===== *)
theory Maintenance
  imports Protocol
begin

text \<open>
  Ring maintenance (\<open>internal/chord/maintenance.go\<close>): stabilisation, validation of the successor list,
  predecessor and health checks, finger repair and latency probes. Each write under the lock is a
  function on nodes of its own (\<open>adoptSuccessor\<close>, \<open>isolate\<close>, \<open>commitValid\<close>, ...); the methods compose
  them with calls to peers. Goroutines joined by a wait group run one after the other here; that other
  interleavings of their critical sections keep the invariants is shown in \<open>NodeSteps\<close>.
\<close>

definition setFinger :: "nat \<Rightarrow> (FingerEntry \<Rightarrow> FingerEntry) \<Rightarrow> Node \<Rightarrow> Node" where
  "setFinger i f n = n\<lparr>n_fingers := (n_fingers n)[i := f (n_fingers n ! i)]\<rparr>"

section \<open>Isolation and adoption\<close>

definition isolate :: "NodeInfo \<Rightarrow> gotime \<Rightarrow> Node \<Rightarrow> Node" where
  "isolate self t n =
     n\<lparr>n_status := StatusIsolated, n_predecessor := None, n_successor := self,
       n_successorList := [self], n_successorListValid := False, n_lastInvariantCheck := Some t\<rparr>"

text \<open>The branch of \<open>Stabilize\<close> for a candidate that is the node itself, with nobody else in sight.\<close>

definition standAlone :: "NodeInfo \<Rightarrow> bool \<Rightarrow> gotime \<Rightarrow> Node \<Rightarrow> Node" where
  "standAlone self wasAlone t n =
     (let n1 = n\<lparr>n_successor := self, n_successorList := [self], n_successorListValid := True,
                 n_lastInvariantCheck := Some t\<rparr>
      in if wasAlone then n1
         else n1\<lparr>n_status := StatusIsolated, n_predecessor := None, n_successorListValid := False\<rparr>)"

definition setSuccessor :: "NodeInfo \<Rightarrow> NodeInfo list \<Rightarrow> Node \<Rightarrow> Node" where
  "setSuccessor successor remote n =
     setFinger 0 (\<lambda>f. f\<lparr>feNode := successor, feStatus := FingerOK, feValid := True\<rparr>)
       (n\<lparr>n_successor := successor, n_successorList := mergeSuccessorListLocked successor remote n\<rparr>)"

definition adoptSuccessor :: "NodeInfo \<Rightarrow> NodeInfo list \<Rightarrow> bool \<Rightarrow> Node \<Rightarrow> Node" where
  "adoptSuccessor successor remote topologyChanged n =
     (let n1 = setSuccessor successor remote n
      in n1\<lparr>n_stabilizeDebounceCount :=
              (if topologyChanged then n_stabilizeDebounceCount n + 1 else 0)\<rparr>)"

section \<open>Validation of the successor list\<close>

fun take_valid :: "int \<Rightarrow> string list \<Rightarrow> NodeInfo list \<Rightarrow> (NodeInfo \<times> bool) list \<Rightarrow> NodeInfo list" where
  "take_valid limit seen valid [] = valid"
| "take_valid limit seen valid ((node, live) # r) =
     (if \<not> live \<or> NodeID node = [] \<or> NodeID node \<in> set seen then take_valid limit seen valid r
      else let valid' = valid @ [Core node]
           in if int (length valid') = limit then valid'
              else take_valid limit (NodeID node # seen) valid' r)"

text \<open>The extension of a short list from the state of its last entry.\<close>

fun extend_valid ::
  "'w env \<Rightarrow> int \<Rightarrow> string \<Rightarrow> NodeInfo list \<Rightarrow> NodeInfo list \<Rightarrow> ('w, NodeInfo list) nact" where
  "extend_valid E limit selfID valid [] = ret valid"
| "extend_valid E limit selfID valid (node # r) =
     (if int (length valid) = limit then ret valid
      else if NodeID node = [] \<or> NodeID node = selfID \<or> NodeID node \<in> set (ids valid)
      then extend_valid E limit selfID valid r
      else do {
        live \<leftarrow> pingLiveness E node;
        if live then extend_valid E limit selfID (valid @ [Core node]) r
        else extend_valid E limit selfID valid r })"

definition commitValid :: "NodeInfo \<Rightarrow> NodeInfo list \<Rightarrow> gotime \<Rightarrow> Node \<Rightarrow> Node" where
  "commitValid self valid t n =
     setFinger 0 (\<lambda>f. f\<lparr>feNode := hd valid, feStatus := FingerOK, feValid := True\<rparr>)
       (n\<lparr>n_successor := hd valid, n_successorList := valid,
          n_successorListValid := (successorListViolations (NodeID self) (NodeID (hd valid)) valid = []),
          n_lastInvariantCheck := Some t\<rparr>)"

text \<open>What follows the reading of the list: ping every entry, keep the live ones, extend a short list,
  commit or isolate.\<close>

definition extendFrom :: "'w env \<Rightarrow> int \<Rightarrow> string \<Rightarrow> NodeInfo list \<Rightarrow> ('w, NodeInfo list) nact" where
  "extendFrom E limit selfID valid =
     do {
       client \<leftarrow> asks n_client;
       if int (length valid) < limit \<and> valid \<noteq> [] \<and> client \<and> NodeID (last valid) \<noteq> selfID
       then do {
         r \<leftarrow> rpc (pc_State E (last valid));
         case r of
           Inl _ \<Rightarrow> ret valid
         | Inr st \<Rightarrow> extend_valid E limit selfID valid (stSuccessorList st) }
       else ret valid
     }"

definition validateFrom :: "'w env \<Rightarrow> NodeInfo \<Rightarrow> NodeInfo list \<Rightarrow> int \<Rightarrow> ('w, unit) nact" where
  "validateFrom E self current limit =
     do {
       results \<leftarrow> for_map current (pingLiveness E);
       valid \<leftarrow> extendFrom E limit (NodeID self) (take_valid limit [] [] (zip current results));
       t \<leftarrow> now E;
       if valid = [] then do { modify (isolate self t); emitTopologyChange }
       else modify (commitValid self valid t)
     }"

definition validateSuccessorList :: "'w env \<Rightarrow> ('w, unit) nact" where
  "validateSuccessorList E =
     do {
       (self, current, limit) \<leftarrow> asks (\<lambda>n.
         (Core (n_self n),
          (if n_successorList n = [] \<and> NodeID (n_successor n) \<noteq> [] then [n_successor n]
           else n_successorList n),
          successorLimit n));
       validateFrom E self current limit
     }"

section \<open>Stabilisation\<close>

definition fetchSuccessorState :: "'w env \<Rightarrow> NodeInfo \<Rightarrow> ('w, goerror + StateResponse) nact" where
  "fetchSuccessorState E candidate =
     do {
       client \<leftarrow> asks n_client;
       opts \<leftarrow> asks n_options;
       if \<not> client then ret (Inl (NewAPIError 503 ErrUpstream ''peer client is not configured''))
       else if o_StabilizeAtomicState opts then rpc (pc_State E candidate)
       else do {
         r \<leftarrow> rpc (pc_Predecessor E candidate);
         case r of
           Inl e \<Rightarrow> ret (Inl e)
         | Inr predResp \<Rightarrow> do {
             t \<leftarrow> now E;
             let st = emptyState\<lparr>stPredecessor := prPredecessor predResp, stSnapshotTimestamp := t\<rparr>;
             l \<leftarrow> rpc (pc_SuccessorList E candidate);
             case l of
               Inl _ \<Rightarrow> ret (Inr st)
             | Inr listResp \<Rightarrow> ret (Inr (st\<lparr>stSuccessorList := slSuccessorList listResp\<rparr>)) } } }"

text \<open>The candidate is the node itself: stand alone, or start over from the predecessor. The result
  tells whether the loop goes on with the next candidate.\<close>

definition stabilizeSelf ::
  "'w env \<Rightarrow> NodeInfo \<Rightarrow> NodeInfo \<Rightarrow> NodeInfo \<Rightarrow> NodeInfo option \<Rightarrow> ('w, bool) nact" where
  "stabilizeSelf E self selfWithCert currentSuccessor currentPredecessor =
     do {
       client \<leftarrow> asks n_client;
       opts \<leftarrow> asks n_options;
       case currentPredecessor of
         Some p \<Rightarrow>
           if NodeID p = NodeID self \<or> \<not> client then do {
             t \<leftarrow> now E;
             modify (standAlone self (NodeID currentSuccessor = NodeID self) t);
             if_then (NodeID currentSuccessor \<noteq> NodeID self) emitTopologyChange;
             ret False }
           else do {
             let successor = Core p;
             live \<leftarrow> pingLiveness E successor;
             if \<not> live then ret True
             else do {
               r \<leftarrow> fetchSuccessorState E successor;
               let remote = (case r of Inr st \<Rightarrow> stSuccessorList st | Inl _ \<Rightarrow> []);
               rectifyPeer E successor \<lparr>nqNode = selfWithCert\<rparr>;
               modify (setSuccessor successor remote);
               if_then (o_ValidateAfterStabilize opts) (validateSuccessorList E);
               emitTopologyChange;
               ret False } }
       | None \<Rightarrow> do {
           t \<leftarrow> now E;
           modify (standAlone self (NodeID currentSuccessor = NodeID self) t);
           if_then (NodeID currentSuccessor \<noteq> NodeID self) emitTopologyChange;
           ret False } }"

text \<open>The successor to adopt from a live candidate's state: its predecessor, when that is a valid live
  node between this one and the candidate.\<close>

definition chooseSuccessor ::
  "'w env \<Rightarrow> NodeInfo \<Rightarrow> NodeInfo \<Rightarrow> StateResponse \<Rightarrow> ('w, NodeInfo \<times> NodeInfo list) nact" where
  "chooseSuccessor E self candidate st =
     (case stPredecessor st of
        None \<Rightarrow> ret (Core candidate, stSuccessorList st)
      | Some p \<Rightarrow>
          if NodeID p \<noteq> NodeID self \<and> InRangeOpenOpen (NodeID p) (NodeID self) (NodeID candidate)
          then (case ValidateNodeInfo (e_lib E) (Core p) of
                  Inl _ \<Rightarrow> ret (Core candidate, stSuccessorList st)
                | Inr _ \<Rightarrow> do {
                    live \<leftarrow> pingLiveness E (Core p);
                    if live then ret (Core p, Core candidate # stSuccessorList st)
                    else ret (Core candidate, stSuccessorList st) })
          else ret (Core candidate, stSuccessorList st))"

fun stabilize_loop ::
  "'w env \<Rightarrow> NodeInfo \<Rightarrow> NodeInfo \<Rightarrow> NodeInfo \<Rightarrow> NodeInfo option \<Rightarrow> NodeInfo list \<Rightarrow> ('w, unit) nact" where
  "stabilize_loop E self selfWithCert currentSuccessor currentPredecessor [] =
     do { t \<leftarrow> now E; modify (isolate self t); emitTopologyChange }"
| "stabilize_loop E self selfWithCert currentSuccessor currentPredecessor (candidate # r) =
     (if NodeID candidate = NodeID self
      then do {
        continue \<leftarrow> stabilizeSelf E self selfWithCert currentSuccessor currentPredecessor;
        if continue then stabilize_loop E self selfWithCert currentSuccessor currentPredecessor r
        else ret () }
      else do {
        client \<leftarrow> asks n_client;
        opts \<leftarrow> asks n_options;
        if \<not> client then do { t \<leftarrow> now E; modify (isolate self t); emitTopologyChange }
        else do {
          res \<leftarrow> fetchSuccessorState E candidate;
          case res of
            Inl _ \<Rightarrow> do {
              _ \<leftarrow> atomically (markFailure (NodeID candidate));
              stabilize_loop E self selfWithCert currentSuccessor currentPredecessor r }
          | Inr st \<Rightarrow> do {
              markSuccessOf (NodeID candidate);
              (successor, remote) \<leftarrow> chooseSuccessor E self candidate st;
              rectifyPeer E successor \<lparr>nqNode = selfWithCert\<rparr>;
              let topologyChanged = (NodeID successor \<noteq> NodeID currentSuccessor);
              modify (adoptSuccessor successor remote topologyChanged);
              if_then (o_ValidateAfterStabilize opts) (validateSuccessorList E);
              if_then topologyChanged emitTopologyChange } } })"

definition Stabilize :: "'w env \<Rightarrow> ('w, unit) nact" where
  "Stabilize E =
     do {
       (self, status, currentSuccessor, candidates, currentPredecessor, cert) \<leftarrow> asks (\<lambda>n.
         (Core (n_self n), n_status n, n_successor n, n_successor n # n_successorList n,
          n_predecessor n, o_NodeCertificate (n_options n)));
       if status \<noteq> StatusActive then ret ()
       else stabilize_loop E self (self\<lparr>Certificate := cert\<rparr>) currentSuccessor currentPredecessor
              (dedupeNodes candidates [])
     }"

section \<open>Predecessor and health checks\<close>

definition dropPredecessor :: "NodeInfo \<Rightarrow> Node \<Rightarrow> Node" where
  "dropPredecessor pred n =
     (case n_predecessor n of
        Some p \<Rightarrow> if NodeID p = NodeID pred then n\<lparr>n_predecessor := None\<rparr> else n
      | None \<Rightarrow> n)"

definition CheckPredecessor :: "'w env \<Rightarrow> ('w, unit) nact" where
  "CheckPredecessor E =
     do {
       (pred, selfID, client) \<leftarrow> asks (\<lambda>n. (n_predecessor n, NodeID (n_self n), n_client n));
       case pred of
         None \<Rightarrow> ret ()
       | Some p \<Rightarrow>
           if NodeID p = selfID \<or> \<not> client then ret ()
           else do {
             r1 \<leftarrow> rpc (pc_PingWithLatency E (URI p));
             r \<leftarrow> (case r1 of
                     Inr ms \<Rightarrow> ret (Inr ms)
                   | Inl _ \<Rightarrow> do {
                       _ \<leftarrow> rpc (e_Sleep E (2 * Second));
                       rpc (pc_PingWithLatency E (URI p)) });
             case r of
               Inl _ \<Rightarrow> do { modify (dropPredecessor p); emitTopologyChange }
             | Inr ms \<Rightarrow> do { rttCache_Record E (NodeID p) ms; markSuccessOf (NodeID p) } } }"

definition HealthCheckRing :: "'w env \<Rightarrow> ('w, unit) nact" where
  "HealthCheckRing E =
     do {
       (successors, selfID, client) \<leftarrow> asks (\<lambda>n. (n_successorList n, NodeID (n_self n), n_client n));
       if \<not> client then ret ()
       else for_each successors (\<lambda>node.
         if NodeID node = selfID then ret ()
         else do {
           r \<leftarrow> rpc (pc_PingWithLatency E (URI node));
           case r of
             Inl _ \<Rightarrow> do { _ \<leftarrow> atomically (markFailure (NodeID node)); ret () }
           | Inr ms \<Rightarrow> do { rttCache_Record E (NodeID node) ms; markSuccessOf (NodeID node) } }) }"

definition probe :: "'w env \<Rightarrow> string \<Rightarrow> NodeInfo \<Rightarrow> ('w, unit) nact" where
  "probe E selfID node =
     (if NodeID node = [] \<or> NodeID node = selfID then ret ()
      else do {
        r \<leftarrow> rpc (pc_PingWithLatency E (URI node));
        case r of Inl _ \<Rightarrow> ret () | Inr ms \<Rightarrow> rttCache_Record E (NodeID node) ms })"

definition probeNeighbors :: "'w env \<Rightarrow> ('w, unit) nact" where
  "probeNeighbors E =
     do {
       (selfID, succ, pred, client) \<leftarrow>
         asks (\<lambda>n. (NodeID (n_self n), n_successor n, n_predecessor n, n_client n));
       if \<not> client then ret ()
       else do {
         probe E selfID succ;
         case pred of None \<Rightarrow> ret () | Some p \<Rightarrow> probe E selfID p } }"

section \<open>Finger repair\<close>

definition repairOK :: "nat \<Rightarrow> NodeInfo \<Rightarrow> gotime \<Rightarrow> Node \<Rightarrow> Node" where
  "repairOK i successor t =
     setFinger i (\<lambda>f. f\<lparr>feNode := Core successor, feStatus := FingerOK, feValid := True, feLastVerified := t\<rparr>)"

definition repairFailed :: "nat \<Rightarrow> Node \<Rightarrow> Node" where
  "repairFailed i =
     setFinger i (\<lambda>f. f\<lparr>feValid := False,
       feStatus := (if feStatus f = FingerOK then FingerSuspicious else feStatus f)\<rparr>)"

definition repairFinger :: "'w env \<Rightarrow> int \<Rightarrow> ('w, unit) nact" where
  "repairFinger E i =
     do {
       start \<leftarrow> asks (\<lambda>n. feStart (n_fingers n ! nat i));
       r \<leftarrow> LookupSuccessor E start;
       case r of
         Inr successor \<Rightarrow> do { t \<leftarrow> now E; modify (repairOK (nat i) successor t) }
       | Inl _ \<Rightarrow> modify (repairFailed (nat i))
     }"

definition repairFingerIndices :: "'w env \<Rightarrow> int list \<Rightarrow> ('w, unit) nact" where
  "repairFingerIndices E indices = for_each indices (repairFinger E)"

definition fixFingersBatch :: "'w env \<Rightarrow> ('w, unit) nact" where
  "fixFingersBatch E =
     do {
       k \<leftarrow> asks getBatchSize;
       indices \<leftarrow> atomically (nextKFingerIndices k);
       repairFingerIndices E indices
     }"

definition warmUpFingerTable :: "'w env \<Rightarrow> ('w, unit) nact" where
  "warmUpFingerTable E =
     (let count = (if DefaultM > 32 then 32 else DefaultM)
      in repairFingerIndices E (map (\<lambda>i. exponentialJumpIndex (int i)) [0 ..< count]))"

text \<open>\<open>FixFingers\<close> repairs the finger at \<open>nextFingerIndex\<close> and moves on by one.\<close>

definition fixOne :: "int \<Rightarrow> goerror + NodeInfo \<Rightarrow> gotime \<Rightarrow> Node \<Rightarrow> Node" where
  "fixOne index r t n =
     (let n1 = (case r of
                  Inr successor \<Rightarrow> repairOK (nat index) successor t n
                | Inl _ \<Rightarrow>
                    if feStatus (n_fingers n ! nat index) = FingerOK
                    then setFinger (nat index) (\<lambda>f. f\<lparr>feStatus := FingerSuspicious, feValid := False\<rparr>) n
                    else n)
      in n1\<lparr>n_nextFingerIndex := (index + 1) mod int DefaultM\<rparr>)"

definition FixFingers :: "'w env \<Rightarrow> ('w, unit) nact" where
  "FixFingers E =
     do {
       (index, start) \<leftarrow> asks (\<lambda>n. (n_nextFingerIndex n, feStart (n_fingers n ! nat (n_nextFingerIndex n))));
       r \<leftarrow> LookupSuccessor E start;
       t \<leftarrow> now E;
       modify (fixOne index r t)
     }"

end
