(* ===== verification/Membership.thy ===== *)
theory Membership
  imports Maintenance
begin

text \<open>
  Entering and leaving the ring: bootstrap and join (\<open>node.go\<close>), registration with and reports to the
  tracker, graceful leave, recovery from isolation, and the bodies of the maintenance loops
  (\<open>maintenance.go\<close>). A loop is a body run again and again after a pause; here is the body, and in
  \<open>Loops\<close> the schedule, with the pauses given by the interval functions of \<open>NodeOps\<close>.
\<close>

section \<open>Tracker registration\<close>

definition setRegion :: "string \<Rightarrow> Node \<Rightarrow> Node" where
  "setRegion region n = n\<lparr>n_region := region, n_self := (n_self n)\<lparr>Region := region\<rparr>\<rparr>"

definition registerTracker :: "'w env \<Rightarrow> ('w, unit) nact" where
  "registerTracker E =
     do {
       (tracker, vnode) \<leftarrow> asks (\<lambda>n. (n_tracker n, IsVNode n));
       if \<not> tracker then ret ()
       else if vnode then ret ()
       else do {
         self \<leftarrow> Self;
         opts \<leftarrow> asks n_options;
         let self = self\<lparr>Certificate := o_NodeCertificate opts\<rparr>;
         let vnodes = o_VNodeEntries opts;
         let self = (if vnodes \<noteq> [] then self\<lparr>Vnodes := vnodes\<rparr> else self);
         r \<leftarrow> rpc (tr_Register E self);
         case r of
           Inl _ \<Rightarrow> ret ()
         | Inr region \<Rightarrow> do {
             current \<leftarrow> asks n_region;
             if_then (current = [] \<and> region \<noteq> []) (modify (setRegion region)) } } }"

section \<open>Joining\<close>

definition setStatus :: "Status \<Rightarrow> Node \<Rightarrow> Node" where
  "setStatus st n = n\<lparr>n_status := st\<rparr>"

definition collectBootstrapSeeds :: "'w env \<Rightarrow> NodeInfo list \<Rightarrow> ('w, NodeInfo list) nact" where
  "collectBootstrapSeeds E manualSeeds =
     do {
       (tracker, selfID, count) \<leftarrow>
         asks (\<lambda>n. (n_tracker n, NodeID (n_self n), o_TrackerSeedCount (n_options n)));
       trackerSeeds \<leftarrow> (if tracker
                        then do {
                          r \<leftarrow> rpc (tr_Seeds E count [selfID]);
                          case r of Inl _ \<Rightarrow> ret [] | Inr l \<Rightarrow> ret l }
                        else ret []);
       let seeds = dedupeNodes (trackerSeeds @ manualSeeds) selfID;
       modify (setBootstrapSeeds seeds);
       ret seeds
     }"

definition joinVia :: "NodeInfo \<Rightarrow> NodeInfo list \<Rightarrow> gotime \<Rightarrow> Node \<Rightarrow> Node" where
  "joinVia successor l t n =
     setFinger 0 (\<lambda>f. f\<lparr>feNode := Core successor, feStatus := FingerOK\<rparr>)
       (n\<lparr>n_predecessor := None, n_successor := Core successor,
          n_successorList := mergeSuccessorListLocked (Core successor) l n,
          n_joinedAt := t, n_status := StatusActive\<rparr>)"

fun join_loop :: "'w env \<Rightarrow> NodeInfo \<Rightarrow> NodeInfo \<Rightarrow> NodeInfo list \<Rightarrow> ('w, unit) nact" where
  "join_loop E self selfWithCert [] = do { ActivateSingleNode E; registerTracker E }"
| "join_loop E self selfWithCert (seed # r) =
     (if NodeID seed = NodeID self then join_loop E self selfWithCert r
      else case ValidateNodeInfo (e_lib E) seed of
        Inl _ \<Rightarrow> join_loop E self selfWithCert r
      | Inr _ \<Rightarrow> do {
          res \<leftarrow> rpc (pc_Join E (URI seed) \<lparr>jqNode = selfWithCert\<rparr>);
          case res of
            Inl _ \<Rightarrow> join_loop E self selfWithCert r
          | Inr resp \<Rightarrow>
              (case ValidateNodeInfo (e_lib E) (jrSuccessor resp) of
                 Inl _ \<Rightarrow> join_loop E self selfWithCert r
               | Inr _ \<Rightarrow> do {
                   opts \<leftarrow> asks n_options;
                   l \<leftarrow> (if o_StabilizeAtomicState opts
                         then do {
                           st \<leftarrow> rpc (pc_State E (jrSuccessor resp));
                           case st of Inr s \<Rightarrow> ret (stSuccessorList s) | Inl _ \<Rightarrow> ret (jrSuccessorList resp) }
                         else ret (jrSuccessorList resp));
                   t \<leftarrow> now E;
                   modify (joinVia (jrSuccessor resp) l t);
                   rectifyPeer E (jrSuccessor resp) \<lparr>nqNode = selfWithCert\<rparr>;
                   validateSuccessorList E;
                   registerTracker E;
                   spawn WarmUpFingerTable }) })"

definition joinNetworkWithSeeds :: "'w env \<Rightarrow> NodeInfo list \<Rightarrow> ('w, unit) nact" where
  "joinNetworkWithSeeds E seeds =
     do {
       modify (setStatus StatusJoining);
       client \<leftarrow> asks n_client;
       if seeds = [] \<or> \<not> client then do { ActivateSingleNode E; registerTracker E }
       else do {
         s \<leftarrow> Self;
         cert \<leftarrow> asks (\<lambda>n. o_NodeCertificate (n_options n));
         let self = Core s;
         join_loop E self (self\<lparr>Certificate := cert\<rparr>) seeds } }"

definition JoinNetwork :: "'w env \<Rightarrow> NodeInfo list \<Rightarrow> ('w, unit) nact" where
  "JoinNetwork E manualSeeds =
     do { seeds \<leftarrow> collectBootstrapSeeds E manualSeeds; joinNetworkWithSeeds E seeds }"

definition retryBootstrapIfSingleton :: "'w env \<Rightarrow> ('w, bool) nact" where
  "retryBootstrapIfSingleton E =
     do {
       shouldRetry \<leftarrow> asks shouldRetryBootstrapLocked;
       if \<not> shouldRetry then ret False
       else do {
         known \<leftarrow> asks n_bootstrapSeeds;
         seeds \<leftarrow> collectBootstrapSeeds E known;
         if seeds = [] then ret False
         else do {
           joinNetworkWithSeeds E seeds;
           asks (\<lambda>n. n_status n = StatusActive \<and> NodeID (n_successor n) \<noteq> NodeID (n_self n)) } } }"

section \<open>Leaving\<close>

definition startLeaving :: "Node \<Rightarrow> (NodeInfo \<times> NodeInfo \<times> NodeInfo option) \<times> Node" where
  "startLeaving n = ((Core (n_self n), n_successor n, n_predecessor n), n\<lparr>n_status := StatusLeaving\<rparr>)"

definition GracefulLeave :: "'w env \<Rightarrow> ('w, unit) nact" where
  "GracefulLeave E =
     do {
       (self, successor, predecessor) \<leftarrow> atomically startLeaving;
       (client, tracker) \<leftarrow> asks (\<lambda>n. (n_client n, n_tracker n));
       if_then client (do {
         if_then (NodeID successor \<noteq> [] \<and> NodeID successor \<noteq> NodeID self) (do {
           _ \<leftarrow> rpc (pc_Leave E successor
                  \<lparr>lvRole = ''predecessor_leaving'', lvNewPredecessor = predecessor, lvNewSuccessor = None\<rparr>);
           ret () });
         case predecessor of
           None \<Rightarrow> ret ()
         | Some p \<Rightarrow> if_then (NodeID p \<noteq> NodeID self) (do {
             _ \<leftarrow> rpc (pc_Leave E p
                    \<lparr>lvRole = ''successor_leaving'', lvNewPredecessor = None, lvNewSuccessor = Some successor\<rparr>);
             ret () }) });
       if_then tracker (do { _ \<leftarrow> rpc (tr_Deregister E (NodeID self)); ret () })
     }"

section \<open>Recovery from isolation\<close>

fun recover_loop :: "'w env \<Rightarrow> NodeInfo list \<Rightarrow> ('w, bool) nact" where
  "recover_loop E [] = ret False"
| "recover_loop E (node # r) =
     do {
       selfID \<leftarrow> asks (\<lambda>n. NodeID (n_self n));
       if NodeID node = [] \<or> NodeID node = selfID then recover_loop E r
       else do {
         p \<leftarrow> rpc (pc_Ping E (URI node));
         case p of
           Inl _ \<Rightarrow> recover_loop E r
         | Inr _ \<Rightarrow> do {
             JoinNetwork E [node];
             recovered \<leftarrow> asks (\<lambda>n. n_status n = StatusActive);
             if recovered then ret True else recover_loop E r } } }"

definition tryRecoverFromNodes :: "'w env \<Rightarrow> NodeInfo list \<Rightarrow> ('w, bool) nact" where
  "tryRecoverFromNodes E nodes =
     do { client \<leftarrow> asks n_client; if \<not> client \<or> nodes = [] then ret False else recover_loop E nodes }"

definition tryRecoverFromIsolation :: "'w env \<Rightarrow> ('w, unit) nact" where
  "tryRecoverFromIsolation E =
     do {
       succs \<leftarrow> asks n_successorList;
       a \<leftarrow> tryRecoverFromNodes E succs;
       if a then ret ()
       else do {
         preds \<leftarrow> asks n_predecessorList;
         b \<leftarrow> tryRecoverFromNodes E preds;
         if b then ret ()
         else do {
           sample \<leftarrow> asks (sampleFingers 16);
           c \<leftarrow> tryRecoverFromNodes E sample;
           if c then ret ()
           else do {
             (tracker, selfID, count) \<leftarrow>
               asks (\<lambda>n. (n_tracker n, NodeID (n_self n), o_TrackerSeedCount (n_options n)));
             seeds \<leftarrow> (if tracker
                       then do {
                         r \<leftarrow> rpc (tr_Seeds E count [selfID]);
                         case r of Inl _ \<Rightarrow> ret [] | Inr l \<Rightarrow> ret l }
                       else ret []);
             if seeds \<noteq> [] then JoinNetwork E seeds else ActivateSingleNode E } } } }"

section \<open>Reports to the tracker\<close>

fun distinct_nonself :: "string \<Rightarrow> string list \<Rightarrow> FingerEntry list \<Rightarrow> string list" where
  "distinct_nonself selfID seen [] = []"
| "distinct_nonself selfID seen (f # r) =
     (let i = NodeID (feNode f)
      in if feValid f \<and> i \<noteq> [] \<and> i \<noteq> selfID \<and> i \<notin> set seen
         then i # distinct_nonself selfID (i # seen) r else distinct_nonself selfID seen r)"

definition stringPtrIfNotEmpty :: "string \<Rightarrow> string option" where
  "stringPtrIfNotEmpty v = (if v = [] then None else Some v)"

definition buildTrackerHeartbeatLocked :: "gotime \<Rightarrow> Node \<Rightarrow> HeartbeatSnapshot" where
  "buildTrackerHeartbeatLocked t n =
     \<lparr>hbStatus = n_status n,
      hbSuccessorID = stringPtrIfNotEmpty (NodeID (n_successor n)),
      hbPredecessorID = (case n_predecessor n of None \<Rightarrow> None | Some p \<Rightarrow> stringPtrIfNotEmpty (NodeID p)),
      hbSuccessorListSize = int (length (n_successorList n)),
      hbSuccessorListCapacity = o_SuccessorListSize (n_options n),
      hbFingerTableCoverage = fingerCoverageLocked n,
      hbUptimeSeconds = duration_secs (time_Sub t (n_startedAt n)),
      hbMaintenanceCycles = n_maintenanceCycles n,
      hbCertExpiresAt = o_NodeCertExpiresAt (n_options n),
      hbRegion = n_region n, hbMaintenanceMode = n_maintenanceMode n,
      hbCacheHits = 0, hbCacheMisses = 0, hbCacheSize = 0,
      hbPredecessorListSize = int (length (n_predecessorList n)),
      hbSuccessorList = filter (\<lambda>i. i \<noteq> []) (ids (n_successorList n)),
      hbPredecessorList = filter (\<lambda>i. i \<noteq> []) (ids (n_predecessorList n)),
      hbRTTSamples = [],
      hbFingerNodes = distinct_nonself (NodeID (n_self n)) [] (n_fingers n)\<rparr>"

definition SnapshotHeartbeat :: "gotime \<Rightarrow> Node \<Rightarrow> string \<times> HeartbeatSnapshot" where
  "SnapshotHeartbeat t n =
     (let hb = (buildTrackerHeartbeatLocked t n)\<lparr>hbRTTSamples := RTTCache_Snapshot t (n_rttCache n)\<rparr>
      in (NodeID (n_self n),
          (case n_routingCache n of
             None \<Rightarrow> hb
           | Some c \<Rightarrow>
               let (h, m, z) = RoutingCache_Stats c
               in hb\<lparr>hbCacheHits := h, hbCacheMisses := m, hbCacheSize := z\<rparr>)))"

text \<open>Claiming a slot: another caller that moved the time on since \<open>prev\<close> was read wins.\<close>

definition claimHeartbeat :: "gotime \<Rightarrow> gotime \<Rightarrow> Node \<Rightarrow> bool \<times> Node" where
  "claimHeartbeat prev t n =
     (if n_lastTrackerHeartbeatAt n > prev then (False, n)
      else (True, n\<lparr>n_lastTrackerHeartbeatAt := t\<rparr>))"

definition claimCRLRefresh :: "gotime \<Rightarrow> gotime \<Rightarrow> Node \<Rightarrow> bool \<times> Node" where
  "claimCRLRefresh prev t n =
     (if n_lastCRLRefreshAt n > prev then (False, n) else (True, n\<lparr>n_lastCRLRefreshAt := t\<rparr>))"

definition refreshCRLFromTracker :: "'w env \<Rightarrow> ('w, unit) nact" where
  "refreshCRLFromTracker E =
     do {
       (tracker, hook, vnode, interval) \<leftarrow>
         asks (\<lambda>n. (n_tracker n, o_OnCRLRefresh (n_options n), IsVNode n, getTrackerCRLInterval n));
       if \<not> tracker \<or> \<not> hook then ret ()
       else if vnode then ret ()
       else do {
         t \<leftarrow> now E;
         prev \<leftarrow> asks n_lastCRLRefreshAt;
         if \<not> IsZero prev \<and> time_Sub t prev < interval then ret ()
         else do {
           claimed \<leftarrow> atomically (claimCRLRefresh prev t);
           if_then claimed (do {
             r \<leftarrow> rpc (tr_FetchCRL E);
             case r of Inl _ \<Rightarrow> ret () | Inr crl \<Rightarrow> rpc (cb_OnCRLRefresh E crl) }) } } }"

text \<open>The batch of vnode snapshots: at most \<open>limit\<close>, anchors and missing entries passed over.\<close>

fun vnode_batch :: "gotime \<Rightarrow> int \<Rightarrow> VNodeHeartbeat list \<Rightarrow> Node option list \<Rightarrow> VNodeHeartbeat list" where
  "vnode_batch t limit out [] = out"
| "vnode_batch t limit out (None # r) = vnode_batch t limit out r"
| "vnode_batch t limit out (Some vn # r) =
     (if \<not> IsVNode vn then vnode_batch t limit out r
      else if int (length out) \<ge> limit then out
      else let (i, snap) = SnapshotHeartbeat t vn
           in vnode_batch t limit (out @ [\<lparr>vhVNodeID = i, vhHeartbeat = snap\<rparr>]) r)"

definition with_batch :: "HeartbeatSnapshot \<Rightarrow> VNodeHeartbeat list \<Rightarrow> int option \<Rightarrow> TrackerHeartbeat" where
  "with_batch hb batch version =
     HeartbeatSnapshot.extend hb (TrackerHeartbeat.fields batch version)"

definition ReportToTracker :: "'w env \<Rightarrow> ('w, unit) nact" where
  "ReportToTracker E =
     do {
       (tracker, vnode, status, prev, interval, opts) \<leftarrow>
         asks (\<lambda>n. (n_tracker n, IsVNode n, n_status n, n_lastTrackerHeartbeatAt n,
                    getTrackerHeartbeatInterval n, n_options n));
       if \<not> tracker then ret ()
       else if vnode then ret ()
       else if status \<noteq> StatusActive then ret ()
       else do {
         t \<leftarrow> now E;
         if \<not> IsZero prev \<and> time_Sub t prev < interval then ret ()
         else do {
           claimed \<leftarrow> atomically (claimHeartbeat prev t);
           if_then claimed (do {
             t \<leftarrow> now E;
             (nodeID, hb) \<leftarrow> asks (SnapshotHeartbeat t);
             version \<leftarrow> (if o_OnCRLRefresh opts
                         then (if o_CurrentCRLVersion opts
                               then do { v \<leftarrow> rpc (cb_CurrentCRLVersion E); ret (Some v) }
                               else ret (Some 0))
                         else ret None);
             provider \<leftarrow> asks n_vnodeProvider;
             peers \<leftarrow> (if provider then observe (cb_vnodes E) else ret []);
             let limit = (if o_MaxVNodes opts \<le> 0 then DefaultMaxVNodes else o_MaxVNodes opts);
             r \<leftarrow> rpc (tr_Heartbeat E nodeID (with_batch hb (vnode_batch t limit [] peers) version));
             case r of
               Inl e \<Rightarrow>
                 (case e of
                    APIError _ ec _ \<Rightarrow>
                      if ec = ErrNodeNotFound then registerTracker E else ret ()
                  | _ \<Rightarrow> ret ())
             | Inr None \<Rightarrow> ret ()
             | Inr (Some resp) \<Rightarrow>
                 if \<not> o_OnCRLRefresh opts then ret ()
                 else if thCRL resp \<noteq> [] then rpc (cb_OnCRLRefresh E (thCRL resp))
                 else if thCRLVersion resp = None then refreshCRLFromTracker E
                 else ret () }) } } }"

section \<open>The maintenance loops\<close>

definition endCycle :: "gotime \<Rightarrow> Node \<Rightarrow> Node" where
  "endCycle t n = n\<lparr>n_lastMaintenanceAt := Some t\<rparr>"

definition countCycle :: "Node \<Rightarrow> Node" where
  "countCycle n = n\<lparr>n_maintenanceCycles := (n_maintenanceCycles n + 1) mod 2 ^ 64\<rparr>"

definition MaintenanceCycle :: "'w env \<Rightarrow> ('w, unit) nact" where
  "MaintenanceCycle E =
     do {
       self \<leftarrow> Self;
       (if niStatus self = StatusActive
       then do {
         _ \<leftarrow> retryBootstrapIfSingleton E;
         CheckPredecessor E; Stabilize E; fixFingersBatch E; HealthCheckRing E }
       else if_then (niStatus self = StatusIsolated) (tryRecoverFromIsolation E));
       t \<leftarrow> now E;
       modify (endCycle t);
       modify countCycle
     }"

definition stabilizeLoopBody :: "'w env \<Rightarrow> ('w, unit) nact" where
  "stabilizeLoopBody E =
     do {
       status \<leftarrow> asks n_status;
       (if status = StatusActive
       then do { _ \<leftarrow> retryBootstrapIfSingleton E; Stabilize E; HealthCheckRing E }
       else if_then (status = StatusIsolated) (tryRecoverFromIsolation E));
       t \<leftarrow> now E;
       modify (endCycle t);
       modify countCycle
     }"

definition when_active :: "('w, unit) nact \<Rightarrow> ('w, unit) nact" where
  "when_active m = do { status \<leftarrow> asks n_status; if_then (status = StatusActive) m }"

definition trackerLoopBody :: "'w env \<Rightarrow> ('w, unit) nact" where
  "trackerLoopBody E =
     do {
       (tracker, vnode) \<leftarrow> asks (\<lambda>n. (n_tracker n, IsVNode n));
       if \<not> tracker \<or> vnode then ret () else when_active (ReportToTracker E) }"

definition fixFingersLoopBody :: "'w env \<Rightarrow> ('w, unit) nact" where
  "fixFingersLoopBody E = when_active (fixFingersBatch E)"

definition checkPredecessorLoopBody :: "'w env \<Rightarrow> ('w, unit) nact" where
  "checkPredecessorLoopBody E = when_active (CheckPredecessor E)"

definition latencyProbeBody :: "'w env \<Rightarrow> ('w, unit) nact" where
  "latencyProbeBody E = when_active (probeNeighbors E)"

definition cleanRTT :: "gotime \<Rightarrow> Node \<Rightarrow> Node" where
  "cleanRTT t n = n\<lparr>n_rttCache := RTTCache_Cleanup t (n_rttCache n)\<rparr>"

definition cleanRoutes :: "string list \<Rightarrow> gotime \<Rightarrow> Node \<Rightarrow> Node" where
  "cleanRoutes orc t n =
     (case n_routingCache n of
        None \<Rightarrow> n
      | Some c \<Rightarrow> n\<lparr>n_routingCache := Some (RoutingCache_Cleanup orc t c)\<rparr>)"

definition cacheCleanupBody :: "'w env \<Rightarrow> ('w, unit) nact" where
  "cacheCleanupBody E =
     do {
       t \<leftarrow> now E;
       modify (cleanRTT t);
       orc \<leftarrow> observe (e_orc E);
       modify (cleanRoutes orc t)
     }"

text \<open>The two events of the mode manager: the topology signal, and the quiet timer.\<close>

definition modeOnChange :: "'w env \<Rightarrow> ('w, unit) nact" where
  "modeOnChange E =
     do {
       signalled \<leftarrow> asks n_topologyChangeCh;
       if_then signalled (do {
         modify (\<lambda>n. n\<lparr>n_topologyChangeCh := False\<rparr>);
         modify (switchMode ActiveMaintenance);
         t \<leftarrow> now E;
         modify (\<lambda>n. n\<lparr>n_lastChangeTime := t\<rparr>) }) }"

definition modeOnQuiet :: "('w, unit) nact" where
  "modeOnQuiet = modify (switchMode QuietMaintenance)"

text \<open>Running a started goroutine.\<close>

definition runTask :: "'w env \<Rightarrow> task \<Rightarrow> ('w, unit) nact" where
  "runTask E k =
     (case k of
        FetchPredecessorOf c \<Rightarrow> fetchPredecessorOf E c
      | WarmUpFingerTable \<Rightarrow> warmUpFingerTable E)"

end
