(* ===== verification/NodeSteps.thy ===== *)
theory NodeSteps
  imports Membership
begin

text \<open>
  The node as a concurrent object. \<open>section_step\<close> has one rule per critical section of \<open>node.go\<close>,
  \<open>protocol.go\<close>, \<open>maintenance.go\<close> and \<open>lookup.go\<close>, with arbitrary data from peers, and a rule for the
  other users of a shared cache. Any interleaving of handlers, loops and goroutines is a sequence of
  these steps. \<open>node_inv\<close> is the invariant they keep; the interpretation \<open>ns\<close> of \<open>kept_invariant\<close>
  discharges that, and from it every method is shown to consist of such steps only.
\<close>

section \<open>The invariant\<close>

definition succ_list_ok :: "string \<Rightarrow> int \<Rightarrow> NodeInfo list \<Rightarrow> bool" where
  "succ_list_ok me lm l \<longleftrightarrow>
     int (length l) \<le> lm \<and> distinct (ids l) \<and> [] \<notin> set (ids l) \<and> (me \<in> set (ids l) \<longrightarrow> length l = 1)"

definition finger_table_ok :: "string \<Rightarrow> FingerEntry list \<Rightarrow> bool" where
  "finger_table_ok me fs \<longleftrightarrow>
     length fs = DefaultM \<and>
     (\<forall>i < DefaultM. feIndex (fs ! i) = int i \<and> FingerStart me (int i) = Inr (feStart (fs ! i)))"

definition caches_ok :: "Node \<Rightarrow> bool" where
  "caches_ok n \<longleftrightarrow> rtt_wf (n_rttCache n) \<and> (\<forall>c. n_routingCache n = Some c \<longrightarrow> rc_wf c)"

definition node_inv :: "string \<Rightarrow> int \<Rightarrow> int \<Rightarrow> Node \<Rightarrow> bool" where
  "node_inv me lm pl n \<longleftrightarrow>
     NodeID (n_self n) = me \<and> me \<noteq> [] \<and> successorLimit n = lm \<and> predecessorLimit n = pl \<and>
     succ_list_ok me lm (n_successorList n) \<and> finger_table_ok me (n_fingers n) \<and>
     0 \<le> n_nextFingerIndex n \<and> n_nextFingerIndex n < int DefaultM \<and>
     int (length (n_predecessorList n)) \<le> pl \<and> caches_ok n"

section \<open>Steps\<close>

text \<open>The maintenance mode is switched by the mode manager only: the flag says whether its critical
  section is among the steps.\<close>

inductive section_step :: "bool \<Rightarrow> Node \<Rightarrow> Node \<Rightarrow> bool" for manager where
  set_status: "section_step manager n (setStatus StatusJoining n)"
| set_seeds: "section_step manager n (setBootstrapSeeds seeds n)"
| set_region: "section_step manager n (setRegion r n)"
| set_vnode_entries: "section_step manager n (SetVNodeEntries es n)"
| set_vnode_provider: "section_step manager n (SetVNodeProvider b n)"
| end_cycle: "section_step manager n (endCycle t n)"
| count_cycle: "section_step manager n (countCycle n)"
| switch_mode: "manager \<Longrightarrow> section_step manager n (switchMode m n)"
| change_time: "section_step manager n (n\<lparr>n_lastChangeTime := t\<rparr>)"
| signal_change: "section_step manager n (signalTopologyChange n)"
| take_signal: "section_step manager n (n\<lparr>n_topologyChangeCh := False\<rparr>)"
| invalidate: "section_step manager n (invalidateRoutes n)"
| cache_get: "section_step manager n (snd (cache_get orc k t n))"
| cache_put: "section_step manager n (cache_put k p s t n)"
| clean_routes: "section_step manager n (cleanRoutes orc t n)"
| record_rtt: "section_step manager n (record_rtt i r t n)"
| clean_rtt: "section_step manager n (cleanRTT t n)"
| shared_rtt: "rtt_wf c \<Longrightarrow> section_step manager n (n\<lparr>n_rttCache := c\<rparr>)"
| shared_routes: "rc_wf c \<Longrightarrow> section_step manager n (n\<lparr>n_routingCache := Some c\<rparr>)"
| mark_success: "section_step manager n (markSuccess i n)"
| mark_failure: "section_step manager n (snd (markFailure i n))"
| next_fingers: "section_step manager n (snd (nextKFingerIndices k n))"
| repair_ok: "section_step manager n (repairOK i s t n)"
| repair_failed: "section_step manager n (repairFailed i n)"
| fix_one: "section_step manager n (fixOne i r t n)"
| activate: "section_step manager n (activateSingle t n)"
| join_via: "section_step manager n (joinVia s l t n)"
| isolate: "NodeID self = NodeID (n_self n) \<Longrightarrow> section_step manager n (isolate self t n)"
| stand_alone: "NodeID self = NodeID (n_self n) \<Longrightarrow> section_step manager n (standAlone self w t n)"
| set_successor: "section_step manager n (setSuccessor s r n)"
| adopt_successor: "section_step manager n (adoptSuccessor s r c n)"
| commit_valid: "succ_list_ok (NodeID (n_self n)) (successorLimit n) v \<Longrightarrow> v \<noteq> [] \<Longrightarrow>
    section_step manager n (commitValid self v t n)"
| drop_predecessor: "section_step manager n (dropPredecessor p n)"
| accept_predecessor: "section_step manager n (snd (acceptPredecessor c p a n))"
| fill_predecessors: "section_step manager n (fillPredecessorList c p n)"
| handle_leave: "section_step manager n (snd (handleLeave req n))"
| start_leaving: "section_step manager n (snd (startLeaving n))"
| claim_heartbeat: "section_step manager n (snd (claimHeartbeat prev t n))"
| claim_crl: "section_step manager n (snd (claimCRLRefresh prev t n))"

abbreviation node_step :: "Node \<Rightarrow> Node \<Rightarrow> bool" where
  "node_step \<equiv> section_step True"

inductive_cases section_stepE: "section_step manager n n'"

lemma succ_list_ok_filter: "succ_list_ok me lm l \<Longrightarrow> succ_list_ok me lm (filter P l)"
proof -
  assume l: "succ_list_ok me lm l"
  have "length (filter P l) = 1" if "me \<in> set (ids (filter P l))"
  proof -
    have "length l = 1" using l that by (auto simp: succ_list_ok_def)
    then show ?thesis using that by (cases l) (auto split: if_splits)
  qed
  moreover have "int (length (filter P l)) \<le> lm"
    using l unfolding succ_list_ok_def by (metis length_filter_le of_nat_mono order.trans)
  ultimately show ?thesis
    using l by (auto simp: succ_list_ok_def ids_def distinct_map inj_on_def)
qed

lemma succ_list_ok_merge:
  assumes "NodeID (n_self n) = me" and "me \<noteq> []"
  shows "succ_list_ok me (successorLimit n) (mergeSuccessorListLocked s r n)"
proof -
  have ne: "NodeID (n_self n) \<noteq> []" using assms by simp
  note m = mergeSuccessorListLocked_wf [OF ne, of s r]
  have "length (mergeSuccessorListLocked s r n) = 1" if "me \<in> set (ids (mergeSuccessorListLocked s r n))"
    using m(5) that assms(1) by simp
  then show ?thesis using m(2-4) unfolding succ_list_ok_def by blast
qed

lemma succ_list_ok_single: "0 < lm \<Longrightarrow> NodeID s \<noteq> [] \<Longrightarrow> succ_list_ok me lm [s]"
  by (simp add: succ_list_ok_def)

lemma finger_table_ok_map:
  "finger_table_ok me fs \<Longrightarrow> (\<And>f. feIndex (g f) = feIndex f \<and> feStart (g f) = feStart f) \<Longrightarrow>
   finger_table_ok me (map g fs)"
  by (simp add: finger_table_ok_def)

lemma finger_table_ok_update:
  "finger_table_ok me fs \<Longrightarrow> (\<And>f. feIndex (g f) = feIndex f \<and> feStart (g f) = feStart f) \<Longrightarrow>
   finger_table_ok me (fs[i := g (fs ! i)])"
  by (cases "i < length fs") (auto simp: finger_table_ok_def nth_list_update list_update_beyond)

definition sl_opt :: "Options \<Rightarrow> int" where
  "sl_opt opts = (let limit = o_SuccessorListSize opts in if limit \<le> 0 then DefaultSuccessorListSize else limit)"

definition pl_opt :: "Options \<Rightarrow> int" where
  "pl_opt opts = (let p = o_PredecessorListSize opts in if p \<le> 0 then DefaultPredecessorListSize else p)"

lemma limits: "successorLimit n = sl_opt (n_options n)" "predecessorLimit n = pl_opt (n_options n)"
  by (simp_all add: successorLimit_def predecessorLimit_def sl_opt_def pl_opt_def)

lemma sl_opt_VNodeEntries [simp]: "sl_opt (opts\<lparr>o_VNodeEntries := es\<rparr>) = sl_opt opts"
  "pl_opt (opts\<lparr>o_VNodeEntries := es\<rparr>) = pl_opt opts"
  by (simp_all add: sl_opt_def pl_opt_def)

lemma limits_pos: "0 < sl_opt opts" "0 < pl_opt opts"
  by (simp_all add: sl_opt_def pl_opt_def DefaultSuccessorListSize_def DefaultPredecessorListSize_def Let_def)

lemma merge_ok: "NodeID (n_self n) = me \<Longrightarrow> me \<noteq> [] \<Longrightarrow> sl_opt (n_options n) = lm \<Longrightarrow>
    succ_list_ok me lm (mergeSuccessorListLocked s r n)"
  using succ_list_ok_merge [of n me s r] by (simp add: limits)

lemmas small_steps = setStatus_def setBootstrapSeeds_def setRegion_def SetVNodeEntries_def SetVNodeProvider_def
  endCycle_def countCycle_def switchMode_def signalTopologyChange_def dropPredecessor_def startLeaving_def
  claimHeartbeat_def claimCRLRefresh_def

lemma node_step_inv:
  assumes "section_step manager n n'" and "node_inv me lm pl n"
  shows "node_inv me lm pl n'"
  using assms
proof (induction rule: section_step.induct)
  case (set_vnode_entries n es)
  then show ?case
    by (simp add: node_inv_def small_steps caches_ok_def limits)
next
  case (invalidate n)
  then show ?case
    by (auto simp: invalidateRoutes_def node_inv_def caches_ok_def rc_wf_InvalidateAll limits split: option.splits)
next
  case (cache_get n orc k t)
  then show ?case
    using rc_wf_Get [of _ orc k t]
    by (auto simp: cache_get_def node_inv_def caches_ok_def limits
        case_prod_beta split: option.splits)
next
  case (cache_put n k p s t)
  then show ?case
    by (auto simp: cache_put_def node_inv_def caches_ok_def rc_wf_Put limits
        split: option.splits)
next
  case (clean_routes n orc t)
  then show ?case
    by (auto simp: cleanRoutes_def node_inv_def caches_ok_def RoutingCache_Cleanup_spec(1) limits split: option.splits)
next
  case (record_rtt n i r t)
  then show ?case
    by (simp add: record_rtt_def node_inv_def caches_ok_def rtt_wf_Record limits)
next
  case (clean_rtt n t)
  then show ?case
    by (simp add: cleanRTT_def node_inv_def caches_ok_def rtt_wf_Cleanup limits)
next
  case (mark_success n i)
  then show ?case
    by (auto simp: markSuccess_def node_inv_def caches_ok_def limits
        intro!: finger_table_ok_map)
next
  case (mark_failure n i)
  then show ?case
    by (auto simp: markFailure_def node_inv_def caches_ok_def limits Let_def
        intro!: finger_table_ok_map succ_list_ok_filter)
next
  case (next_fingers n k)
  then show ?case
    by (auto simp: nextKFingerIndices_def node_inv_def caches_ok_def limits
        Let_def DefaultM_def)
next
  case (repair_ok n i s t)
  then show ?case
    by (auto simp: repairOK_def setFinger_def node_inv_def caches_ok_def limits
        intro!: finger_table_ok_update)
next
  case (repair_failed n i)
  then show ?case
    by (auto simp: repairFailed_def setFinger_def node_inv_def caches_ok_def limits intro!: finger_table_ok_update)
next
  case (fix_one n i r t)
  then show ?case
    by (auto simp: fixOne_def repairOK_def setFinger_def node_inv_def caches_ok_def limits Let_def DefaultM_def intro!: finger_table_ok_update split: sum.splits)
next
  case (activate n t)
  then show ?case
    using successorLimit_pos [of n]
    by (auto simp: activateSingle_def node_inv_def caches_ok_def limits
        intro!: finger_table_ok_map succ_list_ok_single)
next
  case (join_via n s l t)
  then show ?case
    by (auto simp: joinVia_def setFinger_def node_inv_def caches_ok_def limits
        intro!: finger_table_ok_update merge_ok)
next
  case (isolate self n t)
  then show ?case
    by (auto simp: isolate_def node_inv_def caches_ok_def limits limits_pos intro!: succ_list_ok_single)
next
  case (stand_alone self n w t)
  then show ?case
    by (auto simp: standAlone_def node_inv_def caches_ok_def limits limits_pos Let_def
        intro!: succ_list_ok_single)
next
  case (set_successor n s r)
  then show ?case
    by (auto simp: setSuccessor_def setFinger_def node_inv_def caches_ok_def limits
        intro!: finger_table_ok_update merge_ok)
next
  case (adopt_successor n s r c)
  then show ?case
    by (auto simp: adoptSuccessor_def setSuccessor_def setFinger_def node_inv_def caches_ok_def limits Let_def
        intro!: finger_table_ok_update merge_ok)
next
  case (commit_valid n v self t)
  then show ?case
    by (auto simp: commitValid_def setFinger_def node_inv_def caches_ok_def limits
        intro!: finger_table_ok_update)
next
  case (accept_predecessor n c p a)
  then show ?case
    using limits_pos(2) [of "n_options n"]
    by (auto simp: acceptPredecessor_def node_inv_def caches_ok_def limits Let_def split: option.splits)
next
  case (fill_predecessors n c p)
  then show ?case
    by (auto simp: fillPredecessorList_def node_inv_def caches_ok_def limits Let_def)
next
  case (handle_leave n req)
  then show ?case
    by (auto simp: handleLeave_def node_inv_def caches_ok_def limits intro!: merge_ok split: option.splits)
qed (auto simp: node_inv_def small_steps caches_ok_def limits split: option.splits)

interpretation ns: kept_invariant "section_step manager" "node_inv me lm pl" for manager me lm pl
  by unfold_locales (rule node_step_inv)

end
