(* ===== verification/NodeRuns.thy ===== *)
theory NodeRuns
  imports NodeSteps
begin

text \<open>
  Every method of a node is made of the critical sections of \<open>section_step\<close>: run alone or with the steps
  of other goroutines in between, it keeps the node's invariant; only the mode manager's events need the
  step that switches the maintenance mode. The proofs follow the code's shape
  with the rules of \<open>safe_intros\<close>; the two places where data read earlier matters later, the validated
  successor list and the ID captured before an isolation, carry a property from read to write.
\<close>

lemma moves_section:
  "(\<And>n. section_step manager n (f n)) \<Longrightarrow> ns.moves manager me lm pl (modify f)"
  by (rule ns.moves_modify)

lemma moves_section_result:
  "(\<And>n. section_step manager n (snd (g n))) \<Longrightarrow> ns.moves manager me lm pl (atomically g)"
  by (rule ns.moves_atomically)

lemma moves_now [safe_intros]: "ns.moves manager me lm pl (now E)"
  unfolding now_def by (intro safe_intros)

lemma moves_Self [safe_intros]: "ns.moves manager me lm pl Self"
  unfolding Self_def by (intro safe_intros)

section \<open>Lookups\<close>

lemma moves_cache [safe_intros]:
  "ns.moves manager me lm pl (routingCache_Get E k)" "ns.moves manager me lm pl (routingCache_Put E k p s)"
  "ns.moves manager me lm pl (rttCache_Record E i r)" "ns.moves manager me lm pl (piggyback E)"
  unfolding routingCache_Get_def routingCache_Put_def rttCache_Record_def piggyback_def
  by (intro safe_intros moves_section moves_section_result section_step.intros)+

lemma moves_applyPiggyback [safe_intros]: "ns.moves manager me lm pl (applyPiggyback E pb)"
  unfolding applyPiggyback_def by (intro safe_intros)

lemma moves_HandleFindSuccessor [safe_intros]: "ns.moves manager me lm pl (HandleFindSuccessor E req)"
  unfolding HandleFindSuccessor_def by (intro safe_intros)

lemma moves_lookup_loop [safe_intros]: "ns.moves manager me lm pl (lookup_loop k E nid mh hop cur vis)"
proof (induction k arbitrary: hop cur vis)
  case (Suc k)
  show ?case
    unfolding lookup_loop.simps by (intro safe_intros Suc)
qed (simp add: safe_intros)

lemma moves_lookups [safe_intros]:
  "ns.moves manager me lm pl (lookupIterative E nid)" "ns.moves manager me lm pl (lookupParallel E nid)"
  "ns.moves manager me lm pl (LookupSuccessor E nid)"
proof -
  show *: "ns.moves manager me lm pl (lookupIterative E nid)"
    unfolding lookupIterative_def by (intro safe_intros)
  show **: "ns.moves manager me lm pl (lookupParallel E nid)"
    unfolding lookupParallel_def by (intro safe_intros *)
  show "ns.moves manager me lm pl (LookupSuccessor E nid)"
    unfolding LookupSuccessor_def by (intro safe_intros * **)
qed

section \<open>Protocol handlers\<close>

lemma moves_calls [safe_intros]:
  "ns.moves manager me lm pl (markSuccessOf i)" "ns.moves manager me lm pl (pingLiveness E p)"
  "ns.moves manager me lm pl (rectifyPeer E p req)" "ns.moves manager me lm pl emitTopologyChange"
  "ns.moves manager me lm pl (ActivateSingleNode E)"
  unfolding markSuccessOf_def pingLiveness_def rectifyPeer_def emitTopologyChange_def ActivateSingleNode_def
  by (intro safe_intros moves_section section_step.intros)+

lemma moves_handlers [safe_intros]:
  "ns.moves manager me lm pl (HandleJoin E jreq)" "ns.moves manager me lm pl (HandleRectify E req)"
  "ns.moves manager me lm pl (HandleNotify E req)" "ns.moves manager me lm pl (HandleLeave lreq)"
  "ns.moves manager me lm pl (fetchPredecessorOf E c)"
  unfolding HandleJoin_def HandleNotify_def HandleRectify_def HandleLeave_def fetchPredecessorOf_def
    successorListFor_def
  by (intro safe_intros moves_section moves_section_result section_step.intros)+

section \<open>The validated successor list\<close>

lemma take_valid_ok:
  assumes "succ_list_ok me lm valid" and "set (ids valid) = set seen" and "int (length valid) < lm"
    and "me \<in> set (ids valid) \<union> NodeID ` fst ` set rs \<longrightarrow> valid = [] \<and> length rs = 1"
  shows "succ_list_ok me lm (take_valid lm seen valid rs)"
  using assms
proof (induction lm seen valid rs rule: take_valid.induct)
  case (2 limit seen valid node live r)
  show ?case
  proof (cases "\<not> live \<or> NodeID node = [] \<or> NodeID node \<in> set seen")
    case True
    then show ?thesis
      using 2 by (cases r) auto
  next
    case False
    have ok: "succ_list_ok me limit (valid @ [Core node])"
      using 2(3-6) False by (auto simp: succ_list_ok_def)
    show ?thesis
    proof (cases "int (length (valid @ [Core node])) = limit")
      case True
      then show ?thesis using False ok by simp
    next
      case neq: False
      have step: "take_valid limit seen valid ((node, live) # r) =
          take_valid limit (NodeID node # seen) (valid @ [Core node]) r"
        using False neq by simp
      show ?thesis
      proof (cases "r = []")
        case True
        then show ?thesis using ok step by simp
      next
        case rest: False
        then have no: "me \<notin> set (ids valid)" "NodeID node \<noteq> me" "me \<notin> NodeID ` fst ` set r"
          using 2(6) by auto
        have len: "int (length (valid @ [Core node])) < limit" using 2(5) neq by simp
        have seen: "set (ids (valid @ [Core node])) = set (NodeID node # seen)" using 2(4) by auto
        have me: "me \<in> set (ids (valid @ [Core node])) \<union> NodeID ` fst ` set r \<longrightarrow>
            valid @ [Core node] = [] \<and> length r = 1"
          using no by auto
        show ?thesis
          unfolding step using 2(2) [OF False refl neq ok seen len me] .
      qed
    qed
  qed
qed simp

lemma zip_results_self:
  assumes "succ_list_ok me lm l" and "length bs = length l"
  shows "succ_list_ok me lm (take_valid lm [] [] (zip l bs))"
proof (cases "0 < lm")
  case True
  have "set (zip l bs) \<subseteq> set l \<times> set bs" by (meson set_zip_leftD set_zip_rightD subrelI SigmaI)
  then have "NodeID ` fst ` set (zip l bs) \<subseteq> set (ids l)" by auto
  moreover have "me \<in> set (ids l) \<longrightarrow> length (zip l bs) = 1"
    using assms by (simp add: succ_list_ok_def)
  ultimately show ?thesis
    using True by (intro take_valid_ok) (auto simp: succ_list_ok_def)
next
  case False
  then have "l = []" using assms(1) by (cases l) (auto simp: succ_list_ok_def)
  then show ?thesis using assms(1) by simp
qed

lemma safe_extend_valid:
  assumes "succ_list_ok me lm valid" and "valid \<noteq> []" and "me \<notin> set (ids valid)"
  shows "ns.safe manager me lm pl (extend_valid E lm me valid cs) (\<lambda>v. succ_list_ok me lm v \<and> v \<noteq> [])"
  using assms
proof (induction cs arbitrary: valid)
  case Nil
  then show ?case by (simp add: ns.safe_ret)
next
  case (Cons c cs)
  show ?case
  proof (cases "int (length valid) = lm \<or> NodeID c = [] \<or> NodeID c = me \<or> NodeID c \<in> set (ids valid)")
    case True
    then show ?thesis using Cons by (auto simp: ns.safe_ret)
  next
    case False
    have ok: "succ_list_ok me lm (valid @ [Core c])" "me \<notin> set (ids (valid @ [Core c]))"
      using False Cons.prems by (auto simp: succ_list_ok_def)
    have eq: "extend_valid E lm me valid (c # cs) =
        State_Monad.bind (pingLiveness E c) (\<lambda>live. if live then extend_valid E lm me (valid @ [Core c]) cs
          else extend_valid E lm me valid cs)"
      using False by simp
    show ?thesis
      unfolding eq
      by (rule ns.safe_bind [OF ns.moves_safe [OF moves_calls(2)]])
        (use Cons.IH ok Cons.prems in \<open>auto intro: ns.safe_if\<close>)
  qed
qed

lemma moves_isolate: "NodeID self = me \<Longrightarrow> ns.moves manager me lm pl (modify (isolate self t))"
  by (rule ns.moves_modify) (auto simp: node_inv_def intro: section_step.isolate)

lemma moves_standAlone: "NodeID self = me \<Longrightarrow> ns.moves manager me lm pl (modify (standAlone self w t))"
  by (rule ns.moves_modify) (auto simp: node_inv_def intro: section_step.stand_alone)

lemma moves_commitValid:
  "succ_list_ok me lm v \<Longrightarrow> v \<noteq> [] \<Longrightarrow> ns.moves manager me lm pl (modify (commitValid self v t))"
  by (rule ns.moves_modify) (auto simp: node_inv_def intro: section_step.commit_valid)

lemma succ_list_ok_last: "succ_list_ok me lm v \<Longrightarrow> v \<noteq> [] \<Longrightarrow> NodeID (last v) \<noteq> me \<Longrightarrow> me \<notin> set (ids v)"
  by (cases v rule: rev_cases) (auto simp: succ_list_ok_def)

lemma safe_extendFrom:
  assumes "succ_list_ok me lm valid"
  shows "ns.safe manager me lm pl (extendFrom E lm me valid) (\<lambda>v. succ_list_ok me lm v)"
proof -
  have "ns.safe manager me lm pl (extend_valid E lm me valid cs) (\<lambda>v. succ_list_ok me lm v)"
    if "valid \<noteq> []" "NodeID (last valid) \<noteq> me" for cs
    by (rule ns.safe_weaken [OF safe_extend_valid]) (use assms that succ_list_ok_last in auto)
  then show ?thesis
    unfolding extendFrom_def
    by (auto intro!: ns.safe_bind [OF ns.moves_safe [OF ns.moves_basic(2)]] ns.safe_if ns.safe_ret
        ns.safe_bind [OF ns.moves_safe [OF ns.moves_basic(3)]] ns.safe_case_sum assms)
qed

lemma moves_validateFrom:
  assumes "NodeID self = me" and "succ_list_ok me lm current"
  shows "ns.moves manager me lm pl (validateFrom E self current lm)"
  unfolding validateFrom_def
proof (rule ns.moves_after [OF ns.safe_for_map [OF ns.moves_safe [OF moves_calls(2)]]])
  fix results :: "bool list"
  assume "length results = length current \<and> list_all (\<lambda>_. True) results"
  then have ok: "succ_list_ok me lm (take_valid lm [] [] (zip current results))"
    using assms by (auto intro: zip_results_self)
  show "ns.moves manager me lm pl (do {
      valid \<leftarrow> extendFrom E lm (NodeID self) (take_valid lm [] [] (zip current results));
      t \<leftarrow> now E;
      if valid = [] then do { modify (isolate self t); emitTopologyChange }
      else modify (commitValid self valid t) })"
    unfolding assms(1)
    by (intro ns.moves_after [OF safe_extendFrom [OF ok]] ns.moves_bind [OF moves_now] ns.moves_if
        ns.moves_bind [OF moves_isolate] moves_calls(4) moves_commitValid assms)
qed

lemma moves_validateSuccessorList [safe_intros]: "ns.moves manager me lm pl (validateSuccessorList E)"
proof -
  have "ns.safe manager me lm pl (asks (\<lambda>n. (Core (n_self n),
      (if n_successorList n = [] \<and> NodeID (n_successor n) \<noteq> [] then [n_successor n] else n_successorList n),
      successorLimit n)) :: ('a, _) nact)
      (\<lambda>(self, current, limit). NodeID self = me \<and> limit = lm \<and> succ_list_ok me lm current)"
    by (rule ns.safe_asks) (auto simp: node_inv_def limits limits_pos intro: succ_list_ok_single)
  then show ?thesis
    unfolding validateSuccessorList_def
    by (rule ns.moves_after) (auto intro: moves_validateFrom)
qed

section \<open>Stabilisation\<close>

lemma moves_fetch [safe_intros]:
  "ns.moves manager me lm pl (fetchSuccessorState E c)" "ns.moves manager me lm pl (chooseSuccessor E self c st)"
  unfolding fetchSuccessorState_def chooseSuccessor_def by (intro safe_intros)+

lemma moves_stabilizeSelf:
  assumes "NodeID self = me"
  shows "ns.moves manager me lm pl (stabilizeSelf E self sc cs cp)"
  unfolding stabilizeSelf_def
  by (intro safe_intros moves_standAlone assms moves_section section_step.intros)

lemma moves_stabilize_loop:
  assumes "NodeID self = me"
  shows "ns.moves manager me lm pl (stabilize_loop E self sc cs cp l)"
proof (induction l)
  case Nil
  show ?case
    unfolding stabilize_loop.simps by (intro safe_intros moves_isolate assms)
next
  case (Cons c l)
  show ?case
    unfolding stabilize_loop.simps
    by (intro safe_intros moves_isolate moves_stabilizeSelf Cons assms moves_section moves_section_result
        section_step.mark_failure section_step.adopt_successor)
qed

lemma moves_Stabilize [safe_intros]: "ns.moves manager me lm pl (Stabilize E)"
proof -
  have "ns.safe manager me lm pl (asks (\<lambda>n. (Core (n_self n), n_status n, n_successor n, n_successor n # n_successorList n,
      n_predecessor n, o_NodeCertificate (n_options n))) :: ('a, _) nact) (\<lambda>(self, _). NodeID self = me)"
    by (rule ns.safe_asks) (simp add: node_inv_def)
  then show ?thesis
    unfolding Stabilize_def
    by (rule ns.moves_after) (auto intro!: moves_stabilize_loop ns.moves_basic)
qed

section \<open>Checks, repair, membership\<close>

lemma moves_checks [safe_intros]:
  "ns.moves manager me lm pl (CheckPredecessor E)" "ns.moves manager me lm pl (HealthCheckRing E)"
  "ns.moves manager me lm pl (probeNeighbors E)"
  unfolding CheckPredecessor_def HealthCheckRing_def probeNeighbors_def probe_def
  by (intro safe_intros moves_section moves_section_result section_step.drop_predecessor section_step.mark_failure)+

lemma moves_repair [safe_intros]:
  "ns.moves manager me lm pl (repairFingerIndices E is)" "ns.moves manager me lm pl (fixFingersBatch E)"
  "ns.moves manager me lm pl (warmUpFingerTable E)" "ns.moves manager me lm pl (FixFingers E)"
proof -
  have 1: "ns.moves manager me lm pl (repairFingerIndices E is)" for "is"
    unfolding repairFingerIndices_def repairFinger_def
    by (intro safe_intros moves_section section_step.repair_ok section_step.repair_failed)
  then show "ns.moves manager me lm pl (repairFingerIndices E is)" .
  show "ns.moves manager me lm pl (fixFingersBatch E)" "ns.moves manager me lm pl (warmUpFingerTable E)"
    unfolding fixFingersBatch_def warmUpFingerTable_def
    by (intro safe_intros 1 moves_section_result section_step.next_fingers)+
  show "ns.moves manager me lm pl (FixFingers E)"
    unfolding FixFingers_def by (intro safe_intros moves_section section_step.fix_one)
qed

lemma moves_tracker [safe_intros]:
  "ns.moves manager me lm pl (registerTracker E)" "ns.moves manager me lm pl (collectBootstrapSeeds E l)"
  "ns.moves manager me lm pl (refreshCRLFromTracker E)"
  unfolding registerTracker_def collectBootstrapSeeds_def refreshCRLFromTracker_def
  by (intro safe_intros moves_section moves_section_result section_step.set_region section_step.set_seeds
      section_step.claim_crl)+

lemma moves_ReportToTracker [safe_intros]: "ns.moves manager me lm pl (ReportToTracker E)"
  unfolding ReportToTracker_def
  by (intro safe_intros moves_section_result section_step.claim_heartbeat)

lemma moves_join_loop [safe_intros]: "ns.moves manager me lm pl (join_loop E self sc seeds)"
proof (induction seeds)
  case Nil
  show ?case unfolding join_loop.simps by (intro safe_intros)
next
  case (Cons seed seeds)
  show ?case
    unfolding join_loop.simps
    by (intro safe_intros Cons moves_section section_step.join_via)
qed

lemma moves_join [safe_intros]:
  "ns.moves manager me lm pl (joinNetworkWithSeeds E seeds)" "ns.moves manager me lm pl (JoinNetwork E seeds)"
  "ns.moves manager me lm pl (retryBootstrapIfSingleton E)" "ns.moves manager me lm pl (GracefulLeave E)"
  unfolding JoinNetwork_def retryBootstrapIfSingleton_def joinNetworkWithSeeds_def GracefulLeave_def
  by (intro safe_intros moves_section moves_section_result section_step.set_status section_step.start_leaving)+

lemma moves_recover_loop [safe_intros]: "ns.moves manager me lm pl (recover_loop E nodes)"
proof (induction nodes)
  case (Cons c nodes)
  show ?case unfolding recover_loop.simps by (intro safe_intros Cons)
qed (simp add: safe_intros)

lemma moves_recovery [safe_intros]:
  "ns.moves manager me lm pl (tryRecoverFromNodes E nodes)" "ns.moves manager me lm pl (tryRecoverFromIsolation E)"
  unfolding tryRecoverFromIsolation_def tryRecoverFromNodes_def by (intro safe_intros)+

lemma moves_loops [safe_intros]:
  "ns.moves manager me lm pl (MaintenanceCycle E)" "ns.moves manager me lm pl (stabilizeLoopBody E)"
  "ns.moves manager me lm pl (trackerLoopBody E)" "ns.moves manager me lm pl (fixFingersLoopBody E)"
  "ns.moves manager me lm pl (checkPredecessorLoopBody E)" "ns.moves manager me lm pl (latencyProbeBody E)"
  "ns.moves manager me lm pl (cacheCleanupBody E)" "ns.moves True me lm pl (modeOnChange E)"
  "ns.moves True me lm pl modeOnQuiet" "ns.moves manager me lm pl (runTask E k)"
proof -
  show "ns.moves manager me lm pl (MaintenanceCycle E)" "ns.moves manager me lm pl (stabilizeLoopBody E)"
    unfolding MaintenanceCycle_def stabilizeLoopBody_def
    by (intro safe_intros moves_section section_step.end_cycle section_step.count_cycle)+
  show "ns.moves manager me lm pl (trackerLoopBody E)" "ns.moves manager me lm pl (fixFingersLoopBody E)"
    "ns.moves manager me lm pl (checkPredecessorLoopBody E)" "ns.moves manager me lm pl (latencyProbeBody E)"
    unfolding trackerLoopBody_def fixFingersLoopBody_def checkPredecessorLoopBody_def latencyProbeBody_def
      when_active_def
    by (intro safe_intros)+
  show "ns.moves manager me lm pl (cacheCleanupBody E)"
    unfolding cacheCleanupBody_def
    by (intro safe_intros moves_section section_step.clean_rtt section_step.clean_routes)
  show "ns.moves True me lm pl (modeOnChange E)" "ns.moves True me lm pl modeOnQuiet"
    unfolding modeOnChange_def modeOnQuiet_def
    by (intro safe_intros moves_section section_step.switch_mode TrueI section_step.change_time section_step.take_signal)+
  show "ns.moves manager me lm pl (runTask E k)"
    by (cases k) (simp_all add: runTask_def safe_intros)
qed

end
