(* ===== verification/NodeInvariant.thy ===== *)
theory NodeInvariant
  imports NodeRuns
begin

text \<open>
  The invariant over the life of a node: \<open>NewNode\<close> establishes it, every critical section keeps it,
  and every operation is made of critical sections, whatever peers, tracker and scheduler do.
\<close>

section \<open>Construction\<close>

lemma collect_Inr: "collect rs = Inr xs \<Longrightarrow> length xs = length rs \<and> (\<forall>i < length rs. rs ! i = Inr (xs ! i))"
proof (induction rs arbitrary: xs)
  case (Cons r rs)
  then obtain x where r: "r = Inr x" by (cases r) auto
  with Cons.prems obtain ys where ys: "collect rs = Inr ys" "xs = x # ys" by (auto split: sum.splits)
  show ?case
    using Cons.IH [OF ys(1)] ys(2) r by (auto simp: nth_Cons split: nat.splits)
qed simp

lemma collect_total: "\<forall>r \<in> set rs. \<not> isl r \<Longrightarrow> \<exists>xs. collect rs = Inr xs"
proof (induction rs)
  case (Cons r rs)
  then obtain x ys where "r = Inr x" "collect rs = Inr ys" by (cases r) auto
  then show ?case by simp
qed simp

lemma NewNode_fingers_ok: "NewNode_fingers self = Inr fs \<Longrightarrow> finger_table_ok (NodeID self) fs"
proof -
  assume fs: "NewNode_fingers self = Inr fs"
  note c = collect_Inr [OF fs [unfolded NewNode_fingers_def]]
  have "feIndex (fs ! i) = int i \<and> FingerStart (NodeID self) (int i) = Inr (feStart (fs ! i))" if "i < DefaultM" for i
  proof -
    have "(case FingerStart (NodeID self) (int i) of Inl e \<Rightarrow> Inl e
        | Inr start \<Rightarrow> Inr \<lparr>feIndex = int i, feStart = start, feNode = Core self, feStatus = FingerUnknown,
            feValid = False, feLastVerified = 0\<rparr>) = Inr (fs ! i)"
      using c [THEN conjunct2, rule_format, of i] that
      by (cases "FingerStart (NodeID self) (int i)") (simp_all add: DefaultM_def)
    then obtain start where "FingerStart (NodeID self) (int i) = Inr start"
      and "fs ! i = \<lparr>feIndex = int i, feStart = start, feNode = Core self, feStatus = FingerUnknown,
            feValid = False, feLastVerified = 0\<rparr>"
      by (cases "FingerStart (NodeID self) (int i)") auto
    then show ?thesis by simp
  qed
  then show ?thesis using c by (simp add: finger_table_ok_def)
qed

lemma NewNode_fields:
  assumes "NewNode L uri opts c tr t = Inr n"
  obtains self fs where "n_self n = self\<lparr>Region := o_Region opts\<rparr>" "n_successorList n = [Core self]"
    "n_predecessorList n = []" "n_nextFingerIndex n = 0" "n_fingers n = fs" "NewNode_fingers self = Inr fs"
    "n_options n = NewNode_options opts" "n_status n = StatusInitializing"
    "n_rttCache n = (case o_SharedRTTCache opts of Some c \<Rightarrow> c
       | None \<Rightarrow> NewRTTCache (o_RTTEWMAAlpha opts) (o_RTTSampleExpiry opts))"
    "n_routingCache n = (case o_SharedRoutingCache opts of Some c \<Rightarrow> Some c
       | None \<Rightarrow> if o_RoutingCacheEnabled opts
               then Some (NewRoutingCache (o_RoutingCacheSize opts) (o_RoutingCacheTTL opts)) else None)"
    "NewNodeInfoFromURI L uri = Inr self \<or>
     NodeID self = DeriveVNodeID L (o_AnchorID opts) (o_VNodeIndex opts)"
proof -
  obtain self where self: "(if o_AnchorID opts \<noteq> [] \<and> o_VNodeIndex opts > 0
      then (case NormalizeURI L uri of
              Inl e \<Rightarrow> Inl e
            | Inr normalized \<Rightarrow>
                Inr (emptyNodeInfo\<lparr>NodeID := DeriveVNodeID L (o_AnchorID opts) (o_VNodeIndex opts),
                                   URI := normalized\<rparr>))
      else NewNodeInfoFromURI L uri) = Inr self"
    using assms unfolding NewNode_def by (auto simp del: NewNode_options_def split: sum.splits)
  then have id: "NewNodeInfoFromURI L uri = Inr self \<or>
      NodeID self = DeriveVNodeID L (o_AnchorID opts) (o_VNodeIndex opts)"
    by (auto split: if_splits sum.splits)
  obtain fs where fs: "NewNode_fingers self = Inr fs"
    using assms unfolding NewNode_def self by (auto simp: Let_def split: sum.splits)
  have cache_opts: "o_Region (NewNode_options opts) = o_Region opts"
    "o_SharedRTTCache (NewNode_options opts) = o_SharedRTTCache opts"
    "o_SharedRoutingCache (NewNode_options opts) = o_SharedRoutingCache opts"
    "o_RTTEWMAAlpha (NewNode_options opts) = o_RTTEWMAAlpha opts"
    "o_RTTSampleExpiry (NewNode_options opts) = o_RTTSampleExpiry opts"
    "o_RoutingCacheEnabled (NewNode_options opts) = o_RoutingCacheEnabled opts"
    "o_RoutingCacheSize (NewNode_options opts) = o_RoutingCacheSize opts"
    "o_RoutingCacheTTL (NewNode_options opts) = o_RoutingCacheTTL opts"
    by (simp_all add: NewNode_options_def Let_def)
  show thesis
    by (rule that [of self fs])
      (use assms fs id in \<open>auto simp: NewNode_def self Let_def cache_opts split: if_splits option.splits\<close>)
qed

lemma NewNode_inv:
  assumes new: "NewNode L uri opts c tr t = Inr n" and L: "sha1_ok L"
    and shared: "\<forall>c. o_SharedRTTCache opts = Some c \<longrightarrow> rtt_wf c" "\<forall>c. o_SharedRoutingCache opts = Some c \<longrightarrow> rc_wf c"
  shows "ValidateID (NodeID (n_self n))" and "node_inv (NodeID (n_self n)) (successorLimit n) (predecessorLimit n) n"
proof -
  obtain self fs where f: "n_self n = self\<lparr>Region := o_Region opts\<rparr>" "n_successorList n = [Core self]"
    "n_predecessorList n = []" "n_nextFingerIndex n = 0" "n_fingers n = fs" "NewNode_fingers self = Inr fs"
    and caches: "n_rttCache n = (case o_SharedRTTCache opts of Some c \<Rightarrow> c
       | None \<Rightarrow> NewRTTCache (o_RTTEWMAAlpha opts) (o_RTTSampleExpiry opts))"
    "n_routingCache n = (case o_SharedRoutingCache opts of Some c \<Rightarrow> Some c
       | None \<Rightarrow> if o_RoutingCacheEnabled opts
               then Some (NewRoutingCache (o_RoutingCacheSize opts) (o_RoutingCacheTTL opts)) else None)"
    and id: "NewNodeInfoFromURI L uri = Inr self \<or> NodeID self = DeriveVNodeID L (o_AnchorID opts) (o_VNodeIndex opts)"
    by (rule NewNode_fields [OF new])
  have v: "ValidateID (NodeID self)"
    using id L DeriveVNodeID_valid
    by (auto simp: NewNodeInfoFromURI_def split: sum.splits dest: HashURI_valid)
  then show "ValidateID (NodeID (n_self n))" by (simp add: f)
  have "NodeID self \<noteq> []" using v by (auto simp: ValidateID_def)
  moreover have "caches_ok n"
    using shared caches by (auto simp: caches_ok_def rtt_wf_new rc_wf_new split: option.splits)
  ultimately show "node_inv (NodeID (n_self n)) (successorLimit n) (predecessorLimit n) n"
    using f NewNode_fingers_ok [OF f(6)] successorLimit_pos [of n] limits_pos(2) [of "n_options n"]
    by (simp add: node_inv_def succ_list_ok_def DefaultM_def limits)
qed

section \<open>Reachable states\<close>

text \<open>A node constructed with some options, after any steps of its own methods and goroutines and of
  the nodes it shares caches with.\<close>

inductive node_reachable :: "golib \<Rightarrow> string \<Rightarrow> Options \<Rightarrow> Node \<Rightarrow> bool" for L uri opts where
  construct: "NewNode L uri opts c tr t = Inr n \<Longrightarrow> node_reachable L uri opts n"
| step: "node_reachable L uri opts n \<Longrightarrow> node_step n n' \<Longrightarrow> node_reachable L uri opts n'"

definition shared_ok :: "Options \<Rightarrow> bool" where
  "shared_ok opts \<longleftrightarrow> (\<forall>c. o_SharedRTTCache opts = Some c \<longrightarrow> rtt_wf c) \<and>
     (\<forall>c. o_SharedRoutingCache opts = Some c \<longrightarrow> rc_wf c)"

lemma node_reachable_inv:
  assumes "node_reachable L uri opts n" and "sha1_ok L" and "shared_ok opts"
  shows "\<exists>me lm pl. ValidateID me \<and> node_inv me lm pl n"
  using assms(1)
proof induction
  case (construct c tr t n)
  then show ?case using NewNode_inv [OF construct assms(2)] assms(3) by (auto simp: shared_ok_def)
next
  case (step n n')
  then show ?case using node_step_inv by blast
qed

lemma node_reachable_steps: "node_step\<^sup>*\<^sup>* n n' \<Longrightarrow> node_reachable L uri opts n \<Longrightarrow> node_reachable L uri opts n'"
  by (induction rule: rtranclp_induct) (auto intro: node_reachable.step)

text \<open>C5: The node invariant, in every reachable state of a node and under every interleaving of its
  critical sections: its ID is valid; the successor list is within the configured size, has no
  duplicate and no empty ID, and holds the node itself only as its single entry; the predecessor list
  is within its size; the finger table has its 160 entries, each with its index and the start
  \<open>self + 2 ^ i\<close>; the repair position is a finger index.\<close>

theorem node_invariant:
  assumes "node_reachable L uri opts n" and "sha1_ok L" and "shared_ok opts"
  shows "ValidateID (NodeID (n_self n)) \<and>
    int (length (n_successorList n)) \<le> successorLimit n \<and> distinct (ids (n_successorList n)) \<and>
    [] \<notin> set (ids (n_successorList n)) \<and>
    (NodeID (n_self n) \<in> set (ids (n_successorList n)) \<longrightarrow> length (n_successorList n) = 1) \<and>
    int (length (n_predecessorList n)) \<le> predecessorLimit n \<and>
    length (n_fingers n) = 160 \<and>
    (\<forall>i < 160. feIndex (n_fingers n ! i) = int i \<and>
       FingerStart (NodeID (n_self n)) (int i) = Inr (feStart (n_fingers n ! i)) \<and>
       key_of (feStart (n_fingers n ! i)) = (key_of (NodeID (n_self n)) + 2 ^ i) mod ringSize) \<and>
    0 \<le> n_nextFingerIndex n \<and> n_nextFingerIndex n < 160"
proof -
  obtain me lm pl where v: "ValidateID me" and i: "node_inv me lm pl n"
    using node_reachable_inv [OF assms] by blast
  have "key_of (feStart (n_fingers n ! i)) = (key_of me + 2 ^ i) mod ringSize" if "i < 160" for i
  proof -
    have "FingerStart me (int i) = Inr (feStart (n_fingers n ! i))"
      using i that by (simp add: node_inv_def finger_table_ok_def DefaultM_def)
    then have "feStart (n_fingers n ! i) = bigToID ((key_of me + 2 ^ i) mod ringSize)"
      using FingerStart_ok [OF v, of i] that by (simp add: DefaultM_def)
    then show ?thesis by simp
  qed
  then show ?thesis
    using v i by (auto simp: node_inv_def succ_list_ok_def finger_table_ok_def DefaultM_def)
qed


text \<open>A node built by \<open>NewNode\<close> without a virtual identity, a shared cache or a negative list size is
  \<open>fresh_node\<close>.\<close>

lemma collect_map_Inr: "(\<And>x. x \<in> set xs \<Longrightarrow> f x = Inr (g x)) \<Longrightarrow> collect (map f xs) = Inr (map g xs)"
  by (induction xs) auto

lemma NewNode_fingers_fresh: "ValidateID (NodeID self) \<Longrightarrow> NewNode_fingers self = Inr (fresh_fingers self)"
  unfolding NewNode_fingers_def fresh_fingers_def
  by (rule collect_map_Inr) (simp add: FingerStart_ok)

lemma NewNode_fresh:
  assumes "NewNodeInfoFromURI L uri = Inr self" and "ValidateID (NodeID self)" and "o_AnchorID opts = []"
    and "0 \<le> o_PredecessorListSize opts" and "o_SharedRTTCache opts = None"
    and "o_SharedRoutingCache opts = None" and "o_Region opts = Region self"
  shows "NewNode L uri opts c tr t = Inr (fresh_node self (NewNode_options opts) c tr t)"
  using assms
  by (simp add: NewNode_def Let_def NewNode_fingers_fresh fresh_node_def NewNode_options_def)

lemma NewNode_demo:
  "\<exists>self. NewNode demo_lib ''https://a'' DefaultOptions True True 1 =
     Inr (fresh_node self (NewNode_options DefaultOptions) True True 1)"
proof -
  have "NormalizeURI demo_lib ''https://a'' = Inr ''https://a''" by code_simp
  then have "\<exists>self. NewNodeInfoFromURI demo_lib ''https://a'' = Inr self \<and>
      HashURI demo_lib ''https://a'' = Inr (NodeID self) \<and> Region self = []"
    by (simp add: NewNodeInfoFromURI_def HashURI_def emptyNodeInfo_def)
  then obtain self where self: "NewNodeInfoFromURI demo_lib ''https://a'' = Inr self"
    and i: "HashURI demo_lib ''https://a'' = Inr (NodeID self)" and r: "Region self = []" by blast
  have "NewNode demo_lib ''https://a'' DefaultOptions True True 1 =
      Inr (fresh_node self (NewNode_options DefaultOptions) True True 1)"
    by (rule NewNode_fresh [OF self HashURI_valid [OF demo_lib_ok(1) i]])
      (simp_all add: DefaultOptions_def r DefaultPredecessorListSize_def)
  then show ?thesis by blast
qed

lemma node_invariant_witness:
  "\<exists>n. NewNode demo_lib ''https://a'' DefaultOptions True True 1 = Inr n \<and>
     distinct (ids (n_successorList (setStatus StatusJoining n))) \<and> length (n_fingers (setStatus StatusJoining n)) = 160"
proof -
  obtain n where n: "NewNode demo_lib ''https://a'' DefaultOptions True True 1 = Inr n"
    using NewNode_demo by blast
  have r: "node_reachable demo_lib ''https://a'' DefaultOptions (setStatus StatusJoining n)"
    by (rule node_reachable.step [OF node_reachable.construct [OF n] section_step.set_status])
  have s: "shared_ok DefaultOptions" by (simp add: shared_ok_def DefaultOptions_def)
  show ?thesis using n node_invariant [OF r demo_lib_ok(1) s] by blast
qed

section \<open>Operations are made of steps\<close>

text \<open>Everything a node runs: requests served, the operations of its owner, the maintenance loops'
  bodies and the goroutines it starts.\<close>

datatype operation =
    OpFindSuccessor FindSuccessorRequest | OpLookup string | OpJoin JoinRequest
  | OpRectify RectifyRequest | OpNotify NotifyRequest | OpLeave LeaveRequest
  | OpActivateSingle | OpJoinNetwork "NodeInfo list" | OpGracefulLeave
  | OpStabilize | OpValidateSuccessorList | OpCheckPredecessor | OpHealthCheck | OpFixFingers
  | OpMaintenanceCycle | OpStabilizeLoop | OpTrackerLoop | OpFixFingersLoop | OpCheckPredecessorLoop
  | OpLatencyProbe | OpCacheCleanup | OpModeChange | OpModeQuiet | OpReport | OpRefreshCRL
  | OpTask task

definition ignore :: "('w, 'a) nact \<Rightarrow> ('w, unit) nact" where
  "ignore m = do { _ \<leftarrow> m; ret () }"

fun runOp :: "'w env \<Rightarrow> operation \<Rightarrow> ('w, unit) nact" where
  "runOp E (OpFindSuccessor r) = ignore (HandleFindSuccessor E r)"
| "runOp E (OpLookup i) = ignore (LookupSuccessor E i)"
| "runOp E (OpJoin r) = ignore (HandleJoin E r)"
| "runOp E (OpRectify r) = ignore (HandleRectify E r)"
| "runOp E (OpNotify r) = ignore (HandleNotify E r)"
| "runOp E (OpLeave r) = ignore (HandleLeave r)"
| "runOp E OpActivateSingle = ActivateSingleNode E"
| "runOp E (OpJoinNetwork seeds) = JoinNetwork E seeds"
| "runOp E OpGracefulLeave = GracefulLeave E"
| "runOp E OpStabilize = Stabilize E"
| "runOp E OpValidateSuccessorList = validateSuccessorList E"
| "runOp E OpCheckPredecessor = CheckPredecessor E"
| "runOp E OpHealthCheck = HealthCheckRing E"
| "runOp E OpFixFingers = FixFingers E"
| "runOp E OpMaintenanceCycle = MaintenanceCycle E"
| "runOp E OpStabilizeLoop = stabilizeLoopBody E"
| "runOp E OpTrackerLoop = trackerLoopBody E"
| "runOp E OpFixFingersLoop = fixFingersLoopBody E"
| "runOp E OpCheckPredecessorLoop = checkPredecessorLoopBody E"
| "runOp E OpLatencyProbe = latencyProbeBody E"
| "runOp E OpCacheCleanup = cacheCleanupBody E"
| "runOp E OpModeChange = modeOnChange E"
| "runOp E OpModeQuiet = modeOnQuiet"
| "runOp E OpReport = ReportToTracker E"
| "runOp E OpRefreshCRL = refreshCRLFromTracker E"
| "runOp E (OpTask k) = runTask E k"

lemma moves_runOp: "ns.moves True me lm pl (runOp E oper)"
  by (cases oper) (simp_all add: ignore_def safe_intros)

fun runOps :: "'w env \<Rightarrow> operation list \<Rightarrow> ('w, unit) nact" where
  "runOps E [] = ret ()"
| "runOps E (x # xs) = do { runOp E x; runOps E xs }"

lemma moves_runOps: "ns.moves True me lm pl (runOps E xs)"
  by (induction xs) (auto intro: safe_intros moves_runOp)

text \<open>C12: Every operation of a node, and every sequence of them, is a sequence of the critical sections
  of \<open>node_step\<close>, whatever its peers, the tracker, the clock and the caches answer; a node it was
  started on in a reachable state is in a reachable state afterwards, so the node invariant holds
  there.\<close>

theorem operations_are_steps:
  assumes "node_reachable L uri opts (nd s)" and "sha1_ok L" and "shared_ok opts"
  shows "node_step\<^sup>*\<^sup>* (nd s) (nd (snd (run_state (runOps E xs) s))) \<and>
    node_reachable L uri opts (nd (snd (run_state (runOps E xs) s)))"
proof -
  obtain me lm pl where i: "node_inv me lm pl (nd s)" using node_reachable_inv [OF assms] by blast
  have steps: "node_step\<^sup>*\<^sup>* (nd s) (nd (snd (run_state (runOps E xs) s)))"
    by (rule ns.moves_steps [OF moves_runOps i])
  then show ?thesis using node_reachable_steps [OF steps assms(1)] by blast
qed

lemma operations_are_steps_witness:
  "\<exists>n. \<forall>E :: unit env. NewNode demo_lib ''https://a'' DefaultOptions True True 1 = Inr n \<and>
     node_step\<^sup>*\<^sup>* n (nd (snd (run_state (runOps E [OpActivateSingle, OpStabilize]) \<lparr>nd = n, wd = (), spawned = []\<rparr>)))"
proof -
  obtain n where n: "NewNode demo_lib ''https://a'' DefaultOptions True True 1 = Inr n"
    using NewNode_demo by blast
  have s: "shared_ok DefaultOptions" by (simp add: shared_ok_def DefaultOptions_def)
  let ?s = "\<lparr>nd = n, wd = (), spawned = []\<rparr> :: (Node, unit, task) gst"
  have r: "node_reachable demo_lib ''https://a'' DefaultOptions (nd ?s)"
    using node_reachable.construct [OF n] by simp
  have "node_step\<^sup>*\<^sup>* n (nd (snd (run_state (runOps E [OpActivateSingle, OpStabilize]) ?s)))" for E :: "unit env"
    using operations_are_steps [OF r demo_lib_ok(1) s, of E "[OpActivateSingle, OpStabilize]"]
    by (simp del: runOps.simps)
  then show ?thesis using n by blast
qed

end
