(* ===== verification/LookupFacts.thy ===== *)
theory LookupFacts
  imports Lookup
begin

text \<open>
  Facts about routing decisions: where candidates come from and that they lie strictly between the
  node and the target, and that the choice among them is one of them.
\<close>

lemma collect_loop_sound:
  assumes "x \<in> set (snd (collect_loop P acc xs))"
  shows "x \<in> set (snd acc) \<or> x \<in> set xs \<and> P x \<and> NodeID x \<noteq> []"
  using assms by (induction P acc xs rule: collect_loop.induct) (auto split: if_splits)

lemma collect_loop_keeps: "set (snd acc) \<subseteq> set (snd (collect_loop P acc xs))"
  by (induction P acc xs rule: collect_loop.induct) (auto split: if_splits)

lemma collect_loop_seen:
  assumes "set (fst acc) \<subseteq> insert a (set (ids (snd acc)))"
  shows "set (fst (collect_loop P acc xs)) \<subseteq> insert a (set (ids (snd (collect_loop P acc xs))))"
  using assms by (induction P acc xs rule: collect_loop.induct) auto

lemma collect_loop_seen_mono: "set (fst acc) \<subseteq> set (fst (collect_loop P acc xs))"
  by (induction P acc xs rule: collect_loop.induct) auto

lemma collect_loop_complete:
  assumes "x \<in> set xs" and "P x" and "NodeID x \<noteq> []"
  shows "NodeID x \<in> set (fst (collect_loop P acc xs))"
  using assms
proof (induction P acc xs rule: collect_loop.induct)
  case (2 P seen out node r)
  then show ?case
    using collect_loop_seen_mono [of "(seen, out)" P r] collect_loop_seen_mono [of "(NodeID node # seen, out @ [node])" P r]
    by auto
qed simp

lemma collect_loop_distinct:
  assumes "distinct (ids (snd acc))" and "set (ids (snd acc)) \<subseteq> set (fst acc)"
  shows "distinct (ids (snd (collect_loop P acc xs))) \<and>
    set (ids (snd (collect_loop P acc xs))) \<subseteq> set (fst (collect_loop P acc xs))"
  using assms
proof (induction P acc xs rule: collect_loop.induct)
  case (2 P seen out node r)
  show ?case
  proof (cases "NodeID node = [] \<or> NodeID node \<in> set seen")
    case False
    then have "NodeID node \<notin> set (ids out)" "set (ids out) \<subseteq> insert (NodeID node) (set seen)"
      using 2(5) by auto
    then show ?thesis using 2 False by (cases "P node") simp_all
  qed (use 2 in simp)
qed simp

text \<open>The three passes of \<open>collectCandidates\<close>.\<close>

lemma collectCandidates_passes:
  obtains a1 a2 good P where
    "P = (\<lambda>node. InRangeOpenOpen (NodeID node) (NodeID self) tid)"
    "a1 = collect_loop P ([NodeID self], []) good" "set good \<subseteq> feNode ` set fingers"
    "a2 = a1 \<or> a2 = collect_loop P a1 (map feNode (rev fingers))"
    "collectCandidates self tid fingers successors = snd (collect_loop P a2 (rev successors))"
proof -
  let ?P = "\<lambda>node. InRangeOpenOpen (NodeID node) (NodeID self) tid"
  let ?good = "map feNode (filter (\<lambda>f. \<not> (feStatus f = FingerSuspicious \<or> \<not> feValid f)) (rev fingers))"
  let ?a1 = "collect_loop ?P ([NodeID self], []) ?good"
  let ?a2 = "if snd ?a1 = [] then collect_loop ?P ?a1 (map feNode (rev fingers)) else ?a1"
  obtain sn ou where a1: "?a1 = (sn, ou)" by fastforce
  have "collectCandidates self tid fingers successors = snd (collect_loop ?P ?a2 (rev successors))"
    unfolding a1 using a1 by (simp add: collectCandidates_def Let_def case_prod_beta)
  then show thesis
    by (rule that [of ?P ?a1 ?good ?a2, rotated -1]) auto
qed

lemma collectCandidates_sound:
  assumes "c \<in> set (collectCandidates self tid fingers successors)"
  shows "InRangeOpenOpen (NodeID c) (NodeID self) tid" and "NodeID c \<noteq> []"
    and "c \<in> feNode ` set fingers \<or> c \<in> set successors"
proof -
  obtain a1 a2 good P where P: "P = (\<lambda>node. InRangeOpenOpen (NodeID node) (NodeID self) tid)"
    and 1: "a1 = collect_loop P ([NodeID self], []) good" "set good \<subseteq> feNode ` set fingers"
    and 2: "a2 = a1 \<or> a2 = collect_loop P a1 (map feNode (rev fingers))"
    and c: "collectCandidates self tid fingers successors = snd (collect_loop P a2 (rev successors))"
    by (rule collectCandidates_passes)
  have a1: "P x \<and> NodeID x \<noteq> [] \<and> x \<in> feNode ` set fingers" if "x \<in> set (snd a1)" for x
    using that 1 by (auto dest: collect_loop_sound)
  have a2: "P x \<and> NodeID x \<noteq> [] \<and> x \<in> feNode ` set fingers" if "x \<in> set (snd a2)" for x
    using that 2 a1 by (auto dest: collect_loop_sound)
  have "P c \<and> NodeID c \<noteq> [] \<and> (c \<in> feNode ` set fingers \<or> c \<in> set successors)"
    using assms a2 unfolding c by (auto dest: collect_loop_sound)
  then show "InRangeOpenOpen (NodeID c) (NodeID self) tid" "NodeID c \<noteq> []"
    "c \<in> feNode ` set fingers \<or> c \<in> set successors"
    by (auto simp: P)
qed

lemma collectCandidates_complete:
  assumes "s \<in> set successors" and "NodeID s \<noteq> []" and "InRangeOpenOpen (NodeID s) (NodeID self) tid"
  shows "\<exists>c \<in> set (collectCandidates self tid fingers successors). NodeID c = NodeID s"
proof -
  obtain a1 a2 good P where P: "P = (\<lambda>node. InRangeOpenOpen (NodeID node) (NodeID self) tid)"
    and 1: "a1 = collect_loop P ([NodeID self], []) good"
    and 2: "a2 = a1 \<or> a2 = collect_loop P a1 (map feNode (rev fingers))"
    and c: "collectCandidates self tid fingers successors = snd (collect_loop P a2 (rev successors))"
    by (rule collectCandidates_passes)
  let ?r = "collect_loop P a2 (rev successors)"
  have "set (fst a1) \<subseteq> insert (NodeID self) (set (ids (snd a1)))"
    unfolding 1 by (rule collect_loop_seen) simp
  then have "set (fst a2) \<subseteq> insert (NodeID self) (set (ids (snd a2)))"
    using 2 collect_loop_seen by blast
  then have "set (fst ?r) \<subseteq> insert (NodeID self) (set (ids (snd ?r)))"
    by (rule collect_loop_seen)
  moreover have "NodeID s \<in> set (fst ?r)"
    using assms by (intro collect_loop_complete) (auto simp: P)
  moreover have "NodeID s \<noteq> NodeID self" using assms(3) by auto
  ultimately have "NodeID s \<in> NodeID ` set (snd ?r)" by auto
  then show ?thesis unfolding c by force
qed

lemma collectCandidates_distinct: "distinct (ids (collectCandidates self tid fingers successors))"
proof -
  obtain a1 a2 good P where
    1: "a1 = collect_loop P ([NodeID self], []) good"
    and 2: "a2 = a1 \<or> a2 = collect_loop P a1 (map feNode (rev fingers))"
    and c: "collectCandidates self tid fingers successors = snd (collect_loop P a2 (rev successors))"
    by (rule collectCandidates_passes)
  have a1: "distinct (ids (snd a1)) \<and> set (ids (snd a1)) \<subseteq> set (fst a1)"
    unfolding 1 by (rule collect_loop_distinct) simp_all
  then have "distinct (ids (snd a2)) \<and> set (ids (snd a2)) \<subseteq> set (fst a2)"
    using 2 collect_loop_distinct [of a1] by auto
  then show ?thesis
    unfolding c using collect_loop_distinct [of a2] by blast
qed

lemma best_loop_in: "best_loop t n target best b cs = best \<or> best_loop t n target best b cs \<in> set cs"
proof (induction cs arbitrary: best b)
  case (Cons c cs)
  then show ?case
    by (cases "idToBig (NodeID c)") (auto simp: Let_def)
qed simp

lemma closestPrecedingNode_in:
  assumes "collectCandidates self tid fingers successors \<noteq> []"
  shows "closestPrecedingNode t n self tid fingers successors
    \<in> set (collectCandidates self tid fingers successors)"
proof -
  obtain c cs where cs: "collectCandidates self tid fingers successors = c # cs"
    using assms by (cases "collectCandidates self tid fingers successors") auto
  show ?thesis
  proof (cases cs)
    case (Cons d r)
    then show ?thesis
      using best_loop_in [of t n _ c "- 1" "c # d # r"]
      by (auto simp: closestPrecedingNode_def cs split: sum.splits simp del: best_loop.simps)
  qed (simp add: closestPrecedingNode_def cs)
qed

lemma closestPrecedingNode_self:
  "collectCandidates self tid fingers successors = [] \<Longrightarrow>
   closestPrecedingNode t n self tid fingers successors = self"
  by (simp add: closestPrecedingNode_def)

text \<open>Every next hop is either the node itself (no candidate) or strictly inside the interval from the
  node to the target.\<close>

lemma closestPrecedingNode_cases:
  "closestPrecedingNode t n self tid fingers successors = self \<and>
     collectCandidates self tid fingers successors = [] \<or>
   InRangeOpenOpen (NodeID (closestPrecedingNode t n self tid fingers successors)) (NodeID self) tid \<and>
     (closestPrecedingNode t n self tid fingers successors \<in> feNode ` set fingers \<or>
      closestPrecedingNode t n self tid fingers successors \<in> set successors)"
  using closestPrecedingNode_in [of self tid fingers successors t n]
    collectCandidates_sound [of "closestPrecedingNode t n self tid fingers successors" self tid fingers successors]
    closestPrecedingNode_self [of self tid fingers successors t n]
  by blast

end
