(* ===== verification/LookupCorrect.thy ===== *)
theory LookupCorrect
  imports LookupFacts
begin

text \<open>
  Correctness of the lookup on a stable ring. \<open>ideal N n\<close> says that node \<open>n\<close> knows its place in the
  ring of the nodes \<open>N\<close>: its successor is the next node, its list and fingers name members, its cache
  holds true answers. The handler of such a node answers with the owner of the key or with a next hop
  strictly closer to it (\<open>good_reply\<close>). The locale \<open>ring_peers\<close> is what a lookup relies on of its
  peers; the network of ideal nodes interprets it.
\<close>

definition owns :: "string set \<Rightarrow> string \<Rightarrow> NodeInfo \<Rightarrow> bool" where
  "owns N k s \<longleftrightarrow> ring.is_owner N k (NodeID s)"

definition ideal :: "string set \<Rightarrow> Node \<Rightarrow> bool" where
  "ideal N n \<longleftrightarrow>
     NodeID (n_self n) \<in> N \<and> (\<forall>m \<in> N. ValidateID m) \<and>
     ring.is_next N (NodeID (n_self n)) (NodeID (n_successor n)) \<and>
     NodeID (n_successor n) \<in> NodeID ` set (n_successorList n) \<and>
     NodeID ` set (n_successorList n) \<subseteq> N \<and>
     (\<forall>f \<in> set (n_fingers n). NodeID (feNode f) \<in> N \<or> NodeID (feNode f) = []) \<and>
     n_status n \<noteq> StatusLeaving \<and> n_status n \<noteq> StatusIsolated \<and>
     (\<forall>c. n_routingCache n = Some c \<longrightarrow> rc_sound (owns N) c)"

definition good_reply :: "string set \<Rightarrow> string \<Rightarrow> string \<Rightarrow> FindSuccessorResponse \<Rightarrow> bool" where
  "good_reply N k me resp \<longleftrightarrow>
     (frFound resp \<and>
        (\<exists>s. frSuccessor resp = Some s \<and> owns N k s \<and>
             (\<not> frCached resp \<longrightarrow>
                (\<forall>x. ValidateID x \<longrightarrow> InRangeOpenClosed x me (NodeID s) \<longrightarrow> owns N x s))) \<or>
      \<not> frFound resp \<and>
        (\<exists>h. frNextHop resp = Some h \<and> NodeID h \<in> N \<and> InRangeOpenOpen (NodeID h) me k))"

definition same_config :: "Node \<Rightarrow> Node \<Rightarrow> bool" where
  "same_config n n' \<longleftrightarrow> n_self n' = n_self n \<and> n_options n' = n_options n \<and> n_client n' = n_client n"

lemma same_config_refl [simp]: "same_config n n"
  by (simp add: same_config_def)

lemma same_config_trans: "same_config a b \<Longrightarrow> same_config b c \<Longrightarrow> same_config a c"
  by (simp add: same_config_def)

lemma cache_get_ideal:
  assumes "ideal N n" and "ValidateID k"
  shows "ideal N (snd (cache_get orc k t n))" and "same_config n (snd (cache_get orc k t n))"
    and "fst (cache_get orc k t n) = Some s \<Longrightarrow> owns N k s"
    and "n_successor (snd (cache_get orc k t n)) = n_successor n"
    and "n_successorList (snd (cache_get orc k t n)) = n_successorList n"
    and "n_fingers (snd (cache_get orc k t n)) = n_fingers n"
    and "n_status (snd (cache_get orc k t n)) = n_status n"
  using assms rc_sound_Get [of "owns N" _ k orc t]
  by (auto simp: cache_get_def same_config_def ideal_def case_prod_beta split: option.splits)

lemma cache_put_ideal:
  assumes "ideal N n" and "owns N k s" and "\<And>x. ValidateID x \<Longrightarrow> InRangeOpenClosed x p (NodeID s) \<Longrightarrow> owns N x s"
  shows "ideal N (cache_put k p s t n)" and "same_config n (cache_put k p s t n)"
proof -
  have "rc_sound (owns N) (RoutingCache_Put k p s t c)" if "n_routingCache n = Some c" for c
    by (rule rc_sound_Put) (use assms that in \<open>auto simp: ideal_def\<close>)
  then show "ideal N (cache_put k p s t n)" "same_config n (cache_put k p s t n)"
    using assms(1) by (auto simp: cache_put_def same_config_def ideal_def split: option.splits)
qed

lemma record_rtt_ideal [simp]:
  "ideal N (record_rtt i r t n) = ideal N n" "same_config m (record_rtt i r t n) = same_config m n"
  "same_config (record_rtt i r t n) m = same_config n m"
  by (simp_all add: record_rtt_def ideal_def same_config_def)

section \<open>The handler\<close>

lemma ideal_next_owner:
  assumes "ideal N n" and "ValidateID k"
    and "NodeID (n_successor n) = NodeID (n_self n) \<or> InRangeOpenClosed k (NodeID (n_self n)) (NodeID (n_successor n))"
  shows "owns N k (n_successor n)"
  unfolding owns_def
  by (rule ring.upto_next_owner [of N k "NodeID (n_self n)"]) (use assms in \<open>auto simp: ideal_def\<close>)

lemma ideal_next_hop:
  fixes t :: gotime and m :: Node
  assumes n: "ideal N n" and k: "ValidateID k"
    and no: "NodeID (n_successor n) \<noteq> NodeID (n_self n)"
      "\<not> InRangeOpenClosed k (NodeID (n_self n)) (NodeID (n_successor n))"
  defines "h \<equiv> closestPrecedingNode t m (Core (n_self n)) k (n_fingers n) (n_successorList n)"
  shows "NodeID h \<in> N" and "InRangeOpenOpen (NodeID h) (NodeID (n_self n)) k"
    and "NodeID h \<noteq> NodeID (n_self n)"
proof -
  let ?me = "NodeID (n_self n)" and ?s = "NodeID (n_successor n)"
  have v: "ValidateID ?me" "ValidateID ?s" "?s \<in> NodeID ` set (n_successorList n)"
    using n by (auto simp: ideal_def)
  have "InRangeOpenOpen ?s ?me k"
  proof (cases "k = ?me")
    case True
    then show ?thesis using ring.next_self_key [OF v(1,2)] no by simp
  next
    case False
    then show ?thesis using ring.not_upto_next_between [OF v(1,2) k] no by simp
  qed
  moreover obtain x where "x \<in> set (n_successorList n)" "NodeID x = ?s" using v(3) by auto
  moreover have "?s \<noteq> []" using v(2) by (auto simp: ValidateID_def)
  ultimately have ne: "collectCandidates (Core (n_self n)) k (n_fingers n) (n_successorList n) \<noteq> []"
    using collectCandidates_complete [of x "n_successorList n" "Core (n_self n)" k "n_fingers n"]
    by auto
  note h = closestPrecedingNode_in [OF ne, of t m, folded h_def]
  show b: "InRangeOpenOpen (NodeID h) ?me k"
    using collectCandidates_sound(1) [OF h] by simp
  then show "NodeID h \<noteq> ?me" by auto
  show "NodeID h \<in> N"
    using collectCandidates_sound(2,3) [OF h] n by (auto simp: ideal_def)
qed

definition hop_limit :: "FindSuccessorRequest \<Rightarrow> Node \<Rightarrow> int" where
  "hop_limit req n = (if fsMaxHops req \<le> 0 then o_MaxHops (n_options n) else fsMaxHops req)"

lemma HandleFindSuccessor_ideal:
  fixes E :: "('w, 'z) benv_scheme"
  assumes n: "ideal N (nd s)" and k: "ValidateID (fsID req)" and hop: "fsHopCount req < hop_limit req (nd s)"
    and unseen: "NodeID (n_self (nd s)) \<notin> set (fsVisitedNodes req)"
  defines "r \<equiv> fst (run_state (HandleFindSuccessor E req) s)"
    and "s' \<equiv> snd (run_state (HandleFindSuccessor E req) s)"
  shows "\<exists>resp. r = Inr resp \<and> good_reply N (fsID req) (NodeID (n_self (nd s))) resp"
    and "ideal N (nd s')" and "same_config (nd s) (nd s')" and "wd s' = wd s" and "spawned s' = spawned s"
proof -
  let ?n = "nd s" and ?k = "fsID req" and ?me = "NodeID (n_self (nd s))"
  let ?g = "cache_get (e_orc E (wd s)) ?k (e_now E (wd s)) ?n"
  note g = cache_get_ideal [OF n k, of "e_orc E (wd s)" "e_now E (wd s)"]
  have self: "n_self (snd ?g) = n_self ?n" using g(2) by (simp add: same_config_def)
  have st: "n_status ?n \<noteq> StatusLeaving" "n_status ?n \<noteq> StatusIsolated" using n by (simp_all add: ideal_def)
  have "(\<exists>resp. r = Inr resp \<and> good_reply N ?k ?me resp) \<and> ideal N (nd s') \<and> same_config ?n (nd s') \<and>
      wd s' = wd s \<and> spawned s' = spawned s"
  proof (cases "fst ?g")
    case (Some x)
    then show ?thesis
      using k hop g by (auto simp: r_def s'_def HandleFindSuccessor_def hop_limit_def routingCache_Get_def
          now_def piggyback_def good_reply_def emptyFindResponse_def)
  next
    case None
    show ?thesis
    proof (cases "NodeID (n_successor ?n) = ?me \<or> InRangeOpenClosed ?k ?me (NodeID (n_successor ?n))")
      case True
      note own = ideal_next_owner [OF n k True]
      have int: "owns N x (n_successor ?n)" if "ValidateID x" "InRangeOpenClosed x ?me (NodeID (n_successor ?n))" for x
        using ideal_next_owner [OF n that(1)] that(2) by blast
      note put = cache_put_ideal [OF g(1) own int, where t = "e_now E (wd s)"]
      show ?thesis
        using True k hop g None st unseen own int put self
        by (auto simp: r_def s'_def HandleFindSuccessor_def hop_limit_def routingCache_Get_def routingCache_Put_def
            now_def piggyback_def good_reply_def emptyFindResponse_def intro: same_config_trans)
    next
      case False
      then have no: "NodeID (n_successor ?n) \<noteq> ?me" "\<not> InRangeOpenClosed ?k ?me (NodeID (n_successor ?n))"
        by auto
      note hop' = ideal_next_hop [OF n k no, of "e_now E (wd s)" "snd ?g"]
      show ?thesis
        using False k hop g None st unseen self hop'
        by (auto simp: r_def s'_def HandleFindSuccessor_def hop_limit_def routingCache_Get_def
            now_def piggyback_def good_reply_def emptyFindResponse_def)
    qed
  qed
  then show "\<exists>resp. r = Inr resp \<and> good_reply N ?k ?me resp" "ideal N (nd s')" "same_config ?n (nd s')"
    "wd s' = wd s" "spawned s' = spawned s"
    by auto
qed

section \<open>The lookup\<close>

lemma applyPiggyback_ideal:
  fixes E :: "('w, 'z) benv_scheme" and pb :: "PiggybackData option"
  defines "m \<equiv> applyPiggyback E pb"
  shows "ideal N (nd (snd (run_state m s))) = ideal N (nd s)"
    and "same_config (nd s) (nd (snd (run_state m s)))" and "wd (snd (run_state m s)) = wd s"
proof -
  have "ideal N (nd (snd (run_state (for_each hints f) s))) = ideal N (nd s) \<and>
      same_config (nd s) (nd (snd (run_state (for_each hints f) s))) \<and>
      wd (snd (run_state (for_each hints f) s)) = wd s"
    if f: "f = (\<lambda>(i, r). if_then (ValidateID i) (rttCache_Record E i r))" for hints f
  proof (induction hints arbitrary: s)
    case (Cons h hints)
    let ?s = "snd (run_state (f h) s)"
    have "ideal N (nd ?s) = ideal N (nd s) \<and> same_config (nd s) (nd ?s) \<and> wd ?s = wd s"
      by (simp add: f rttCache_Record_def now_def case_prod_beta)
    with Cons.IH [of ?s] show ?case
      by (auto simp: case_prod_beta intro: same_config_trans)
  qed simp
  then show "ideal N (nd (snd (run_state m s))) = ideal N (nd s)"
    "same_config (nd s) (nd (snd (run_state m s)))" "wd (snd (run_state m s)) = wd s"
    by (simp_all add: m_def applyPiggyback_def split: option.splits)
qed

text \<open>The number of nodes that are still on the way from a node to the key.\<close>

definition rank :: "string set \<Rightarrow> string \<Rightarrow> string \<Rightarrow> nat" where
  "rank N k c =
     (if c = k then card N - 1
      else card {m \<in> N. m \<noteq> k \<and> cw (key_of m) (key_of k) < cw (key_of c) (key_of k)})"

lemma rank_less:
  assumes "finite N" and "\<forall>m \<in> N. ValidateID m" and "ValidateID k" and c: "c \<in> N" and h: "h \<in> N"
    and b: "InRangeOpenOpen h c k"
  shows "rank N k h < rank N k c"
proof -
  have hc: "h \<noteq> c" using b by auto
  let ?A = "\<lambda>c. {m \<in> N. m \<noteq> k \<and> cw (key_of m) (key_of k) < cw (key_of c) (key_of k)}"
  show ?thesis
  proof (cases "c = k")
    case True
    then have "?A h \<subseteq> N - {h} - {k}" by auto
    then have "card (?A h) \<le> card (N - {h} - {k})" using assms(1) by (intro card_mono) auto
    also have "\<dots> < card (N - {h})"
      using assms(1) c True hc by (intro card_Diff1_less) auto
    finally show ?thesis using True hc h assms(1) by (simp add: rank_def)
  next
    case False
    have closer: "cw (key_of h) (key_of k) < cw (key_of c) (key_of k)"
      using ring.between_closer [of h c k] assms False by auto
    have "h \<noteq> k"
      using b assms False by (auto simp: InRangeOpenOpen_cw)
    then have "?A h \<subset> ?A c" using closer h by auto
    then show ?thesis
      using False \<open>h \<noteq> k\<close> assms(1) by (simp add: rank_def psubset_card_mono)
  qed
qed

lemma rank_bound: "finite N \<Longrightarrow> c \<in> N \<Longrightarrow> rank N k c < card N"
proof -
  assume N: "finite N" and c: "c \<in> N"
  have "card {m \<in> N. m \<noteq> k \<and> cw (key_of m) (key_of k) < cw (key_of c) (key_of k)} \<le> card (N - {c})"
    using N by (intro card_mono) auto
  also have "\<dots> < card N" using N c by (rule card_Diff1_less)
  finally show ?thesis using N c by (auto simp: rank_def card_gt_0_iff)
qed

locale ring_peers =
  fixes E :: "'w env" and N :: "string set" and J :: "'w \<Rightarrow> bool"
  assumes fin: "finite N"
    and reply: "J w \<Longrightarrow> NodeID p \<in> N \<Longrightarrow> ValidateID (fsID req) \<Longrightarrow> 0 < fsMaxHops req \<Longrightarrow> fsHopCount req < fsMaxHops req \<Longrightarrow>
      NodeID p \<notin> set (fsVisitedNodes req) \<Longrightarrow>
      (\<exists>resp. fst (pc_FindSuccessor E p req w) = Inr resp \<and> good_reply N (fsID req) (NodeID p) resp) \<and>
      J (snd (pc_FindSuccessor E p req w))"
begin

text \<open>What one round of the loop gets, from the node itself or from a peer.\<close>

lemma round_reply:
  fixes req :: FindSuccessorRequest and current :: NodeInfo
  assumes n: "ideal N (nd s)" and w: "J (wd s)" and cl: "n_client (nd s)" and cur: "NodeID current \<in> N"
    and req: "ValidateID (fsID req)" "0 < fsMaxHops req" "fsHopCount req < fsMaxHops req"
      "NodeID current \<notin> set (fsVisitedNodes req)"
  defines "m \<equiv> if NodeID current = NodeID (n_self (nd s)) then HandleFindSuccessor E req
      else rpc (pc_FindSuccessor E current req)"
  shows "\<exists>resp s'. run_state m s = (Inr resp, s') \<and> good_reply N (fsID req) (NodeID current) resp \<and>
    ideal N (nd s') \<and> J (wd s') \<and> same_config (nd s) (nd s')"
proof (cases "NodeID current = NodeID (n_self (nd s))")
  case True
  have hop: "fsHopCount req < hop_limit req (nd s)" using req by (simp add: hop_limit_def)
  have unseen: "NodeID (n_self (nd s)) \<notin> set (fsVisitedNodes req)" using req True by simp
  note h = HandleFindSuccessor_ideal [OF n req(1) hop unseen, of E]
  obtain resp where "fst (run_state (HandleFindSuccessor E req) s) = Inr resp"
    and "good_reply N (fsID req) (NodeID (n_self (nd s))) resp"
    using h(1) by blast
  then show ?thesis
    using True h(2-4) w by (simp add: m_def) (metis prod.collapse)
next
  case False
  then show ?thesis
    using reply [OF w cur req(1,2,3,4)] n by (auto simp: m_def)
qed

lemma lookup_loop_round:
  fixes current :: NodeInfo
  assumes "NodeID current \<notin> set visited" and "n_client (nd s)"
    and "run_state (if NodeID current = NodeID (n_self (nd s)) then HandleFindSuccessor E \<lparr>fsID = k, fsHopCount = hop, fsMaxHops = maxHops, fsVisitedNodes = visited,
      fsRequesterRegion = [], fsPreferRegion = []\<rparr>
      else rpc (pc_FindSuccessor E current \<lparr>fsID = k, fsHopCount = hop, fsMaxHops = maxHops, fsVisitedNodes = visited,
      fsRequesterRegion = [], fsPreferRegion = []\<rparr>)) s = (Inr resp, s1)"
  shows "frFound resp \<Longrightarrow> frSuccessor resp = Some x \<Longrightarrow>
      run_state (lookup_loop (Suc fuel) E k maxHops hop current visited) s =
      (Inr (Core x), snd (run_state (applyPiggyback E (frPiggyback resp))
         (snd (run_state (if_then (\<not> frCached resp) (routingCache_Put E k (NodeID current) (Core x))) s1))))"
    and "\<not> frFound resp \<Longrightarrow> frNextHop resp = Some h \<Longrightarrow>
      run_state (lookup_loop (Suc fuel) E k maxHops hop current visited) s =
      run_state (lookup_loop fuel E k maxHops (hop + 1) (Core h) (visited @ [NodeID current]))
         (snd (run_state (applyPiggyback E (frPiggyback resp)) s1))"
proof -
  have self: "NodeID (identityLocked (nd s)) = NodeID (n_self (nd s))"
    by (simp add: identityLocked_def Let_def)
  show "frFound resp \<Longrightarrow> frSuccessor resp = Some x \<Longrightarrow>
      run_state (lookup_loop (Suc fuel) E k maxHops hop current visited) s =
      (Inr (Core x), snd (run_state (applyPiggyback E (frPiggyback resp))
         (snd (run_state (if_then (\<not> frCached resp) (routingCache_Put E k (NodeID current) (Core x))) s1))))"
    using assms self
    by (cases "NodeID current = NodeID (n_self (nd s))") (simp_all add: Self_def case_prod_beta Let_def)
  show "\<not> frFound resp \<Longrightarrow> frNextHop resp = Some h \<Longrightarrow>
      run_state (lookup_loop (Suc fuel) E k maxHops hop current visited) s =
      run_state (lookup_loop fuel E k maxHops (hop + 1) (Core h) (visited @ [NodeID current]))
         (snd (run_state (applyPiggyback E (frPiggyback resp)) s1))"
    using assms self
    by (cases "NodeID current = NodeID (n_self (nd s))") (simp_all add: Self_def case_prod_beta Let_def)
qed

lemma lookup_loop_owner:
  assumes "ideal N (nd s)" and "J (wd s)" and "n_client (nd s)" and "ValidateID k" and "NodeID current \<in> N"
    and "rank N k (NodeID current) < fuel" and "hop + int fuel = maxHops" and "0 \<le> hop"
    and "\<forall>v \<in> set visited. rank N k (NodeID current) < rank N k v"
  shows "\<exists>x s'. run_state (lookup_loop fuel E k maxHops hop current visited) s = (Inr x, s') \<and>
    owns N k x \<and> ideal N (nd s') \<and> J (wd s') \<and> same_config (nd s) (nd s')"
  using assms
proof (induction fuel arbitrary: s hop current visited)
  case (Suc fuel)
  let ?req = "\<lparr>fsID = k, fsHopCount = hop, fsMaxHops = maxHops, fsVisitedNodes = visited,
      fsRequesterRegion = [], fsPreferRegion = []\<rparr>"
  have fresh: "NodeID current \<notin> set visited" using Suc.prems(9) by blast
  obtain resp s1 where round: "run_state (if NodeID current = NodeID (n_self (nd s)) then HandleFindSuccessor E ?req
      else rpc (pc_FindSuccessor E current ?req)) s = (Inr resp, s1)"
    and good: "good_reply N k (NodeID current) resp"
    and s1: "ideal N (nd s1)" "J (wd s1)" "same_config (nd s) (nd s1)"
    using round_reply [OF Suc.prems(1-3,5), of ?req] Suc.prems fresh by auto
  have val: "\<forall>m \<in> N. ValidateID m" using Suc.prems(1) by (simp add: ideal_def)
  show ?case
  proof (cases "frFound resp")
    case True
    with good obtain x where x: "frSuccessor resp = Some x" "owns N k x"
      and int: "\<not> frCached resp \<longrightarrow> (\<forall>y. ValidateID y \<longrightarrow> InRangeOpenClosed y (NodeID current) (NodeID x) \<longrightarrow> owns N y x)"
      unfolding good_reply_def by blast
    let ?s2 = "snd (run_state (if_then (\<not> frCached resp) (routingCache_Put E k (NodeID current) (Core x))) s1)"
    have own: "owns N k (Core x)" using x by (simp add: owns_def)
    have "ideal N (nd ?s2) \<and> same_config (nd s1) (nd ?s2) \<and> wd ?s2 = wd s1"
      using s1(1) cache_put_ideal [OF s1(1) own, where p = "NodeID current" and t = "e_now E (wd s1)"] int
      by (auto simp: routingCache_Put_def now_def owns_def)
    moreover note applyPiggyback_ideal [where E = E and pb = "frPiggyback resp" and s = ?s2]
    moreover note lookup_loop_round(1) [OF fresh Suc.prems(3) round True x(1), of fuel]
    ultimately show ?thesis
      using s1 own by (auto intro: same_config_trans simp del: lookup_loop.simps run_if_then)
  next
    case False
    with good obtain h where h: "frNextHop resp = Some h" "NodeID h \<in> N" "InRangeOpenOpen (NodeID h) (NodeID current) k"
      by (auto simp: good_reply_def)
    let ?s2 = "snd (run_state (applyPiggyback E (frPiggyback resp)) s1)"
    note pb = applyPiggyback_ideal [where E = E and pb = "frPiggyback resp" and s = s1]
    have less: "rank N k (NodeID h) < rank N k (NodeID current)"
      by (rule rank_less) (use h val fin Suc.prems in auto)
    have "\<exists>x s'. run_state (lookup_loop fuel E k maxHops (hop + 1) (Core h) (visited @ [NodeID current])) ?s2 = (Inr x, s') \<and>
        owns N k x \<and> ideal N (nd s') \<and> J (wd s') \<and> same_config (nd ?s2) (nd s')"
      using less Suc.prems h pb s1
      by (intro Suc.IH) (auto simp: same_config_def)
    then show ?thesis
      unfolding lookup_loop_round(2) [OF fresh Suc.prems(3) round False h(1)]
      using s1(3) pb(2) same_config_trans by blast
  qed
qed simp

lemma lookupIterative_owner:
  assumes "ideal N (nd s)" and "J (wd s)" and "n_client (nd s)" and "ValidateID k"
    and "int (card N) \<le> o_MaxHops (n_options (nd s))"
  shows "\<exists>x s'. run_state (lookupIterative E k) s = (Inr x, s') \<and>
    owns N k x \<and> ideal N (nd s') \<and> J (wd s') \<and> same_config (nd s) (nd s')"
proof -
  let ?me = "NodeID (n_self (nd s))" and ?max = "o_MaxHops (n_options (nd s))"
  have me: "?me \<in> N" using assms(1) by (simp add: ideal_def)
  have "rank N k ?me < nat ?max" using rank_bound [OF fin me, of k] assms(5) by linarith
  moreover have "NodeID (Core (identityLocked (nd s))) = ?me"
    by (simp add: identityLocked_def Let_def)
  ultimately have "\<exists>x s'. run_state (lookup_loop (nat ?max) E k ?max 0 (Core (identityLocked (nd s))) []) s = (Inr x, s') \<and>
      owns N k x \<and> ideal N (nd s') \<and> J (wd s') \<and> same_config (nd s) (nd s')"
    using assms me by (intro lookup_loop_owner) auto
  then show ?thesis by (simp add: lookupIterative_def Self_def)
qed

lemma LookupSuccessor_owner:
  assumes "ideal N (nd s)" and "J (wd s)" and "n_client (nd s)" and "ValidateID k"
    and "int (card N) \<le> o_MaxHops (n_options (nd s))" and "\<not> o_ParallelLookupEnabled (n_options (nd s))"
  shows "\<exists>x s'. run_state (LookupSuccessor E k) s = (Inr x, s') \<and> owns N k x \<and> ideal N (nd s') \<and> J (wd s')"
proof -
  let ?g = "cache_get (e_orc E (wd s)) k (e_now E (wd s)) (nd s)"
  note g = cache_get_ideal [OF assms(1,4), of "e_orc E (wd s)" "e_now E (wd s)"]
  show ?thesis
  proof (cases "fst ?g")
    case (Some x)
    then show ?thesis using assms g by (simp add: LookupSuccessor_def routingCache_Get_def now_def)
  next
    case None
    have "\<exists>x s'. run_state (lookupIterative E k) (s\<lparr>nd := snd ?g\<rparr>) = (Inr x, s') \<and>
        owns N k x \<and> ideal N (nd s') \<and> J (wd s') \<and> same_config (snd ?g) (nd s')"
      using lookupIterative_owner [of "s\<lparr>nd := snd ?g\<rparr>" k] assms g by (simp add: same_config_def)
    then show ?thesis
      using None assms g(2) by (auto simp: LookupSuccessor_def routingCache_Get_def now_def same_config_def)
  qed
qed

end

section \<open>A network of nodes\<close>

text \<open>The world of a lookup: the other nodes, a clock and the runtime's choices. A \<open>find_successor\<close> call
  runs the handler on the target's own state.\<close>

record netw =
  w_nodes :: "string \<rightharpoonup> Node"
  w_clock :: gotime
  w_orc :: "string list"

definition find_successor_call ::
  "netw env \<Rightarrow> NodeInfo \<Rightarrow> FindSuccessorRequest \<Rightarrow> netw \<Rightarrow> (goerror + FindSuccessorResponse) \<times> netw" where
  "find_successor_call E target req w =
     (case w_nodes w (NodeID target) of
        None \<Rightarrow> (Inl (GoError ''connection refused''), w)
      | Some n \<Rightarrow>
          let (r, s) = run_state (HandleFindSuccessor E req) \<lparr>nd = n, wd = w, spawned = []\<rparr>
          in (r, (wd s)\<lparr>w_nodes := (w_nodes (wd s))(NodeID target \<mapsto> nd s)\<rparr>))"

definition net_env :: "netw env \<Rightarrow> netw env" where
  "net_env E = E\<lparr>pc_FindSuccessor := find_successor_call E\<rparr>"

definition ideal_net :: "string set \<Rightarrow> netw \<Rightarrow> bool" where
  "ideal_net N w \<longleftrightarrow> (\<forall>i \<in> N. \<exists>n. w_nodes w i = Some n \<and> NodeID (n_self n) = i \<and> ideal N n)"

interpretation net: ring_peers "net_env E" "set ns" "ideal_net (set ns)" for E ns
proof
  fix w :: netw and p :: NodeInfo and req :: FindSuccessorRequest
  let ?N = "set ns"
  assume w: "ideal_net ?N w" and p: "NodeID p \<in> ?N" and req: "ValidateID (fsID req)" "0 < fsMaxHops req"
    "fsHopCount req < fsMaxHops req" "NodeID p \<notin> set (fsVisitedNodes req)"
  obtain n where n: "w_nodes w (NodeID p) = Some n" "NodeID (n_self n) = NodeID p" "ideal ?N n"
    using w p by (auto simp: ideal_net_def)
  let ?s = "\<lparr>nd = n, wd = w, spawned = []\<rparr> :: (Node, netw, task) gst"
  let ?r = "run_state (HandleFindSuccessor E req) ?s"
  have "ideal ?N (nd ?s)" "fsHopCount req < hop_limit req (nd ?s)" "NodeID (n_self (nd ?s)) \<notin> set (fsVisitedNodes req)"
    using n req by (simp_all add: hop_limit_def)
  note h = HandleFindSuccessor_ideal [OF this(1) req(1) this(2,3), of E]
  have res: "pc_FindSuccessor (net_env E) p req w =
      (fst ?r, (wd (snd ?r))\<lparr>w_nodes := (w_nodes (wd (snd ?r)))(NodeID p \<mapsto> nd (snd ?r))\<rparr>)"
    using n by (simp add: net_env_def find_successor_call_def case_prod_beta)
  have "ideal_net ?N (w\<lparr>w_nodes := (w_nodes w)(NodeID p \<mapsto> nd (snd ?r))\<rparr>)"
    using w n(2) h(2,3) by (auto simp: ideal_net_def same_config_def)
  then show "(\<exists>resp. fst (pc_FindSuccessor (net_env E) p req w) = Inr resp \<and> good_reply ?N (fsID req) (NodeID p) resp) \<and>
      ideal_net ?N (snd (pc_FindSuccessor (net_env E) p req w))"
    unfolding res using h(1,4) n(2) by simp
qed simp

text \<open>C1: Lookup correctness, with parallel lookup off (the default). On a stable ring, where every node's
  successor is the next node and its fingers, successor list and cached answers are about members,
  the lookup of any valid key started at any node that has not enabled parallel lookup returns the
  owner of the key: a member such that no member lies between the key and it clockwise. The number of
  nodes may be as large as the hop budget; no error is possible, and all caches filled on the way
  hold true answers again. With parallel lookup on this fails: see \<open>parallel_lookup_misroutes\<close>.\<close>

theorem lookup_finds_owner:
  assumes "ideal_net (set ns) (wd s)" and "ideal (set ns) (nd s)" and "n_client (nd s)" and "ValidateID k"
    and "int (card (set ns)) \<le> o_MaxHops (n_options (nd s))"
    and "\<not> o_ParallelLookupEnabled (n_options (nd s))"
  shows "\<exists>x s'. run_state (LookupSuccessor (net_env E) k) s = (Inr x, s') \<and> NodeID x \<in> set ns \<and>
    (\<forall>m \<in> set ns. cw (key_of k) (key_of (NodeID x)) \<le> cw (key_of k) (key_of m)) \<and>
    ideal (set ns) (nd s') \<and> ideal_net (set ns) (wd s')"
  using net.LookupSuccessor_owner [OF assms(2,1,3-6), of E] by (auto simp: owns_def ring.is_owner_def)

text \<open>Two nodes that know each other.\<close>

definition pair_node :: "char \<Rightarrow> char \<Rightarrow> Node" where
  "pair_node a b =
     (demo_node a)\<lparr>n_successor := demo_info b, n_successorList := [demo_info b], n_status := StatusActive\<rparr>"

lemma pair_node_ideal:
  assumes "is_hex a" and "is_hex b" and "a \<noteq> b" and "N = {demo_id a, demo_id b}"
  shows "ideal N (pair_node a b)"
  using assms
  by (auto simp: ideal_def pair_node_def demo_id_valid ring.is_next_def demo_node_def fresh_node_def
      fresh_fingers_def rc_sound_new demo_info_def emptyNodeInfo_def)

lemma lookup_finds_owner_witness:
  "\<forall>E :: netw env. \<exists>x s'. run_state (LookupSuccessor (net_env E) (demo_id (CHR ''3'')))
     \<lparr>nd = pair_node (CHR ''2'') (CHR ''4''),
      wd = \<lparr>w_nodes = [demo_id (CHR ''2'') \<mapsto> pair_node (CHR ''2'') (CHR ''4''),
                      demo_id (CHR ''4'') \<mapsto> pair_node (CHR ''4'') (CHR ''2'')],
            w_clock = 5, w_orc = []\<rparr>, spawned = []\<rparr> = (Inr x, s') \<and>
     NodeID x \<in> {demo_id (CHR ''2''), demo_id (CHR ''4'')}"
proof
  fix E :: "netw env"
  let ?n2 = "pair_node (CHR ''2'') (CHR ''4'')" and ?n4 = "pair_node (CHR ''4'') (CHR ''2'')"
  let ?ns = "[demo_id (CHR ''2''), demo_id (CHR ''4'')]"
  let ?s = "\<lparr>nd = ?n2, wd = \<lparr>w_nodes = [demo_id (CHR ''2'') \<mapsto> ?n2, demo_id (CHR ''4'') \<mapsto> ?n4],
      w_clock = 5, w_orc = []\<rparr>, spawned = []\<rparr> :: (Node, netw, task) gst"
  have hex: "is_hex (CHR ''2'')" "is_hex (CHR ''3'')" "is_hex (CHR ''4'')" by (simp_all add: is_hex_code)
  have i: "ideal (set ?ns) ?n2" "ideal (set ?ns) ?n4"
    using hex by (auto intro!: pair_node_ideal)
  have self: "NodeID (n_self ?n2) = demo_id (CHR ''2'')" "NodeID (n_self ?n4) = demo_id (CHR ''4'')"
    by (simp_all add: pair_node_def)
  have net: "ideal_net (set ?ns) (wd ?s)"
    using i self by (simp add: ideal_net_def)
  have "\<exists>x s'. run_state (LookupSuccessor (net_env E) (demo_id (CHR ''3''))) ?s = (Inr x, s') \<and> NodeID x \<in> set ?ns \<and>
      (\<forall>m \<in> set ?ns. cw (key_of (demo_id (CHR ''3''))) (key_of (NodeID x)) \<le> cw (key_of (demo_id (CHR ''3''))) (key_of m)) \<and>
      ideal (set ?ns) (nd s') \<and> ideal_net (set ?ns) (wd s')"
    by (rule lookup_finds_owner [OF net])
      (use i hex in \<open>auto simp: demo_id_valid pair_node_def demo_node_def fresh_node_def DefaultOptions_def
         DefaultMaxHops_def card_insert_if\<close>)
  then show "\<exists>x s'. run_state (LookupSuccessor (net_env E) (demo_id (CHR ''3''))) ?s = (Inr x, s') \<and>
      NodeID x \<in> {demo_id (CHR ''2''), demo_id (CHR ''4'')}"
    by auto
qed

section \<open>Progress on any ring\<close>

text \<open>C9: Forwarding makes progress, on every ring and whatever the fingers and lists hold: when the
  handler does not answer itself, it names a next hop other than itself, with an ID strictly between
  its own and the key, hence strictly closer to the key clockwise (unless the key is its own ID),
  raises the hop count by one within the budget, and does so only when it is neither leaving nor
  isolated nor already on the path.\<close>

theorem find_successor_forward:
  assumes run: "run_state (HandleFindSuccessor E req) s = (Inr resp, s')" and no: "\<not> frFound resp"
  shows "\<exists>h. frNextHop resp = Some h \<and> NodeID h \<noteq> NodeID (n_self (nd s)) \<and>
    InRangeOpenOpen (NodeID h) (NodeID (n_self (nd s))) (fsID req) \<and>
    (NodeID (n_self (nd s)) \<noteq> fsID req \<longrightarrow>
       cw (key_of (NodeID h)) (key_of (fsID req)) < cw (key_of (NodeID (n_self (nd s)))) (key_of (fsID req))) \<and>
    frHopCount resp = fsHopCount req + 1 \<and> frHopCount resp \<le> hop_limit req (nd s) \<and>
    n_status (nd s) \<noteq> StatusLeaving \<and> n_status (nd s) \<noteq> StatusIsolated \<and>
    NodeID (n_self (nd s)) \<notin> set (fsVisitedNodes req)"
proof -
  let ?g = "cache_get (e_orc E (wd s)) (fsID req) (e_now E (wd s)) (nd s)"
  have cfg: "n_self (snd ?g) = n_self (nd s)" "n_status (snd ?g) = n_status (nd s)"
    "n_fingers (snd ?g) = n_fingers (nd s)" "n_successorList (snd ?g) = n_successorList (nd s)"
    "n_successor (snd ?g) = n_successor (nd s)"
    by (simp_all add: cache_get_def case_prod_beta split: option.splits)
  let ?h = "closestPrecedingNode (e_now E (wd s)) (snd ?g) (Core (n_self (nd s))) (fsID req)
      (n_fingers (nd s)) (n_successorList (nd s))"
  have *: "frNextHop resp = Some ?h" "NodeID ?h \<noteq> NodeID (n_self (nd s))" "ValidateID (fsID req)"
    "frHopCount resp = fsHopCount req + 1" "fsHopCount req < hop_limit req (nd s)"
    "n_status (nd s) \<noteq> StatusLeaving" "n_status (nd s) \<noteq> StatusIsolated"
    "NodeID (n_self (nd s)) \<notin> set (fsVisitedNodes req)"
    using run no cfg
    by (auto simp: HandleFindSuccessor_def hop_limit_def routingCache_Get_def routingCache_Put_def now_def
        piggyback_def emptyFindResponse_def Let_def split: if_splits option.splits)
  then have b: "InRangeOpenOpen (NodeID ?h) (NodeID (n_self (nd s))) (fsID req)"
    using closestPrecedingNode_cases [of "e_now E (wd s)" "snd ?g" "Core (n_self (nd s))" "fsID req"
        "n_fingers (nd s)" "n_successorList (nd s)"] by auto
  have v: "ValidateID (NodeID ?h)" "ValidateID (NodeID (n_self (nd s)))"
    using InRange_valid(2) [OF b] by auto
  show ?thesis
    using * b ring.between_closer [OF v *(3) _ b] by auto
qed

lemma key_of_demo: "is_hex c \<Longrightarrow> key_of (demo_id c) = hex_val c"
  using SetString16_snoc [of "replicate 39 (CHR ''0'')" c] by (simp add: demo_id_def del: replicate.simps)

lemma find_successor_forward_witness:
  "\<forall>E :: unit benv. \<exists>resp s'. run_state (HandleFindSuccessor E
       \<lparr>fsID = demo_id (CHR ''6''), fsHopCount = 0, fsMaxHops = 9, fsVisitedNodes = [],
        fsRequesterRegion = [], fsPreferRegion = []\<rparr>)
     \<lparr>nd = (pair_node (CHR ''2'') (CHR ''4''))\<lparr>n_routingCache := None, n_fingers := []\<rparr>, wd = (), spawned = []\<rparr> =
     (Inr resp, s') \<and> frHopCount resp = 1 \<and>
     (\<exists>h. frNextHop resp = Some h \<and> cw (key_of (NodeID h)) 6 < cw 2 6)"
proof
  fix E :: "unit benv"
  let ?req = "\<lparr>fsID = demo_id (CHR ''6''), fsHopCount = 0, fsMaxHops = 9, fsVisitedNodes = [],
      fsRequesterRegion = [], fsPreferRegion = []\<rparr>"
  let ?s = "\<lparr>nd = (pair_node (CHR ''2'') (CHR ''4''))\<lparr>n_routingCache := None, n_fingers := []\<rparr>,
      wd = (), spawned = []\<rparr> :: (Node, unit, task) gst"
  have hex: "is_hex (CHR ''2'')" "is_hex (CHR ''4'')" "is_hex (CHR ''6'')" by (simp_all add: is_hex_code)
  have key: "key_of (demo_id (CHR ''2'')) = 2" "key_of (demo_id (CHR ''4'')) = 4" "key_of (demo_id (CHR ''6'')) = 6"
    using hex by (simp_all add: key_of_demo hex_val_code)
  have no: "\<not> InRangeOpenClosed (demo_id (CHR ''6'')) (demo_id (CHR ''2'')) (demo_id (CHR ''4''))"
    using hex key by (simp add: InRangeOpenClosed_cw demo_id_valid cw_def)
  have yes: "InRangeOpenOpen (demo_id (CHR ''4'')) (demo_id (CHR ''2'')) (demo_id (CHR ''6''))"
    using hex key by (simp add: InRangeOpenOpen_cw demo_id_valid cw_def)
  obtain resp s' where run: "run_state (HandleFindSuccessor E ?req) ?s = (Inr resp, s')" and nf: "\<not> frFound resp"
    using hex no yes
    by (simp add: HandleFindSuccessor_def demo_id_valid routingCache_Get_def now_def cache_get_def piggyback_def
        pair_node_def demo_node_def fresh_node_def closestPrecedingNode_def collectCandidates_def emptyFindResponse_def
        demo_info_def emptyNodeInfo_def Core_def)
  from find_successor_forward [OF run nf]
  show "\<exists>resp s'. run_state (HandleFindSuccessor E ?req) ?s = (Inr resp, s') \<and> frHopCount resp = 1 \<and>
      (\<exists>h. frNextHop resp = Some h \<and> cw (key_of (NodeID h)) 6 < cw 2 6)"
    using run key by (auto simp: pair_node_def)
qed

section \<open>Parallel lookup\<close>

lemma collect_loop_all_seen: "\<forall>x \<in> set xs. NodeID x \<in> set seen \<Longrightarrow> collect_loop P (seen, out) xs = (seen, out)"
  by (induction xs) auto

text \<open>Node 2 of the ring 2, 4, 6 with parallel lookup on; its peers answer for the key 5 with the owner, 6.\<close>

definition parallel_node :: Node where
  "parallel_node = (pair_node (CHR ''2'') (CHR ''4''))\<lparr>n_successorList := [demo_info (CHR ''4''), demo_info (CHR ''6'')],
     n_options := DefaultOptions\<lparr>o_ParallelLookupEnabled := True\<rparr>\<rparr>"

definition says_six :: "'w env \<Rightarrow> 'w env" where
  "says_six E = E\<lparr>e_now := \<lambda>_. 5, e_orc := \<lambda>_. [],
     pc_FindSuccessor := \<lambda>p req w. (Inr (emptyFindResponse\<lparr>frFound := True, frSuccessor := Some (demo_info (CHR ''6''))\<rparr>), w)\<rparr>"

text \<open>Why C1 needs parallel lookup to be off. \<open>lookupParallel\<close> caches the answer of a peer further round the
  ring as if the node itself were the predecessor of the owner: after a correct lookup of 5, the
  entry for the interval from 2 to 6 makes 6 the answer for 3, which its successor 4 owns.\<close>

lemma parallel_lookup_misroutes:
  fixes E :: "'w env"
  defines "run \<equiv> \<lambda>k s. run_state (LookupSuccessor (says_six E) k) s"
  shows "let s = \<lparr>nd = parallel_node, wd = w, spawned = []\<rparr>; s1 = snd (run (demo_id (CHR ''5'')) s)
    in fst (run (demo_id (CHR ''5'')) s) = Inr (Core (demo_info (CHR ''6''))) \<and>
       fst (run (demo_id (CHR ''3'')) s1) = Inr (Core (demo_info (CHR ''6'')))"
proof -
  let ?s = "\<lparr>nd = parallel_node, wd = w, spawned = []\<rparr> :: (Node, 'w, task) gst"
  let ?c = "NewRoutingCache (o_RoutingCacheTTL DefaultOptions) (o_RoutingCacheCapacity DefaultOptions)"
  have hex: "is_hex (CHR ''2'')" "is_hex (CHR ''3'')" "is_hex (CHR ''4'')" "is_hex (CHR ''5'')" "is_hex (CHR ''6'')"
    by (simp_all add: is_hex_code)
  have key: "key_of (demo_id (CHR ''2'')) = 2" "key_of (demo_id (CHR ''3'')) = 3" "key_of (demo_id (CHR ''4'')) = 4"
     "key_of (demo_id (CHR ''5'')) = 5" "key_of (demo_id (CHR ''6'')) = 6"
    using hex by (simp_all add: key_of_demo hex_val_code)
  have rng: "InRangeOpenOpen (demo_id (CHR ''4'')) (demo_id (CHR ''2'')) (demo_id (CHR ''5''))"
    "\<not> InRangeOpenOpen (demo_id (CHR ''6'')) (demo_id (CHR ''2'')) (demo_id (CHR ''5''))"
    "InRangeOpenClosed (demo_id (CHR ''3'')) (demo_id (CHR ''2'')) (demo_id (CHR ''6''))"
    using hex key by (simp_all add: InRangeOpenOpen_cw InRangeOpenClosed_cw demo_id_valid cw_def)
  have f: "n_self parallel_node = demo_info (CHR ''2'')" "n_client parallel_node"
    "n_fingers parallel_node = fresh_fingers (demo_info (CHR ''2''))" 
    by (simp_all add: parallel_node_def pair_node_def demo_node_def fresh_node_def)
  have cand: "collectCandidates (Core (demo_info (CHR ''2''))) (demo_id (CHR ''5'')) (fresh_fingers (demo_info (CHR ''2'')))
      [demo_info (CHR ''4''), demo_info (CHR ''6'')] = [demo_info (CHR ''4'')]"
    by (simp add: collectCandidates_def Let_def collect_loop_all_seen fresh_fingers_def rng)
  have g: "n_successorList parallel_node = [demo_info (CHR ''4''), demo_info (CHR ''6'')]"
    "o_ParallelLookupEnabled (n_options parallel_node)" "o_ParallelLookupCandidates (n_options parallel_node) = 3"
    "n_routingCache parallel_node = Some (NewRoutingCache (o_RoutingCacheSize DefaultOptions) (o_RoutingCacheTTL DefaultOptions))"
    by (simp_all add: parallel_node_def pair_node_def demo_node_def fresh_node_def DefaultOptions_def)
  let ?c = "NewRoutingCache (o_RoutingCacheSize DefaultOptions) (o_RoutingCacheTTL DefaultOptions)"
  have c: "items ?c = []" "order ?c = []" "0 < capacity ?c" "0 < rcTtl ?c"
    by (simp_all add: NewRoutingCache_def DefaultOptions_def DefaultRoutingCacheSize_def DefaultRoutingCacheTTL_def Second_def)
  have val: "ValidateID (demo_id (CHR ''5''))" "ValidateID (demo_id (CHR ''3''))" by (simp_all add: demo_id_valid hex)
  show ?thesis
    using f g c val cand rng
    by (simp add: run_def says_six_def LookupSuccessor_def routingCache_Get_def routingCache_Put_def now_def cache_get_def cache_put_def
        RoutingCache_Get_def RoutingCache_Put_def lookupParallel_def topKClosestPreceding_def parallel_answer_def
        rc_iter_def rc_miss_def rc_hit_def rc_expired_def time_Sub_def map_iter_def emptyFindResponse_def case_prod_beta minDuration_def maxDuration_def)
qed

end
