(* ===== verification/ProtocolFacts.thy ===== *)
theory ProtocolFacts
  imports Protocol NodeOps LookupCorrect
begin

text \<open>
  What the protocol handlers promise: which candidate \<open>HandleRectify\<close> accepts as predecessor and what
  it leaves behind, what a ping changes, when a failing peer is dropped, and what \<open>HandleLeave\<close> does
  to the ring pointers. \<open>same_links\<close> is the frame of the sections that only touch caches, counters
  and the status of fingers.
\<close>

section \<open>Frames\<close>

definition same_links :: "Node \<Rightarrow> Node \<Rightarrow> bool" where
  "same_links n n' \<longleftrightarrow>
     n_self n' = n_self n \<and> n_predecessor n' = n_predecessor n \<and> n_predecessorList n' = n_predecessorList n \<and>
     n_successor n' = n_successor n \<and> n_successorList n' = n_successorList n \<and> n_status n' = n_status n \<and>
     n_options n' = n_options n \<and> n_client n' = n_client n \<and>
     map (NodeID \<circ> feNode) (n_fingers n') = map (NodeID \<circ> feNode) (n_fingers n) \<and>
     n_routingCache n' = n_routingCache n \<and> n_tracker n' = n_tracker n \<and>
     n_topologyChangeCh n' = n_topologyChangeCh n"

lemma same_links_refl [simp]: "same_links n n"
  by (simp add: same_links_def)

lemma same_links_trans: "same_links a b \<Longrightarrow> same_links b c \<Longrightarrow> same_links a c"
  by (simp add: same_links_def)

lemma same_links_markSuccess [simp]: "same_links n (markSuccess i n)"
  by (simp add: same_links_def markSuccess_def comp_def)

section \<open>Pings\<close>

text \<open>\<open>pings E t s\<close>: whether \<open>pingLiveness\<close> of \<open>t\<close> succeeds in \<open>s\<close>.\<close>

definition pings :: "'w env \<Rightarrow> NodeInfo \<Rightarrow> (Node, 'w, task) gst \<Rightarrow> bool" where
  "pings E t s \<longleftrightarrow>
     NodeID t \<noteq> [] \<and>
     (NodeID t = NodeID (n_self (nd s)) \<or>
      n_client (nd s) \<and> \<not> isl (fst (pc_PingLiveness E (URI t) (wd s))))"

lemma pingLiveness_run:
  shows pingLiveness_result: "fst (run_state (pingLiveness E t) s) = pings E t s"
    and pingLiveness_frame: "same_links (nd s) (nd (snd (run_state (pingLiveness E t) s)))"
    and pingLiveness_spawned: "spawned (snd (run_state (pingLiveness E t) s)) = spawned s"
  by (auto simp: pingLiveness_def pings_def markSuccessOf_def case_prod_beta split: sum.splits)

section \<open>Rectify\<close>

text \<open>The handler's verdict on a candidate: no predecessor yet, or a predecessor that does not answer a
  ping, or a candidate between the predecessor and this node.\<close>

definition rectifies :: "'w env \<Rightarrow> NodeInfo \<Rightarrow> (Node, 'w, task) gst \<Rightarrow> bool" where
  "rectifies E candidate s \<longleftrightarrow>
     (case n_predecessor (nd s) of
        None \<Rightarrow> True
      | Some p \<Rightarrow>
          (NodeID p \<noteq> NodeID (n_self (nd s)) \<and> n_client (nd s) \<and> \<not> pings E p s) \<or>
          InRangeOpenOpen (NodeID candidate) (NodeID p) (NodeID (n_self (nd s))))"

lemma emitTopologyChange_frame:
  "nd (snd (run_state emitTopologyChange s)) =
     invalidateRoutes (signalTopologyChange (nd s))"
  "spawned (snd (run_state emitTopologyChange s)) = spawned s" "wd (snd (run_state emitTopologyChange s)) = wd s"
  by (simp_all add: emitTopologyChange_def)

lemma emitTopologyChange_run:
  "run_state emitTopologyChange s = ((), s\<lparr>nd := invalidateRoutes (signalTopologyChange (nd s))\<rparr>)"
  by (simp add: emitTopologyChange_def)

lemma gst_fields:
  "t\<lparr>nd := x\<rparr> = \<lparr>nd = x, wd = wd t, spawned = spawned t\<rparr>"
  "t\<lparr>spawned := l\<rparr> = \<lparr>nd = nd t, wd = wd t, spawned = l\<rparr>" for t :: "('n, 'w, 't) gst"
  by simp_all

lemma topology_fields [simp]:
  "n_self (invalidateRoutes n) = n_self n" "n_predecessor (invalidateRoutes n) = n_predecessor n"
  "n_predecessorList (invalidateRoutes n) = n_predecessorList n" "n_successor (invalidateRoutes n) = n_successor n"
  "n_successorList (invalidateRoutes n) = n_successorList n" "n_status (invalidateRoutes n) = n_status n"
  "n_topologyChangeCh (invalidateRoutes n) = n_topologyChangeCh n" "n_options (invalidateRoutes n) = n_options n"
  "n_client (invalidateRoutes n) = n_client n" "n_fingers (invalidateRoutes n) = n_fingers n"
  "n_self (signalTopologyChange n) = n_self n" "n_predecessor (signalTopologyChange n) = n_predecessor n"
  "n_predecessorList (signalTopologyChange n) = n_predecessorList n" "n_successor (signalTopologyChange n) = n_successor n"
  "n_successorList (signalTopologyChange n) = n_successorList n" "n_status (signalTopologyChange n) = n_status n"
  "n_topologyChangeCh (signalTopologyChange n)" "n_options (signalTopologyChange n) = n_options n"
  "n_client (signalTopologyChange n) = n_client n" "n_fingers (signalTopologyChange n) = n_fingers n"
  by (simp_all add: invalidateRoutes_def signalTopologyChange_def split: option.splits)

text \<open>What the handler has read and pinged when it enters its critical section.\<close>

lemma HandleRectify_run:
  fixes E :: "'w env" and s :: "(Node, 'w, task) gst"
  assumes valid: "ValidateNodeInfo (e_lib E) (nqNode req) = Inr ()"
    and open_: "n_status (nd s) \<noteq> StatusLeaving" "n_status (nd s) \<noteq> StatusJoining"
    and other: "NodeID (nqNode req) \<noteq> NodeID (n_self (nd s))"
  shows "\<exists>n w. same_links (nd s) n \<and>
    run_state (HandleRectify E req) s =
      (let (acc, pred) = fst (acceptPredecessor (Core (nqNode req)) (n_predecessor (nd s))
              (case n_predecessor (nd s) of None \<Rightarrow> True
               | Some p \<Rightarrow> \<not> (NodeID p \<noteq> NodeID (n_self (nd s)) \<and> n_client (nd s) \<and> \<not> pings E p s)) n);
           n' = snd (acceptPredecessor (Core (nqNode req)) (n_predecessor (nd s))
              (case n_predecessor (nd s) of None \<Rightarrow> True
               | Some p \<Rightarrow> \<not> (NodeID p \<noteq> NodeID (n_self (nd s)) \<and> n_client (nd s) \<and> \<not> pings E p s)) n)
       in (Inr \<lparr>nrAccepted = acc, nrPredecessor = pred\<rparr>,
           \<lparr>nd = (if acc then invalidateRoutes (signalTopologyChange n') else n'), wd = w,
            spawned = spawned s @ (if acc \<and> n_client (nd s) then [FetchPredecessorOf (Core (nqNode req))] else [])\<rparr>))"
proof (cases "n_predecessor (nd s)")
  case None
  then show ?thesis
    using assms
    by (intro exI [of _ "nd s"] exI [of _ "wd s"])
      (simp add: HandleRectify_def case_prod_beta emitTopologyChange_frame Let_def split: if_splits)
next
  case (Some p)
  let ?c = "NodeID p \<noteq> NodeID (n_self (nd s)) \<and> n_client (nd s)"
  let ?s = "if ?c then snd (run_state (pingLiveness E p) s) else s"
  have "same_links (nd s) (nd ?s)" "spawned ?s = spawned s"
    using pingLiveness_frame [of s E p] pingLiveness_spawned [of E p s] by simp_all
  then show ?thesis
    using assms Some
    by (intro exI [of _ "nd ?s"] exI [of _ "wd ?s"])
      (auto simp: HandleRectify_def case_prod_beta emitTopologyChange_run Let_def pingLiveness_result
        pingLiveness_spawned gst_fields)
qed

text \<open>C8: Rectification, complete on every branch. A request from a valid node other than this one, when
  this node is neither leaving nor joining, is answered; the candidate is accepted exactly if there
  is no predecessor, the predecessor no longer answers a ping, or the candidate lies strictly between
  it and this node. An accepted candidate becomes the predecessor and heads the predecessor list,
  before the old one where two fit, and a topology change is signalled; otherwise nothing of the
  links changes. Any other request is refused and changes nothing at all.\<close>

theorem handle_rectify:
  fixes E :: "'w env" and s :: "(Node, 'w, task) gst" and req :: RectifyRequest
  defines "c \<equiv> Core (nqNode req)" and "acc \<equiv> rectifies E (Core (nqNode req)) s"
  shows "if ValidateNodeInfo (e_lib E) (nqNode req) = Inr () \<and> n_status (nd s) \<noteq> StatusLeaving \<and>
       n_status (nd s) \<noteq> StatusJoining \<and> NodeID (nqNode req) \<noteq> NodeID (n_self (nd s))
    then \<exists>s'. run_state (HandleRectify E req) s = (Inr \<lparr>nrAccepted = acc, nrPredecessor = n_predecessor (nd s')\<rparr>, s') \<and>
      n_predecessor (nd s') = (if acc then Some c else n_predecessor (nd s)) \<and>
      n_predecessorList (nd s') = (if acc then c # (case n_predecessor (nd s) of
           Some p \<Rightarrow> if 1 < predecessorLimit (nd s) then [p] else [] | None \<Rightarrow> [])
         else n_predecessorList (nd s)) \<and>
      n_successor (nd s') = n_successor (nd s) \<and> n_successorList (nd s') = n_successorList (nd s) \<and>
      n_status (nd s') = n_status (nd s) \<and> n_topologyChangeCh (nd s') = (acc \<or> n_topologyChangeCh (nd s)) \<and>
      spawned s' = spawned s @ (if acc \<and> n_client (nd s) then [FetchPredecessorOf c] else [])
    else \<exists>e. run_state (HandleRectify E req) s = (Inl e, s)"
proof (cases "ValidateNodeInfo (e_lib E) (nqNode req) = Inr () \<and> n_status (nd s) \<noteq> StatusLeaving \<and>
       n_status (nd s) \<noteq> StatusJoining \<and> NodeID (nqNode req) \<noteq> NodeID (n_self (nd s))")
  case True
  then obtain n w where n: "same_links (nd s) n" and run: "run_state (HandleRectify E req) s =
      (let (acc, pred) = fst (acceptPredecessor (Core (nqNode req)) (n_predecessor (nd s))
              (case n_predecessor (nd s) of None \<Rightarrow> True
               | Some p \<Rightarrow> \<not> (NodeID p \<noteq> NodeID (n_self (nd s)) \<and> n_client (nd s) \<and> \<not> pings E p s)) n);
           n' = snd (acceptPredecessor (Core (nqNode req)) (n_predecessor (nd s))
              (case n_predecessor (nd s) of None \<Rightarrow> True
               | Some p \<Rightarrow> \<not> (NodeID p \<noteq> NodeID (n_self (nd s)) \<and> n_client (nd s) \<and> \<not> pings E p s)) n)
       in (Inr \<lparr>nrAccepted = acc, nrPredecessor = pred\<rparr>,
           \<lparr>nd = (if acc then invalidateRoutes (signalTopologyChange n') else n'), wd = w,
            spawned = spawned s @ (if acc \<and> n_client (nd s) then [FetchPredecessorOf (Core (nqNode req))] else [])\<rparr>))"
    using HandleRectify_run [of E req s] by blast
  have pl: "predecessorLimit n = predecessorLimit (nd s)"
    using n by (simp add: same_links_def predecessorLimit_def)
  show ?thesis
    using n True
    by (cases "n_predecessor (nd s)")
      (auto simp: run acceptPredecessor_def same_links_def acc_def c_def rectifies_def pl [unfolded predecessorLimit_def]
         predecessorLimit_def Let_def)
next
  case False
  then show ?thesis
    by (auto simp: HandleRectify_def Let_def split: sum.splits)
qed


lemma handle_rectify_witness:
  "\<forall>E :: unit env. \<exists>s'.
     run_state (HandleRectify (E\<lparr>e_lib := demo_lib\<rparr>) \<lparr>nqNode = (demo_info (CHR ''3''))\<lparr>AnchorID := ''a''\<rparr>\<rparr>)
       \<lparr>nd = (demo_node (CHR ''4''))\<lparr>n_predecessor := Some (demo_info (CHR ''2'')), n_client := False\<rparr>,
        wd = (), spawned = []\<rparr> =
     (Inr \<lparr>nrAccepted = True, nrPredecessor = n_predecessor (nd s')\<rparr>, s') \<and>
     ids (n_predecessorList (nd s')) = [demo_id (CHR ''3''), demo_id (CHR ''2'')]"
proof
  fix E :: "unit env"
  let ?E = "E\<lparr>e_lib := demo_lib\<rparr>" and ?c = "(demo_info (CHR ''3''))\<lparr>AnchorID := ''a''\<rparr>"
  let ?s = "\<lparr>nd = (demo_node (CHR ''4''))\<lparr>n_predecessor := Some (demo_info (CHR ''2'')), n_client := False\<rparr>,
        wd = (), spawned = []\<rparr> :: (Node, unit, task) gst"
  have hex: "is_hex (CHR ''2'')" "is_hex (CHR ''3'')" "is_hex (CHR ''4'')" by (simp_all add: is_hex_code)
  have key: "key_of (demo_id (CHR ''2'')) = 2" "key_of (demo_id (CHR ''3'')) = 3" "key_of (demo_id (CHR ''4'')) = 4"
    using hex by (simp_all add: key_of_demo hex_val_code)
  have "InRangeOpenOpen (demo_id (CHR ''3'')) (demo_id (CHR ''2'')) (demo_id (CHR ''4''))"
    using hex key by (simp add: InRangeOpenOpen_cw demo_id_valid cw_def)
  then have acc: "rectifies ?E (Core ?c) ?s" by (simp add: rectifies_def)
  have "NormalizeURI demo_lib ''https://3'' = Inr ''https://3''" by code_simp
  then have "ValidateNodeInfo demo_lib ?c = Inr ()"
    using hex by (simp add: ValidateNodeInfo_def demo_id_valid demo_info_def emptyNodeInfo_def)
  then show "\<exists>s'. run_state (HandleRectify ?E \<lparr>nqNode = ?c\<rparr>) ?s =
      (Inr \<lparr>nrAccepted = True, nrPredecessor = n_predecessor (nd s')\<rparr>, s') \<and>
      ids (n_predecessorList (nd s')) = [demo_id (CHR ''3''), demo_id (CHR ''2'')]"
    using handle_rectify [of ?E "\<lparr>nqNode = ?c\<rparr>" ?s] acc
    by (auto simp: demo_node_def fresh_node_def predecessorLimit_def DefaultOptions_def
        DefaultPredecessorListSize_def)
qed

section \<open>Failing peers\<close>

definition fail_times :: "nat \<Rightarrow> string \<Rightarrow> Node \<Rightarrow> Node" where
  "fail_times k i n = ((\<lambda>n. snd (markFailure i n)) ^^ k) n"

lemma markFailure_counts:
  "failuresOf i (snd (markFailure i n)) = failuresOf i n + 1" "n_options (snd (markFailure i n)) = n_options n"
  "n_self (snd (markFailure i n)) = n_self n"
  by (simp_all add: markFailure_def failuresOf_def Let_def)

lemma markFailure_fingers:
  assumes "i \<noteq> NodeID (n_self n)"
  shows "\<forall>f \<in> set (n_fingers (snd (markFailure i n))). NodeID (feNode f) = i \<longrightarrow> \<not> feValid f"
  using assms [symmetric] by (simp add: markFailure_def Let_def ball_Un)

lemma markFailure_below:
  assumes "failuresOf i n + 1 < o_FailedThreshold (n_options n)"
  shows "n_successorList (snd (markFailure i n)) = n_successorList n \<and>
    map feNode (n_fingers (snd (markFailure i n))) = map feNode (n_fingers n)"
  using assms by (simp add: markFailure_def Let_def)

lemma markFailure_evicts:
  assumes "failuresOf i n + 1 \<ge> o_FailedThreshold (n_options n)" and "0 < o_FailedThreshold (n_options n)"
    and "i \<noteq> NodeID (n_self n)"
  shows "i \<notin> set (ids (n_successorList (snd (markFailure i n)))) \<and>
    i \<notin> set (map (NodeID \<circ> feNode) (n_fingers (snd (markFailure i n))))"
proof -
  have "\<forall>f \<in> set (n_fingers (snd (markFailure i n))). NodeID (feNode f) \<noteq> i"
    using assms assms(3) [symmetric] by (simp add: markFailure_def Let_def ball_Un)
  moreover have "\<forall>x \<in> set (n_successorList (snd (markFailure i n))). NodeID x \<noteq> i"
    using assms by (simp add: markFailure_def Let_def)
  ultimately show ?thesis by auto
qed

lemma fail_times_Suc: "fail_times (Suc k) i n = snd (markFailure i (fail_times k i n))"
  by (simp add: fail_times_def)

lemma fail_times_counts:
  "failuresOf i (fail_times k i n) = failuresOf i n + int k" "n_options (fail_times k i n) = n_options n"
  "n_self (fail_times k i n) = n_self n"
  by (induction k) (simp_all add: fail_times_Suc markFailure_counts, simp_all add: fail_times_def)

lemma fail_times_below:
  assumes "failuresOf i n + int k < o_FailedThreshold (n_options n)"
  shows "n_successorList (fail_times k i n) = n_successorList n \<and>
    map feNode (n_fingers (fail_times k i n)) = map feNode (n_fingers n)"
  using assms
proof (induction k)
  case (Suc k)
  then show ?case
    using markFailure_below [of i "fail_times k i n"]
    by (simp add: fail_times_Suc fail_times_counts)
qed (simp add: fail_times_def)

text \<open>C13: Failure detection. Counting from a peer with no recorded failures, fewer than
  \<open>FailedThreshold\<close> consecutive failures leave the successor list and every finger's node as they
  are; from the threshold on, the peer is in neither. After any failure no finger to it counts as
  valid, and a single success clears the count.\<close>

theorem failed_peer_evicted:
  assumes "failuresOf i n = 0" and "i \<noteq> NodeID (n_self n)" and "0 < o_FailedThreshold (n_options n)" and "0 < k"
  defines "n' \<equiv> fail_times k i n"
  shows "(if int k < o_FailedThreshold (n_options n)
      then n_successorList n' = n_successorList n \<and> map feNode (n_fingers n') = map feNode (n_fingers n)
      else i \<notin> set (ids (n_successorList n')) \<and> i \<notin> set (map (NodeID \<circ> feNode) (n_fingers n'))) \<and>
    (\<forall>f \<in> set (n_fingers n'). NodeID (feNode f) = i \<longrightarrow> \<not> feValid f) \<and>
    failuresOf i n' = int k \<and> failuresOf i (markSuccess i n') = 0"
proof -
  obtain j where k: "k = Suc j" using assms(4) by (cases k) auto
  let ?m = "fail_times j i n"
  have n': "n' = snd (markFailure i ?m)" by (simp add: n'_def k fail_times_Suc)
  have me: "i \<noteq> NodeID (n_self ?m)" using assms(2) by (simp add: fail_times_counts)
  have "\<forall>f \<in> set (n_fingers n'). NodeID (feNode f) = i \<longrightarrow> \<not> feValid f"
    unfolding n' by (rule markFailure_fingers [OF me])
  moreover have "i \<notin> set (ids (n_successorList n')) \<and> i \<notin> set (map (NodeID \<circ> feNode) (n_fingers n'))"
    if "\<not> int k < o_FailedThreshold (n_options n)"
    unfolding n' by (rule markFailure_evicts [OF _ _ me]) (use that assms(1,3) k in \<open>simp_all add: fail_times_counts\<close>)
  moreover have "n_successorList n' = n_successorList n \<and> map feNode (n_fingers n') = map feNode (n_fingers n)"
    if "int k < o_FailedThreshold (n_options n)"
    unfolding n'_def by (rule fail_times_below) (use that assms(1) in simp)
  moreover have "failuresOf i n' = int k" using assms(1) by (simp add: n'_def fail_times_counts)
  moreover have "failuresOf i (markSuccess i n') = 0" by (simp add: markSuccess_def failuresOf_def)
  ultimately show ?thesis by simp
qed

lemma failed_peer_evicted_witness:
  "let n = (demo_node (CHR ''1''))\<lparr>n_successorList := [demo_info (CHR ''2''), demo_info (CHR ''3'')]\<rparr>
   in demo_id (CHR ''2'') \<in> set (ids (n_successorList (fail_times 2 (demo_id (CHR ''2'')) n))) \<and>
      demo_id (CHR ''2'') \<notin> set (ids (n_successorList (fail_times 3 (demo_id (CHR ''2'')) n)))"
proof -
  let ?n = "(demo_node (CHR ''1''))\<lparr>n_successorList := [demo_info (CHR ''2''), demo_info (CHR ''3'')]\<rparr>"
  have "failuresOf (demo_id (CHR ''2'')) ?n = 0" by (simp add: failuresOf_def demo_node_def fresh_node_def)
  moreover have "o_FailedThreshold (n_options ?n) = 3"
    by (simp add: DefaultOptions_def DefaultFailedThreshold_def)
  ultimately show ?thesis
    using failed_peer_evicted [where i = "demo_id (CHR ''2'')" and n = ?n and k = 3]
      failed_peer_evicted [where i = "demo_id (CHR ''2'')" and n = ?n and k = 2]
    by (simp add: Let_def split: if_splits)
qed

end
