(* ===== verification/MaintenanceFacts.thy ===== *)
theory MaintenanceFacts
  imports NodeInvariant ProtocolFacts
begin

text \<open>
  What stabilisation and the validation of the successor list achieve while the peers they talk to
  neither come nor go: \<open>pings_steady E live\<close> says that pings are answered by \<open>live\<close> throughout, \<open>steady E
  live st\<close> that state requests are too, by \<open>st\<close>. The successor list becomes the live part of the old one, extended from its last
  entry; the successor becomes the first candidate that answers, or the live node just before it; a
  node whose candidates all fail isolates itself.
\<close>

section \<open>Steady peers\<close>

definition pings_steady :: "'w env \<Rightarrow> (string \<Rightarrow> bool) \<Rightarrow> bool" where
  "pings_steady E live \<longleftrightarrow> (\<forall>u w. isl (fst (pc_PingLiveness E u w)) = (\<not> live u))"

definition steady :: "'w env \<Rightarrow> (string \<Rightarrow> bool) \<Rightarrow> (NodeInfo \<Rightarrow> goerror + StateResponse) \<Rightarrow> bool" where
  "steady E live st \<longleftrightarrow>
     pings_steady E live \<and> (\<forall>c w. fst (pc_State E c w) = st c)"

lemma steady_pings: "steady E live st \<Longrightarrow> pings_steady E live"
  by (simp add: steady_def)

definition alive :: "string \<Rightarrow> (string \<Rightarrow> bool) \<Rightarrow> NodeInfo \<Rightarrow> bool" where
  "alive me live x \<longleftrightarrow> NodeID x \<noteq> [] \<and> (NodeID x = me \<or> live (URI x))"

lemma alive_Core [simp]: "alive me live (Core x) = alive me live x"
  by (simp add: alive_def)

lemma same_links_self: "same_links n n' \<Longrightarrow> n_self n' = n_self n \<and> n_client n' = n_client n"
  by (simp add: same_links_def)

lemma ping_alive:
  assumes "pings_steady E live" and "n_client (nd s)" and "NodeID (n_self (nd s)) = me"
  shows "fst (run_state (pingLiveness E x) s) = alive me live x"
  using assms by (simp add: pingLiveness_result pings_def alive_def pings_steady_def)

lemma ping_all:
  assumes "pings_steady E live" and "n_client (nd s)" and "NodeID (n_self (nd s)) = me"
  shows "fst (run_state (for_map l (pingLiveness E)) s) = map (alive me live) l \<and>
    same_links (nd s) (nd (snd (run_state (for_map l (pingLiveness E)) s)))"
  using assms(2,3)
proof (induction l arbitrary: s)
  case (Cons x l)
  let ?s = "snd (run_state (pingLiveness E x) s)"
  have f: "same_links (nd s) (nd ?s)" by (rule pingLiveness_frame)
  then have "n_client (nd ?s)" "NodeID (n_self (nd ?s)) = me"
    using Cons.prems by (simp_all add: same_links_def)
  note ih = Cons.IH [OF this]
  show ?case
    using ih ping_alive [OF assms(1) Cons.prems, of x] same_links_trans [OF f]
    by (simp add: case_prod_beta)
qed simp

section \<open>Validation\<close>

lemma take_valid_alive:
  assumes "distinct (ids l)" and "set (ids l) \<inter> set seen = {}" and "int (length l) + int (length valid) \<le> lm"
  shows "take_valid lm seen valid (zip l (map (alive me live) l)) = valid @ map Core (filter (alive me live) l)"
  using assms
proof (induction l arbitrary: seen valid)
  case (Cons x l)
  show ?case
  proof (cases "alive me live x")
    case True
    then have ne: "NodeID x \<noteq> []" by (simp add: alive_def)
    show ?thesis
    proof (cases "int (length (valid @ [Core x])) = lm")
      case full: True
      then have "l = []" using Cons.prems(3) by (cases l) auto
      then show ?thesis using True ne Cons.prems by (simp add: Let_def)
    next
      case False
      then show ?thesis using True ne Cons.prems Cons.IH [of "NodeID x # seen" "valid @ [Core x]"] by auto
    qed
  next
    case False
    then show ?thesis using Cons by auto
  qed
qed simp

text \<open>What a list \<open>valid\<close> is extended with from the nodes \<open>cs\<close> that its last entry offers: those that are live,
  other than this node and new to the list, the first one of each ID, in order, as many as fit.\<close>

primrec first_of_each :: "NodeInfo list \<Rightarrow> NodeInfo list" where
  "first_of_each [] = []"
| "first_of_each (x # xs) = x # filter (\<lambda>y. NodeID y \<noteq> NodeID x) (first_of_each xs)"

definition extension :: "string \<Rightarrow> (string \<Rightarrow> bool) \<Rightarrow> int \<Rightarrow> NodeInfo list \<Rightarrow> NodeInfo list \<Rightarrow> NodeInfo list" where
  "extension me live lm valid cs =
     take (nat lm - length valid)
       (map Core (first_of_each (filter (\<lambda>x. alive me live x \<and> NodeID x \<noteq> me \<and> NodeID x \<notin> set (ids valid)) cs)))"

lemma filter_first_of_each:
  "first_of_each (filter (\<lambda>x. Q (NodeID x)) xs) = filter (\<lambda>x. Q (NodeID x)) (first_of_each xs)"
proof (induction xs)
  case (Cons x xs)
  then show ?case by (auto simp: conj_commute intro: filter_cong)
qed simp

lemma set_first_of_each: "set (first_of_each xs) \<subseteq> set xs"
  by (induction xs) auto

lemma set_extension: "x \<in> set (extension me live lm valid cs) \<Longrightarrow> alive me live x \<and> NodeID x \<noteq> me"
  using set_first_of_each by (fastforce simp: extension_def dest!: in_set_takeD)

lemma extension_Cons:
  "extension me live lm valid (c # cs) =
     (if length valid < nat lm \<and> alive me live c \<and> NodeID c \<noteq> me \<and> NodeID c \<notin> set (ids valid)
      then Core c # extension me live lm (valid @ [Core c]) cs
      else extension me live lm valid cs)"
proof -
  let ?P = "\<lambda>x. alive me live x \<and> NodeID x \<noteq> me \<and> NodeID x \<notin> set (ids valid)"
  have "filter (\<lambda>x. alive me live x \<and> NodeID x \<noteq> me \<and> NodeID x \<notin> set (ids (valid @ [Core c]))) cs =
      filter (\<lambda>x. NodeID x \<noteq> NodeID c) (filter ?P cs)" by (auto intro: filter_cong)
  then have "first_of_each (filter (\<lambda>x. alive me live x \<and> NodeID x \<noteq> me \<and> NodeID x \<notin> set (ids (valid @ [Core c]))) cs) =
      filter (\<lambda>y. NodeID y \<noteq> NodeID c) (first_of_each (filter ?P cs))"
    by (simp only: filter_first_of_each [of "\<lambda>i. i \<noteq> NodeID c"])
  moreover have "length valid < nat lm \<Longrightarrow> nat lm - length valid = Suc (nat lm - length (valid @ [Core c]))" by simp
  ultimately show ?thesis by (simp add: extension_def)
qed

lemma extend_valid_run:
  assumes "pings_steady E live" and "n_client (nd s)" and "NodeID (n_self (nd s)) = me"
    and "int (length valid) \<le> lm"
  shows "\<exists>s'. run_state (extend_valid E lm me valid cs) s = (valid @ extension me live lm valid cs, s') \<and> same_links (nd s) (nd s')"
  using assms(2-)
proof (induction cs arbitrary: valid s)
  case Nil
  then show ?case by (simp add: extension_def)
next
  case (Cons c cs)
  show ?case
  proof (cases "int (length valid) = lm")
    case True
    then have "nat lm = length valid" by simp
    then show ?thesis using True by (simp add: extension_def)
  next
    case notfull: False
    then have room: "length valid < nat lm" using Cons.prems(3) by linarith
    show ?thesis
    proof (cases "NodeID c = [] \<or> NodeID c = me \<or> NodeID c \<in> set (ids valid)")
      case True
      then have "run_state (extend_valid E lm me valid (c # cs)) s = run_state (extend_valid E lm me valid cs) s"
        using notfull by simp
      moreover have "extension me live lm valid (c # cs) = extension me live lm valid cs"
        using True by (auto simp: extension_Cons alive_def)
      ultimately show ?thesis using Cons.IH [OF Cons.prems] by simp
    next
      case False
      let ?s = "snd (run_state (pingLiveness E c) s)"
      have f: "same_links (nd s) (nd ?s)" by (rule pingLiveness_frame)
      then have p: "n_client (nd ?s)" "NodeID (n_self (nd ?s)) = me"
        using Cons.prems by (simp_all add: same_links_def)
      let ?v = "if alive me live c then valid @ [Core c] else valid"
      have run: "run_state (extend_valid E lm me valid (c # cs)) s = run_state (extend_valid E lm me ?v cs) ?s"
        using False notfull ping_alive [OF assms(1) Cons.prems(1,2), of c] by (simp add: case_prod_beta)
      have len: "int (length ?v) \<le> lm" using Cons.prems(3) notfull by simp
      have "valid @ extension me live lm valid (c # cs) = ?v @ extension me live lm ?v cs"
        using False room by (simp add: extension_Cons)
      then show ?thesis
        unfolding run using Cons.IH [OF p len] same_links_trans [OF f] by auto
    qed
  qed
qed

text \<open>The tail of the new list, by the last entry's answer \<open>r\<close>.\<close>

definition list_tail ::
  "string \<Rightarrow> (string \<Rightarrow> bool) \<Rightarrow> int \<Rightarrow> NodeInfo list \<Rightarrow> goerror + StateResponse \<Rightarrow> NodeInfo list" where
  "list_tail me live lm valid r =
     (if valid = [] \<or> NodeID (last valid) = me then []
      else case r of Inl _ \<Rightarrow> [] | Inr resp \<Rightarrow> extension me live lm valid (stSuccessorList resp))"

lemma extendFrom_run:
  assumes "pings_steady E live" and "n_client (nd s)" and "NodeID (n_self (nd s)) = me"
    and "int (length valid) \<le> lm"
  shows "\<exists>s'. run_state (extendFrom E lm me valid) s =
      (valid @ list_tail me live lm valid (fst (pc_State E (last valid) (wd s))), s') \<and> same_links (nd s) (nd s')"
proof (cases "int (length valid) < lm \<and> valid \<noteq> [] \<and> NodeID (last valid) \<noteq> me")
  case True
  let ?r = "fst (pc_State E (last valid) (wd s))" and ?s = "s\<lparr>wd := snd (pc_State E (last valid) (wd s))\<rparr>"
  show ?thesis
  proof (cases ?r)
    case (Inl e)
    then show ?thesis using True assms(2) by (simp add: extendFrom_def list_tail_def)
  next
    case (Inr resp)
    have c: "n_client (nd ?s)" "NodeID (n_self (nd ?s)) = me" using assms(2,3) by simp_all
    show ?thesis
      using extend_valid_run [OF assms(1) c assms(4), of "stSuccessorList resp"] True Inr assms(2)
      by (auto simp: extendFrom_def list_tail_def)
  qed
next
  case False
  then have "nat lm = length valid \<or> valid = [] \<or> NodeID (last valid) = me" using assms(4) by linarith
  then have "list_tail me live lm valid r = []" for r by (auto simp: list_tail_def extension_def split: sum.split)
  then show ?thesis using False assms(2) by (auto simp: extendFrom_def)
qed

lemma isolate_fields:
  "n_status (isolate self t n) = StatusIsolated" "n_successor (isolate self t n) = self"
  "n_successorList (isolate self t n) = [self]" "n_predecessor (isolate self t n) = None"
  "n_successorListValid (isolate self t n) = False"
  by (simp_all add: isolate_def)

lemma commitValid_fields:
  "n_successor (commitValid self v t n) = hd v" "n_successorList (commitValid self v t n) = v"
  "n_status (commitValid self v t n) = n_status n" "n_predecessor (commitValid self v t n) = n_predecessor n"
  "n_self (commitValid self v t n) = n_self n"
  "n_successorListValid (commitValid self v t n) =
     (successorListViolations (NodeID self) (NodeID (hd v)) v = [])"
  by (simp_all add: commitValid_def setFinger_def)

text \<open>The links of a node after a run, in one place.\<close>

definition links :: "NodeInfo \<Rightarrow> NodeInfo list \<Rightarrow> NodeInfo option \<Rightarrow> Status \<Rightarrow> Node \<Rightarrow> bool" where
  "links succ l pred status n \<longleftrightarrow>
     n_successor n = succ \<and> n_successorList n = l \<and> n_predecessor n = pred \<and> n_status n = status"

lemma validateFrom_run:
  fixes E :: "'w env" and s :: "(Node, 'w, task) gst"
  assumes E: "pings_steady E live" and cl: "n_client (nd s)" and me: "NodeID (n_self (nd s)) = me"
    and self: "NodeID self = me" and l: "succ_list_ok me lm l"
  defines "keep \<equiv> map Core (filter (alive me live) l)"
    and "n' \<equiv> nd (snd (run_state (validateFrom E self l lm) s))"
  shows "if keep = [] then links self [self] None StatusIsolated n'
    else \<exists>w. links (hd keep) (keep @ list_tail me live lm keep (fst (pc_State E (last keep) w)))
      (n_predecessor (nd s)) (n_status (nd s)) n'"
    and "n_self n' = n_self (nd s)"
proof -
  let ?s1 = "snd (run_state (for_map l (pingLiveness E)) s)"
  note p = ping_all [OF E cl me, of l]
  have c1: "n_client (nd ?s1)" "NodeID (n_self (nd ?s1)) = me" using p cl me by (simp_all add: same_links_def)
  have "distinct (ids l)" "int (length l) \<le> lm" using l by (simp_all add: succ_list_ok_def)
  then have keep: "take_valid lm [] [] (zip l (map (alive me live) l)) = keep"
    using take_valid_alive [of l "[]" "[]" lm me live] by (simp add: keep_def)
  have "int (length keep) \<le> lm"
    using \<open>int (length l) \<le> lm\<close> length_filter_le [of "alive me live" l] unfolding keep_def length_map by linarith
  then obtain s2 where t: "run_state (extendFrom E lm me keep) ?s1 =
      (keep @ list_tail me live lm keep (fst (pc_State E (last keep) (wd ?s1))), s2)" "same_links (nd ?s1) (nd s2)"
    using extendFrom_run [OF E c1] by blast
  let ?t = "list_tail me live lm keep (fst (pc_State E (last keep) (wd ?s1)))"
  have nil: "keep = [] \<longrightarrow> ?t = []" by (simp add: list_tail_def)
  have f: "same_links (nd s) (nd s2)" using p t(2) same_links_trans by blast
  have n': "n' = (if keep @ ?t = [] then invalidateRoutes (signalTopologyChange (isolate self (e_now E (wd s2)) (nd s2)))
      else commitValid self (keep @ ?t) (e_now E (wd s2)) (nd s2))"
    using p t(1) nil self
    by (cases "keep = []") (simp_all add: n'_def validateFrom_def case_prod_beta keep emitTopologyChange_run now_def)
  show "n_self n' = n_self (nd s)"
    using f by (simp add: n' commitValid_fields isolate_def same_links_def)
  show "if keep = [] then links self [self] None StatusIsolated n'
    else \<exists>w. links (hd keep) (keep @ list_tail me live lm keep (fst (pc_State E (last keep) w)))
      (n_predecessor (nd s)) (n_status (nd s)) n'"
  proof (cases "keep = []")
    case True
    then show ?thesis using nil by (simp add: n' links_def isolate_fields)
  next
    case False
    then show ?thesis
      using f by (auto simp: n' links_def commitValid_fields same_links_def intro!: exI [of _ "wd ?s1"])
  qed
qed

text \<open>C10: Validation of the successor list while peers are steady: \<open>live\<close> says which answer pings, \<open>st\<close> what they
  answer when asked for their state. The new list is the live part of the old one, in its order,
  followed by what the list of successors in the last live entry's answer adds: its live nodes, other
  than this one and not yet in the list, the first one of each ID, in its order, as many as fit the
  configured size (none if that entry is this node or does not answer). The successor is the head of
  the list; predecessor and status stay; the list is free of duplicates and within its size. Exactly if
  no entry is live, the node isolates itself and is its own successor.\<close>

theorem validate_successor_list:
  fixes E :: "'w env" and s :: "(Node, 'w, task) gst"
  assumes "steady E live st" and "n_client (nd s)" and "node_inv me lm pl (nd s)" and "n_successorList (nd s) \<noteq> []"
  defines "keep \<equiv> map Core (filter (alive me live) (n_successorList (nd s)))"
    and "n' \<equiv> nd (snd (run_state (validateSuccessorList E) s))"
  shows "(if keep = [] then links (Core (n_self (nd s))) [Core (n_self (nd s))] None StatusIsolated n'
      else links (hd keep) (keep @ list_tail me live lm keep (st (last keep))) (n_predecessor (nd s)) (n_status (nd s)) n') \<and>
    (\<forall>x \<in> set (n_successorList n'). keep \<noteq> [] \<longrightarrow> alive me live x) \<and>
    int (length (n_successorList n')) \<le> lm \<and> distinct (ids (n_successorList n'))"
proof -
  have me: "NodeID (n_self (nd s)) = me" and lm: "successorLimit (nd s) = lm"
    and l: "succ_list_ok me lm (n_successorList (nd s))"
    using assms(3) by (auto simp: node_inv_def)
  have run: "run_state (validateSuccessorList E) s =
      run_state (validateFrom E (Core (n_self (nd s))) (n_successorList (nd s)) lm) s"
    using assms(4) lm by (simp add: validateSuccessorList_def)
  have self: "NodeID (Core (n_self (nd s))) = me" using me by simp
  note v = validateFrom_run(1) [OF steady_pings [OF assms(1)] assms(2) me self l, folded run, folded keep_def n'_def]
  have st: "fst (pc_State E c w) = st c" for c w using assms(1) by (simp add: steady_def)
  have "node_inv me lm pl n'"
    unfolding n'_def by (rule ns.moves_inv [OF moves_validateSuccessorList assms(3)])
  then have "int (length (n_successorList n')) \<le> lm \<and> distinct (ids (n_successorList n'))"
    by (simp add: node_inv_def succ_list_ok_def)
  moreover have "\<forall>x \<in> set (n_successorList n'). keep \<noteq> [] \<longrightarrow> alive me live x"
  proof (cases "keep = []")
    case False
    then have l': "n_successorList n' = keep @ list_tail me live lm keep (st (last keep))"
      using v by (auto simp: links_def st)
    have "alive me live x" if "x \<in> set keep" for x using that by (auto simp: keep_def)
    moreover have "alive me live x" if "x \<in> set (list_tail me live lm keep (st (last keep)))" for x
      using that set_extension by (auto simp: list_tail_def split: if_splits sum.splits)
    ultimately show ?thesis unfolding l' by auto
  qed simp
  ultimately show ?thesis using v unfolding st by (cases "keep = []") simp_all
qed


section \<open>Stabilisation\<close>

text \<open>The successor a live candidate \<open>c\<close> with state \<open>st\<close> stands for: its predecessor, if that is another,
  valid and live node strictly between this one and \<open>c\<close>, or else \<open>c\<close> itself.\<close>

definition closer :: "golib \<Rightarrow> (string \<Rightarrow> bool) \<Rightarrow> string \<Rightarrow> NodeInfo \<Rightarrow> StateResponse \<Rightarrow> NodeInfo" where
  "closer L live me c st =
     (case stPredecessor st of
        None \<Rightarrow> Core c
      | Some p \<Rightarrow>
          if NodeID p \<noteq> me \<and> InRangeOpenOpen (NodeID p) me (NodeID c) \<and>
             ValidateNodeInfo L (Core p) = Inr () \<and> live (URI p)
          then Core p else Core c)"

lemma closer_cases:
  "closer L live me c st = Core c \<or>
   InRangeOpenOpen (NodeID (closer L live me c st)) me (NodeID c) \<and> alive me live (closer L live me c st) \<and>
   NodeID (closer L live me c st) \<noteq> me"
  by (auto simp: closer_def alive_def ValidateNodeInfo_def ValidateID_def split: option.splits if_splits)

lemma Core_closer: "Core (closer L live me c st) = closer L live me c st"
  by (auto simp: closer_def split: option.splits)

lemma chooseSuccessor_run:
  assumes "pings_steady E live" and "n_client (nd s)" and "NodeID (n_self (nd s)) = me" and "NodeID self = me"
  shows "\<exists>remote s'. run_state (chooseSuccessor E self c resp) s =
      ((closer (e_lib E) live me c resp, remote), s') \<and> same_links (nd s) (nd s')"
proof (cases "stPredecessor resp")
  case None
  then show ?thesis by (simp add: chooseSuccessor_def closer_def)
next
  case (Some p)
  let ?s = "snd (run_state (pingLiveness E (Core p)) s)"
  have "ValidateNodeInfo (e_lib E) (Core p) = Inr () \<Longrightarrow> NodeID p \<noteq> []"
    by (auto simp: ValidateNodeInfo_def ValidateID_def split: if_splits)
  then have "alive me live (Core p) = live (URI p)" if "ValidateNodeInfo (e_lib E) (Core p) = Inr ()" "NodeID p \<noteq> me"
    using that by (simp add: alive_def)
  moreover have "same_links (nd s) (nd ?s)" by (rule pingLiveness_frame)
  ultimately show ?thesis
    using Some assms(4) ping_alive [OF assms(1-3), of "Core p"]
    by (auto simp: chooseSuccessor_def closer_def case_prod_beta split: sum.splits)
qed

lemma rectifyPeer_nd [simp]: "nd (snd (run_state (rectifyPeer E t r) s)) = nd s"
  by (simp add: rectifyPeer_def case_prod_beta split: sum.splits)

lemma adoptSuccessor_fields:
  "n_successor (adoptSuccessor x r b n) = x" "n_status (adoptSuccessor x r b n) = n_status n"
  "n_successorList (adoptSuccessor x r b n) = mergeSuccessorListLocked x r n"
  "n_predecessor (adoptSuccessor x r b n) = n_predecessor n" "n_self (adoptSuccessor x r b n) = n_self n"
  "n_client (adoptSuccessor x r b n) = n_client n" "n_options (adoptSuccessor x r b n) = n_options n"
  "successorLimit (adoptSuccessor x r b n) = successorLimit n"
  by (simp_all add: adoptSuccessor_def setSuccessor_def setFinger_def successorLimit_def Let_def)

text \<open>Adoption of a live successor, with or without the validation that follows.\<close>

lemma adopt_then_validate:
  fixes E :: "'w env" and s :: "(Node, 'w, task) gst" and x :: NodeInfo and r :: "NodeInfo list" and b v :: bool
  assumes E: "pings_steady E live" and cl: "n_client (nd s)" and me: "NodeID (n_self (nd s)) = me" "me \<noteq> []"
    and x: "alive me live x" "NodeID x \<noteq> me" "Core x = x"
  defines "n' \<equiv> nd (snd (run_state (do { modify (adoptSuccessor x r b);
      if_then v (validateSuccessorList E); if_then b emitTopologyChange }) s))"
  shows "\<exists>t. links x (x # t) (n_predecessor (nd s)) (n_status (nd s)) n'" and "b \<Longrightarrow> n_topologyChangeCh n'"
    and "n_self n' = n_self (nd s)"
proof -
  let ?A = "adoptSuccessor x r b (nd s)" and ?s = "s\<lparr>nd := adoptSuccessor x r b (nd s)\<rparr>"
  have "NodeID x \<noteq> []" using x(1) by (simp add: alive_def)
  then obtain u where u: "mergeSuccessorListLocked x r (nd s) = x # u"
    using mergeSuccessorListLocked_head [of x "nd s" r] x me by auto
  have ok: "succ_list_ok me (successorLimit ?A) (n_successorList ?A)"
    using succ_list_ok_merge [OF me, of x r] by (simp add: adoptSuccessor_fields)
  have A: "n_client (nd ?s)" "NodeID (n_self (nd ?s)) = me" "NodeID (Core (n_self (nd ?s))) = me"
    using cl me by (simp_all add: adoptSuccessor_fields)
  let ?V = "snd (run_state (validateSuccessorList E) ?s)"
  have run: "run_state (validateSuccessorList E) ?s =
      run_state (validateFrom E (Core (n_self (nd ?s))) (n_successorList ?A) (successorLimit ?A)) ?s"
    using u by (simp add: validateSuccessorList_def adoptSuccessor_fields)
  have ne: "map Core (filter (alive me live) (n_successorList ?A)) = x # map Core (filter (alive me live) u)"
    using u x by (simp add: adoptSuccessor_fields)
  have V: "\<exists>t. links x (x # t) (n_predecessor (nd s)) (n_status (nd s)) (nd ?V)" "n_self (nd ?V) = n_self (nd s)"
    using validateFrom_run [OF E A ok, folded run] unfolding ne
    by (auto simp: adoptSuccessor_fields)
  show "\<exists>t. links x (x # t) (n_predecessor (nd s)) (n_status (nd s)) n'" "n_self n' = n_self (nd s)"
    using V u by (auto simp: n'_def emitTopologyChange_run case_prod_beta links_def adoptSuccessor_fields)
  show "n_topologyChangeCh n'" if b
    using that by (simp add: n'_def emitTopologyChange_run case_prod_beta)
qed

text \<open>A candidate that answers: its state is fetched, a successor is chosen and rectified, and then adopted.\<close>

lemma stabilize_loop_rectifies:
  fixes E :: "'w env" and s :: "(Node, 'w, task) gst" and selfCert cs :: NodeInfo and cp :: "NodeInfo option"
    and rest :: "NodeInfo list"
  assumes E: "pings_steady E live" and cl: "n_client (nd s)" and me: "NodeID (n_self (nd s)) = me" "me \<noteq> []"
    and at: "o_StabilizeAtomicState (n_options (nd s))" and self: "NodeID self = me"
    and c: "NodeID c \<noteq> me" "fst (pc_State E c (wd s)) = Inr resp"
  defines "x \<equiv> closer (e_lib E) live me c resp"
    and "s2 \<equiv> snd (run_state (chooseSuccessor E self c resp)
      (s\<lparr>wd := snd (pc_State E c (wd s)), nd := markSuccess (NodeID c) (nd s)\<rparr>))"
  shows "same_links (nd s) (nd s2)"
    and "\<exists>remote. run_state (stabilize_loop E self selfCert cs cp (c # rest)) s =
      run_state (do { modify (adoptSuccessor x remote (NodeID x \<noteq> NodeID cs));
        if_then (o_ValidateAfterStabilize (n_options (nd s))) (validateSuccessorList E);
        if_then (NodeID x \<noteq> NodeID cs) emitTopologyChange })
      (snd (run_state (rectifyPeer E x \<lparr>nqNode = selfCert\<rparr>) s2))"
proof -
  let ?s1 = "s\<lparr>wd := snd (pc_State E c (wd s)), nd := markSuccess (NodeID c) (nd s)\<rparr>"
  have fetch: "run_state (fetchSuccessorState E c) s = (Inr resp, s\<lparr>wd := snd (pc_State E c (wd s))\<rparr>)"
    using cl at c(2) by (simp add: fetchSuccessorState_def)
  have s1: "n_client (nd ?s1)" "NodeID (n_self (nd ?s1)) = me" "same_links (nd s) (nd ?s1)"
    using cl me by (simp_all add: markSuccess_def same_links_def comp_def)
  obtain remote where s2: "run_state (chooseSuccessor E self c resp) ?s1 = ((x, remote), s2)"
    "same_links (nd ?s1) (nd s2)"
    using chooseSuccessor_run [OF E s1(1,2) self, of c resp] unfolding x_def s2_def by force
  show "same_links (nd s) (nd s2)" using same_links_trans [OF s1(3) s2(2)] .
  show "\<exists>remote. run_state (stabilize_loop E self selfCert cs cp (c # rest)) s =
      run_state (do { modify (adoptSuccessor x remote (NodeID x \<noteq> NodeID cs));
        if_then (o_ValidateAfterStabilize (n_options (nd s))) (validateSuccessorList E);
        if_then (NodeID x \<noteq> NodeID cs) emitTopologyChange })
      (snd (run_state (rectifyPeer E x \<lparr>nqNode = selfCert\<rparr>) s2))"
    using c(1) self cl s2(1) by (intro exI [of _ remote]) (simp add: fetch markSuccessOf_def case_prod_beta Let_def)
qed

lemma stabilize_loop_answered:
  fixes E :: "'w env" and s :: "(Node, 'w, task) gst" and selfCert cs :: NodeInfo and cp :: "NodeInfo option"
    and rest :: "NodeInfo list"
  assumes E: "pings_steady E live" and cl: "n_client (nd s)" and me: "NodeID (n_self (nd s)) = me" "me \<noteq> []"
    and at: "o_StabilizeAtomicState (n_options (nd s))" and self: "NodeID self = me"
    and c: "NodeID c \<noteq> me" "NodeID c \<noteq> []" "live (URI c)" "fst (pc_State E c (wd s)) = Inr resp"
  defines "x \<equiv> closer (e_lib E) live me c resp"
    and "n' \<equiv> nd (snd (run_state (stabilize_loop E self selfCert cs cp (c # rest)) s))"
  shows "\<exists>t. links x (x # t) (n_predecessor (nd s)) (n_status (nd s)) n'"
    and "NodeID x \<noteq> NodeID cs \<Longrightarrow> n_topologyChangeCh n'" and "n_self n' = n_self (nd s)"
proof -
  note r1 = stabilize_loop_rectifies(1) [OF E cl me at self c(1,4)]
  note r2 = stabilize_loop_rectifies(2) [OF E cl me at self c(1,4), where selfCert = selfCert and cs = cs and cp = cp and rest = rest, folded x_def]
  from r2 obtain remote s3 where s3: "same_links (nd s) (nd s3)" and
    run: "run_state (stabilize_loop E self selfCert cs cp (c # rest)) s =
      run_state (do { modify (adoptSuccessor x remote (NodeID x \<noteq> NodeID cs));
        if_then (o_ValidateAfterStabilize (n_options (nd s))) (validateSuccessorList E);
        if_then (NodeID x \<noteq> NodeID cs) emitTopologyChange }) s3"
    using r1 rectifyPeer_nd by metis
  have c3: "n_client (nd s3)" "NodeID (n_self (nd s3)) = me" using s3 cl me by (simp_all add: same_links_def)
  have x: "alive me live x" "NodeID x \<noteq> me" "Core x = x"
    using closer_cases [of "e_lib E" live me c resp] c by (auto simp: x_def Core_closer alive_def)
  note a = adopt_then_validate [OF E c3 me(2) x, where r = remote and b = "NodeID x \<noteq> NodeID cs"
      and v = "o_ValidateAfterStabilize (n_options (nd s))", folded run n'_def]
  show "\<exists>t. links x (x # t) (n_predecessor (nd s)) (n_status (nd s)) n'" "n_self n' = n_self (nd s)"
    using a(1,3) s3 by (simp_all add: same_links_def)
  show "NodeID x \<noteq> NodeID cs \<Longrightarrow> n_topologyChangeCh n'" by (rule a(2))
qed

text \<open>Candidates that do not answer are counted as failed and passed over.\<close>

lemma markFailure_fields:
  "n_self (snd (markFailure i n)) = n_self n" "n_client (snd (markFailure i n)) = n_client n"
  "n_options (snd (markFailure i n)) = n_options n" "n_status (snd (markFailure i n)) = n_status n"
  "n_predecessor (snd (markFailure i n)) = n_predecessor n"
  by (simp_all add: markFailure_def Let_def)

lemma stabilize_loop_skips:
  fixes E :: "'w env" and s :: "(Node, 'w, task) gst"
  assumes E: "steady E live st" and pre: "\<forall>c \<in> set pre. NodeID c \<noteq> NodeID self \<and> isl (st c)"
    and cl: "n_client (nd s)" and at: "o_StabilizeAtomicState (n_options (nd s))"
  shows "\<exists>s'. run_state (stabilize_loop E self selfCert cs cp (pre @ cands)) s =
      run_state (stabilize_loop E self selfCert cs cp cands) s' \<and>
    n_self (nd s') = n_self (nd s) \<and> n_client (nd s') \<and> n_options (nd s') = n_options (nd s) \<and>
    n_status (nd s') = n_status (nd s) \<and> n_predecessor (nd s') = n_predecessor (nd s)"
  using pre cl at
proof (induction pre arbitrary: s)
  case Nil
  then show ?case by (intro exI [of _ s]) simp
next
  case (Cons c pre)
  let ?s = "s\<lparr>wd := snd (pc_State E c (wd s)), nd := snd (markFailure (NodeID c) (nd s))\<rparr>"
  obtain e where e: "st c = Inl e" using Cons.prems(1) by (cases "st c") auto
  have "run_state (stabilize_loop E self selfCert cs cp ((c # pre) @ cands)) s =
      run_state (stabilize_loop E self selfCert cs cp (pre @ cands)) ?s"
    using Cons.prems E e by (simp add: fetchSuccessorState_def steady_def)
  moreover have "\<exists>s'. run_state (stabilize_loop E self selfCert cs cp (pre @ cands)) ?s =
      run_state (stabilize_loop E self selfCert cs cp cands) s' \<and>
      n_self (nd s') = n_self (nd ?s) \<and> n_client (nd s') \<and> n_options (nd s') = n_options (nd ?s) \<and>
      n_status (nd s') = n_status (nd ?s) \<and> n_predecessor (nd s') = n_predecessor (nd ?s)"
    by (rule Cons.IH) (use Cons.prems in \<open>simp_all add: markFailure_fields\<close>)
  ultimately show ?case by (simp add: markFailure_fields)
qed

lemma dedupe_loop_nonempty: "x \<in> set (dedupe_loop e seen l) \<Longrightarrow> NodeID x \<noteq> []"
  by (induction e seen l rule: dedupe_loop.induct) (auto split: if_splits)

definition stabilize_candidates :: "Node \<Rightarrow> NodeInfo list" where
  "stabilize_candidates n = dedupeNodes (n_successor n # n_successorList n) []"

text \<open>C6: Stabilisation adopts. While peers are steady, an active node goes through its candidates, its
  successor first and then its list, and stops at the first that answers. Its successor is then that
  candidate or, if the candidate's predecessor is another valid live node strictly between the two,
  that predecessor; it heads the new list; status and predecessor stay, and a change of successor is
  signalled as a topology change.\<close>

theorem stabilize_adopts:
  fixes E :: "'w env" and s :: "(Node, 'w, task) gst"
  assumes "steady E live st" and "n_client (nd s)" and "o_StabilizeAtomicState (n_options (nd s))"
    and "n_status (nd s) = StatusActive" and "NodeID (n_self (nd s)) \<noteq> []"
    and "stabilize_candidates (nd s) = pre @ c # rest"
    and "\<forall>x \<in> set pre. NodeID x \<noteq> NodeID (n_self (nd s)) \<and> isl (st x)"
    and "NodeID c \<noteq> NodeID (n_self (nd s))" and "st c = Inr resp" and "live (URI c)"
  defines "x \<equiv> closer (e_lib E) live (NodeID (n_self (nd s))) c resp"
    and "n' \<equiv> nd (snd (run_state (Stabilize E) s))"
  shows "n_successor n' = x \<and> (\<exists>t. n_successorList n' = x # t) \<and> n_status n' = StatusActive \<and>
    n_predecessor n' = n_predecessor (nd s) \<and>
    (x = Core c \<or> InRangeOpenOpen (NodeID x) (NodeID (n_self (nd s))) (NodeID c)) \<and>
    (NodeID x \<noteq> NodeID (n_successor (nd s)) \<longrightarrow> n_topologyChangeCh n')"
proof -
  let ?self = "Core (n_self (nd s))"
  let ?cert = "?self\<lparr>Certificate := o_NodeCertificate (n_options (nd s))\<rparr>"
  have run: "run_state (Stabilize E) s = run_state (stabilize_loop E ?self ?cert (n_successor (nd s))
      (n_predecessor (nd s)) (pre @ c # rest)) s"
    using assms(4,6) by (simp add: Stabilize_def stabilize_candidates_def)
  have pre: "\<forall>x \<in> set pre. NodeID x \<noteq> NodeID ?self \<and> isl (st x)" using assms(7) by simp
  obtain s' where s': "run_state (Stabilize E) s = run_state (stabilize_loop E ?self ?cert (n_successor (nd s))
      (n_predecessor (nd s)) (c # rest)) s'"
    "n_self (nd s') = n_self (nd s)" "n_client (nd s')" "n_options (nd s') = n_options (nd s)"
    "n_status (nd s') = n_status (nd s)" "n_predecessor (nd s') = n_predecessor (nd s)"
    using stabilize_loop_skips [OF assms(1) pre assms(2,3), of ?cert "n_successor (nd s)" "n_predecessor (nd s)" "c # rest"]
    unfolding run by blast
  have c: "NodeID c \<noteq> []"
    using dedupe_loop_nonempty [of c "[]" "[]" "n_successor (nd s) # n_successorList (nd s)"] assms(6)
    by (auto simp: stabilize_candidates_def dedupeNodes_def)
  have me: "NodeID (n_self (nd s')) = NodeID (n_self (nd s))" "NodeID ?self = NodeID (n_self (nd s))"
    using s'(2) by simp_all
  have at: "o_StabilizeAtomicState (n_options (nd s'))" using assms(3) s'(4) by simp
  have st: "fst (pc_State E c (wd s')) = Inr resp" using assms(1,9) by (simp add: steady_def)
  note a = stabilize_loop_answered [OF steady_pings [OF assms(1)] s'(3) me(1) assms(5) at me(2) assms(8) c assms(10) st,
      where selfCert = ?cert and cs = "n_successor (nd s)" and cp = "n_predecessor (nd s)" and rest = rest,
      folded s'(1) x_def n'_def]
  show ?thesis
    using a s' assms(4) closer_cases [of "e_lib E" live "NodeID (n_self (nd s))" c resp, folded x_def]
    by (auto simp: links_def)
qed

text \<open>C11: Stabilisation isolates. If every candidate of an active node is another node and none of them
  answers, the node becomes isolated: its own successor, alone in its list, without a predecessor
  and with a list no longer counted as valid.\<close>

theorem stabilize_isolates:
  fixes E :: "'w env" and s :: "(Node, 'w, task) gst"
  assumes "steady E live st" and "n_client (nd s)" and "o_StabilizeAtomicState (n_options (nd s))"
    and "n_status (nd s) = StatusActive"
    and "\<forall>x \<in> set (stabilize_candidates (nd s)). NodeID x \<noteq> NodeID (n_self (nd s)) \<and> isl (st x)"
  defines "n' \<equiv> nd (snd (run_state (Stabilize E) s))"
  shows "n_status n' = StatusIsolated \<and> n_successor n' = Core (n_self (nd s)) \<and>
    n_successorList n' = [Core (n_self (nd s))] \<and> n_predecessor n' = None \<and> \<not> n_successorListValid n'"
proof -
  let ?self = "Core (n_self (nd s))"
  let ?cert = "?self\<lparr>Certificate := o_NodeCertificate (n_options (nd s))\<rparr>"
  have run: "run_state (Stabilize E) s = run_state (stabilize_loop E ?self ?cert (n_successor (nd s))
      (n_predecessor (nd s)) (stabilize_candidates (nd s) @ [])) s"
    using assms(4) by (simp add: Stabilize_def stabilize_candidates_def)
  have pre: "\<forall>x \<in> set (stabilize_candidates (nd s)). NodeID x \<noteq> NodeID ?self \<and> isl (st x)" using assms(5) by simp
  obtain s' where s': "run_state (Stabilize E) s = run_state (stabilize_loop E ?self ?cert (n_successor (nd s))
      (n_predecessor (nd s)) []) s'"
    using stabilize_loop_skips [OF assms(1) pre assms(2,3), of ?cert "n_successor (nd s)" "n_predecessor (nd s)" "[]"]
    unfolding run by blast
  show ?thesis
    by (simp add: n'_def s' now_def emitTopologyChange_run isolate_fields)
      (simp add: isolate_def invalidateRoutes_def signalTopologyChange_def split: option.splits)
qed


section \<open>A concrete round\<close>

text \<open>Peers that all answer pings, and of which only node 7 tells its state: its predecessor is 4.\<close>

definition demo_between :: NodeInfo where
  "demo_between = (demo_info (CHR ''4''))\<lparr>AnchorID := ''a''\<rparr>"

definition demo_states :: "NodeInfo \<Rightarrow> goerror + StateResponse" where
  "demo_states c = (if NodeID c = demo_id (CHR ''7'')
     then Inr (emptyState\<lparr>stPredecessor := Some demo_between\<rparr>) else Inl (GoError ''timeout''))"

definition demo_peers :: "'w env \<Rightarrow> 'w env" where
  "demo_peers E = E\<lparr>e_lib := demo_lib, pc_PingLiveness := \<lambda>u w. (Inr (), w), pc_State := \<lambda>c w. (demo_states c, w)\<rparr>"

definition demo_member :: Node where
  "demo_member = (demo_node (CHR ''2''))\<lparr>n_status := StatusActive, n_successor := demo_info (CHR ''6''),
     n_successorList := [demo_info (CHR ''6''), demo_info (CHR ''7'')]\<rparr>"

lemma demo_peers_steady: "steady (demo_peers E) (\<lambda>_. True) demo_states"
  by (simp add: demo_peers_def steady_def pings_steady_def)

lemma demo_member_fields:
  "n_client demo_member" "o_StabilizeAtomicState (n_options demo_member)" "n_status demo_member = StatusActive"
  "n_self demo_member = demo_info (CHR ''2'')" "n_successor demo_member = demo_info (CHR ''6'')"
  "n_successorList demo_member = [demo_info (CHR ''6''), demo_info (CHR ''7'')]"
  by (simp_all add: demo_member_def demo_node_def fresh_node_def DefaultOptions_def)

lemma demo_between_valid: "ValidateNodeInfo demo_lib (Core demo_between) = Inr ()" "NodeID demo_between = demo_id (CHR ''4'')"
proof -
  have "NormalizeURI demo_lib ''https://4'' = Inr ''https://4''" by code_simp
  then show "ValidateNodeInfo demo_lib (Core demo_between) = Inr ()" "NodeID demo_between = demo_id (CHR ''4'')"
    by (simp_all add: demo_between_def ValidateNodeInfo_def demo_id_valid demo_info_def emptyNodeInfo_def
        is_hex_code Core_def)
qed

lemma demo_between_closer:
  "closer demo_lib (\<lambda>_. True) (demo_id (CHR ''2'')) (Core (demo_info (CHR ''7'')))
     (emptyState\<lparr>stPredecessor := Some demo_between\<rparr>) = Core demo_between"
proof -
  have hex: "is_hex (CHR ''2'')" "is_hex (CHR ''4'')" "is_hex (CHR ''7'')" by (simp_all add: is_hex_code)
  have key: "key_of (demo_id (CHR ''2'')) = 2" "key_of (demo_id (CHR ''4'')) = 4" "key_of (demo_id (CHR ''7'')) = 7"
    using hex by (simp_all add: key_of_demo hex_val_code)
  have "InRangeOpenOpen (demo_id (CHR ''4'')) (demo_id (CHR ''2'')) (demo_id (CHR ''7''))"
    using hex key by (simp add: InRangeOpenOpen_cw demo_id_valid cw_def)
  then show ?thesis by (simp add: closer_def demo_between_valid emptyState_def)
qed

lemma stabilize_adopts_witness:
  "\<forall>E :: unit env. NodeID (n_successor (nd (snd (run_state (Stabilize (demo_peers E))
     \<lparr>nd = demo_member, wd = (), spawned = []\<rparr>)))) = demo_id (CHR ''4'')"
proof
  fix E :: "unit env"
  let ?s = "\<lparr>nd = demo_member, wd = (), spawned = []\<rparr> :: (Node, unit, task) gst"
  let ?c = "Core (demo_info (CHR ''7''))"
  have "n_successor (nd (snd (run_state (Stabilize (demo_peers E)) ?s))) =
      closer (e_lib (demo_peers E)) (\<lambda>_. True) (NodeID (n_self (nd ?s))) ?c (emptyState\<lparr>stPredecessor := Some demo_between\<rparr>)"
    by (rule stabilize_adopts [OF demo_peers_steady, where pre = "[Core (demo_info (CHR ''6''))]" and rest = "[]", THEN conjunct1])
      (simp_all add: demo_member_fields stabilize_candidates_def dedupeNodes_def demo_states_def)
  then show "NodeID (n_successor (nd (snd (run_state (Stabilize (demo_peers E)) ?s)))) = demo_id (CHR ''4'')"
    by (simp add: demo_member_fields demo_peers_def demo_between_closer demo_between_valid)
qed

lemma stabilize_isolates_witness:
  "\<forall>E :: unit env. n_status (nd (snd (run_state (Stabilize (demo_peers E))
     \<lparr>nd = demo_member\<lparr>n_successorList := []\<rparr>, wd = (), spawned = []\<rparr>))) = StatusIsolated"
proof
  fix E :: "unit env"
  let ?s = "\<lparr>nd = demo_member\<lparr>n_successorList := []\<rparr>, wd = (), spawned = []\<rparr> :: (Node, unit, task) gst"
  show "n_status (nd (snd (run_state (Stabilize (demo_peers E)) ?s))) = StatusIsolated"
    by (rule stabilize_isolates [OF demo_peers_steady, THEN conjunct1])
      (simp_all add: demo_member_fields stabilize_candidates_def dedupeNodes_def demo_states_def)
qed

text \<open>Node 2 holds 6 and 7, of which 7 is dead; 6 offers 7, 2, 9 twice, 8, 3, 4 and 5; five fit.\<close>

definition demo_offers :: "NodeInfo \<Rightarrow> goerror + StateResponse" where
  "demo_offers c = (if NodeID c = demo_id (CHR ''6'')
     then Inr (emptyState\<lparr>stSuccessorList := map demo_info ''72998345''\<rparr>) else Inl (GoError ''timeout''))"

definition demo_offerers :: "'w env \<Rightarrow> 'w env" where
  "demo_offerers E = E\<lparr>pc_PingLiveness := \<lambda>u w. (if u = ''https://7'' then Inl (GoError ''timeout'') else Inr (), w),
     pc_State := \<lambda>c w. (demo_offers c, w)\<rparr>"

lemma demo_limits: "sl_opt DefaultOptions = 5"
  by (simp add: sl_opt_def DefaultOptions_def DefaultSuccessorListSize_def)

lemma demo_member_inv: "node_inv (demo_id (CHR ''2'')) (successorLimit demo_member) (predecessorLimit demo_member) demo_member"
proof -
  have "finger_table_ok (demo_id (CHR ''2'')) (fresh_fingers (demo_info (CHR ''2'')))"
    using NewNode_fingers_ok [OF NewNode_fingers_fresh, of "demo_info (CHR ''2'')"]
    by (simp add: demo_id_valid is_hex_code)
  moreover have "caches_ok demo_member"
    by (simp add: caches_ok_def demo_member_def demo_node_def fresh_node_def rtt_wf_new rc_wf_new)
  moreover have "n_successorList demo_member = [demo_info (CHR ''6''), demo_info (CHR ''7'')]" "n_predecessorList demo_member = []"
    "n_options demo_member = DefaultOptions" "n_fingers demo_member = fresh_fingers (demo_info (CHR ''2''))"
    "n_nextFingerIndex demo_member = 0"
    by (simp_all add: demo_member_def demo_node_def fresh_node_def)
  ultimately show ?thesis
    using demo_limits limits_pos(2) [of DefaultOptions]
    by (simp add: node_inv_def succ_list_ok_def demo_member_fields limits DefaultM_def demo_simps(3) [symmetric])
qed

lemma validate_successor_list_witness:
  "\<forall>E :: unit env. ids (n_successorList (nd (snd (run_state (validateSuccessorList (demo_offerers E))
     \<lparr>nd = demo_member, wd = (), spawned = []\<rparr>)))) = map demo_id ''69834''"
proof
  fix E :: "unit env"
  let ?s = "\<lparr>nd = demo_member, wd = (), spawned = []\<rparr> :: (Node, unit, task) gst"
  have "steady (demo_offerers E) (\<lambda>u. u \<noteq> ''https://7'') demo_offers"
    by (simp add: demo_offerers_def steady_def pings_steady_def)
  moreover have "n_options demo_member = DefaultOptions" by (simp add: demo_member_def demo_node_def fresh_node_def)
  ultimately show "ids (n_successorList (nd (snd (run_state (validateSuccessorList (demo_offerers E)) ?s)))) = map demo_id ''69834''"
    using validate_successor_list [of "demo_offerers E" "\<lambda>u. u \<noteq> ''https://7''" demo_offers ?s "demo_id (CHR ''2'')" "successorLimit demo_member" "predecessorLimit demo_member"]
      demo_member_inv
    by (simp add: demo_member_fields links_def alive_def demo_offers_def list_tail_def extension_def emptyState_def
        demo_info_def emptyNodeInfo_def limits demo_limits Core_def)
qed

end
