(* ===== verification/LookupBounds.thy ===== *)
theory LookupBounds
  imports LookupCorrect
begin

text \<open>
  How much a lookup can ask, whatever its peers answer. The world is observed through \<open>asked\<close>, the IDs
  of the peers that \<open>find_successor\<close> was sent to so far; an action that sends nothing is \<open>quiet\<close>.
\<close>

section \<open>Actions that leave the world alone\<close>

definition quiet :: "('n, 'w, 't, 'a) act \<Rightarrow> bool" where
  "quiet m \<longleftrightarrow> (\<forall>s. wd (snd (run_state m s)) = wd s)"

named_theorems quiet_intros

lemma quiet_basic [quiet_intros]:
  "quiet (ret x)" "quiet (asks f)" "quiet (modify g)" "quiet (atomically h)" "quiet (observe o')"
  by (simp_all add: quiet_def split: prod.split)

lemma quiet_bind [quiet_intros]: "quiet m \<Longrightarrow> (\<And>a. quiet (f a)) \<Longrightarrow> quiet (State_Monad.bind m f)"
  by (simp add: quiet_def case_prod_beta)

lemma quiet_if [quiet_intros]: "quiet m \<Longrightarrow> quiet m' \<Longrightarrow> quiet (if c then m else m')"
  by simp

lemma quiet_if_then [quiet_intros]: "quiet m \<Longrightarrow> quiet (if_then c m)"
  by (simp add: quiet_def)

lemma quiet_let [quiet_intros]: "(\<And>x. quiet (f x)) \<Longrightarrow> quiet (let x = e in f x)"
  by (simp add: Let_def)

lemma quiet_cases [quiet_intros]:
  "quiet m \<Longrightarrow> (\<And>a. quiet (f a)) \<Longrightarrow> quiet (case x of None \<Rightarrow> m | Some a \<Rightarrow> f a)"
  "(\<And>a b. quiet (g a b)) \<Longrightarrow> quiet (case p of (a, b) \<Rightarrow> g a b)"
  by (simp_all split: option.split prod.split)

lemma quiet_for_each [quiet_intros]: "(\<And>x. quiet (f x)) \<Longrightarrow> quiet (for_each xs f)"
  by (induction xs) (auto intro: quiet_intros)

lemma quiet_lookup_parts [quiet_intros]:
  "quiet (now E)" "quiet (routingCache_Get E k)" "quiet (routingCache_Put E k p s)" "quiet (piggyback E)"
  "quiet (applyPiggyback E pb)" "quiet (rttCache_Record E i r)" "quiet Self"
  unfolding now_def routingCache_Get_def routingCache_Put_def piggyback_def applyPiggyback_def rttCache_Record_def Self_def
  by (intro quiet_intros)+

lemma quiet_HandleFindSuccessor [quiet_intros]: "quiet (HandleFindSuccessor E req)"
  unfolding HandleFindSuccessor_def by (intro quiet_intros)

section \<open>What a lookup asks\<close>

definition logs :: "'w env \<Rightarrow> ('w \<Rightarrow> string list) \<Rightarrow> bool" where
  "logs E asked \<longleftrightarrow> (\<forall>n q w. asked (snd (pc_FindSuccessor E n q w)) = asked w @ [NodeID n])"

lemma quietD: "quiet m \<Longrightarrow> wd (snd (run_state m s)) = wd s"
  by (simp add: quiet_def)

text \<open>The question of one round: to itself, to no one, or to one peer.\<close>

definition ask_current :: "'w env \<Rightarrow> NodeInfo \<Rightarrow> FindSuccessorRequest \<Rightarrow> string \<Rightarrow> bool \<Rightarrow> ('w, goerror + FindSuccessorResponse) nact" where
  "ask_current E current req me client =
     (if NodeID current = me then HandleFindSuccessor E req
      else if \<not> client then ret (Inl (NewAPIError 503 ErrUpstream ''peer client is not configured''))
      else rpc (pc_FindSuccessor E current req))"

lemma ask_current_asks:
  assumes "logs E asked"
  shows "\<exists>qs. set qs \<subseteq> {NodeID current} \<and> length qs \<le> 1 \<and>
    asked (wd (snd (run_state (ask_current E current req me client) s))) = asked (wd s) @ qs"
proof (cases "NodeID current = me \<or> \<not> client")
  case True
  then have "wd (snd (run_state (ask_current E current req me client) s)) = wd s"
    unfolding ask_current_def using quietD [OF quiet_HandleFindSuccessor] by auto
  then show ?thesis by (intro exI [of _ "[]"]) simp
next
  case False
  then show ?thesis
    using assms by (intro exI [of _ "[NodeID current]"]) (simp add: ask_current_def logs_def)
qed

text \<open>What a round does with the answer.\<close>

definition after_answer ::
  "nat \<Rightarrow> 'w env \<Rightarrow> string \<Rightarrow> int \<Rightarrow> int \<Rightarrow> NodeInfo \<Rightarrow> string list \<Rightarrow> goerror + FindSuccessorResponse \<Rightarrow> ('w, goerror + NodeInfo) nact" where
  "after_answer k E nid mh hop current visited r =
     (case r of
        Inl e \<Rightarrow> ret (Inl e)
      | Inr resp \<Rightarrow>
          if frFound resp
          then (case frSuccessor resp of
                  None \<Rightarrow> ret (Inl (NewAPIError 503 ErrUpstream ''find_successor response missing successor''))
                | Some s \<Rightarrow> do {
                    let result = Core s;
                    if_then (\<not> frCached resp) (routingCache_Put E nid (NodeID current) result);
                    applyPiggyback E (frPiggyback resp);
                    ret (Inr result) })
          else (case frNextHop resp of
                  None \<Rightarrow> ret (Inl (NewAPIError 503 ErrUpstream ''find_successor response missing next_hop''))
                | Some h \<Rightarrow> do {
                    applyPiggyback E (frPiggyback resp);
                    lookup_loop k E nid mh (hop + 1) (Core h) (visited @ [NodeID current]) }))"

lemma lookup_loop_asks_step:
  "NodeID current \<notin> set visited \<Longrightarrow>
   lookup_loop (Suc k) E nid mh hop current visited = do {
     self \<leftarrow> Self;
     client \<leftarrow> asks n_client;
     r \<leftarrow> ask_current E current \<lparr>fsID = nid, fsHopCount = hop, fsMaxHops = mh, fsVisitedNodes = visited,
            fsRequesterRegion = [], fsPreferRegion = []\<rparr> (NodeID self) client;
     after_answer k E nid mh hop current visited r }"
  by (simp add: ask_current_def after_answer_def Let_def)

lemma after_answer_asks:
  assumes IH: "\<And>h s. \<exists>qs. asked (wd (snd (run_state (lookup_loop k E nid mh (hop + 1) h (visited @ [NodeID current])) s))) = asked (wd s) @ qs \<and>
      distinct qs \<and> set qs \<inter> set (visited @ [NodeID current]) = {} \<and> length qs \<le> k"
  shows "\<exists>qs. asked (wd (snd (run_state (after_answer k E nid mh hop current visited r) s))) = asked (wd s) @ qs \<and>
    distinct qs \<and> set qs \<inter> set (visited @ [NodeID current]) = {} \<and> length qs \<le> k"
proof (cases "\<exists>resp h. r = Inr resp \<and> \<not> frFound resp \<and> frNextHop resp = Some h")
  case True
  then obtain resp h where n: "r = Inr resp" "\<not> frFound resp" "frNextHop resp = Some h" by blast
  obtain s2 where s2: "run_state (applyPiggyback E (frPiggyback resp)) s = ((), s2)"
    by (metis old.unit.exhaust surj_pair)
  then have "wd s2 = wd s" using quietD [OF quiet_lookup_parts(5), of E "frPiggyback resp" s] by simp
  then show ?thesis using IH [of "Core h" s2] by (simp add: after_answer_def n s2)
next
  case False
  then have "quiet (after_answer k E nid mh hop current visited r)"
    unfolding after_answer_def by (cases r) (auto split: option.split intro!: quiet_intros)
  from quietD [OF this, of s] show ?thesis by (intro exI [of _ "[]"]) simp
qed

lemma lookup_loop_asks:
  assumes "logs E asked"
  shows "\<exists>qs. asked (wd (snd (run_state (lookup_loop k E nid mh hop current visited) s))) = asked (wd s) @ qs \<and>
    distinct qs \<and> set qs \<inter> set visited = {} \<and> length qs \<le> k"
proof (induction k arbitrary: hop current visited s)
  case (Suc k)
  show ?case
  proof (cases "NodeID current \<in> set visited")
    case False
    let ?req = "\<lparr>fsID = nid, fsHopCount = hop, fsMaxHops = mh, fsVisitedNodes = visited, fsRequesterRegion = [], fsPreferRegion = []\<rparr>"
    obtain self where self: "run_state Self s = (self, s)" by (simp add: Self_def)
    obtain r s1 where r: "run_state (ask_current E current ?req (NodeID self) (n_client (nd s))) s = (r, s1)" by fastforce
    obtain qs where qs: "set qs \<subseteq> {NodeID current}" "length qs \<le> 1" "asked (wd s1) = asked (wd s) @ qs"
      using ask_current_asks [OF assms, of current ?req "NodeID self" "n_client (nd s)" s] r by auto
    obtain qs' where qs': "asked (wd (snd (run_state (after_answer k E nid mh hop current visited r) s1))) = asked (wd s1) @ qs'"
      "distinct qs'" "set qs' \<inter> set (visited @ [NodeID current]) = {}" "length qs' \<le> k"
      using after_answer_asks [where asked = asked, OF Suc.IH] by blast
    have "distinct qs" using qs(2) by (cases qs) auto
    then show ?thesis
      unfolding lookup_loop_asks_step [OF False]
      using qs qs' False by (intro exI [of _ "qs @ qs'"]) (auto simp: self r)
  qed simp
qed simp

lemma cache_get_config: "n_options (snd (cache_get orc k t n)) = n_options n"
  by (simp add: cache_get_def case_prod_beta split: option.split)

lemma lookupIterative_asks:
  assumes "logs E asked"
  shows "\<exists>qs. asked (wd (snd (run_state (lookupIterative E nid) s))) = asked (wd s) @ qs \<and>
    distinct qs \<and> length qs \<le> nat (o_MaxHops (n_options (nd s)))"
proof -
  obtain self where "run_state Self s = (self, s)" by (simp add: Self_def)
  then show ?thesis
    using lookup_loop_asks [OF assms, of "nat (o_MaxHops (n_options (nd s)))"] by (simp add: lookupIterative_def) blast
qed

text \<open>The questions of the parallel variant.\<close>

lemma for_map_asks:
  assumes "\<And>x s. \<exists>q. asked (wd (snd (run_state (f x) s))) = asked (wd s) @ q \<and> length q \<le> 1 \<and> nd (snd (run_state (f x) s)) = nd s"
  shows "\<exists>qs. asked (wd (snd (run_state (for_map xs f) s))) = asked (wd s) @ qs \<and> length qs \<le> length xs \<and>
    nd (snd (run_state (for_map xs f) s)) = nd s"
proof (induction xs arbitrary: s)
  case (Cons x xs)
  obtain r s1 where r: "run_state (f x) s = (r, s1)" by fastforce
  obtain q where q: "asked (wd s1) = asked (wd s) @ q" "length q \<le> 1" "nd s1 = nd s" using assms [of x s] r by auto
  obtain qs where "asked (wd (snd (run_state (for_map xs f) s1))) = asked (wd s1) @ qs" "length qs \<le> length xs"
    "nd (snd (run_state (for_map xs f) s1)) = nd s1" using Cons.IH by blast
  then show ?case using q by (intro exI [of _ "q @ qs"]) (simp add: r case_prod_beta)
qed simp

lemma topK_length: "length (topKClosestPreceding self tid fs ss k) \<le> nat k"
  by (auto simp: topKClosestPreceding_def Let_def)

text \<open>How many peers the configuration lets a lookup ask at once.\<close>

definition parallel_width :: "Options \<Rightarrow> nat" where
  "parallel_width o' =
     (if o_ParallelLookupEnabled o' \<and> o_ParallelLookupCandidates o' > 1 then nat (o_ParallelLookupCandidates o') else 0)"

lemma lookupParallel_asks:
  assumes "logs E asked" and "1 < o_ParallelLookupCandidates (n_options (nd s))"
  shows "\<exists>ps qs. asked (wd (snd (run_state (lookupParallel E nid) s))) = asked (wd s) @ ps @ qs \<and>
    length ps \<le> nat (o_ParallelLookupCandidates (n_options (nd s))) \<and> distinct qs \<and> length qs \<le> nat (o_MaxHops (n_options (nd s)))"
proof -
  let ?opts = "n_options (nd s)" and ?me = "Core (n_self (nd s))"
  define cs where "cs = topKClosestPreceding ?me nid (n_fingers (nd s)) (n_successorList (nd s)) (o_ParallelLookupCandidates ?opts)"
  define f :: "NodeInfo \<Rightarrow> ('a, string \<times> NodeInfo option) nact" where
    "f = (\<lambda>peer. if \<not> n_client (nd s) then ret (NodeID peer, None)
           else do {
             r \<leftarrow> rpc (pc_FindSuccessor E peer
                   \<lparr>fsID = nid, fsHopCount = 0, fsMaxHops = o_MaxHops ?opts, fsVisitedNodes = [],
                    fsRequesterRegion = [], fsPreferRegion = []\<rparr>);
             ret (NodeID peer, parallel_answer r) })"
  have len: "length cs \<le> nat (o_ParallelLookupCandidates ?opts)" unfolding cs_def by (rule topK_length)
  show ?thesis
  proof (cases "cs = []")
    case True
    then have "run_state (lookupParallel E nid) s = run_state (lookupIterative E nid) s"
      using assms(2) by (simp add: lookupParallel_def Let_def cs_def)
    then show ?thesis using lookupIterative_asks [OF assms(1), of nid s] by (intro exI [of "\<lambda>ps. \<exists>qs. _ ps qs" "[]"]) simp
  next
    case False
    obtain answers s1 where a: "run_state (for_map cs f) s = (answers, s1)" by fastforce
    have f1: "\<exists>q. asked (wd (snd (run_state (f x) t))) = asked (wd t) @ q \<and> length q \<le> 1 \<and> nd (snd (run_state (f x) t)) = nd t" for x t
      using assms(1) by (cases "n_client (nd s)") (simp_all add: f_def logs_def case_prod_beta)
    obtain ps where ps: "asked (wd s1) = asked (wd s) @ ps" "length ps \<le> length cs" "nd s1 = nd s"
      using for_map_asks [where f = f and asked = asked, OF f1, of cs s] a by auto
    define first where "first = find (\<lambda>a. a \<noteq> None) (map (\<lambda>i. the (map_of answers i)) (map_iter (e_orc E (wd s1)) (map fst answers)))"
    have run: "run_state (lookupParallel E nid) s = run_state (case first of
        Some (Some u) \<Rightarrow> do { routingCache_Put E nid (NodeID ?me) u; ret (Inr u) } | _ \<Rightarrow> lookupIterative E nid) s1"
      using False assms(2) a by (simp add: lookupParallel_def Let_def cs_def [symmetric] f_def [symmetric] first_def)
    show ?thesis
    proof (cases "\<exists>u. first = Some (Some u)")
      case True
      then obtain u where u: "first = Some (Some u)" ..
      have q: "quiet (routingCache_Put E nid (NodeID ?me) u)" by (intro quiet_intros)
      then show ?thesis
        using ps len quietD [OF q, of s1] unfolding run
        by (intro exI [of "\<lambda>ps. \<exists>qs. _ ps qs" ps] exI [of _ "[]"]) (simp add: u case_prod_beta)
    next
      case False
      then have "run_state (lookupParallel E nid) s = run_state (lookupIterative E nid) s1"
        unfolding run by (auto split: option.split)
      then show ?thesis
        using lookupIterative_asks [OF assms(1), of nid s1] ps len
        by (intro exI [of "\<lambda>ps. \<exists>qs. _ ps qs" ps]) auto
    qed
  qed
qed

text \<open>C2: A lookup ends after boundedly many questions, whatever the peers answer: inconsistent rings, cycles
  of next hops, peers that lie. It sends \<open>find_successor\<close> to at most the configured number of candidates
  at once, when parallel lookups are on, and then to at most \<open>MaxHops\<close> peers one after the other, no
  peer twice.\<close>
theorem lookup_terminates:
  assumes "\<forall>n q w. asked (snd (pc_FindSuccessor E n q w)) = asked w @ [NodeID n]"
  shows "\<exists>ps qs. asked (wd (snd (run_state (LookupSuccessor E nid) s))) = asked (wd s) @ ps @ qs \<and>
    length ps \<le> parallel_width (n_options (nd s)) \<and> distinct qs \<and> length qs \<le> nat (o_MaxHops (n_options (nd s)))"
proof (cases "ValidateID nid")
  case False
  then show ?thesis by (intro exI [of _ "[]"]) (simp add: LookupSuccessor_def)
next
  case True
  have logs: "logs E asked" using assms by (simp add: logs_def)
  obtain c s1 where c: "run_state (routingCache_Get E nid) s = (c, s1)" by fastforce
  have w: "wd s1 = wd s" using quietD [OF quiet_lookup_parts(2), of E nid s] c by simp
  have o: "n_options (nd s1) = n_options (nd s)"
    using c cache_get_config by (auto simp: routingCache_Get_def now_def case_prod_beta)
  show ?thesis
  proof (cases c)
    case (Some u)
    then show ?thesis using True c w by (intro exI [of _ "[]"]) (simp add: LookupSuccessor_def)
  next
    case None
    show ?thesis
    proof (cases "o_ParallelLookupEnabled (n_options (nd s)) \<and> o_ParallelLookupCandidates (n_options (nd s)) > 1")
      case True
      then show ?thesis
        using \<open>ValidateID nid\<close> c None o w lookupParallel_asks [OF logs, of s1 nid] by (simp add: LookupSuccessor_def parallel_width_def)
    next
      case False
      then have "run_state (LookupSuccessor E nid) s = run_state (lookupIterative E nid) s1"
        using True c None o by (auto simp: LookupSuccessor_def)
      then show ?thesis
        using lookupIterative_asks [OF logs, of nid s1] o w by (intro exI [of "\<lambda>ps. \<exists>qs. _ ps qs" "[]"]) simp
    qed
  qed
qed

lemma lookup_terminates_witness:
  "\<forall>(E0 :: string list env) s0.
     length (wd (snd (run_state (LookupSuccessor (E0\<lparr>pc_FindSuccessor := \<lambda>n q w. (Inl (GoError ''refused''), w @ [NodeID n])\<rparr>) (bigToID 7)) s0)))
       \<le> length (wd s0) + parallel_width (n_options (nd s0)) + nat (o_MaxHops (n_options (nd s0)))"
proof (intro allI)
  fix E0 :: "string list env" and s0 :: "(Node, string list, task) gst"
  let ?E = "E0\<lparr>pc_FindSuccessor := \<lambda>n q w. (Inl (GoError ''refused''), w @ [NodeID n])\<rparr>"
  have "\<forall>n q w. (\<lambda>w. w) (snd (pc_FindSuccessor ?E n q w)) = (\<lambda>w. w) w @ [NodeID n]" by simp
  from lookup_terminates [OF this, of "bigToID 7" s0]
  show "length (wd (snd (run_state (LookupSuccessor ?E (bigToID 7)) s0)))
      \<le> length (wd s0) + parallel_width (n_options (nd s0)) + nat (o_MaxHops (n_options (nd s0)))"
    by auto
qed

end
