(* ===== verification/RingRounds.thy ===== *)
theory RingRounds
  imports MaintenanceFacts LookupBounds
begin

text \<open>
  Several nodes talking to each other. A ring is a list of nodes under their IDs; \<open>ring_env live\<close> answers
  a node's calls from it: pings by \<open>live\<close>, state requests by the node asked, rectifications and leave
  messages by running the handler of the node asked, whose changes are seen by later calls. \<open>node_round m i\<close> lets node \<open>i\<close> run
  \<open>m\<close> against the others. The goroutine that an accepted rectification starts, which only completes the
  predecessor list, runs later and is not part of the round.
\<close>

section \<open>Nodes as each other's environment\<close>

type_synonym ring = "(string \<times> Node) list"

definition ring_ping :: "(string \<Rightarrow> bool) \<Rightarrow> ring env \<Rightarrow> ring env" where
  "ring_ping live E =
     E\<lparr>pc_PingLiveness := \<lambda>u w. (if live u then Inr () else Inl (GoError ''unreachable''), w)\<rparr>"

definition deliver_rectify :: "ring env \<Rightarrow> NodeInfo \<Rightarrow> RectifyRequest \<Rightarrow> ring \<Rightarrow> (goerror + RectifyResponse) \<times> ring" where
  "deliver_rectify E target req w =
     (case map_of w (NodeID target) of
        None \<Rightarrow> (Inl (GoError ''unreachable''), w)
      | Some n \<Rightarrow>
          (let (r, s) = run_state (HandleRectify E req) \<lparr>nd = n, wd = w, spawned = []\<rparr>
           in (r, AList.update (NodeID target) (nd s) (wd s))))"

definition deliver_leave :: "NodeInfo \<Rightarrow> LeaveRequest \<Rightarrow> ring \<Rightarrow> (goerror + unit) \<times> ring" where
  "deliver_leave target req w =
     (case map_of w (NodeID target) of
        None \<Rightarrow> (Inl (GoError ''unreachable''), w)
      | Some n \<Rightarrow>
          (let (r, s) = run_state (HandleLeave req) \<lparr>nd = n, wd = w, spawned = []\<rparr>
           in (case r of Inl e \<Rightarrow> Inl e | Inr _ \<Rightarrow> Inr (), AList.update (NodeID target) (nd s) (wd s))))"

definition ring_env :: "(string \<Rightarrow> bool) \<Rightarrow> ring env \<Rightarrow> ring env" where
  "ring_env live E =
     (ring_ping live E)\<lparr>
       pc_State := \<lambda>c w. (case map_of w (NodeID c) of
                            None \<Rightarrow> Inl (GoError ''unreachable'') | Some n \<Rightarrow> Inr (StateOf (e_now E w) n), w),
       pc_Rectify := deliver_rectify (ring_ping live E), pc_Notify := deliver_rectify (ring_ping live E),
       pc_Leave := deliver_leave\<rparr>"


lemma ring_env_fields [simp]:
  "pings_steady (ring_env live E) live" "pings_steady (ring_ping live E) live"
  "e_lib (ring_env live E) = e_lib E" "e_lib (ring_ping live E) = e_lib E"
  "pc_Rectify (ring_env live E) = deliver_rectify (ring_ping live E)" "pc_Leave (ring_env live E) = deliver_leave"
  "pc_State (ring_env live E) c w =
     (case map_of w (NodeID c) of None \<Rightarrow> Inl (GoError ''unreachable'') | Some n \<Rightarrow> Inr (StateOf (e_now E w) n), w)"
  by (simp_all add: ring_env_def ring_ping_def pings_steady_def)

text \<open>Only rectifications and leave messages change the ring.\<close>

lemma quiet_rpc: "(\<And>w. snd (f w) = w) \<Longrightarrow> quiet (rpc f)"
  by (simp add: quiet_def)

lemma quiet_sum [quiet_intros]:
  "(\<And>x. quiet (f x)) \<Longrightarrow> (\<And>x. quiet (g x)) \<Longrightarrow> quiet (case y of Inl x \<Rightarrow> f x | Inr x \<Rightarrow> g x)"
  by (simp split: sum.split)

lemma quiet_for_map [quiet_intros]: "(\<And>x. quiet (f x)) \<Longrightarrow> quiet (for_map xs f)"
  by (induction xs) (auto intro: quiet_intros)

lemma quiet_spawn [quiet_intros]: "quiet (spawn t)"
  by (simp add: quiet_def)

lemma quiet_ring [quiet_intros]:
  "quiet (rpc (pc_PingLiveness (ring_env live E) u))" "quiet (rpc (pc_State (ring_env live E) c))"
  "quiet (rpc (pc_PingLiveness (ring_ping live E) u))"
  by (intro quiet_rpc; simp add: ring_env_def ring_ping_def)+

lemma quiet_node_parts [quiet_intros]:
  "quiet emitTopologyChange" "quiet (markSuccessOf i)"
  "quiet (pingLiveness (ring_env live E) t)" "quiet (pingLiveness (ring_ping live E) t)"
  unfolding emitTopologyChange_def markSuccessOf_def pingLiveness_def by (intro quiet_intros)+



lemma quiet_extend_valid [quiet_intros]: "quiet (extend_valid (ring_env live E) lm me v cs)"
proof (induction cs arbitrary: v)
  case (Cons c cs)
  show ?case unfolding extend_valid.simps by (intro quiet_intros Cons)
qed (simp add: quiet_intros)

lemma quiet_validate [quiet_intros]: "quiet (validateSuccessorList (ring_env live E))"
  unfolding validateSuccessorList_def validateFrom_def extendFrom_def by (intro quiet_intros)


section \<open>One round\<close>




lemma ValidateNodeInfo_cert [simp]: "ValidateNodeInfo L (n\<lparr>Certificate := z\<rparr>) = ValidateNodeInfo L n"
  by (simp add: ValidateNodeInfo_def split: sum.split)

lemma Core_cert [simp]: "Core (n\<lparr>Certificate := z\<rparr>) = Core n"
  by (simp add: Core_def)



section \<open>A new node\<close>





text \<open>Nodes 2 and 7 of a ring, and 4, which has just joined.\<close>

definition demo_vinfo :: "char \<Rightarrow> NodeInfo" where
  "demo_vinfo x = (demo_info x)\<lparr>AnchorID := ''a''\<rparr>"

definition demo_in_ring :: "char \<Rightarrow> char \<Rightarrow> NodeInfo option \<Rightarrow> Node" where
  "demo_in_ring x s p = (demo_node x)\<lparr>n_self := demo_vinfo x, n_status := StatusActive,
     n_successor := Core (demo_vinfo s), n_predecessor := p\<rparr>"


lemma demo_in_ring_fields [simp]:
  "n_self (demo_in_ring x s p) = demo_vinfo x" "n_status (demo_in_ring x s p) = StatusActive"
  "n_successor (demo_in_ring x s p) = Core (demo_vinfo s)" "n_predecessor (demo_in_ring x s p) = p"
  "n_client (demo_in_ring x s p)" "o_StabilizeAtomicState (n_options (demo_in_ring x s p))"
  "NodeID (demo_vinfo x) = demo_id x"
  by (simp_all add: demo_in_ring_def demo_vinfo_def demo_node_def fresh_node_def DefaultOptions_def demo_info_def)




section \<open>A leaving node\<close>





end
