(* ===== verification/SharedCaches.thy ===== *)
theory SharedCaches
  imports RoutingCache
begin

text \<open>
  The caches an anchor shares with its virtual nodes (\<open>internal/chord/shared_resources.go\<close>): the
  node descriptors, bounded and expiring, and the outcomes of proof verifications, bounded only. Both
  have the shape of \<open>Lru\<close>; the descriptor cache is an interpretation of its interface.
\<close>

section \<open>Node descriptors\<close>

record nodeInfoEntry =
  nieInfo :: NodeInfo
  nieCachedAt :: gotime

record NodeInfoCache =
  nicSize :: int
  nicTtl :: duration
  nicItems :: "(string \<times> nodeInfoEntry) list"
  nicOrder :: "string list"

definition NewNodeInfoCache :: "int \<Rightarrow> duration \<Rightarrow> NodeInfoCache" where
  "NewNodeInfoCache n ttl =
     \<lparr>nicSize = (if n \<le> 0 then 2048 else n), nicTtl = (if ttl \<le> 0 then 30 * Second else ttl),
      nicItems = [], nicOrder = []\<rparr>"

definition NodeInfoCache_Put :: "NodeInfo \<Rightarrow> gotime \<Rightarrow> NodeInfoCache \<Rightarrow> NodeInfoCache" where
  "NodeInfoCache_Put info now c =
     (if NodeID info = [] then c
      else
        let k = NodeID info; e = \<lparr>nieInfo = info, nieCachedAt = now\<rparr>
        in case map_of (nicItems c) k of
             Some _ \<Rightarrow> c\<lparr>nicItems := AList.update k e (nicItems c), nicOrder := MoveToFront k (nicOrder c)\<rparr>
           | None \<Rightarrow>
               let c' = (if int (length (nicOrder c)) \<ge> nicSize c
                         then (case Back (nicOrder c) of
                                 None \<Rightarrow> c
                               | Some b \<Rightarrow> c\<lparr>nicOrder := removeAll b (nicOrder c),
                                             nicItems := AList.delete b (nicItems c)\<rparr>)
                         else c)
               in c'\<lparr>nicOrder := k # nicOrder c', nicItems := AList.update k e (nicItems c')\<rparr>)"

text \<open>\<open>Get\<close> reads under the read lock, then removes an expired entry under the write lock.\<close>

definition NodeInfoCache_Get :: "string \<Rightarrow> gotime \<Rightarrow> NodeInfoCache \<Rightarrow> NodeInfo option \<times> NodeInfoCache" where
  "NodeInfoCache_Get nodeID now c =
     (case map_of (nicItems c) nodeID of
        None \<Rightarrow> (None, c)
      | Some e \<Rightarrow>
          if time_Sub now (nieCachedAt e) > nicTtl c
          then (None, c\<lparr>nicOrder := removeAll nodeID (nicOrder c),
                        nicItems := AList.delete nodeID (nicItems c)\<rparr>)
          else (Some (nieInfo e), c))"

definition nic_wf :: "NodeInfoCache \<Rightarrow> bool" where
  "nic_wf c \<longleftrightarrow>
     lru_wf (nicItems c) (nicOrder c) \<and> 0 < nicSize c \<and> int (length (nicOrder c)) \<le> nicSize c \<and>
     (\<forall>(k, e) \<in> set (nicItems c). k \<noteq> [] \<and> NodeID (nieInfo e) = k)"

lemma nic_wf_new: "nic_wf (NewNodeInfoCache n ttl)"
  by (simp add: nic_wf_def NewNodeInfoCache_def)

lemma NodeInfoCache_Put_wf:
  fixes now :: gotime
  assumes wf: "nic_wf c" and k: "k \<noteq> []" "NodeID info = k"
  defines "c' \<equiv> NodeInfoCache_Put info now c" and "e \<equiv> \<lparr>nieInfo = info, nieCachedAt = now\<rparr>"
  shows "nic_wf c' \<and> nicOrder c' = take (nat (nicSize c)) (k # removeAll k (nicOrder c)) \<and>
    map_of (nicItems c') k = Some e \<and> nicSize c' = nicSize c \<and>
    (\<forall>k'. k' \<noteq> k \<longrightarrow> k' \<in> set (nicOrder c') \<longrightarrow> map_of (nicItems c') k' = map_of (nicItems c) k')"
proof -
  have len: "length (nicOrder c) \<le> nat (nicSize c)" "0 < nicSize c" "distinct (nicOrder c)"
    and lw: "lru_wf (nicItems c) (nicOrder c)"
    using wf by (auto simp: nic_wf_def lru_wf_def)
  have mem: "k \<in> set (nicOrder c) \<longleftrightarrow> map_of (nicItems c) k \<noteq> None" for k
    by (rule lru_wf_map_of [OF lw])
  show ?thesis
  proof (cases "map_of (nicItems c) k")
    case (Some e0)
    then have c': "c' = c\<lparr>nicItems := AList.update k e (nicItems c), nicOrder := MoveToFront k (nicOrder c)\<rparr>"
      by (simp add: c'_def NodeInfoCache_Put_def k e_def Let_def)
    have "k \<in> set (nicOrder c)" using Some mem by simp
    moreover from this have "length (k # removeAll k (nicOrder c)) \<le> nat (nicSize c)"
      using len by (simp add: length_removeAll_distinct)
    moreover have "nic_wf c'"
      using calculation wf k
      by (auto simp: c' nic_wf_def lru_wf_touch MoveToFront_def e_def dest!: AList_update_set
          simp flip: MoveToFront_def)
    ultimately show ?thesis by (simp add: c' MoveToFront_def update_conv')
  next
    case None
    let ?full = "int (length (nicOrder c)) \<ge> nicSize c"
    let ?d = "if ?full then c\<lparr>nicOrder := butlast (nicOrder c),
        nicItems := AList.delete (last (nicOrder c)) (nicItems c)\<rparr> else c"
    have c': "c' = ?d\<lparr>nicOrder := k # nicOrder ?d, nicItems := AList.update k e (nicItems ?d)\<rparr>"
      using None len
      by (auto simp: c'_def NodeInfoCache_Put_def k e_def Let_def Back_def removeAll_last)
    have kn: "k \<notin> set (nicOrder c)" using None mem by simp
    have lw': "lru_wf (nicItems ?d) (nicOrder ?d)"
      using lw lru_wf_delete [OF lw, of "last (nicOrder c)"] len removeAll_last [of "nicOrder c"]
      by (cases "nicOrder c = []") auto
    have sub: "set (nicItems ?d) \<subseteq> set (nicItems c)" by (auto dest: AList_delete_set)
    have ord: "nicOrder ?d = take (nat (nicSize c) - 1) (nicOrder c)"
    proof (cases ?full)
      case True
      with len have "nat (nicSize c) = length (nicOrder c)" by simp
      with True show ?thesis by (simp add: butlast_conv_take)
    next
      case False with len show ?thesis by simp
    qed
    have kd: "k \<notin> set (nicOrder ?d)" using kn ord by (metis in_set_takeD)
    have keep: "map_of (nicItems ?d) k' = map_of (nicItems c) k'" if "k' \<in> set (nicOrder ?d)" for k'
      using that len(3) by (cases "nicOrder c" rule: rev_cases) (auto simp: delete_conv' split: if_splits)
    have len': "int (length (k # nicOrder ?d)) \<le> nicSize c" using ord len by simp
    define d where "d = ?d"
    note hide = lw' sub ord kd keep len' c' [unfolded d_def [symmetric]]
    have size: "nicSize d = nicSize c" by (simp add: d_def)
    have "nic_wf c'"
      using wf hide(2,6) [folded d_def] k lru_wf_insert [OF hide(1,4) [folded d_def], of e] size
      by (fastforce simp: hide(7) nic_wf_def e_def dest!: AList_update_set)
    then show ?thesis
      using kn hide(3,5) [folded d_def] len size by (simp add: hide(7) update_conv' take_Cons')
  qed
qed

lemma nic_wf_Get: "nic_wf c \<Longrightarrow> nic_wf (snd (NodeInfoCache_Get k now c))"
  by (auto simp: NodeInfoCache_Get_def nic_wf_def lru_wf_delete dest!: AList_delete_set
      intro: order.trans [OF of_nat_mono [OF length_removeAll_le]] split: option.splits)

interpretation nic_lru: lru nic_wf "\<lambda>c. map_of (nicItems c)" nicOrder "\<lambda>c. nat (nicSize c)"
  "\<lambda>k e. NodeInfoCache_Put (nieInfo e) (nieCachedAt e)" "\<lambda>k e. k \<noteq> [] \<and> NodeID (nieInfo e) = k"
proof
  fix c :: NodeInfoCache and k k' :: string and e :: nodeInfoEntry
  let ?put = "NodeInfoCache_Put (nieInfo e) (nieCachedAt e) c"
  show "nic_wf c \<Longrightarrow> distinct (nicOrder c) \<and> set (nicOrder c) = dom (map_of (nicItems c)) \<and>
      length (nicOrder c) \<le> nat (nicSize c)"
    by (simp add: nic_wf_def lru_wf_def dom_map_of_conv_image_fst le_nat_iff)
  show "nat (nicSize ?put) = nat (nicSize c)"
    by (auto simp: NodeInfoCache_Put_def Let_def split: option.splits)
  assume wf: "nic_wf c" and k: "k \<noteq> [] \<and> NodeID (nieInfo e) = k"
  note put = NodeInfoCache_Put_wf [OF wf, where k = k and info = "nieInfo e" and now = "nieCachedAt e"]
  show "nic_wf ?put" and "nicOrder ?put = take (nat (nicSize c)) (k # removeAll k (nicOrder c))"
    using put k by simp_all
  show "map_of (nicItems ?put) k = Some e" using put k by (cases e) auto
  show "k' \<noteq> k \<Longrightarrow> k' \<in> set (nicOrder ?put) \<Longrightarrow> map_of (nicItems ?put) k' = map_of (nicItems c) k'"
    using put k by simp
qed

text \<open>Any stored descriptor is returned unchanged until it expires.\<close>

lemma NodeInfoCache_Get_Put:
  assumes "nic_wf c" and "NodeID info \<noteq> []"
  shows "fst (NodeInfoCache_Get (NodeID info) now' (NodeInfoCache_Put info now c)) =
    (if time_Sub now' now > nicTtl (NodeInfoCache_Put info now c) then None else Some info)"
  using NodeInfoCache_Put_wf [OF assms(1), of "NodeID info" info now] assms(2)
  by (simp add: NodeInfoCache_Get_def)

section \<open>Proof verification results\<close>

text \<open>The recency list holds the keys; its entries are never moved, so it is in insertion order.\<close>

record ProofVerifyCache =
  pvcSize :: int
  pvcItems :: "(string \<times> bool) list"
  pvcOrder :: "string list"

definition NewProofVerifyCache :: "int \<Rightarrow> ProofVerifyCache" where
  "NewProofVerifyCache n = \<lparr>pvcSize = (if n \<le> 0 then 256 else n), pvcItems = [], pvcOrder = []\<rparr>"

definition proofCacheKey :: "golib \<Rightarrow> string \<Rightarrow> string \<Rightarrow> int \<Rightarrow> string" where
  "proofCacheKey L vnodeID anchorID expiresAt =
     (let raw = vnodeID @ anchorID @ itoa expiresAt in hex_EncodeToString (sha1_Sum L raw))"

definition ProofVerifyCache_Get ::
  "golib \<Rightarrow> string \<Rightarrow> string \<Rightarrow> int \<Rightarrow> ProofVerifyCache \<Rightarrow> bool option" where
  "ProofVerifyCache_Get L vnodeID anchorID expiresAt c =
     (let key = proofCacheKey L vnodeID anchorID expiresAt in map_of (pvcItems c) key)"

definition ProofVerifyCache_Put ::
  "golib \<Rightarrow> string \<Rightarrow> string \<Rightarrow> int \<Rightarrow> bool \<Rightarrow> ProofVerifyCache \<Rightarrow> ProofVerifyCache" where
  "ProofVerifyCache_Put L vnodeID anchorID expiresAt v c =
     (let key = proofCacheKey L vnodeID anchorID expiresAt
      in case map_of (pvcItems c) key of
           Some _ \<Rightarrow> c
         | None \<Rightarrow>
             let c' = (if int (length (pvcOrder c)) \<ge> pvcSize c
                       then (case Back (pvcOrder c) of
                               None \<Rightarrow> c
                             | Some b \<Rightarrow> c\<lparr>pvcOrder := removeAll b (pvcOrder c),
                                           pvcItems := AList.delete b (pvcItems c)\<rparr>)
                       else c)
             in c'\<lparr>pvcOrder := key # pvcOrder c', pvcItems := AList.update key v (pvcItems c')\<rparr>)"

definition ProofVerifyCache_Invalidate :: "ProofVerifyCache \<Rightarrow> ProofVerifyCache" where
  "ProofVerifyCache_Invalidate c = c\<lparr>pvcItems := [], pvcOrder := []\<rparr>"

definition pvc_wf :: "ProofVerifyCache \<Rightarrow> bool" where
  "pvc_wf c \<longleftrightarrow>
     lru_wf (pvcItems c) (pvcOrder c) \<and> 0 < pvcSize c \<and> int (length (pvcOrder c)) \<le> pvcSize c"

lemma pvc_wf_new: "pvc_wf (NewProofVerifyCache n)"
  by (simp add: pvc_wf_def NewProofVerifyCache_def)

lemma pvc_wf_Put:
  assumes "pvc_wf c"
  shows "pvc_wf (ProofVerifyCache_Put L v a x b c)"
proof (cases "map_of (pvcItems c) (proofCacheKey L v a x)")
  case Some
  then show ?thesis using assms by (simp add: ProofVerifyCache_Put_def Let_def)
next
  case None
  let ?k = "proofCacheKey L v a x"
  let ?d = "if int (length (pvcOrder c)) \<ge> pvcSize c then c\<lparr>pvcOrder := butlast (pvcOrder c),
      pvcItems := AList.delete (last (pvcOrder c)) (pvcItems c)\<rparr> else c"
  have lw: "lru_wf (pvcItems c) (pvcOrder c)" and d: "distinct (pvcOrder c)" "pvcOrder c = [] \<Longrightarrow> \<not> pvcSize c \<le> 0"
    using assms by (auto simp: pvc_wf_def lru_wf_def)
  have eq: "ProofVerifyCache_Put L v a x b c =
      ?d\<lparr>pvcOrder := ?k # pvcOrder ?d, pvcItems := AList.update ?k b (pvcItems ?d)\<rparr>"
    using None d by (auto simp: ProofVerifyCache_Put_def Let_def Back_def removeAll_last)
  have "lru_wf (pvcItems ?d) (pvcOrder ?d)"
    using lw lru_wf_delete [OF lw, of "last (pvcOrder c)"] d removeAll_last [of "pvcOrder c"]
    by (cases "pvcOrder c = []") auto
  moreover have "?k \<notin> set (pvcOrder ?d)"
    using None lru_wf_map_of [OF lw, of ?k] by (auto dest: in_set_butlastD)
  ultimately have "lru_wf (AList.update ?k b (pvcItems ?d)) (?k # pvcOrder ?d)"
    by (rule lru_wf_insert)
  moreover have "int (length (?k # pvcOrder ?d)) \<le> pvcSize c"
    using assms by (cases "pvcOrder c" rule: rev_cases) (auto simp: pvc_wf_def)
  moreover have "pvcSize ?d = pvcSize c" by simp
  ultimately show ?thesis
    using assms unfolding eq pvc_wf_def by (simp split del: if_split)
qed

text \<open>The first outcome recorded for a proof version is kept until it is evicted or invalidated.\<close>

lemma ProofVerifyCache_first:
  assumes "pvc_wf c"
  shows "ProofVerifyCache_Get L v a x (ProofVerifyCache_Put L v a x b c) =
    (case ProofVerifyCache_Get L v a x c of Some b' \<Rightarrow> Some b' | None \<Rightarrow> Some b)"
  by (auto simp: ProofVerifyCache_Get_def ProofVerifyCache_Put_def Let_def update_conv' split: option.splits)

end
