(* ===== verification/Logging.thy ===== *)
theory Logging
  imports GoStd
begin

text \<open>
  Log levels (\<open>internal/logging/logging.go\<close>). The level in force is a state of the process: operations take
  it as an argument and \<open>SetLevel\<close> returns the new one. A logging call is the line it hands to package
  \<open>log\<close>, or nothing; \<open>fmt.Sprintf\<close> on format and arguments has been applied.
\<close>

section \<open>Levels\<close>

datatype Level = LevelDebug | LevelInfo | LevelWarn | LevelError

fun level_int :: "Level \<Rightarrow> int" where
  "level_int LevelDebug = 0"
| "level_int LevelInfo = 1"
| "level_int LevelWarn = 2"
| "level_int LevelError = 3"

text \<open>Go compares levels as the integers they are.\<close>

instantiation Level :: linorder
begin

definition less_eq_Level :: "Level \<Rightarrow> Level \<Rightarrow> bool" where
  "a \<le> b \<longleftrightarrow> level_int a \<le> level_int b"

definition less_Level :: "Level \<Rightarrow> Level \<Rightarrow> bool" where
  "(a :: Level) < b \<longleftrightarrow> level_int a < level_int b"

instance
proof
  fix a b :: Level
  show "a \<le> b \<Longrightarrow> b \<le> a \<Longrightarrow> a = b"
    by (cases a; cases b) (simp_all add: less_eq_Level_def)
qed (auto simp: less_eq_Level_def less_Level_def)

end

definition initialLevel :: Level where
  "initialLevel = LevelInfo"

definition ParseLevel :: "string \<Rightarrow> goerror + Level" where
  "ParseLevel value =
     (let v = ToLower (TrimSpace value)
      in if v = ''debug'' then Inr LevelDebug
         else if v = [] \<or> v = ''info'' then Inr LevelInfo
         else if v = ''warn'' \<or> v = ''warning'' then Inr LevelWarn
         else if v = ''error'' then Inr LevelError
         else Inl (GoError ''log level must be one of debug, info, warn, error''))"

fun Level_String :: "Level \<Rightarrow> string" where
  "Level_String LevelDebug = ''debug''"
| "Level_String LevelInfo = ''info''"
| "Level_String LevelWarn = ''warn''"
| "Level_String LevelError = ''error''"

definition NormalizeLevel :: "string \<Rightarrow> goerror + string" where
  "NormalizeLevel value =
     (case ParseLevel value of Inl e \<Rightarrow> Inl e | Inr level \<Rightarrow> Inr (Level_String level))"

definition SetLevel :: "string \<Rightarrow> Level \<Rightarrow> (goerror + unit) \<times> Level" where
  "SetLevel value current =
     (case ParseLevel value of Inl e \<Rightarrow> (Inl e, current) | Inr level \<Rightarrow> (Inr (), level))"

section \<open>Output\<close>

definition logf :: "Level \<Rightarrow> Level \<Rightarrow> string \<Rightarrow> string \<Rightarrow> string option" where
  "logf current level label msg =
     (if level < current then None else Some (label @ '' '' @ msg))"

definition Debugf :: "Level \<Rightarrow> string \<Rightarrow> string option" where
  "Debugf current msg = logf current LevelDebug ''DEBUG'' msg"

definition Infof :: "Level \<Rightarrow> string \<Rightarrow> string option" where
  "Infof current msg = logf current LevelInfo ''INFO'' msg"

definition Warnf :: "Level \<Rightarrow> string \<Rightarrow> string option" where
  "Warnf current msg = logf current LevelWarn ''WARN'' msg"

definition Errorf :: "Level \<Rightarrow> string \<Rightarrow> string option" where
  "Errorf current msg = logf current LevelError ''ERROR'' msg"

section \<open>Facts\<close>

lemma ParseLevel_String [simp]: "ParseLevel (Level_String l) = Inr l"
  by (cases l) (simp_all add: ParseLevel_def ToLower_def TrimSpace_def is_space_def lower_char_def)

lemma NormalizeLevel_String: "NormalizeLevel v = Inr s \<Longrightarrow> \<exists>l. s = Level_String l \<and> ParseLevel v = Inr l"
  by (auto simp: NormalizeLevel_def split: sum.splits)

lemma NormalizeLevel_idem: "NormalizeLevel v = Inr s \<Longrightarrow> NormalizeLevel s = Inr s"
  by (auto simp: NormalizeLevel_def split: sum.splits)

text \<open>A normalized level is accepted by \<open>SetLevel\<close>, which makes it the level in force.\<close>

lemma SetLevel_normalized:
  "NormalizeLevel v = Inr s \<Longrightarrow> \<exists>l. s = Level_String l \<and> SetLevel s current = (Inr (), l)"
  by (auto simp: NormalizeLevel_def SetLevel_def split: sum.splits)

text \<open>Errors are always written.\<close>

lemma Errorf_written: "Errorf current msg = Some (''ERROR '' @ msg)"
  by (cases current) (simp_all add: less_Level_def Errorf_def logf_def)

end
