(* ===== verification/Loops.thy ===== *)
theory Loops
  imports NodeInvariant Logging
begin

text \<open>
  The maintenance goroutines of \<open>maintenance.go\<close>: \<open>RunMaintenance\<close> with its staggered start, the loops
  and the mode manager. A loop is a body (\<open>Membership\<close>) run whenever its timer is due, and a pause
  before the next run; the timers live on a clock of their own, as Go's do (\<open>sc_clock\<close>, monotonic), not
  on the node's wall clock. \<open>maint_step\<close> is the scheduler: which loop runs when is not determined, other
  goroutines' critical sections come in between, and a cancelled loop ends at its next wait. Runs are
  labelled, so that the number of times a body ran is in the trace.
\<close>

section \<open>Loops and pauses\<close>

datatype loop =
    StabilizeLoop | TrackerLoop | FixFingersLoop | CheckPredecessorLoop | LatencyProbeLoop
  | CacheCleanupLoop | InvariantAuditLoop

text \<open>The audit writes one line, at a level that tells its outcome; the node is only read.\<close>

definition invariantAuditBody :: "'w env \<Rightarrow> ('w, Level) nact" where
  "invariantAuditBody E =
     do {
       t \<leftarrow> now E;
       report \<leftarrow> asks (InvariantReport t);
       ret (if irSuccessorListValid report then LevelDebug else LevelWarn) }"

fun loopBody :: "'w env \<Rightarrow> loop \<Rightarrow> ('w, unit) nact" where
  "loopBody E StabilizeLoop = stabilizeLoopBody E"
| "loopBody E TrackerLoop = trackerLoopBody E"
| "loopBody E FixFingersLoop = fixFingersLoopBody E"
| "loopBody E CheckPredecessorLoop = checkPredecessorLoopBody E"
| "loopBody E LatencyProbeLoop = latencyProbeBody E"
| "loopBody E CacheCleanupLoop = cacheCleanupBody E"
| "loopBody E InvariantAuditLoop = ignore (invariantAuditBody E)"

fun loopPause :: "loop \<Rightarrow> Node \<Rightarrow> duration" where
  "loopPause StabilizeLoop n = getStabilizeInterval n"
| "loopPause TrackerLoop n = 5 * Second"
| "loopPause FixFingersLoop n = getFixFingersInterval n"
| "loopPause CheckPredecessorLoop n = getCheckPredecessorInterval n"
| "loopPause LatencyProbeLoop n = getLatencyProbeInterval n"
| "loopPause CacheCleanupLoop n = 30 * Second"
| "loopPause InvariantAuditLoop n = o_InvariantAuditInterval (n_options n)"

text \<open>Two loops may return at once: the tracker's, without a tracker or on a virtual node, and the
  audit, without an interval.\<close>

fun launched :: "loop \<Rightarrow> Node \<Rightarrow> bool" where
  "launched TrackerLoop n \<longleftrightarrow> n_tracker n \<and> \<not> IsVNode n"
| "launched InvariantAuditLoop n \<longleftrightarrow> 0 < o_InvariantAuditInterval (n_options n)"
| "launched _ n \<longleftrightarrow> True"

text \<open>The cache cleanup and the audit wait before their first run, the others run at once.\<close>

fun firstWait :: "loop \<Rightarrow> Node \<Rightarrow> duration" where
  "firstWait CacheCleanupLoop n = 30 * Second"
| "firstWait InvariantAuditLoop n = o_InvariantAuditInterval (n_options n)"
| "firstWait _ n = 0"

definition modeWindow :: "Node \<Rightarrow> duration" where
  "modeWindow n =
     (let window = o_TopologyChangeWindow (n_options n)
      in if window \<le> 0 then DefaultTopologyChangeWindow else window)"

section \<open>The scheduler's state\<close>

text \<open>A timer is due at one time; a ticker is due at every multiple of its period after its creation,
  holds one tick, and drops the others while that one is not taken.\<close>

datatype loop_state = Waiting int | Ticking int | Stopped

fun due :: "loop_state \<Rightarrow> int option" where
  "due (Waiting d) = Some d"
| "due (Ticking d) = Some d"
| "due Stopped = None"

definition nextTick :: "duration \<Rightarrow> int \<Rightarrow> int \<Rightarrow> int" where
  "nextTick period d c = d + ((c - d) div period + 1) * period"

record 'w sched =
  sc_clock :: int
  sc_loops :: "loop \<Rightarrow> loop_state"
  sc_window :: duration
  sc_quiet :: "int option"
  sc_done :: bool
  sc_host :: "(Node, 'w, task) gst"

abbreviation sc_node :: "'w sched \<Rightarrow> Node" where
  "sc_node s \<equiv> nd (sc_host s)"

definition launch :: "int \<Rightarrow> (Node, 'w, task) gst \<Rightarrow> 'w sched" where
  "launch c gs =
     \<lparr>sc_clock = c,
      sc_loops = (\<lambda>l. if launched l (nd gs) then Waiting (c + firstWait l (nd gs)) else Stopped),
      sc_window = modeWindow (nd gs), sc_quiet = Some (c + modeWindow (nd gs)),
      sc_done = False, sc_host = gs\<rparr>"

text \<open>The wait of a virtual node before the launch; \<open>r\<close> is what \<open>rand.Int63n\<close> returned. A cancelled
  context launches nothing. Products and sums are taken in 64 bits, the quotient is truncated.\<close>

definition goQuot :: "int \<Rightarrow> int \<Rightarrow> int" where
  "goQuot a b = wrap64 (sgn a * sgn b * (\<bar>a\<bar> div \<bar>b\<bar>))"

definition jitterMax :: "Node \<Rightarrow> duration" where
  "jitterMax n =
     (let j = o_VNodeMaintenanceJitter (n_options n)
      in if j \<le> 0 then DefaultVNodeMaintenanceJitter else j)"

definition startDelay :: "int \<Rightarrow> Node \<Rightarrow> duration" where
  "startDelay r n =
     (if o_VNodeIndex (n_options n) > 0 \<and> o_MaxVNodes (n_options n) > 0
      then wrap64 (goQuot (wrap64 (o_VNodeIndex (n_options n) * getStabilizeInterval n))
                     (wrap64 (o_MaxVNodes (n_options n) + 1)) + r)
      else 0)"

inductive RunMaintenance :: "int \<Rightarrow> (Node, 'w, task) gst \<Rightarrow> 'w sched option \<Rightarrow> bool" where
  started: "0 \<le> r \<Longrightarrow> r < jitterMax (nd gs) \<Longrightarrow> c \<le> t \<Longrightarrow> c + startDelay r (nd gs) \<le> t \<Longrightarrow>
    RunMaintenance c gs (Some (launch t gs))"
| cancelled: "o_VNodeIndex (n_options (nd gs)) > 0 \<Longrightarrow> o_MaxVNodes (n_options (nd gs)) > 0 \<Longrightarrow>
    RunMaintenance c gs None"

section \<open>Steps\<close>

definition exec :: "('w, unit) nact \<Rightarrow> 'w sched \<Rightarrow> 'w sched" where
  "exec m s = s\<lparr>sc_host := snd (run_state m (sc_host s))\<rparr>"

text \<open>One round of a loop whose body took \<open>e\<close>: the body, and the timer armed after it. The tracker's
  ticker is created after the first report and keeps its own rhythm from then on.\<close>

definition rearm :: "loop \<Rightarrow> loop_state \<Rightarrow> int \<Rightarrow> int \<Rightarrow> Node \<Rightarrow> loop_state" where
  "rearm l st c e n =
     (case st of
        Ticking d \<Rightarrow> Ticking (nextTick (loopPause l n) d c)
      | _ \<Rightarrow> (if l = TrackerLoop then Ticking (c + e + loopPause l n) else Waiting (c + e + loopPause l n)))"

definition fire :: "'w env \<Rightarrow> int \<Rightarrow> loop \<Rightarrow> 'w sched \<Rightarrow> 'w sched" where
  "fire E e l s =
     (let s' = exec (loopBody E l) s
      in s'\<lparr>sc_clock := sc_clock s + e,
            sc_loops := (sc_loops s)(l := rearm l (sc_loops s l) (sc_clock s) e (sc_node s'))\<rparr>)"

text \<open>The mode manager's two cases, both of which reset the quiet timer.\<close>

definition onChange :: "'w env \<Rightarrow> 'w sched \<Rightarrow> 'w sched" where
  "onChange E s = (exec (modeOnChange E) s)\<lparr>sc_quiet := Some (sc_clock s + sc_window s)\<rparr>"

definition onQuiet :: "'w sched \<Rightarrow> 'w sched" where
  "onQuiet s = (exec modeOnQuiet s)\<lparr>sc_quiet := Some (sc_clock s + sc_window s)\<rparr>"

datatype label = Elapse | Elsewhere | Cancel | Fire loop | Change | Quiet | Stop loop | StopManager

inductive maint_step :: "'w env \<Rightarrow> label \<Rightarrow> 'w sched \<Rightarrow> 'w sched \<Rightarrow> bool" for E where
  elapse: "0 \<le> d \<Longrightarrow> maint_step E Elapse s (s\<lparr>sc_clock := sc_clock s + d\<rparr>)"
| elsewhere: "section_step False (sc_node s) n \<Longrightarrow>
    maint_step E Elsewhere s (s\<lparr>sc_host := \<lparr>nd = n, wd = w, spawned = ts\<rparr>\<rparr>)"
| cancel: "maint_step E Cancel s (s\<lparr>sc_done := True\<rparr>)"
| fire: "due (sc_loops s l) = Some d \<Longrightarrow> d \<le> sc_clock s \<Longrightarrow> 0 \<le> e \<Longrightarrow> maint_step E (Fire l) s (fire E e l s)"
| change: "sc_quiet s = Some q \<Longrightarrow> n_topologyChangeCh (sc_node s) \<Longrightarrow> maint_step E Change s (onChange E s)"
| quiet: "sc_quiet s = Some q \<Longrightarrow> q \<le> sc_clock s \<Longrightarrow> maint_step E Quiet s (onQuiet s)"
| stop: "sc_done s \<Longrightarrow> maint_step E (Stop l) s (s\<lparr>sc_loops := (sc_loops s)(l := Stopped)\<rparr>)"
| stop_manager: "sc_done s \<Longrightarrow> maint_step E StopManager s (s\<lparr>sc_quiet := None\<rparr>)"

inductive_cases maint_stepE: "maint_step E a s s'"
inductive_simps maint_step_Change: "maint_step E Change s s'"
inductive_simps maint_step_Quiet: "maint_step E Quiet s s'"

inductive maint_run :: "'w env \<Rightarrow> 'w sched \<Rightarrow> label list \<Rightarrow> 'w sched \<Rightarrow> bool" for E s where
  maint_refl: "maint_run E s [] s"
| maint_snoc: "maint_run E s tr s' \<Longrightarrow> maint_step E a s' s'' \<Longrightarrow> maint_run E s (tr @ [a]) s''"

end
