(* ===== verification/LoopFacts.thy ===== *)
theory LoopFacts
  imports Loops
begin

text \<open>
  What the maintenance schedule guarantees: every loop's body is paced by its pause and keeps the node
  reachable, however the loops interleave with other goroutines; and the maintenance mode follows the
  topology changes, going quiet only after a whole window without one.
\<close>

section \<open>What the steps keep\<close>

text \<open>What the schedule reads of a node and nothing but the mode manager changes.\<close>

definition settings :: "Node \<Rightarrow> Options \<times> bool" where
  "settings n = ((n_options n)\<lparr>o_VNodeEntries := []\<rparr>, n_tracker n)"

lemma setFinger_settings [simp]: "n_options (setFinger i s n) = n_options n"
  "n_tracker (setFinger i s n) = n_tracker n" "n_maintenanceMode (setFinger i s n) = n_maintenanceMode n"
  by (simp_all add: setFinger_def)

lemma section_step_settings:
  assumes "section_step manager n n'"
  shows "settings n' = settings n" and "\<not> manager \<Longrightarrow> n_maintenanceMode n' = n_maintenanceMode n"
  using assms
  by (induction rule: section_step.induct)
    (auto simp: settings_def small_steps invalidateRoutes_def cache_get_def cache_put_def cleanRoutes_def record_rtt_def
      cleanRTT_def markSuccess_def markFailure_def nextKFingerIndices_def repairOK_def repairFailed_def fixOne_def
      activateSingle_def joinVia_def isolate_def standAlone_def setSuccessor_def adoptSuccessor_def commitValid_def
      acceptPredecessor_def fillPredecessorList_def handleLeave_def Let_def case_prod_beta
      split: option.splits sum.splits)

lemma section_steps_settings:
  assumes "(section_step manager)\<^sup>*\<^sup>* n n'"
  shows "settings n' = settings n" and "\<not> manager \<Longrightarrow> n_maintenanceMode n' = n_maintenanceMode n"
  using assms by (induction rule: rtranclp_induct) (auto simp: section_step_settings)


text \<open>The least pause of a loop, over both modes.\<close>

definition minPause :: "loop \<Rightarrow> Node \<Rightarrow> duration" where
  "minPause l n =
     min (loopPause l (n\<lparr>n_maintenanceMode := ActiveMaintenance\<rparr>)) (loopPause l (n\<lparr>n_maintenanceMode := QuietMaintenance\<rparr>))"

lemmas intervals = getStabilizeInterval_def getFixFingersInterval_def getCheckPredecessorInterval_def
  getLatencyProbeInterval_def by_mode_def

lemma minPause_le: "minPause l n \<le> loopPause l n"
proof (cases "n_maintenanceMode n")
  case ActiveMaintenance
  then have "n\<lparr>n_maintenanceMode := ActiveMaintenance\<rparr> = n" by simp
  then show ?thesis unfolding minPause_def by simp
next
  case QuietMaintenance
  then have "n\<lparr>n_maintenanceMode := QuietMaintenance\<rparr> = n" by simp
  then show ?thesis unfolding minPause_def by simp
qed

lemmas default_intervals = DefaultStabilizeActiveInterval_def DefaultStabilizeQuietInterval_def
  DefaultFixFingersActiveInterval_def DefaultFixFingersQuietInterval_def
  DefaultCheckPredecessorActiveInterval_def DefaultCheckPredecessorQuietInterval_def
  DefaultLatencyProbeActiveInterval_def DefaultLatencyProbeQuietInterval_def

lemma minPause_pos: "launched l n \<Longrightarrow> 0 < minPause l n"
  by (cases l) (auto simp: minPause_def intervals default_intervals Second_def)

lemma settings_options:
  assumes "settings n' = settings n"
  shows "n_tracker n' = n_tracker n" "\<And>f. (\<And>opts es. f (opts\<lparr>o_VNodeEntries := es\<rparr>) = f opts) \<Longrightarrow> f (n_options n') = f (n_options n)"
proof -
  show "n_tracker n' = n_tracker n" using assms by (simp add: settings_def)
  fix f :: "Options \<Rightarrow> 'a"
  assume f: "\<And>opts es. f (opts\<lparr>o_VNodeEntries := es\<rparr>) = f opts"
  have "f ((n_options n')\<lparr>o_VNodeEntries := []\<rparr>) = f ((n_options n)\<lparr>o_VNodeEntries := []\<rparr>)"
    using assms by (simp add: settings_def)
  then show "f (n_options n') = f (n_options n)" by (simp add: f)
qed

lemma settings_schedule:
  assumes s: "settings n' = settings n"
  shows "launched l n' = launched l n" "minPause l n' = minPause l n" "modeWindow n' = modeWindow n"
proof -
  note o = settings_options(2) [OF s]
  show "launched l n' = launched l n"
    using settings_options(1) [OF s] o [of o_InvariantAuditInterval] o [of o_VNodeIndex] o [of o_AnchorID]
    by (cases l) (simp_all add: IsVNode_def)
  show "minPause l n' = minPause l n"
    using o [of o_InvariantAuditInterval] o [of o_StabilizeActiveInterval] o [of o_StabilizeQuietInterval]
      o [of o_FixFingersActiveInterval] o [of o_FixFingersQuietInterval]
      o [of o_CheckPredecessorActiveInterval] o [of o_CheckPredecessorQuietInterval]
      o [of o_LatencyProbeIntervalActive] o [of o_LatencyProbeIntervalQuiet]
    by (cases l) (simp_all add: minPause_def intervals)
  show "modeWindow n' = modeWindow n"
    using o [of o_TopologyChangeWindow] by (simp add: modeWindow_def)
qed

lemma moves_invariantAudit [safe_intros]: "ns.moves manager me lm pl (invariantAuditBody E)"
  unfolding invariantAuditBody_def by (intro safe_intros)

lemma moves_loopBody: "ns.moves manager me lm pl (loopBody E l)"
  by (cases l) (simp_all add: ignore_def safe_intros)

section \<open>The schedule keeps the node\<close>

definition node_ok :: "'w sched \<Rightarrow> bool" where
  "node_ok s \<longleftrightarrow> (\<exists>me lm pl. node_inv me lm pl (sc_node s))"

lemma exec_steps:
  assumes "\<And>me lm pl. ns.moves manager me lm pl m" and "node_ok s"
  shows "(section_step manager)\<^sup>*\<^sup>* (sc_node s) (sc_node (exec m s))"
  using assms ns.moves_steps unfolding node_ok_def exec_def by fastforce

lemma node_steps_ok:
  "(section_step manager)\<^sup>*\<^sup>* (sc_node s) (sc_node s') \<Longrightarrow> node_ok s \<Longrightarrow> node_ok s'"
  unfolding node_ok_def using ns.kept_steps by blast

lemma section_step_any: "section_step False n n' \<Longrightarrow> section_step True n n'"
  by (induction rule: section_step.induct) (auto intro: section_step.intros)

lemma section_steps_any: "(section_step manager)\<^sup>*\<^sup>* n n' \<Longrightarrow> node_step\<^sup>*\<^sup>* n n'"
proof (cases manager)
  case False
  assume st: "(section_step manager)\<^sup>*\<^sup>* n n'"
  have "section_step False \<le> node_step" using section_step_any by blast
  then have "(section_step manager)\<^sup>*\<^sup>* \<le> node_step\<^sup>*\<^sup>*"
    using False rtranclp_mono [of "section_step False" node_step] by simp
  then show "node_step\<^sup>*\<^sup>* n n'" using st by (rule predicate2D)
qed simp

text \<open>Every step but the mode manager's moves the node by sections that keep the mode.\<close>

lemma maint_step_node:
  assumes "maint_step E a s s'" and ok: "node_ok s"
  shows "(section_step (a = Change \<or> a = Quiet))\<^sup>*\<^sup>* (sc_node s) (sc_node s')"
  using assms(1)
proof (cases rule: maint_step.cases)
  case (fire l d e)
  have "(section_step False)\<^sup>*\<^sup>* (sc_node s) (sc_node (exec (loopBody E l) s))"
    by (rule exec_steps [OF moves_loopBody ok])
  then show ?thesis using fire by (simp add: fire_def Let_def)
next
  case (change q)
  have "(section_step True)\<^sup>*\<^sup>* (sc_node s) (sc_node (exec (modeOnChange E) s))"
    by (rule exec_steps [OF moves_loops(8) ok])
  then show ?thesis using change by (simp add: onChange_def)
next
  case (quiet q)
  have "(section_step True)\<^sup>*\<^sup>* (sc_node s) (sc_node (exec modeOnQuiet s))"
    by (rule exec_steps [OF moves_loops(9) ok])
  then show ?thesis using quiet by (simp add: onQuiet_def)
qed auto

lemma maint_run_node:
  assumes "maint_run E s tr s'" and "node_ok s"
  shows "node_ok s'" "node_step\<^sup>*\<^sup>* (sc_node s) (sc_node s')" "settings (sc_node s') = settings (sc_node s)"
proof -
  have "node_ok s' \<and> node_step\<^sup>*\<^sup>* (sc_node s) (sc_node s')"
    using assms
  proof (induction rule: maint_run.induct)
    case (maint_snoc tr s' a s'')
    then have "(section_step (a = Change \<or> a = Quiet))\<^sup>*\<^sup>* (sc_node s') (sc_node s'')"
      using maint_step_node by blast
    then show ?case using maint_snoc node_steps_ok section_steps_any rtranclp_trans by metis
  qed simp
  then show "node_ok s'" "node_step\<^sup>*\<^sup>* (sc_node s) (sc_node s')" by auto
  then show "settings (sc_node s') = settings (sc_node s)" using section_steps_settings(1) by blast
qed


section \<open>Pacing\<close>

text \<open>After \<open>k\<close> runs of a body since \<open>c\<close>, its timer is due \<open>k\<close> pauses after its first due time at the
  earliest, and the clock has reached the last but one.\<close>

definition paced :: "loop \<Rightarrow> int \<Rightarrow> duration \<Rightarrow> nat \<Rightarrow> 'w sched \<Rightarrow> bool" where
  "paced l c p k s \<longleftrightarrow>
     (\<forall>d. due (sc_loops s l) = Some d \<longrightarrow> c + int k * p \<le> d) \<and>
     (0 < k \<longrightarrow> c + (int k - 1) * p \<le> sc_clock s)"

lemma nextTick_after: "0 < p \<Longrightarrow> d \<le> c \<Longrightarrow> d + p \<le> nextTick p d c"
  by (simp add: nextTick_def pos_imp_zdiv_nonneg_iff distrib_right)

lemma nextTick_first:
  assumes "0 < p"
  shows "c < nextTick p d c" and "nextTick p d c \<le> c + p" and "p dvd nextTick p d c - d"
proof -
  have e: "(c - d) div p * p = c - d - (c - d) mod p" by (simp add: minus_mod_eq_div_mult)
  show "c < nextTick p d c" and "nextTick p d c \<le> c + p"
    using assms pos_mod_sign [of p "c - d"] pos_mod_bound [of p "c - d"] e by (auto simp: nextTick_def distrib_right)
  show "p dvd nextTick p d c - d" by (simp add: nextTick_def)
qed

lemma rearm_due:
  assumes "due st = Some d" and "d \<le> c" and "0 \<le> e" and "0 < p" and "p \<le> loopPause l n"
    and "due (rearm l st c e n) = Some d'"
  shows "d + p \<le> d'"
  using assms nextTick_after [of "loopPause l n" d c]
  by (cases st) (auto simp: rearm_def split: if_splits)

lemma paced_step:
  assumes "maint_step E a s s'" and "paced l c p k s" and p: "0 < p" and "0 \<le> int k"
    and le: "p \<le> loopPause l (sc_node s')"
  shows "paced l c p (k + (if a = Fire l then 1 else 0)) s'"
  using assms(1)
proof (cases rule: maint_step.cases)
  case (fire l' d e)
  let ?n = "sc_node (exec (loopBody E l') s)"
  show ?thesis
  proof (cases "l' = l")
    case True
    have "c + int k * p \<le> d" using assms(2) fire(3) True by (simp add: paced_def)
    moreover have "d + p \<le> d'" if "due (rearm l (sc_loops s l) (sc_clock s) e ?n) = Some d'" for d'
      using rearm_due [OF _ _ _ p _ that] fire le True by (simp add: fire_def Let_def)
    ultimately show ?thesis using fire True
      by (fastforce simp: paced_def fire_def Let_def distrib_right)
  qed (use assms(2) fire in \<open>auto simp: paced_def fire_def Let_def\<close>)
qed (use assms(2) in \<open>auto simp: paced_def onChange_def onQuiet_def exec_def\<close>)

lemma paced_run:
  assumes "maint_run E s tr s'" and ok: "node_ok s" and "paced l c (minPause l (sc_node s)) 0 s"
    and pos: "0 < minPause l (sc_node s)"
  shows "paced l c (minPause l (sc_node s)) (count_list tr (Fire l)) s'"
  using assms(1) assms(3)
proof (induction rule: maint_run.induct)
  case (maint_snoc tr s' a s'')
  have "maint_run E s (tr @ [a]) s''" using maint_snoc.hyps by (rule maint_run.maint_snoc)
  then have "minPause l (sc_node s) \<le> loopPause l (sc_node s'')"
    using maint_run_node(3) [OF _ ok] settings_schedule(2) minPause_le by metis
  then show ?case
    using paced_step [OF maint_snoc.hyps(2) maint_snoc.IH [OF maint_snoc.prems] pos] by auto
qed simp

lemma stopped_run:
  assumes "maint_run E s tr s'" and "sc_loops s l = Stopped"
  shows "sc_loops s' l = Stopped \<and> count_list tr (Fire l) = 0"
  using assms
proof (induction rule: maint_run.induct)
  case (maint_snoc tr s' a s'')
  then have st: "sc_loops s' l = Stopped" and c: "count_list tr (Fire l) = 0" by auto
  from maint_snoc.hyps(2) st have "sc_loops s'' l = Stopped \<and> a \<noteq> Fire l"
    by (cases rule: maint_step.cases) (auto simp: fire_def onChange_def onQuiet_def exec_def Let_def)
  then show ?case using c by simp
qed simp


section \<open>The mode manager\<close>

lemma onChange_mode:
  assumes "n_topologyChangeCh (sc_node s)"
  shows "n_maintenanceMode (sc_node (onChange E s)) = ActiveMaintenance"
    and "\<not> n_topologyChangeCh (sc_node (onChange E s))"
  using assms by (simp_all add: onChange_def exec_def modeOnChange_def now_def if_then_def switchMode_def)

lemma onQuiet_mode: "n_maintenanceMode (sc_node (onQuiet s)) = QuietMaintenance"
  by (simp add: onQuiet_def exec_def modeOnQuiet_def switchMode_def)

text \<open>Since the change handled at \<open>c\<close>: active with the timer set past the window, or the window is over.\<close>

definition quiet_only_after :: "int \<Rightarrow> 'w sched \<Rightarrow> bool" where
  "quiet_only_after c s \<longleftrightarrow>
     (n_maintenanceMode (sc_node s) = ActiveMaintenance \<and> (\<forall>q. sc_quiet s = Some q \<longrightarrow> c + sc_window s \<le> q)) \<or>
     c + sc_window s \<le> sc_clock s"

definition timer_near :: "'w sched \<Rightarrow> bool" where
  "timer_near s \<longleftrightarrow> (\<forall>q. sc_quiet s = Some q \<longrightarrow> q \<le> sc_clock s + sc_window s)"

lemma maint_step_clock:
  assumes "maint_step E a s s'"
  shows "sc_clock s \<le> sc_clock s'" "sc_window s' = sc_window s" "timer_near s \<Longrightarrow> timer_near s'"
  using assms
  by (cases rule: maint_step.cases;
      auto simp: timer_near_def fire_def onChange_def onQuiet_def exec_def Let_def)+

lemma maint_run_clock:
  assumes "maint_run E s tr s'"
  shows "sc_clock s \<le> sc_clock s'" "sc_window s' = sc_window s" "timer_near s \<Longrightarrow> timer_near s'"
  using assms by (induction rule: maint_run.induct) (auto dest: maint_step_clock)

lemma quiet_only_after_step:
  assumes "maint_step E a s s'" and ok: "node_ok s" and q: "quiet_only_after c s" and "c \<le> sc_clock s"
  shows "quiet_only_after c s'"
proof -
  have mode: "n_maintenanceMode (sc_node s') = n_maintenanceMode (sc_node s)" if "a \<noteq> Change" "a \<noteq> Quiet"
    using section_steps_settings(2) [OF maint_step_node [OF assms(1) ok]] that by simp
  note after = maint_step_clock [OF assms(1)]
  from assms(1) show ?thesis
  proof (cases rule: maint_step.cases)
    case (change q')
    then show ?thesis using assms(4) onChange_mode(1) [of s E] after
      by (simp add: quiet_only_after_def) (simp add: onChange_def exec_def)
  next
    case (quiet q')
    then show ?thesis using q by (auto simp: quiet_only_after_def onQuiet_def exec_def)
  next
    case (fire l d e)
    then show ?thesis using q mode after by (auto simp: quiet_only_after_def fire_def exec_def Let_def)
  qed (use q mode after in \<open>auto simp: quiet_only_after_def\<close>)
qed

lemma quiet_only_after_run:
  assumes "maint_run E s tr s'" and "node_ok s" and "quiet_only_after c s" and "c \<le> sc_clock s"
  shows "quiet_only_after c s'"
  using assms(1,3)
proof (induction rule: maint_run.induct)
  case (maint_snoc tr s' a s'')
  show ?case
  proof (rule quiet_only_after_step [OF maint_snoc.hyps(2)])
    show "node_ok s'" by (rule maint_run_node(1) [OF maint_snoc.hyps(1) assms(2)])
    show "quiet_only_after c s'" using maint_snoc by blast
    show "c \<le> sc_clock s'" using maint_run_clock(1) [OF maint_snoc.hyps(1)] assms(4) by simp
  qed
qed simp

lemma reachable_ok:
  "node_reachable L uri opts (sc_node s) \<Longrightarrow> sha1_ok L \<Longrightarrow> shared_ok opts \<Longrightarrow> node_ok s"
  unfolding node_ok_def using node_reachable_inv by blast

text \<open>A virtual node starts within one interval and the jitter, where 64 bits hold the product.\<close>

lemma startDelay_within:
  assumes "0 \<le> r" and "r < jitterMax n" and i: "o_VNodeIndex (n_options n) \<le> o_MaxVNodes (n_options n)"
    and small: "o_VNodeIndex (n_options n) * getStabilizeInterval n < 2 ^ 63" "o_MaxVNodes (n_options n) + 1 < 2 ^ 63"
      "getStabilizeInterval n + jitterMax n \<le> 2 ^ 63"
  shows "0 \<le> startDelay r n \<and> startDelay r n < getStabilizeInterval n + jitterMax n"
proof (cases "o_VNodeIndex (n_options n) > 0 \<and> o_MaxVNodes (n_options n) > 0")
  case True
  let ?k = "o_VNodeIndex (n_options n)" and ?m = "o_MaxVNodes (n_options n)" and ?b = "getStabilizeInterval n"
  have b: "0 < ?b" using minPause_pos [of StabilizeLoop n] minPause_le [of StabilizeLoop n] by simp
  let ?q = "?k * ?b div (?m + 1)"
  have "?k * ?b < (?m + 1) * ?b" using b i by simp
  moreover have "?q * (?m + 1) \<le> ?k * ?b"
    using True by (simp add: minus_mod_eq_div_mult [symmetric])
  ultimately have "?q * (?m + 1) < ?b * (?m + 1)" by (simp add: mult.commute)
  then have "?q < ?b" using True by (simp add: mult_less_cancel_right)
  moreover have "0 \<le> ?q" using True b by (simp add: pos_imp_zdiv_nonneg_iff)
  moreover have "goQuot (wrap64 (?k * ?b)) (wrap64 (?m + 1)) = wrap64 ?q"
  proof -
    have kb: "0 < ?k * ?b" using True b by simp
    then have w: "wrap64 (?k * ?b) = ?k * ?b" "wrap64 (?m + 1) = ?m + 1"
      using True small(1,2) by (auto intro: wrap64_id)
    show ?thesis unfolding goQuot_def w using kb True by simp
  qed
  ultimately show ?thesis
    using True small assms(1,2) by (simp add: startDelay_def wrap64_id)
qed (use assms in \<open>auto simp: startDelay_def intervals default_intervals Second_def\<close>)


section \<open>The schedule from the launch\<close>

text \<open>C14: From the start of a node's maintenance, whichever way its loops, the mode manager and other
  goroutines interleave: a loop that is launched has a positive pause in both modes, and its body has
  run at most once more than whole pauses have passed since the start, so no loop spins; a loop that is
  not launched never runs; the clock has passed the virtual node's stagger, for some jitter; and the
  node is in a reachable state.\<close>

theorem maintenance_paced:
  fixes gs :: "(Node, 'w, task) gst"
  assumes "node_reachable L uri opts (nd gs)" and "sha1_ok L" and "shared_ok opts"
    and start: "RunMaintenance c gs (Some s0)" and run: "maint_run E s0 tr s"
  shows "node_reachable L uri opts (sc_node s) \<and> c \<le> sc_clock s \<and>
    (\<exists>r. 0 \<le> r \<and> r < jitterMax (nd gs) \<and> c + startDelay r (nd gs) \<le> sc_clock s) \<and>
    (if launched l (nd gs)
     then 0 < minPause l (nd gs) \<and> (int (count_list tr (Fire l)) - 1) * minPause l (nd gs) \<le> sc_clock s - c
     else count_list tr (Fire l) = 0)"
proof -
  from start obtain t r where t: "s0 = launch t gs" "c \<le> t"
    and r: "0 \<le> r" "r < jitterMax (nd gs)" "c + startDelay r (nd gs) \<le> t"
    by (cases rule: RunMaintenance.cases) auto
  have ok: "node_ok s0" using reachable_ok [of L uri opts s0] assms(1-3) t by (simp add: launch_def)
  have clock: "t \<le> sc_clock s" using maint_run_clock(1) [OF run] t by (simp add: launch_def)
  have reach: "node_reachable L uri opts (sc_node s)"
    using node_reachable_steps [OF maint_run_node(2) [OF run ok]] assms(1) t by (simp add: launch_def)
  have "(int (count_list tr (Fire l)) - 1) * minPause l (nd gs) \<le> sc_clock s - c" if l: "launched l (nd gs)"
  proof -
    have p: "0 < minPause l (nd gs)" by (rule minPause_pos [OF l])
    have "paced l t (minPause l (sc_node s0)) 0 s0" if "0 \<le> firstWait l (nd gs)"
      using that l t by (simp add: paced_def launch_def)
    then have "paced l t (minPause l (nd gs)) (count_list tr (Fire l)) s"
      using paced_run [OF run ok] p t l by (cases l) (simp_all add: launch_def Second_def)
    then show ?thesis using clock t p
      by (cases "count_list tr (Fire l) = 0") (auto simp: paced_def)
  qed
  moreover have "count_list tr (Fire l) = 0" if "\<not> launched l (nd gs)"
    using stopped_run [OF run, of l] that t by (simp add: launch_def)
  moreover have "\<exists>r. 0 \<le> r \<and> r < jitterMax (nd gs) \<and> c + startDelay r (nd gs) \<le> sc_clock s"
    using r clock by (intro exI [of _ r]) simp
  ultimately show ?thesis using reach clock t minPause_pos by auto
qed

text \<open>C15: The maintenance mode follows the ring. A topology change that the mode manager takes makes the
  node active and clears the signal, whatever happens in between it is quiet again only when a whole
  window has passed, and the quiet timer is never more than a window away: when it is due the manager
  can switch to quiet.\<close>

theorem maintenance_mode:
  fixes gs :: "(Node, 'w, task) gst"
  assumes "node_reachable L uri opts (nd gs)" and "sha1_ok L" and "shared_ok opts"
    and start: "RunMaintenance c gs (Some s0)" and run: "maint_run E s0 tr s1"
    and change: "maint_step E Change s1 s2" and run': "maint_run E s2 tr' s3"
  shows "n_maintenanceMode (sc_node s2) = ActiveMaintenance \<and> \<not> n_topologyChangeCh (sc_node s2) \<and>
    (n_maintenanceMode (sc_node s3) = QuietMaintenance \<longrightarrow> sc_clock s1 + modeWindow (nd gs) \<le> sc_clock s3) \<and>
    (\<forall>q. sc_quiet s3 = Some q \<longrightarrow> q \<le> sc_clock s3 + modeWindow (nd gs) \<and>
       (q \<le> sc_clock s3 \<longrightarrow> (\<exists>s4. maint_step E Quiet s3 s4 \<and> n_maintenanceMode (sc_node s4) = QuietMaintenance)))"
proof -
  from start obtain t where t: "s0 = launch t gs" by (cases rule: RunMaintenance.cases) auto
  have "node_ok s0" using reachable_ok [of L uri opts s0] assms(1-3) t by (simp add: launch_def)
  then have ok1: "node_ok s1" by (rule maint_run_node(1) [OF run])
  have ok2: "node_ok s2" using node_steps_ok [OF maint_step_node [OF change ok1] ok1] .
  have s2: "s2 = onChange E s1" "n_topologyChangeCh (sc_node s1)" using change by (auto simp: maint_step_Change)
  have near: "timer_near s0" using t by (simp add: timer_near_def launch_def)
  have w: "sc_window s2 = modeWindow (nd gs)" "sc_window s3 = modeWindow (nd gs)"
    using maint_run_clock(2) [OF run] maint_step_clock(2) [OF change] maint_run_clock(2) [OF run'] t
    by (simp_all add: launch_def)
  have "quiet_only_after (sc_clock s1) s2"
    using onChange_mode(1) [OF s2(2), of E] s2(1) by (simp add: quiet_only_after_def) (simp add: onChange_def exec_def)
  then have "quiet_only_after (sc_clock s1) s3"
    using quiet_only_after_run [OF run' ok2] maint_step_clock(1) [OF change] by blast
  moreover have "timer_near s3"
    using near maint_run_clock(3) [OF run] maint_step_clock(3) [OF change] maint_run_clock(3) [OF run'] by blast
  ultimately show ?thesis
    using onChange_mode [OF s2(2), of E] onQuiet_mode s2(1) w
    by (auto simp: quiet_only_after_def timer_near_def maint_step_Quiet)
qed


lemma fresh_schedule:
  "\<exists>n. \<forall>gs :: (Node, 'w, task) gst. nd gs = n \<longrightarrow> node_reachable demo_lib ''https://a'' DefaultOptions (nd gs) \<and>
     RunMaintenance 0 gs (Some (launch 0 gs)) \<and> n_topologyChangeCh (nd gs) \<and> launched StabilizeLoop (nd gs)"
proof -
  obtain self where n: "NewNode demo_lib ''https://a'' DefaultOptions True True 1 =
      Inr (fresh_node self (NewNode_options DefaultOptions) True True 1)" using NewNode_demo by blast
  let ?n = "signalTopologyChange (fresh_node self (NewNode_options DefaultOptions) True True 1)"
  have r: "node_reachable demo_lib ''https://a'' DefaultOptions ?n"
    by (rule node_reachable.step [OF node_reachable.construct [OF n] section_step.signal_change])
  have "RunMaintenance 0 gs (Some (launch 0 gs))" if "nd gs = ?n" for gs :: "(Node, 'w, task) gst"
  proof (rule RunMaintenance.started [where r = 0])
    show "(0::int) < jitterMax (nd gs)" by (simp add: jitterMax_def DefaultVNodeMaintenanceJitter_def Second_def Let_def)
    have "o_VNodeIndex (n_options (nd gs)) = 0"
      by (simp add: that signalTopologyChange_def fresh_node_def NewNode_options_def DefaultOptions_def)
    then show "0 + startDelay 0 (nd gs) \<le> (0::int)" by (simp add: startDelay_def)
  qed simp_all
  then show ?thesis using r by (intro exI [of _ ?n]) (simp add: signalTopologyChange_def)
qed

lemma maintenance_paced_witness:
  "\<exists>n. \<forall>(E :: unit env) gs. nd gs = n \<longrightarrow>
     (\<exists>s. maint_run E (launch 0 gs) [Fire StabilizeLoop] s \<and> node_reachable demo_lib ''https://a'' DefaultOptions (sc_node s) \<and>
       (int (count_list [Fire StabilizeLoop] (Fire StabilizeLoop)) - 1) * minPause StabilizeLoop n \<le> sc_clock s)"
proof -
  obtain n where n: "\<And>gs :: (Node, unit, task) gst. nd gs = n \<Longrightarrow> node_reachable demo_lib ''https://a'' DefaultOptions (nd gs) \<and>
     RunMaintenance 0 gs (Some (launch 0 gs)) \<and> launched StabilizeLoop (nd gs)" using fresh_schedule by metis
  have s: "shared_ok DefaultOptions" by (simp add: shared_ok_def DefaultOptions_def)
  have "\<exists>s. maint_run E (launch 0 gs) [Fire StabilizeLoop] s \<and> node_reachable demo_lib ''https://a'' DefaultOptions (sc_node s) \<and>
      (int (count_list [Fire StabilizeLoop] (Fire StabilizeLoop)) - 1) * minPause StabilizeLoop n \<le> sc_clock s"
    if gs: "nd gs = n" for E :: "unit env" and gs
  proof -
    have "maint_step E (Fire StabilizeLoop) (launch 0 gs) (Loops.fire E 0 StabilizeLoop (launch 0 gs))"
      by (rule maint_step.fire [where d = 0]) (simp_all add: launch_def)
    then have run: "maint_run E (launch 0 gs) ([] @ [Fire StabilizeLoop]) (Loops.fire E 0 StabilizeLoop (launch 0 gs))"
      by (rule maint_run.maint_snoc [OF maint_run.maint_refl])
    show ?thesis
      using maintenance_paced [OF _ demo_lib_ok(1) s _ run, where uri = "''https://a''" and c = 0 and gs = gs and l = StabilizeLoop] n [OF gs] gs run
      by (intro exI [of _ "Loops.fire E 0 StabilizeLoop (launch 0 gs)"]) simp
  qed
  then show ?thesis by blast
qed

lemma maintenance_mode_witness:
  "\<exists>n. \<forall>(E :: unit env) gs. nd gs = n \<longrightarrow>
     (\<exists>s2 s3. maint_step E Change (launch 0 gs) s2 \<and> maint_run E s2 [Elapse] s3 \<and> sc_clock s3 = modeWindow n \<and>
       (\<exists>s4. maint_step E Quiet s3 s4 \<and> n_maintenanceMode (sc_node s4) = QuietMaintenance))"
proof -
  obtain n where n: "\<And>gs :: (Node, unit, task) gst. nd gs = n \<Longrightarrow> node_reachable demo_lib ''https://a'' DefaultOptions (nd gs) \<and>
     RunMaintenance 0 gs (Some (launch 0 gs)) \<and> n_topologyChangeCh (nd gs)" using fresh_schedule by metis
  have s: "shared_ok DefaultOptions" by (simp add: shared_ok_def DefaultOptions_def)
  have w: "0 \<le> modeWindow n" by (simp add: modeWindow_def DefaultTopologyChangeWindow_def Second_def Let_def)
  have "\<exists>s2 s3. maint_step E Change (launch 0 gs) s2 \<and> maint_run E s2 [Elapse] s3 \<and> sc_clock s3 = modeWindow n \<and>
       (\<exists>s4. maint_step E Quiet s3 s4 \<and> n_maintenanceMode (sc_node s4) = QuietMaintenance)"
    if gs: "nd gs = n" for E :: "unit env" and gs
  proof -
    let ?s0 = "launch 0 gs"
    let ?s2 = "onChange E ?s0"
    let ?s3 = "?s2\<lparr>sc_clock := sc_clock ?s2 + modeWindow n\<rparr>"
    have change: "maint_step E Change ?s0 ?s2"
      by (rule maint_step.change) (use n [OF gs] in \<open>simp_all add: launch_def\<close>)
    have run: "maint_run E ?s2 ([] @ [Elapse]) ?s3"
      by (rule maint_run.maint_snoc [OF maint_run.maint_refl maint_step.elapse [OF w]])
    have q: "sc_quiet ?s3 = Some (modeWindow n)" "sc_clock ?s3 = modeWindow n"
      by (simp_all add: onChange_def exec_def launch_def gs)
    show ?thesis
      using maintenance_mode [OF _ demo_lib_ok(1) s _ maint_run.maint_refl change run, where uri = "''https://a''" and c = 0 and gs = gs]
        n [OF gs] q change run
      by (intro exI [of _ ?s2] exI [of _ ?s3]) simp
  qed
  then show ?thesis by blast
qed

end
