(* ===== verification/Certificates.thy ===== *)
theory Certificates
  imports VNodeProofs "HOL-Library.List_Lexorder"
begin

text \<open>
  Certificates and the revocation list (\<open>internal/auth/cert.go\<close>, \<open>crl.go\<close>). \<open>encoding/json\<close> and
  \<open>crypto/sha256\<close> are the record \<open>codecs\<close>; \<open>codecs_ok\<close> says that decoding an encoded certificate
  gives it back when its texts are ASCII and its numbers 64-bit, and that a digest has 32 bytes.
\<close>

section \<open>Data\<close>

record Certificate =
  cVersion :: int
  cNodeID :: string
  cURI :: string
  cPublicKey :: string
  cIssuedAt :: int
  cExpiresAt :: int
  cSignature :: string

record CRL =
  crlVersion :: int
  crlUpdatedAt :: int
  crlRevokedIDs :: "string list"
  crlSignature :: string

record codecs =
  sha256_Sum :: "string \<Rightarrow> string"
  json_Certificate :: "string \<Rightarrow> goerror + Certificate"
  json_MarshalCertificate :: "Certificate \<Rightarrow> string"
  json_CRL :: "string \<Rightarrow> goerror + CRL"
  json_VNodeProof :: "string \<Rightarrow> goerror + VNodeProof"

definition ascii :: "string \<Rightarrow> bool" where
  "ascii s \<longleftrightarrow> list_all (\<lambda>c. of_char c < (128 :: nat)) s"

definition ascii_cert :: "Certificate \<Rightarrow> bool" where
  "ascii_cert c \<longleftrightarrow> ascii (cNodeID c) \<and> ascii (cURI c) \<and> ascii (cPublicKey c) \<and> ascii (cSignature c) \<and>
     wrap64 (cVersion c) = cVersion c \<and> wrap64 (cIssuedAt c) = cIssuedAt c \<and> wrap64 (cExpiresAt c) = cExpiresAt c"

definition codecs_ok :: "codecs \<Rightarrow> bool" where
  "codecs_ok J \<longleftrightarrow>
     (\<forall>m. length (sha256_Sum J m) = 32) \<and>
     (\<forall>c. ascii_cert c \<longrightarrow> json_Certificate J (json_MarshalCertificate J c) = Inr c)"

section \<open>URI normalisation, once more\<close>

text \<open>The copy of \<open>chord.NormalizeURI\<close> that keeps the package free of \<open>internal/chord\<close>.\<close>

definition normalizeURI :: "golib \<Rightarrow> string \<Rightarrow> goerror + string" where
  "normalizeURI L raw =
     (case url_Parse L (TrimSpace raw) of
        Inl e \<Rightarrow> Inl e
      | Inr u \<Rightarrow>
          if Scheme u \<noteq> ''https'' then Inl (GoError ''uri must use https scheme'')
          else if Host u = [] \<or> HasUser u \<or> RawQuery u \<noteq> [] \<or> Fragment u \<noteq> []
          then Inl (GoError ''uri must be absolute https without userinfo, query, or fragment'')
          else if Path u \<noteq> [] \<and> Path u \<noteq> ''/'' then Inl (GoError ''uri must not include a path'')
          else
            let host = ToLower (Hostname u)
            in if host = [] then Inl (GoError ''uri host is required'')
               else
                 let host' = (if CHR '':'' \<in> set host then ''['' @ host @ '']'' else host);
                     port = (if Port u = ''443'' then [] else Port u)
                 in if port \<noteq> []
                    then (if LookupPort_ok port
                          then Inr (''https://'' @ JoinHostPort (Trim host' ''[]'') port)
                          else Inl (GoError ''invalid uri port''))
                    else Inr (''https://'' @ host'))"

text \<open>\<open>deriveVNodeID\<close> of \<open>verifier.go\<close>, the copy of \<open>chord.DeriveVNodeID\<close>.\<close>

definition deriveVNodeID :: "golib \<Rightarrow> string \<Rightarrow> int \<Rightarrow> string" where
  "deriveVNodeID L anchorID index =
     hex_EncodeToString (sha1_Sum L (''chord-vnode-v4'' @ newline @ anchorID @ newline @ itoa index))"

text \<open>The two copies agree with the originals of \<open>internal/chord\<close>: both normalisations accept the
  same URIs with the same result, and differ in the text of one error only; the virtual node IDs are
  equal. A certificate and a node therefore name the same node by the same URI.\<close>

lemma auth_copies_agree:
  "(case (normalizeURI L raw, NormalizeURI L raw) of
      (Inr a, Inr b) \<Rightarrow> a = b
    | (Inl e, Inl e') \<Rightarrow> e = e' \<or>
        e = GoError ''uri must be absolute https without userinfo, query, or fragment''
    | _ \<Rightarrow> False) \<and>
   deriveVNodeID L anchorID index = DeriveVNodeID L anchorID index"
  by (simp add: normalizeURI_def NormalizeURI_def deriveVNodeID_def DeriveVNodeID_def Let_def
      split: sum.splits)

lemma normalizeURI_eq: "normalizeURI L raw = Inr n \<longleftrightarrow> NormalizeURI L raw = Inr n"
  by (simp add: normalizeURI_def NormalizeURI_def Let_def split: sum.splits)

section \<open>Certificates\<close>

definition line :: "string \<Rightarrow> string \<Rightarrow> string" where
  "line name v = newline @ name @ ''='' @ v"

definition certSignedMessage :: "Certificate \<Rightarrow> string" where
  "certSignedMessage c =
     ''chord-cert-v1'' @ line ''node_id'' (cNodeID c) @ line ''uri'' (cURI c) @
     line ''public_key'' (cPublicKey c) @ line ''issued_at'' (itoa (cIssuedAt c)) @
     line ''expires_at'' (itoa (cExpiresAt c))"

definition SecondsDuration :: "int \<Rightarrow> duration" where
  "SecondsDuration s = wrap64 (s * Second)"

definition VerifyCertificate ::
  "golib \<Rightarrow> ed25519 \<Rightarrow> Certificate \<Rightarrow> string \<Rightarrow> gotime \<Rightarrow> int \<Rightarrow> goerror + unit" where
  "VerifyCertificate L K c caPublicKey now toleranceSecs =
     (if cVersion c \<noteq> 1 then Inl (GoError ''unsupported certificate version'')
      else if length (cNodeID c) \<noteq> 40 then Inl (GoError ''cert node_id must be 40 hex characters'')
      else if (case rawurl_Decode (cPublicKey c) of None \<Rightarrow> True | Some b \<Rightarrow> length b \<noteq> 32)
      then Inl (GoError ''cert public_key must be base64url-encoded 32-byte Ed25519 key'')
      else if cIssuedAt c \<ge> cExpiresAt c
      then Inl (GoError ''cert issued_at must be before expires_at'')
      else case normalizeURI L (cURI c) of
        Inl e \<Rightarrow> Inl (GoError (''cert uri invalid: '' @ errorText e))
      | Inr normalized \<Rightarrow>
          let expectedID = hex_EncodeToString (sha1_Sum L normalized)
          in if cNodeID c \<noteq> expectedID
          then Inl (GoError (''cert node_id '' @ cNodeID c @ '' does not match sha1(uri) '' @ expectedID))
          else case rawurl_Decode (cSignature c) of
            None \<Rightarrow> Inl (GoError ''cert signature must be base64url-encoded 64-byte Ed25519 signature'')
          | Some sigBytes \<Rightarrow>
              if length sigBytes \<noteq> 64
              then Inl (GoError ''cert signature must be base64url-encoded 64-byte Ed25519 signature'')
              else case ed25519_Verify K caPublicKey (certSignedMessage c) sigBytes of
                Inl e \<Rightarrow> Inl e
              | Inr False \<Rightarrow> Inl (GoError ''cert CA signature verification failed'')
              | Inr True \<Rightarrow>
                  let tol = SecondsDuration toleranceSecs
                  in if now < time_Add (time_Unix (cIssuedAt c)) (wrap64 (- tol))
                     then Inl (GoError ''cert not yet valid'')
                     else if now > time_Add (time_Unix (cExpiresAt c)) tol
                     then Inl (GoError ''cert has expired'')
                     else Inr ())"

definition NodePublicKey :: "Certificate \<Rightarrow> goerror + string" where
  "NodePublicKey c =
     (case rawurl_Decode (cPublicKey c) of
        None \<Rightarrow> Inl (GoError ''invalid public key in certificate'')
      | Some b \<Rightarrow> if length b \<noteq> 32 then Inl (GoError ''invalid public key in certificate'') else Inr b)"

definition IsExpired :: "Certificate \<Rightarrow> gotime \<Rightarrow> bool" where
  "IsExpired c now \<longleftrightarrow> now > time_Unix (cExpiresAt c)"

definition IsExpiringSoon :: "Certificate \<Rightarrow> gotime \<Rightarrow> int \<Rightarrow> bool" where
  "IsExpiringSoon c now warnDays \<longleftrightarrow>
     time_Add now (wrap64 (wrap64 (warnDays * 24) * (3600 * Second))) > time_Unix (cExpiresAt c)"

definition MarshalBase64URL :: "codecs \<Rightarrow> Certificate \<Rightarrow> string" where
  "MarshalBase64URL J c = rawurl_Encode (json_MarshalCertificate J c)"

definition ParseCertificate :: "codecs \<Rightarrow> string \<Rightarrow> goerror + Certificate" where
  "ParseCertificate J data = (case json_Certificate J data of Inl e \<Rightarrow> Inl (GoError (''cert parse: '' @ errorText e)) | Inr c \<Rightarrow> Inr c)"

definition ParseCertificateBase64URL :: "codecs \<Rightarrow> string \<Rightarrow> goerror + Certificate" where
  "ParseCertificateBase64URL J s =
     (if length s > 4096 then Inl (GoError ''X-Chord-Certificate header too large'')
      else case rawurl_Decode s of
             None \<Rightarrow> Inl (GoError ''X-Chord-Certificate base64url decode: illegal base64 data'')
           | Some data \<Rightarrow> ParseCertificate J data)"

definition SignCertificate :: "ed25519 \<Rightarrow> Certificate \<Rightarrow> string \<Rightarrow> Certificate" where
  "SignCertificate K c caPrivateKey =
     c\<lparr>cSignature := rawurl_Encode (ed_Sign K caPrivateKey (certSignedMessage c))\<rparr>"

section \<open>The revocation list\<close>

definition crlSignedMessage :: "CRL \<Rightarrow> string" where
  "crlSignedMessage c =
     ''chord-crl-v1'' @ line ''version'' (itoa (crlVersion c)) @
     line ''updated_at'' (itoa (crlUpdatedAt c)) @
     line ''revoked_node_ids'' (join_with '','' (sort (crlRevokedIDs c)))"

definition VerifyCRL :: "ed25519 \<Rightarrow> CRL \<Rightarrow> string \<Rightarrow> goerror + unit" where
  "VerifyCRL K c caPublicKey =
     (if crlVersion c < 1 then Inl (GoError ''crl version must be >= 1'')
      else case rawurl_Decode (crlSignature c) of
        None \<Rightarrow> Inl (GoError ''crl signature must be base64url-encoded 64-byte Ed25519 signature'')
      | Some sigBytes \<Rightarrow>
          if length sigBytes \<noteq> 64
          then Inl (GoError ''crl signature must be base64url-encoded 64-byte Ed25519 signature'')
          else case ed25519_Verify K caPublicKey (crlSignedMessage c) sigBytes of
            Inl e \<Rightarrow> Inl e
          | Inr False \<Rightarrow> Inl (GoError ''crl CA signature verification failed'')
          | Inr True \<Rightarrow> Inr ())"

definition ParseCRL :: "codecs \<Rightarrow> ed25519 \<Rightarrow> string \<Rightarrow> string \<Rightarrow> goerror + CRL" where
  "ParseCRL J K data caPublicKey =
     (case json_CRL J data of
        Inl e \<Rightarrow> Inl (GoError (''parse crl: '' @ errorText e))
      | Inr c \<Rightarrow> (case VerifyCRL K c caPublicKey of Inl e \<Rightarrow> Inl e | Inr _ \<Rightarrow> Inr c))"

text \<open>\<open>os.ReadFile\<close>'s result is the argument.\<close>

definition LoadCRLFromFile :: "codecs \<Rightarrow> ed25519 \<Rightarrow> goerror + string \<Rightarrow> string \<Rightarrow> goerror + CRL" where
  "LoadCRLFromFile J K content caPublicKey =
     (case content of
        Inl e \<Rightarrow> Inl (GoError (''read crl file: '' @ errorText e))
      | Inr data \<Rightarrow> ParseCRL J K data caPublicKey)"

definition IsRevoked :: "CRL option \<Rightarrow> string \<Rightarrow> bool" where
  "IsRevoked c nodeID = (case c of None \<Rightarrow> False | Some l \<Rightarrow> nodeID \<in> set (crlRevokedIDs l))"

definition SignCRL :: "ed25519 \<Rightarrow> CRL \<Rightarrow> string \<Rightarrow> CRL" where
  "SignCRL K c caPrivateKey = c\<lparr>crlSignature := rawurl_Encode (ed_Sign K caPrivateKey (crlSignedMessage c))\<rparr>"

end
