(* ===== verification/CertFacts.thy ===== *)
theory CertFacts
  imports Certificates
begin

text \<open>
  What a certificate's and a revocation list's signature covers, when a certificate verifies, and the
  round trips of signing and of the header encoding.
\<close>

section \<open>The signed texts are unambiguous\<close>

lemma split_at_last:
  "x @ c # y = x' @ c # y' \<Longrightarrow> c \<notin> set y \<Longrightarrow> c \<notin> set y' \<Longrightarrow> x = x' \<and> y = y'"
proof (induction x arbitrary: x')
  case Nil
  then show ?case by (cases x') auto
next
  case (Cons a x)
  then show ?case by (cases x') auto
qed

lemma itoa_chars: "c \<in> set (itoa i) \<Longrightarrow> is_digit c \<or> c = CHR ''-''"
  using utoa_digits by (auto simp: itoa_def list_all_iff split: if_splits)

lemma itoa_not [simp]: "CHR ''='' \<notin> set (itoa i)" "CHR '','' \<notin> set (itoa i)"
  using itoa_chars by (fastforce simp: is_digit_code)+

lemma newline_not [simp]: "CHR ''='' \<notin> set newline"
  by (simp add: newline_def)

lemma all_some_None: "None \<in> set l \<Longrightarrow> all_some l = None"
  by (induction l rule: all_some.induct) auto

text \<open>A text that decodes has no \<open>=\<close> in it.\<close>

lemma rawurl_no_eq: "rawurl_Decode s = Some b \<Longrightarrow> CHR ''='' \<notin> set s"
proof
  assume d: "rawurl_Decode s = Some b" and e: "CHR ''='' \<in> set s"
  have "url_val (CHR ''='') = None" by (simp add: url_val_def b64_val_def)
  then have "None \<in> set (map url_val (filter (\<lambda>c. of_char c \<notin> {10, 13 :: nat}) s))"
    using e by (auto intro!: image_eqI [of _ _ "CHR ''=''"])
  from all_some_None [OF this] d show False by (simp add: rawurl_Decode_def)
qed

lemma certSignedMessage_inj:
  assumes eq: "certSignedMessage c = certSignedMessage d"
    and len: "length (cNodeID c) = length (cNodeID d)"
    and pk: "CHR ''='' \<notin> set (cPublicKey c)" "CHR ''='' \<notin> set (cPublicKey d)"
  shows "cNodeID c = cNodeID d \<and> cURI c = cURI d \<and> cPublicKey c = cPublicKey d \<and>
    cIssuedAt c = cIssuedAt d \<and> cExpiresAt c = cExpiresAt d"
proof -
  define A :: "Certificate \<Rightarrow> string" where "A c = ''chord-cert-v1'' @ newline @ ''node_id='' @ cNodeID c" for c
  define U :: "Certificate \<Rightarrow> string" where "U c = A c @ newline @ ''uri='' @ cURI c @ newline @ ''public_key''" for c
  define P :: "Certificate \<Rightarrow> string" where "P c = cPublicKey c @ newline @ ''issued_at''" for c
  define I :: "Certificate \<Rightarrow> string" where "I c = itoa (cIssuedAt c) @ newline @ ''expires_at''" for c
  have split: "certSignedMessage c = (U c @ CHR ''='' # P c @ CHR ''='' # I c) @ CHR ''='' # itoa (cExpiresAt c)" for c
    by (simp add: certSignedMessage_def A_def U_def P_def I_def line_def)
  have no: "CHR ''='' \<notin> set (P c)" "CHR ''='' \<notin> set (P d)" "CHR ''='' \<notin> set (I c)" "CHR ''='' \<notin> set (I d)"
    using pk by (simp_all add: P_def I_def)
  have 1: "U c @ CHR ''='' # P c @ CHR ''='' # I c = U d @ CHR ''='' # P d @ CHR ''='' # I d"
    and e: "itoa (cExpiresAt c) = itoa (cExpiresAt d)"
    using split_at_last [OF eq [unfolded split]] by auto
  have 2: "U c @ CHR ''='' # P c = U d @ CHR ''='' # P d" and i: "I c = I d"
    using split_at_last [of "U c @ CHR ''='' # P c" "CHR ''=''" "I c" "U d @ CHR ''='' # P d" "I d"] 1 no by auto
  have 3: "U c = U d" and p: "P c = P d" using split_at_last [OF 2] no by auto
  have "cNodeID c = cNodeID d \<and> cURI c = cURI d" using 3 len by (simp add: U_def A_def)
  then show ?thesis using e i p by (simp add: I_def P_def itoa_inj)
qed

section \<open>When a certificate verifies\<close>

text \<open>The instants at which it is valid: 64-bit seconds, and the tolerance either side.\<close>

definition valid_at :: "Certificate \<Rightarrow> gotime \<Rightarrow> int \<Rightarrow> bool" where
  "valid_at c now toleranceSecs \<longleftrightarrow>
     time_Add (time_Unix (cIssuedAt c)) (wrap64 (- SecondsDuration toleranceSecs)) \<le> now \<and>
     now \<le> time_Add (time_Unix (cExpiresAt c)) (SecondsDuration toleranceSecs)"

definition ca_signed :: "ed25519 \<Rightarrow> string \<Rightarrow> Certificate \<Rightarrow> bool" where
  "ca_signed K ca c \<longleftrightarrow>
     (\<exists>s. rawurl_Decode (cSignature c) = Some s \<and> length s = 64 \<and> ed_Verify K ca (certSignedMessage c) s)"

lemma VerifyCertificate_iff:
  assumes "length ca = 32"
  shows "VerifyCertificate L K c ca now tol = Inr () \<longleftrightarrow>
    cVersion c = 1 \<and> length (cNodeID c) = 40 \<and> (\<exists>b. NodePublicKey c = Inr b) \<and> cIssuedAt c < cExpiresAt c \<and>
    HashURI L (cURI c) = Inr (cNodeID c) \<and> ca_signed K ca c \<and> valid_at c now tol"
proof (cases "normalizeURI L (cURI c)")
  case (Inl e)
  then have "\<not> (\<exists>n. NormalizeURI L (cURI c) = Inr n)" using normalizeURI_eq [of L "cURI c"] by simp
  then have "HashURI L (cURI c) \<noteq> Inr (cNodeID c)" by (auto simp: HashURI_def split: sum.splits)
  then show ?thesis using Inl by (simp add: VerifyCertificate_def)
next
  case (Inr n)
  then have h: "HashURI L (cURI c) = Inr (hex_EncodeToString (sha1_Sum L n))"
    using normalizeURI_eq [of L "cURI c" n] by (simp add: HashURI_def)
  show ?thesis
    using assms Inr
    by (auto simp: VerifyCertificate_def h NodePublicKey_def ed25519_Verify_def ca_signed_def valid_at_def Let_def
        split: option.splits if_splits bool.splits)
qed

text \<open>C36: Certificate verification is exact. It accepts a certificate exactly if its version is 1, its ID has
  40 characters, its key decodes to 32 bytes, it begins before it ends, its ID is the hash of its
  normalised URI as for any node of the ring, the CA's key verifies its signature, and the instant
  lies between issue and expiry, the tolerance either side. And a signature is good for one content
  only: two accepted certificates with the same signed text agree in every field it covers.\<close>

theorem certificate_verification:
  assumes "length ca = 32"
  shows "(VerifyCertificate L K c ca now tol = Inr () \<longleftrightarrow>
      cVersion c = 1 \<and> length (cNodeID c) = 40 \<and> (\<exists>b. NodePublicKey c = Inr b) \<and> cIssuedAt c < cExpiresAt c \<and>
      HashURI L (cURI c) = Inr (cNodeID c) \<and> ca_signed K ca c \<and> valid_at c now tol) \<and>
    (VerifyCertificate L K c ca now tol = Inr () \<and> VerifyCertificate L K d ca now' tol' = Inr () \<and>
       certSignedMessage c = certSignedMessage d \<longrightarrow>
       cNodeID c = cNodeID d \<and> cURI c = cURI d \<and> cPublicKey c = cPublicKey d \<and>
       cIssuedAt c = cIssuedAt d \<and> cExpiresAt c = cExpiresAt d)"
proof (intro conjI impI)
  assume a: "VerifyCertificate L K c ca now tol = Inr () \<and> VerifyCertificate L K d ca now' tol' = Inr () \<and>
      certSignedMessage c = certSignedMessage d"
  have pk: "CHR ''='' \<notin> set (cPublicKey x)" if "VerifyCertificate L K x ca t tl = Inr ()" for x t tl
    using that rawurl_no_eq [of "cPublicKey x"]
    by (auto simp: VerifyCertificate_iff [OF assms] NodePublicKey_def split: option.splits)
  have "cNodeID c = cNodeID d \<and> cURI c = cURI d \<and> cPublicKey c = cPublicKey d \<and>
      cIssuedAt c = cIssuedAt d \<and> cExpiresAt c = cExpiresAt d"
    by (rule certSignedMessage_inj) (use a pk in \<open>auto simp: VerifyCertificate_iff [OF assms]\<close>)
  then show "cNodeID c = cNodeID d" "cURI c = cURI d" "cPublicKey c = cPublicKey d"
    "cIssuedAt c = cIssuedAt d" "cExpiresAt c = cExpiresAt d" by auto
qed (use VerifyCertificate_iff [OF assms] in auto)

section \<open>Round trips\<close>

lemma certSignedMessage_signature [simp]: "certSignedMessage (c\<lparr>cSignature := s\<rparr>) = certSignedMessage c"
  by (simp add: certSignedMessage_def)

lemma ca_signed_Sign: "ed25519_ok K \<Longrightarrow> ca_signed K (ed_Public K priv) (SignCertificate K c priv)"
  by (simp add: ca_signed_def SignCertificate_def ed25519_ok_def rawurl_roundtrip)

text \<open>C37: What the CA tool signs, nodes accept: a well-formed certificate signed with the CA's private key
  verifies under its public key at every instant of its validity, and comes back unchanged from the
  header it is sent in, as long as the encoding fits the header's limit.\<close>

theorem certificate_sign_verify:
  fixes c :: Certificate and priv :: string
  assumes "ed25519_ok K" and "codecs_ok J" and "cVersion c = 1" and "length (cNodeID c) = 40"
    and "HashURI L (cURI c) = Inr (cNodeID c)" and "NodePublicKey c = Inr b" and "cIssuedAt c < cExpiresAt c"
    and "valid_at c now tol"
  defines "s \<equiv> SignCertificate K c priv"
  shows "VerifyCertificate L K s (ed_Public K priv) now tol = Inr () \<and>
    (ascii_cert s \<longrightarrow> length (MarshalBase64URL J s) \<le> 4096 \<longrightarrow>
       ParseCertificateBase64URL J (MarshalBase64URL J s) = Inr s)"
proof (intro conjI impI)
  have f: "cVersion s = cVersion c" "cNodeID s = cNodeID c" "cURI s = cURI c" "cIssuedAt s = cIssuedAt c"
    "cExpiresAt s = cExpiresAt c" "NodePublicKey s = NodePublicKey c" "valid_at s now tol = valid_at c now tol"
    by (simp_all add: s_def SignCertificate_def NodePublicKey_def valid_at_def)
  have ca: "length (ed_Public K priv) = 32" using assms(1) by (simp add: ed25519_ok_def)
  show "VerifyCertificate L K s (ed_Public K priv) now tol = Inr ()"
    unfolding VerifyCertificate_iff [OF ca] f
    using assms(3-8) ca_signed_Sign [OF assms(1), of priv c] by (simp add: s_def)
  show "ascii_cert s \<Longrightarrow> length (MarshalBase64URL J s) \<le> 4096 \<Longrightarrow>
      ParseCertificateBase64URL J (MarshalBase64URL J s) = Inr s"
    using assms(2)
    by (simp add: ParseCertificateBase64URL_def MarshalBase64URL_def rawurl_roundtrip ParseCertificate_def codecs_ok_def)
qed

section \<open>The revocation list\<close>

lemma split_on_append: "c \<notin> set x \<Longrightarrow> split_on c (x @ c # r) = x # split_on c r"
  by (induction x) auto

lemma split_on_none: "c \<notin> set x \<Longrightarrow> split_on c x = [x]"
  by (induction x) auto

lemma split_on_join: "xs \<noteq> [] \<Longrightarrow> \<forall>x \<in> set xs. c \<notin> set x \<Longrightarrow> split_on c (join_with [c] xs) = xs"
  by (induction "[c]" xs rule: join_with.induct) (simp_all add: split_on_none split_on_append)

lemma join_with_inj:
  assumes "\<forall>x \<in> set xs \<union> set ys. c \<notin> set x" and "join_with [c] xs = join_with [c] ys"
  shows "set xs - {[]} = set ys - {[]}"
proof -
  have parts: "set zs - {[]} = set (split_on c (join_with [c] zs)) - {[]}" if "\<forall>x \<in> set zs. c \<notin> set x" for zs
    using split_on_join [of zs c] that by (cases "zs = []") simp_all
  show ?thesis using parts [of xs] parts [of ys] assms by simp
qed

lemma sep_in_join: "2 \<le> length xs \<Longrightarrow> c \<in> set (join_with [c] xs)"
  by (induction "[c]" xs rule: join_with.induct) auto

lemma crlSignedMessage_eq:
  "crlSignedMessage c = crlSignedMessage d \<longleftrightarrow> crlVersion c = crlVersion d \<and> crlUpdatedAt c = crlUpdatedAt d \<and>
     join_with '','' (sort (crlRevokedIDs c)) = join_with '','' (sort (crlRevokedIDs d))"
proof
  assume "crlSignedMessage c = crlSignedMessage d"
  then have "itoa (crlVersion c) @ newline @ ''updated_at='' @ itoa (crlUpdatedAt c) @ newline @ ''revoked_node_ids='' @
        join_with '','' (sort (crlRevokedIDs c)) =
      itoa (crlVersion d) @ newline @ ''updated_at='' @ itoa (crlUpdatedAt d) @ newline @ ''revoked_node_ids='' @
        join_with '','' (sort (crlRevokedIDs d))"
    by (simp add: crlSignedMessage_def line_def)
  from line_split [OF this] have "itoa (crlVersion c) = itoa (crlVersion d)"
    and "itoa (crlUpdatedAt c) @ newline @ ''revoked_node_ids='' @ join_with '','' (sort (crlRevokedIDs c)) =
      itoa (crlUpdatedAt d) @ newline @ ''revoked_node_ids='' @ join_with '','' (sort (crlRevokedIDs d))"
    by simp_all
  from this(1) line_split [OF this(2)] show "crlVersion c = crlVersion d \<and> crlUpdatedAt c = crlUpdatedAt d \<and>
     join_with '','' (sort (crlRevokedIDs c)) = join_with '','' (sort (crlRevokedIDs d))"
    by (simp add: itoa_inj)
qed (simp add: crlSignedMessage_def)

lemma IsRevoked_joined:
  assumes "crlSignedMessage c = crlSignedMessage d" and "\<forall>i \<in> set (crlRevokedIDs c) \<union> set (crlRevokedIDs d). CHR '','' \<notin> set i"
    and "i \<noteq> []"
  shows "IsRevoked (Some c) i \<longleftrightarrow> IsRevoked (Some d) i"
proof -
  have "set (sort (crlRevokedIDs c)) - {[]} = set (sort (crlRevokedIDs d)) - {[]}"
    by (rule join_with_inj [of _ _ "CHR '',''"]) (use assms(1,2) in \<open>simp_all add: crlSignedMessage_eq\<close>)
  then show ?thesis using assms(3) by (auto simp: IsRevoked_def)
qed

text \<open>C38: What a signed revocation list means, and how it can be rewritten. The signed text determines the
  version, the date and the sorted IDs joined by commas, and nothing else. So two lists with one signed
  text whose entries have no comma revoke the same non-empty IDs, whatever their order; and a
  list the CA signs verifies under its public key. But nothing checks the entries for commas: any list
  of two or more IDs without commas can be rewritten, without any key, to the list of the one entry
  that joins them, which verifies exactly when the original does and revokes none of them.\<close>

theorem revocation_list_signature:
  "(crlSignedMessage c = crlSignedMessage d \<longleftrightarrow> crlVersion c = crlVersion d \<and> crlUpdatedAt c = crlUpdatedAt d \<and>
      join_with '','' (sort (crlRevokedIDs c)) = join_with '','' (sort (crlRevokedIDs d))) \<and>
   (crlSignedMessage c = crlSignedMessage d \<and>
      (\<forall>i \<in> set (crlRevokedIDs c) \<union> set (crlRevokedIDs d). CHR '','' \<notin> set i) \<longrightarrow>
    (\<forall>i. i \<noteq> [] \<longrightarrow> (IsRevoked (Some c) i \<longleftrightarrow> IsRevoked (Some d) i))) \<and>
   (ed25519_ok K \<and> 1 \<le> crlVersion c \<longrightarrow> VerifyCRL K (SignCRL K c priv) (ed_Public K priv) = Inr ()) \<and>
   (2 \<le> length (crlRevokedIDs c) \<and> (\<forall>i \<in> set (crlRevokedIDs c). CHR '','' \<notin> set i) \<longrightarrow>
    (let forged = c\<lparr>crlRevokedIDs := [join_with '','' (sort (crlRevokedIDs c))]\<rparr>
     in VerifyCRL K forged pub = VerifyCRL K c pub \<and> (\<forall>i \<in> set (crlRevokedIDs c). \<not> IsRevoked (Some forged) i)))"
proof (intro conjI impI)
  show "crlSignedMessage c = crlSignedMessage d \<longleftrightarrow> crlVersion c = crlVersion d \<and> crlUpdatedAt c = crlUpdatedAt d \<and>
      join_with '','' (sort (crlRevokedIDs c)) = join_with '','' (sort (crlRevokedIDs d))"
    by (rule crlSignedMessage_eq)
next
  assume "crlSignedMessage c = crlSignedMessage d \<and>
      (\<forall>i \<in> set (crlRevokedIDs c) \<union> set (crlRevokedIDs d). CHR '','' \<notin> set i)"
  then show "\<forall>i. i \<noteq> [] \<longrightarrow> (IsRevoked (Some c) i \<longleftrightarrow> IsRevoked (Some d) i)"
    by (intro allI impI IsRevoked_joined) simp_all
next
  have "crlSignedMessage (c\<lparr>crlSignature := s\<rparr>) = crlSignedMessage c" for s
    by (simp add: crlSignedMessage_def)
  then show "ed25519_ok K \<and> 1 \<le> crlVersion c \<Longrightarrow> VerifyCRL K (SignCRL K c priv) (ed_Public K priv) = Inr ()"
    by (simp add: VerifyCRL_def SignCRL_def rawurl_roundtrip ed25519_Verify_def ed25519_ok_def)
next
  assume a: "2 \<le> length (crlRevokedIDs c) \<and> (\<forall>i \<in> set (crlRevokedIDs c). CHR '','' \<notin> set i)"
  let ?j = "join_with '','' (sort (crlRevokedIDs c))"
  have "CHR '','' \<in> set ?j" using a by (intro sep_in_join) simp
  moreover have same: "crlSignedMessage (c\<lparr>crlRevokedIDs := [?j]\<rparr>) = crlSignedMessage c" by (simp add: crlSignedMessage_eq)
  have "VerifyCRL K (c\<lparr>crlRevokedIDs := [?j]\<rparr>) pub = VerifyCRL K c pub"
    unfolding VerifyCRL_def same by simp
  ultimately show "let forged = c\<lparr>crlRevokedIDs := [?j]\<rparr>
     in VerifyCRL K forged pub = VerifyCRL K c pub \<and> (\<forall>i \<in> set (crlRevokedIDs c). \<not> IsRevoked (Some forged) i)"
    using a by (auto simp: Let_def IsRevoked_def)
qed

section \<open>A concrete authority\<close>

text \<open>Codecs for examples: the fields of a certificate separated by a byte outside ASCII, and a digest
  that is a prefix of the message.\<close>

definition field_sep :: char where
  "field_sep = CHR 0xFF"

definition demo_marshal :: "Certificate \<Rightarrow> string" where
  "demo_marshal c = join_with [field_sep] [itoa (cVersion c), cNodeID c, cURI c, cPublicKey c,
     itoa (cIssuedAt c), itoa (cExpiresAt c), cSignature c]"

definition demo_parse :: "string \<Rightarrow> goerror + Certificate" where
  "demo_parse s =
     (case split_on field_sep s of
        [v, n, u, p, i, e, g] \<Rightarrow>
          (case (ParseInt64 v, ParseInt64 i, ParseInt64 e) of
             (Some v, Some i, Some e) \<Rightarrow>
               Inr \<lparr>cVersion = v, cNodeID = n, cURI = u, cPublicKey = p, cIssuedAt = i, cExpiresAt = e, cSignature = g\<rparr>
           | _ \<Rightarrow> Inl (GoError ''number''))
      | _ \<Rightarrow> Inl (GoError ''fields''))"

definition demo_codecs :: codecs where
  "demo_codecs =
     \<lparr>sha256_Sum = pad_to 32, json_Certificate = demo_parse, json_MarshalCertificate = demo_marshal,
      json_CRL = (\<lambda>_. Inl (GoError ''json'')), json_VNodeProof = (\<lambda>_. Inl (GoError ''json''))\<rparr>"

lemma ascii_no_sep: "ascii s \<Longrightarrow> field_sep \<notin> set s"
  by (auto simp: ascii_def field_sep_def list_all_iff)

lemma itoa_no_sep: "field_sep \<notin> set (itoa i)"
  using itoa_chars [of field_sep i] by (auto simp: field_sep_def is_digit_code)

lemma ParseInt64_wrap: "wrap64 x = x \<Longrightarrow> ParseInt64 (itoa x) = Some x"
  using wrap64_bounds [of x] by (simp add: ParseInt64_itoa)

lemma demo_codecs_ok: "codecs_ok demo_codecs"
proof -
  have "demo_parse (demo_marshal c) = Inr c" if c: "ascii_cert c" for c
  proof -
    have "split_on field_sep (demo_marshal c) = [itoa (cVersion c), cNodeID c, cURI c, cPublicKey c,
        itoa (cIssuedAt c), itoa (cExpiresAt c), cSignature c]"
      unfolding demo_marshal_def
      by (rule split_on_join) (use c in \<open>auto simp: ascii_cert_def itoa_no_sep ascii_no_sep\<close>)
    then show ?thesis using c by (simp add: demo_parse_def ascii_cert_def ParseInt64_wrap)
  qed
  then show ?thesis by (simp add: codecs_ok_def demo_codecs_def)
qed

definition demo_cert_content :: Certificate where
  "demo_cert_content =
     \<lparr>cVersion = 1, cNodeID = hex_EncodeToString (sha1_Sum demo_lib ''https://a''), cURI = ''https://a'',
      cPublicKey = rawurl_Encode (ed_Public demo_ed ''node''), cIssuedAt = 1000, cExpiresAt = 2000, cSignature = []\<rparr>"

definition demo_cert :: Certificate where
  "demo_cert = SignCertificate demo_ed demo_cert_content ''ca''"

lemma demo_cert_conditions:
  "cVersion demo_cert_content = 1" "length (cNodeID demo_cert_content) = 40"
  "HashURI demo_lib (cURI demo_cert_content) = Inr (cNodeID demo_cert_content)"
  "NodePublicKey demo_cert_content = Inr (ed_Public demo_ed ''node'')"
  "cIssuedAt demo_cert_content < cExpiresAt demo_cert_content" "valid_at demo_cert_content (time_Unix 1500) 300"
proof -
  have n: "NormalizeURI demo_lib ''https://a'' = Inr ''https://a''" by code_simp
  show "HashURI demo_lib (cURI demo_cert_content) = Inr (cNodeID demo_cert_content)"
    by (simp add: demo_cert_content_def HashURI_def n)
  show "NodePublicKey demo_cert_content = Inr (ed_Public demo_ed ''node'')"
    using demo_ed_ok by (simp add: NodePublicKey_def demo_cert_content_def rawurl_roundtrip ed25519_ok_def)
  show "valid_at demo_cert_content (time_Unix 1500) 300" by code_simp
  show "length (cNodeID demo_cert_content) = 40"
    using demo_lib_ok(1) by (simp add: demo_cert_content_def sha1_ok_def)
qed (simp_all add: demo_cert_content_def)

lemma certificate_sign_verify_witness:
  "VerifyCertificate demo_lib demo_ed (SignCertificate demo_ed demo_cert_content ''ca'') (ed_Public demo_ed ''ca'')
     (time_Unix 1500) 300 = Inr ()"
  by (rule certificate_sign_verify [OF demo_ed_ok demo_codecs_ok demo_cert_conditions, THEN conjunct1])

lemma demo_cert_fields:
  "cVersion demo_cert = 1" "length (cNodeID demo_cert) = 40" "HashURI demo_lib (cURI demo_cert) = Inr (cNodeID demo_cert)"
  "NodePublicKey demo_cert = Inr (ed_Public demo_ed ''node'')" "cIssuedAt demo_cert < cExpiresAt demo_cert"
  "valid_at demo_cert (time_Unix 1500) 300" "ca_signed demo_ed (ed_Public demo_ed ''ca'') demo_cert"
  using demo_cert_conditions ca_signed_Sign [OF demo_ed_ok, of "''ca''" demo_cert_content]
  by (simp_all add: demo_cert_def SignCertificate_def NodePublicKey_def valid_at_def)

lemma certificate_verification_witness:
  "VerifyCertificate demo_lib demo_ed demo_cert (ed_Public demo_ed ''ca'') (time_Unix 1500) 300 = Inr ()"
proof -
  have "length (ed_Public demo_ed ''ca'') = 32" using demo_ed_ok by (simp add: ed25519_ok_def)
  from certificate_verification [OF this, of demo_lib demo_ed demo_cert "time_Unix 1500" 300]
  show ?thesis using demo_cert_fields by blast
qed

lemma revocation_list_signature_witness:
  "let c = SignCRL demo_ed \<lparr>crlVersion = 1, crlUpdatedAt = 7, crlRevokedIDs = [''b'', ''a''], crlSignature = []\<rparr> ''ca'';
       forged = c\<lparr>crlRevokedIDs := [''a,b'']\<rparr>
   in VerifyCRL demo_ed c (ed_Public demo_ed ''ca'') = Inr () \<and>
      VerifyCRL demo_ed forged (ed_Public demo_ed ''ca'') = Inr () \<and>
      IsRevoked (Some c) ''a'' \<and> \<not> IsRevoked (Some forged) ''a'' \<and> \<not> IsRevoked (Some forged) ''b''"
proof -
  let ?c = "\<lparr>crlVersion = 1, crlUpdatedAt = 7, crlRevokedIDs = [''b'', ''a''], crlSignature = []\<rparr>"
  let ?s = "SignCRL demo_ed ?c ''ca''"
  have f: "crlRevokedIDs ?s = [''b'', ''a'']" "crlVersion ?s = 1" by (simp_all add: SignCRL_def)
  have j: "join_with '','' (sort [''b'', ''a'']) = ''a,b''" by code_simp
  have "VerifyCRL demo_ed ?s (ed_Public demo_ed ''ca'') = Inr ()"
    using revocation_list_signature [of ?c ?c demo_ed "''ca''" "[]"] demo_ed_ok by simp
  moreover have "VerifyCRL demo_ed (?s\<lparr>crlRevokedIDs := [''a,b'']\<rparr>) (ed_Public demo_ed ''ca'') =
      VerifyCRL demo_ed ?s (ed_Public demo_ed ''ca'')"
    using revocation_list_signature [of ?s ?s demo_ed "''ca''" "ed_Public demo_ed ''ca''"]
    unfolding f j by (simp add: Let_def)
  ultimately show ?thesis by (simp add: Let_def IsRevoked_def f)
qed

end
