(* ===== verification/AuthCaches.thy ===== *)
theory AuthCaches
  imports CertFacts "HOL-Library.AList"
begin

text \<open>
  The verifier's two caches: seen nonces (\<open>internal/auth/nonce_cache.go\<close>) and peer certificates under
  trust on first use (\<open>cert_cache.go\<close>). A method is one critical section; \<open>nonce_run\<close> and \<open>store_run\<close>
  are any sequence of them, from whatever goroutines.
\<close>

section \<open>Nonces\<close>

record NonceCache =
  nc_entries :: "(string \<times> gotime) list"
  nc_ttl :: duration
  nc_maxSize :: int

definition NewNonceCache :: "duration \<Rightarrow> int \<Rightarrow> NonceCache" where
  "NewNonceCache ttl maxSize = \<lparr>nc_entries = [], nc_ttl = ttl, nc_maxSize = maxSize\<rparr>"

definition NonceCache_Len :: "NonceCache \<Rightarrow> int" where
  "NonceCache_Len c = int (length (nc_entries c))"

definition cleanupLocked :: "gotime \<Rightarrow> NonceCache \<Rightarrow> NonceCache" where
  "cleanupLocked now c = c\<lparr>nc_entries := filter (\<lambda>(nonce, exp). \<not> now > exp) (nc_entries c)\<rparr>"

definition NonceCache_Add :: "string \<Rightarrow> gotime \<Rightarrow> NonceCache \<Rightarrow> bool \<times> NonceCache" where
  "NonceCache_Add nonce now c =
     (if nonce \<in> fst ` set (nc_entries c) then (False, c)
      else
        let c1 = (if NonceCache_Len c \<ge> nc_maxSize c then cleanupLocked now c else c)
        in if NonceCache_Len c \<ge> nc_maxSize c \<and> NonceCache_Len c1 \<ge> nc_maxSize c then (False, c1)
           else (True, c1\<lparr>nc_entries := AList.update nonce (time_Add now (nc_ttl c)) (nc_entries c1)\<rparr>))"

datatype nonce_event = NonceAdd string gotime | NonceTick gotime

fun event_time :: "nonce_event \<Rightarrow> gotime" where
  "event_time (NonceAdd n t) = t"
| "event_time (NonceTick t) = t"

fun nonce_step :: "nonce_event \<Rightarrow> NonceCache \<Rightarrow> NonceCache" where
  "nonce_step (NonceAdd n t) c = snd (NonceCache_Add n t c)"
| "nonce_step (NonceTick t) c = cleanupLocked t c"

definition nonce_run :: "nonce_event list \<Rightarrow> NonceCache \<Rightarrow> NonceCache" where
  "nonce_run es c = fold nonce_step es c"

definition nonce_wf :: "NonceCache \<Rightarrow> bool" where
  "nonce_wf c \<longleftrightarrow> distinct (map fst (nc_entries c)) \<and> NonceCache_Len c \<le> max 0 (nc_maxSize c)"

lemma cleanupLocked_simps [simp]:
  "nc_ttl (cleanupLocked t c) = nc_ttl c" "nc_maxSize (cleanupLocked t c) = nc_maxSize c"
  "set (nc_entries (cleanupLocked t c)) = {(n, e) \<in> set (nc_entries c). t \<le> e}"
  by (auto simp: cleanupLocked_def)

lemma Len_cleanup: "NonceCache_Len (cleanupLocked t c) \<le> NonceCache_Len c"
  by (simp add: NonceCache_Len_def cleanupLocked_def)

lemma nonce_step_config [simp]:
  "nc_ttl (nonce_step e c) = nc_ttl c" "nc_maxSize (nonce_step e c) = nc_maxSize c"
  by (cases e; auto simp: NonceCache_Add_def Let_def)+

lemma length_update_new: "k \<notin> fst ` set al \<Longrightarrow> AList.update k v al = al @ [(k, v)]"
  by (induction al) auto

lemma nonce_wf_step: "nonce_wf c \<Longrightarrow> nonce_wf (nonce_step e c)"
proof (cases e)
  case (NonceTick t)
  assume "nonce_wf c"
  then show ?thesis using NonceTick Len_cleanup [of t c] by (auto simp: nonce_wf_def cleanupLocked_def)
next
  case (NonceAdd n t)
  assume wf: "nonce_wf c"
  let ?c1 = "if NonceCache_Len c \<ge> nc_maxSize c then cleanupLocked t c else c"
  have d: "distinct (map fst (nc_entries ?c1))" "NonceCache_Len ?c1 \<le> max 0 (nc_maxSize c)"
    using wf Len_cleanup [of t c] by (auto simp: nonce_wf_def cleanupLocked_def)
  have new: "n \<notin> fst ` set (nc_entries ?c1)" if "n \<notin> fst ` set (nc_entries c)"
    using that by (auto simp: cleanupLocked_def)
  show ?thesis
    using wf d NonceAdd new
    by (auto simp: nonce_wf_def NonceCache_Add_def Let_def NonceCache_Len_def length_update_new
        cleanupLocked_def split: if_splits)
qed

lemma nonce_wf_run: "nonce_wf c \<Longrightarrow> nonce_wf (nonce_run es c)"
  unfolding nonce_run_def by (induction es arbitrary: c) (auto intro: nonce_wf_step)

lemma Add_records: "fst (NonceCache_Add n t c) \<Longrightarrow> (n, time_Add t (nc_ttl c)) \<in> set (nc_entries (snd (NonceCache_Add n t c)))"
  by (auto simp: NonceCache_Add_def Let_def set_update split: if_splits)
    (auto simp: length_update_new cleanupLocked_def image_iff)

lemma nonce_step_keeps:
  "(n, x) \<in> set (nc_entries c) \<Longrightarrow> event_time e \<le> x \<Longrightarrow> (n, x) \<in> set (nc_entries (nonce_step e c))"
proof (cases e)
  case (NonceTick t)
  assume "(n, x) \<in> set (nc_entries c)" "event_time e \<le> x"
  then show ?thesis using NonceTick by simp
next
  case (NonceAdd m t)
  assume a: "(n, x) \<in> set (nc_entries c)" "event_time e \<le> x"
  have "m \<notin> fst ` set (nc_entries c) \<Longrightarrow> m \<notin> fst ` set (nc_entries (cleanupLocked t c))" by (auto simp: image_iff)
  then show ?thesis using a NonceAdd by (auto simp: NonceCache_Add_def Let_def length_update_new)
qed

lemma nonce_run_keeps:
  "(n, x) \<in> set (nc_entries c) \<Longrightarrow> \<forall>e \<in> set es. event_time e \<le> x \<Longrightarrow> (n, x) \<in> set (nc_entries (nonce_run es c))"
  unfolding nonce_run_def by (induction es arbitrary: c) (auto intro: nonce_step_keeps)

text \<open>C40: Replay protection. Once a nonce was accepted, it is refused again at whatever time, as long as no
  call or clean-up in between showed a time past its expiry; and over any sequence of calls and
  clean-ups the cache holds each nonce once and never more than its configured number.\<close>

theorem nonce_no_replay:
  assumes "fst (NonceCache_Add n t (nonce_run es0 (NewNonceCache ttl maxSize)))"
    and "\<forall>e \<in> set es. event_time e \<le> time_Add t ttl"
  defines "c \<equiv> nonce_run es (snd (NonceCache_Add n t (nonce_run es0 (NewNonceCache ttl maxSize))))"
  shows "\<not> fst (NonceCache_Add n t' c) \<and> distinct (map fst (nc_entries c)) \<and> NonceCache_Len c \<le> max 0 maxSize"
proof -
  let ?c0 = "nonce_run es0 (NewNonceCache ttl maxSize)"
  have cfg: "nc_ttl (nonce_run es x) = nc_ttl x \<and> nc_maxSize (nonce_run es x) = nc_maxSize x" for es x
    unfolding nonce_run_def by (induction es arbitrary: x) auto
  have ttl: "nc_ttl ?c0 = ttl" "nc_maxSize ?c0 = maxSize" using cfg by (simp_all add: NewNonceCache_def)
  have "(n, time_Add t ttl) \<in> set (nc_entries c)"
    unfolding c_def using nonce_run_keeps [OF Add_records [OF assms(1)], of es] assms(2) ttl by simp
  then have "n \<in> fst ` set (nc_entries c)" by force
  then have "\<not> fst (NonceCache_Add n t' c)" by (simp add: NonceCache_Add_def)
  moreover have "nonce_wf c"
  proof -
    have "nonce_wf (NewNonceCache ttl maxSize)" by (simp add: nonce_wf_def NewNonceCache_def NonceCache_Len_def)
    then have "nonce_wf (nonce_step (NonceAdd n t) ?c0)" by (intro nonce_wf_step nonce_wf_run)
    then show ?thesis unfolding c_def by (intro nonce_wf_run) simp
  qed
  moreover have "nc_maxSize c = maxSize"
    using cfg [of es "nonce_step (NonceAdd n t) ?c0"] ttl nonce_step_config(2) [of "NonceAdd n t" ?c0]
    by (simp add: c_def del: nonce_step_config)
  ultimately show ?thesis by (simp add: nonce_wf_def)
qed

lemma nonce_no_replay_witness:
  "\<not> fst (NonceCache_Add ''n'' 50 (nonce_run [NonceTick 70, NonceAdd ''m'' 60]
     (snd (NonceCache_Add ''n'' 10 (nonce_run [] (NewNonceCache 100 5))))))"
  by (rule nonce_no_replay [THEN conjunct1]) code_simp+

section \<open>Certificates under trust on first use\<close>

record CertCache =
  cc_entries :: "(string \<times> Certificate \<times> gotime) list"
  cc_ttl :: duration

definition NewCertCache :: "duration \<Rightarrow> CertCache" where
  "NewCertCache ttl = \<lparr>cc_entries = [], cc_ttl = ttl\<rparr>"

definition StoreVerified :: "Certificate \<Rightarrow> gotime \<Rightarrow> CertCache \<Rightarrow> CertCache" where
  "StoreVerified cert now c =
     (case map_of (cc_entries c) (cNodeID cert) of
        Some (existing, storedAt) \<Rightarrow>
          if now < time_Add storedAt (cc_ttl c) \<and> cIssuedAt cert \<le> cIssuedAt existing then c
          else c\<lparr>cc_entries := AList.update (cNodeID cert) (cert, now) (cc_entries c)\<rparr>
      | None \<Rightarrow> c\<lparr>cc_entries := AList.update (cNodeID cert) (cert, now) (cc_entries c)\<rparr>)"

definition CertCache_Store ::
  "golib \<Rightarrow> ed25519 \<Rightarrow> Certificate \<Rightarrow> string \<Rightarrow> gotime \<Rightarrow> int \<Rightarrow> CertCache \<Rightarrow> (goerror + unit) \<times> CertCache" where
  "CertCache_Store L K cert caPublicKey now toleranceSecs c =
     (case VerifyCertificate L K cert caPublicKey now toleranceSecs of
        Inl e \<Rightarrow> (Inl e, c)
      | Inr _ \<Rightarrow>
          (case map_of (cc_entries c) (cNodeID cert) of
             Some (existing, storedAt) \<Rightarrow>
               if now < time_Add storedAt (cc_ttl c) \<and> cIssuedAt cert \<le> cIssuedAt existing then (Inr (), c)
               else (Inr (), c\<lparr>cc_entries := AList.update (cNodeID cert) (cert, now) (cc_entries c)\<rparr>)
           | None \<Rightarrow> (Inr (), c\<lparr>cc_entries := AList.update (cNodeID cert) (cert, now) (cc_entries c)\<rparr>)))"

definition CertCache_Get :: "string \<Rightarrow> gotime \<Rightarrow> CertCache \<Rightarrow> Certificate option" where
  "CertCache_Get nodeID now c =
     (case map_of (cc_entries c) nodeID of
        None \<Rightarrow> None
      | Some (cert, storedAt) \<Rightarrow> if now > time_Add storedAt (cc_ttl c) then None else Some cert)"

lemma CertCache_Store_eq:
  "VerifyCertificate L K cert ca now tol = Inr () \<Longrightarrow> CertCache_Store L K cert ca now tol c = (Inr (), StoreVerified cert now c)"
  "VerifyCertificate L K cert ca now tol = Inl e \<Longrightarrow> CertCache_Store L K cert ca now tol c = (Inl e, c)"
  by (auto simp: CertCache_Store_def StoreVerified_def split: option.splits)

lemma StoreVerified_other: "i \<noteq> cNodeID cert \<Longrightarrow> map_of (cc_entries (StoreVerified cert now c)) i = map_of (cc_entries c) i"
  by (auto simp: StoreVerified_def update_conv' split: option.splits)

lemma StoreVerified_ttl [simp]: "cc_ttl (StoreVerified cert now c) = cc_ttl c"
  by (auto simp: StoreVerified_def split: option.splits)

lemma NewCertCache_ttl [simp]: "cc_ttl (NewCertCache ttl) = ttl"
  by (simp add: NewCertCache_def)

definition store_run :: "(Certificate \<times> gotime) list \<Rightarrow> CertCache \<Rightarrow> CertCache" where
  "store_run es c = fold (\<lambda>(cert, t). StoreVerified cert t) es c"

lemma store_run_Cons: "store_run ((cert, t) # es) c = store_run es (StoreVerified cert t c)"
  by (simp add: store_run_def)

text \<open>Along such a run the entry of a node stays or is replaced by a later issued one.\<close>

lemma store_run_entry:
  assumes ttl: "0 \<le> ttl" and st0: "0 \<le> st0"
    and "map_of (cc_entries c) i = Some (cert1, st1)" and "st0 \<le> st1" and "st1 + ttl < 2 ^ 63 * Second" and "cc_ttl c = ttl"
    and "\<forall>(x, t) \<in> set es. st0 \<le> t \<and> t < st0 + ttl \<and> t + ttl < 2 ^ 63 * Second"
  shows "\<exists>cert' st'. map_of (cc_entries (store_run es c)) i = Some (cert', st') \<and> st0 \<le> st' \<and>
    st' + ttl < 2 ^ 63 * Second \<and>
    ((cert', st') = (cert1, st1) \<or> cIssuedAt cert1 < cIssuedAt cert' \<and> cNodeID cert' = i \<and> (cert', st') \<in> set es)"
  using assms(3-)
proof (induction es arbitrary: c cert1 st1)
  case Nil
  then show ?case by (simp add: store_run_def)
next
  case (Cons e es)
  obtain x t where e: "e = (x, t)" by (cases e)
  have t: "st0 \<le> t" "t < st0 + ttl" "t + ttl < 2 ^ 63 * Second" using Cons.prems(5) e by auto
  have rest: "\<forall>(x, t) \<in> set es. st0 \<le> t \<and> t < st0 + ttl \<and> t + ttl < 2 ^ 63 * Second"
    using Cons.prems(5) by auto
  have live: "t < time_Add st1 ttl"
    using t Cons.prems(2,3) ttl st0 time_Add_exact [of st1 ttl] by (simp add: Second_def)
  show ?case
  proof (cases "cNodeID x = i \<and> cIssuedAt cert1 < cIssuedAt x")
    case True
    have m: "map_of (cc_entries (StoreVerified x t c)) i = Some (x, t)"
      using True Cons.prems(1,4) by (auto simp: StoreVerified_def update_conv')
    show ?thesis
      using Cons.IH [OF m t(1) t(3) _ rest] True Cons.prems(4) by (auto simp: e store_run_Cons)
  next
    case False
    have "map_of (cc_entries (StoreVerified x t c)) i = Some (cert1, st1)"
      using False Cons.prems(1,4) live
      by (cases "cNodeID x = i") (auto simp: StoreVerified_def update_conv' split: option.splits)
    then obtain cert' st' where r: "map_of (cc_entries (store_run es (StoreVerified x t c))) i = Some (cert', st')"
      "st0 \<le> st'" "st' + ttl < 2 ^ 63 * Second"
      "(cert', st') = (cert1, st1) \<or> cIssuedAt cert1 < cIssuedAt cert' \<and> cNodeID cert' = i \<and> (cert', st') \<in> set es"
      using Cons.IH [of "StoreVerified x t c", OF _ Cons.prems(2,3) _ rest] Cons.prems(4) by auto
    have "(cert', st') = (cert1, st1) \<or>
        cIssuedAt cert1 < cIssuedAt cert' \<and> cNodeID cert' = i \<and> (cert', st') \<in> set (e # es)"
      using r(4) by auto
    with r(1-3) show ?thesis unfolding e store_run_Cons by blast
  qed
qed

text \<open>C39: Trust on first use. While a node's certificate is live, which it is for the cache's lifetime after
  it was stored, no sequence of certificates presented meanwhile (with a clock that does not go back
  behind the storing) replaces it by an older or equally old one: the entry stays, or it is one of
  those presented, for the same node and issued later.\<close>

theorem cert_cache_tofu:
  assumes "map_of (cc_entries c) i = Some (cert, st0)" and "0 \<le> cc_ttl c" and "0 \<le> st0" and "st0 + cc_ttl c < 2 ^ 63 * Second"
    and "\<forall>(x, t) \<in> set es. st0 \<le> t \<and> t < st0 + cc_ttl c \<and> t + cc_ttl c < 2 ^ 63 * Second"
  shows "\<exists>cert' st'. map_of (cc_entries (store_run es c)) i = Some (cert', st') \<and>
    ((cert', st') = (cert, st0) \<or>
     cIssuedAt cert < cIssuedAt cert' \<and> cNodeID cert' = i \<and> (cert', st') \<in> set es) \<and>
    (\<forall>t. st0 \<le> t \<longrightarrow> t \<le> st0 + cc_ttl c \<longrightarrow> CertCache_Get i t (store_run es c) = Some cert')"
proof -
  obtain cert' st' where r: "map_of (cc_entries (store_run es c)) i = Some (cert', st')" "st0 \<le> st'"
    "st' + cc_ttl c < 2 ^ 63 * Second"
    "(cert', st') = (cert, st0) \<or> cIssuedAt cert < cIssuedAt cert' \<and> cNodeID cert' = i \<and> (cert', st') \<in> set es"
    using store_run_entry [OF assms(2,3,1) order_refl assms(4) refl assms(5)] by blast
  have ttl: "cc_ttl (store_run es c) = cc_ttl c"
    unfolding store_run_def by (induction es arbitrary: c) auto
  have "CertCache_Get i t (store_run es c) = Some cert'" if "st0 \<le> t" "t \<le> st0 + cc_ttl c" for t
    using that r(1-3) assms(2,3) time_Add_exact [of st' "cc_ttl c"]
    by (simp add: CertCache_Get_def ttl Second_def)
  then show ?thesis using r by blast
qed

lemma cert_cache_tofu_witness:
  "\<exists>cert' st'. map_of (cc_entries (store_run [(demo_cert\<lparr>cIssuedAt := 5, cPublicKey := ''evil''\<rparr>, 20)]
     (StoreVerified demo_cert 10 (NewCertCache 100)))) (cNodeID demo_cert) = Some (cert', st') \<and> 1000 \<le> cIssuedAt cert'"
proof -
  let ?c = "StoreVerified demo_cert 10 (NewCertCache 100)"
  have i: "cIssuedAt demo_cert = 1000" by (simp add: demo_cert_def SignCertificate_def demo_cert_content_def)
  have m: "map_of (cc_entries ?c) (cNodeID demo_cert) = Some (demo_cert, 10)"
    by (simp add: StoreVerified_def NewCertCache_def)
  have t: "cc_ttl ?c = 100" by (simp add: NewCertCache_def)
  let ?es = "[(demo_cert\<lparr>cIssuedAt := 5, cPublicKey := ''evil''\<rparr>, 20)]"
  have es: "\<forall>(x, u) \<in> set ?es. 10 \<le> u \<and> u < 10 + cc_ttl ?c \<and> u + cc_ttl ?c < 2 ^ 63 * Second"
    by (simp add: Second_def)
  obtain cert' st' where r: "map_of (cc_entries (store_run ?es ?c)) (cNodeID demo_cert) = Some (cert', st')"
    "(cert', st') = (demo_cert, 10) \<or> cIssuedAt demo_cert < cIssuedAt cert'"
    using cert_cache_tofu [OF m _ _ _ es] by (fastforce simp: Second_def)
  then show ?thesis using i by (intro exI conjI) auto
qed

end
