(* ===== verification/RequestAuth.thy ===== *)
theory RequestAuth
  imports AuthCaches
begin

text \<open>
  Signing and verifying requests (\<open>internal/auth/signer.go\<close>, \<open>verifier.go\<close>). A request carries what the
  two read and write of \<open>http.Request\<close>. The verifier is the state of \<open>Prelude\<close>'s monad: one \<open>atomically\<close>,
  \<open>modify\<close> or \<open>asks\<close> is one critical section of its caches or of the revocation list. The outcome of
  the middleware is the request handed on, the error response, or a panic of the library.
\<close>

section \<open>Requests and signers\<close>

record request =
  rq_Method :: string
  rq_Path :: string
  rq_RequestURI :: string
  rq_Header :: "string \<Rightarrow> string"
  rq_Body :: string
  rq_BodyError :: "goerror option"

definition Header_Set :: "string \<Rightarrow> string \<Rightarrow> request \<Rightarrow> request" where
  "Header_Set k v r = r\<lparr>rq_Header := (rq_Header r)(k := v)\<rparr>"

record RequestSigner =
  sg_nodeID :: string
  sg_privKey :: string
  sg_cert :: "Certificate option"
  sg_anchorID :: string
  sg_vnodeProof :: string

definition NewRequestSigner :: "string \<Rightarrow> string \<Rightarrow> Certificate option \<Rightarrow> RequestSigner" where
  "NewRequestSigner nodeID privKey cert =
     \<lparr>sg_nodeID = nodeID, sg_privKey = privKey, sg_cert = cert, sg_anchorID = [], sg_vnodeProof = []\<rparr>"

definition requestMessage :: "codecs \<Rightarrow> string \<Rightarrow> string \<Rightarrow> string \<Rightarrow> string \<Rightarrow> string \<Rightarrow> string \<Rightarrow> string" where
  "requestMessage J method path nodeID timestamp nonce body =
     ''chord-request-v1'' @ newline @ method @ newline @ path @ newline @ nodeID @ newline @
     timestamp @ newline @ nonce @ newline @ hex_EncodeToString (sha256_Sum J body)"

text \<open>\<open>Sign\<close>: \<open>rand\<close> is the result of \<open>rand.Read\<close> on 16 bytes, \<open>body\<close> is \<open>bodyBytes\<close> (\<open>None\<close> for \<open>nil\<close>).\<close>

definition Sign ::
  "codecs \<Rightarrow> ed25519 \<Rightarrow> RequestSigner \<Rightarrow> gotime \<Rightarrow> goerror + string \<Rightarrow> string option \<Rightarrow> request \<Rightarrow> goerror + request" where
  "Sign J K s now rand body r =
     (let timestamp = itoa (toUnix now)
      in case rand of
           Inl e \<Rightarrow> Inl (GoError (''generate nonce: '' @ errorText e))
         | Inr nonceBytes \<Rightarrow>
             let nonce = hex_EncodeToString nonceBytes;
                 bodyForHash = (case body of None \<Rightarrow> [] | Some b \<Rightarrow> b);
                 msg = requestMessage J (rq_Method r) (rq_RequestURI r) (sg_nodeID s) timestamp nonce bodyForHash;
                 sig = ed_Sign K (sg_privKey s) msg;
                 r1 = Header_Set ''X-Chord-Node-ID'' (sg_nodeID s) r;
                 r2 = Header_Set ''X-Chord-Timestamp'' timestamp r1;
                 r3 = Header_Set ''X-Chord-Nonce'' nonce r2;
                 r4 = Header_Set ''X-Chord-Signature'' (rawurl_Encode sig) r3
             in Inr (if sg_anchorID s \<noteq> []
                     then Header_Set ''X-Chord-VNode-Proof'' (sg_vnodeProof s)
                            (Header_Set ''X-Chord-Anchor-ID'' (sg_anchorID s) r4)
                     else r4))"

definition SetVNodeInfo :: "string \<Rightarrow> string \<Rightarrow> RequestSigner \<Rightarrow> RequestSigner" where
  "SetVNodeInfo anchorID proofBase64 s = s\<lparr>sg_anchorID := anchorID, sg_vnodeProof := proofBase64\<rparr>"

definition AddCertHeader :: "codecs \<Rightarrow> RequestSigner \<Rightarrow> request \<Rightarrow> request" where
  "AddCertHeader J s r =
     (case sg_cert s of
        None \<Rightarrow> r
      | Some c \<Rightarrow> Header_Set ''X-Chord-Certificate'' (MarshalBase64URL J c) r)"

definition CertExpiresAt :: "RequestSigner \<Rightarrow> int option" where
  "CertExpiresAt s = map_option cExpiresAt (sg_cert s)"

section \<open>The verifier\<close>

record VerifierConfig =
  vc_CAPublicKey :: string
  vc_TimestampTolerance :: duration
  vc_ToleranceSecs :: int
  vc_BootGracePeriodEnd :: gotime
  vc_ClockSkewTolerance :: duration

record RequestVerifier =
  rv_cfg :: VerifierConfig
  rv_nonces :: NonceCache
  rv_certs :: CertCache
  rv_crl :: "CRL option"

type_synonym ('w, 't, 'a) vact = "(RequestVerifier, 'w, 't, 'a) act"

definition NewRequestVerifier :: "VerifierConfig \<Rightarrow> NonceCache \<Rightarrow> CertCache \<Rightarrow> CRL option \<Rightarrow> RequestVerifier" where
  "NewRequestVerifier cfg nonces certs initialCRL =
     \<lparr>rv_cfg = cfg, rv_nonces = nonces, rv_certs = certs, rv_crl = initialCRL\<rparr>"

definition SetCRL :: "CRL option \<Rightarrow> RequestVerifier \<Rightarrow> RequestVerifier" where
  "SetCRL c v = v\<lparr>rv_crl := c\<rparr>"

definition CRLVersion :: "RequestVerifier \<Rightarrow> int" where
  "CRLVersion v = (case rv_crl v of None \<Rightarrow> 0 | Some c \<Rightarrow> crlVersion c)"

definition addNonce :: "string \<Rightarrow> gotime \<Rightarrow> RequestVerifier \<Rightarrow> bool \<times> RequestVerifier" where
  "addNonce nonce t v = (case NonceCache_Add nonce t (rv_nonces v) of (b, c) \<Rightarrow> (b, v\<lparr>rv_nonces := c\<rparr>))"

definition storeCert :: "Certificate \<Rightarrow> gotime \<Rightarrow> RequestVerifier \<Rightarrow> RequestVerifier" where
  "storeCert cert t v = v\<lparr>rv_certs := StoreVerified cert t (rv_certs v)\<rparr>"

definition CacheIncomingCert :: "Certificate \<Rightarrow> gotime \<Rightarrow> RequestVerifier \<Rightarrow> RequestVerifier" where
  "CacheIncomingCert cert t v = storeCert cert t v"

section \<open>The middleware\<close>

datatype outcome = Next request | AuthFailure int string string | HandlerPanic string

abbreviation reject :: "int \<Rightarrow> string \<Rightarrow> string \<Rightarrow> ('s, outcome + 'a) state" where
  "reject status c msg \<equiv> ret (Inl (AuthFailure status c msg))"

definition libraryFailure :: "goerror \<Rightarrow> outcome \<Rightarrow> outcome" where
  "libraryFailure e x = (case e of GoPanic p \<Rightarrow> HandlerPanic p | _ \<Rightarrow> x)"

text \<open>Steps 1 and 2: the headers, and the window in 64-bit arithmetic.\<close>

definition abs64 :: "int \<Rightarrow> int" where
  "abs64 d = (if d < 0 then wrap64 (- d) else d)"

definition inWindow :: "gotime \<Rightarrow> int \<Rightarrow> duration \<Rightarrow> bool" where
  "inWindow t timestamp tolerance \<longleftrightarrow>
     \<not> wrap64 (abs64 (wrap64 (toUnix t - timestamp)) * Second) > tolerance"

definition checkHeaders :: "RequestVerifier \<Rightarrow> gotime \<Rightarrow> request \<Rightarrow> outcome + unit" where
  "checkHeaders v t r =
     (let h = rq_Header r
      in if h ''X-Chord-Node-ID'' = [] \<or> h ''X-Chord-Timestamp'' = [] \<or> h ''X-Chord-Nonce'' = [] \<or>
            h ''X-Chord-Signature'' = []
         then Inl (AuthFailure 401 ''MISSING_AUTH_HEADERS'' ''missing required authentication headers'')
         else case ParseInt64 (h ''X-Chord-Timestamp'') of
           None \<Rightarrow> Inl (AuthFailure 401 ''TIMESTAMP_OUT_OF_WINDOW'' ''invalid timestamp'')
         | Some timestamp \<Rightarrow>
             if inWindow t timestamp (vc_TimestampTolerance (rv_cfg v)) then Inr ()
             else Inl (AuthFailure 401 ''TIMESTAMP_OUT_OF_WINDOW'' ''request timestamp outside acceptable window''))"

text \<open>Step 4: the certificate of the header, checked and cached, or the cached one.\<close>

definition headerCert :: "golib \<Rightarrow> codecs \<Rightarrow> ed25519 \<Rightarrow> VerifierConfig \<Rightarrow> gotime \<Rightarrow> request \<Rightarrow> outcome + Certificate" where
  "headerCert L J K cfg t r =
     (case ParseCertificateBase64URL J (rq_Header r ''X-Chord-Certificate'') of
        Inl e \<Rightarrow> Inl (AuthFailure 401 ''INVALID_CERTIFICATE'' (''cert header parse failed: '' @ errorText e))
      | Inr parsed \<Rightarrow>
          (case VerifyCertificate L K parsed (vc_CAPublicKey cfg) t (vc_ToleranceSecs cfg) of
             Inl e \<Rightarrow> Inl (libraryFailure e (AuthFailure 401 ''INVALID_CERTIFICATE'' (errorText e)))
           | Inr _ \<Rightarrow>
               if cNodeID parsed \<noteq> rq_Header r ''X-Chord-Node-ID''
               then Inl (AuthFailure 401 ''INVALID_CERTIFICATE'' ''cert node_id does not match X-Chord-Node-ID'')
               else Inr parsed))"

definition acquireCert ::
  "golib \<Rightarrow> codecs \<Rightarrow> ed25519 \<Rightarrow> gotime \<Rightarrow> request \<Rightarrow> ('w, 't, outcome + Certificate) vact" where
  "acquireCert L J K t r =
     (if rq_Header r ''X-Chord-Certificate'' \<noteq> []
      then do {
        cfg \<leftarrow> asks rv_cfg;
        case headerCert L J K cfg t r of
          Inl e \<Rightarrow> ret (Inl e)
        | Inr parsed \<Rightarrow> do { modify (storeCert parsed t); ret (Inr parsed) } }
      else do {
        cached \<leftarrow> asks (\<lambda>v. CertCache_Get (rq_Header r ''X-Chord-Node-ID'') t (rv_certs v));
        case cached of
          None \<Rightarrow> reject 401 ''CERTIFICATE_REQUIRED''
                   ''no certificate cached for this node; resend with X-Chord-Certificate header''
        | Some cert \<Rightarrow> ret (Inr cert) })"

text \<open>Steps 6 and 7: at most 1 MB of the body is read, and what was read is what the handler gets.\<close>

definition maxBodySize :: nat where
  "maxBodySize = 2 ^ 20"

definition readBody :: "request \<Rightarrow> goerror + string" where
  "readBody r =
     (if length (rq_Body r) \<ge> maxBodySize then Inr (take maxBodySize (rq_Body r))
      else case rq_BodyError r of Some e \<Rightarrow> Inl e | None \<Rightarrow> Inr (rq_Body r))"

definition checkSignature :: "codecs \<Rightarrow> ed25519 \<Rightarrow> Certificate \<Rightarrow> request \<Rightarrow> outcome + request" where
  "checkSignature J K cert r =
     (case readBody r of
        Inl _ \<Rightarrow> Inl (AuthFailure 401 ''INVALID_SIGNATURE'' ''failed to read request body'')
      | Inr bodyBytes \<Rightarrow>
          let r' = r\<lparr>rq_Body := bodyBytes, rq_BodyError := None\<rparr>;
              h = rq_Header r;
              msg = requestMessage J (rq_Method r) (rq_RequestURI r) (h ''X-Chord-Node-ID'')
                      (h ''X-Chord-Timestamp'') (h ''X-Chord-Nonce'') bodyBytes
          in case rawurl_Decode (h ''X-Chord-Signature'') of
               None \<Rightarrow> Inl (AuthFailure 401 ''INVALID_SIGNATURE'' ''malformed signature'')
             | Some sigBytes \<Rightarrow>
                 if length sigBytes \<noteq> 64
                 then Inl (AuthFailure 401 ''INVALID_SIGNATURE'' ''malformed signature'')
                 else case NodePublicKey cert of
                   Inl _ \<Rightarrow> Inl (AuthFailure 401 ''INVALID_CERTIFICATE'' ''cannot decode node public key'')
                 | Inr pubKey \<Rightarrow>
                     if ed_Verify K pubKey msg sigBytes then Inr r'
                     else Inl (AuthFailure 401 ''INVALID_SIGNATURE'' ''request signature verification failed''))"

text \<open>Step 8: the proof of a virtual node, checked against the cached certificate of the anchor named in
  the header.\<close>

definition proofSkew :: "VerifierConfig \<Rightarrow> duration" where
  "proofSkew cfg = (if vc_ClockSkewTolerance cfg \<le> 0 then 30 * Second else vc_ClockSkewTolerance cfg)"

definition checkProof ::
  "golib \<Rightarrow> ed25519 \<Rightarrow> VNodeProof \<Rightarrow> string \<Rightarrow> Certificate option \<Rightarrow> VerifierConfig \<Rightarrow> gotime \<Rightarrow> outcome + unit" where
  "checkProof L K p nodeID anchorCert cfg t =
     (if wrap64 (vpExpiresAt p + duration_secs (proofSkew cfg)) < toUnix t
      then Inl (AuthFailure 403 ''PROOF_EXPIRED'' ''vnode proof has expired'')
      else if deriveVNodeID L (vpAnchorID p) (vpIndex p) \<noteq> vpVNodeID p \<or> vpVNodeID p \<noteq> nodeID
      then Inl (AuthFailure 403 ''INVALID_VNODE_PROOF'' ''vnode_id mismatch'')
      else case anchorCert of
        None \<Rightarrow> Inl (AuthFailure 403 ''INVALID_VNODE_PROOF''
                  ''anchor certificate not cached; resend with X-Chord-Certificate'')
      | Some c \<Rightarrow>
          (case NodePublicKey c of
             Inl _ \<Rightarrow> Inl (AuthFailure 403 ''INVALID_VNODE_PROOF'' ''cannot decode anchor public key'')
           | Inr anchorPub \<Rightarrow>
               (case base64_Decode (vpSignature p) of
                  None \<Rightarrow> Inl (AuthFailure 403 ''INVALID_VNODE_PROOF'' ''malformed proof signature'')
                | Some proofSig \<Rightarrow>
                    if length proofSig \<noteq> 64
                    then Inl (AuthFailure 403 ''INVALID_VNODE_PROOF'' ''malformed proof signature'')
                    else if ed_Verify K anchorPub (buildProofCanonical p) proofSig then Inr ()
                    else Inl (AuthFailure 403 ''INVALID_VNODE_PROOF'' ''proof signature verification failed''))))"

definition checkVNode :: "golib \<Rightarrow> codecs \<Rightarrow> ed25519 \<Rightarrow> gotime \<Rightarrow> request \<Rightarrow> ('w, 't, outcome + unit) vact" where
  "checkVNode L J K t r =
     (let nodeID = rq_Header r ''X-Chord-Node-ID''; anchorIDHeader = rq_Header r ''X-Chord-Anchor-ID'';
          vnodeProofHeader = rq_Header r ''X-Chord-VNode-Proof''
      in if vnodeProofHeader \<noteq> [] \<and> anchorIDHeader \<noteq> [] \<and> anchorIDHeader \<noteq> nodeID
         then (case base64_Decode vnodeProofHeader of
                 None \<Rightarrow> reject 403 ''INVALID_VNODE_PROOF'' ''malformed proof header''
               | Some proofBytes \<Rightarrow>
                   (case json_VNodeProof J proofBytes of
                      Inl _ \<Rightarrow> reject 403 ''INVALID_VNODE_PROOF'' ''invalid proof JSON''
                    | Inr p \<Rightarrow> do {
                        cfg \<leftarrow> asks rv_cfg;
                        anchorCert \<leftarrow> asks (\<lambda>v. CertCache_Get anchorIDHeader t (rv_certs v));
                        ret (checkProof L K p nodeID anchorCert cfg t) }))
         else ret (Inr ()))"

text \<open>The whole of \<open>Middleware\<close>: \<open>t0\<close> is the clock at the grace period's check, \<open>t\<close> the one after it.\<close>

definition Middleware ::
  "golib \<Rightarrow> codecs \<Rightarrow> ed25519 \<Rightarrow> (string \<Rightarrow> bool) \<Rightarrow> gotime \<Rightarrow> gotime \<Rightarrow> request \<Rightarrow> ('w, 't, outcome) vact" where
  "Middleware L J K exempt t0 t r =
     (if exempt (rq_Path r) then ret (Next r)
      else do {
        v \<leftarrow> asks (\<lambda>v. v);
        let grace = vc_BootGracePeriodEnd (rv_cfg v);
        if \<not> IsZero grace \<and> t0 < grace then ret (Next r)
        else case checkHeaders v t r of
          Inl e \<Rightarrow> ret e
        | Inr _ \<Rightarrow> do {
            fresh \<leftarrow> atomically (addNonce (rq_Header r ''X-Chord-Nonce'') t);
            if \<not> fresh then ret (AuthFailure 401 ''NONCE_REUSED'' ''nonce has already been used'')
            else do {
              c \<leftarrow> acquireCert L J K t r;
              case c of
                Inl e \<Rightarrow> ret e
              | Inr cert \<Rightarrow> do {
                  crl \<leftarrow> asks rv_crl;
                  if IsRevoked crl (cNodeID cert)
                  then ret (AuthFailure 401 ''CERTIFICATE_REVOKED'' ''node certificate has been revoked'')
                  else case checkSignature J K cert r of
                    Inl e \<Rightarrow> ret e
                  | Inr r' \<Rightarrow> do {
                      p \<leftarrow> checkVNode L J K t r;
                      ret (case p of Inl e \<Rightarrow> e | Inr _ \<Rightarrow> Next r') } } } } })"

end
