(* ===== verification/Client.thy ===== *)
theory Client
  imports RequestAuth Types
begin

text \<open>
  The HTTP clients of a node (\<open>internal/client/chord_client.go\<close>, \<open>json.go\<close>, \<open>tracker_client.go\<close>). A call is
  a state transformer of the world. \<open>net\<close> is what lies below: the clock, \<open>crypto/rand\<close>, \<open>http.Client.Do\<close>,
  and two functions of \<open>net/url\<close>; \<open>wire\<close> is \<open>encoding/json\<close> on the messages.
\<close>

section \<open>Below the clients\<close>

record http_client =
  hc_Timeout :: duration
  hc_skipTLSVerify :: bool

record http_response =
  hr_StatusCode :: int
  hr_Body :: string

record 'w net =
  nt_lib :: golib
  nt_now :: "'w \<Rightarrow> gotime"
  nt_rand :: "'w \<Rightarrow> (goerror + string) \<times> 'w"
  nt_Do :: "http_client \<Rightarrow> string \<Rightarrow> request \<Rightarrow> 'w \<Rightarrow> (goerror + http_response) \<times> 'w"
  nt_QueryEncode :: "(string \<times> string) list \<Rightarrow> string"
  nt_PathEscape :: "string \<Rightarrow> string"

record wire =
  enc_FindSuccessor :: "FindSuccessorRequest \<Rightarrow> goerror + string"
  enc_Join :: "JoinRequest \<Rightarrow> goerror + string"
  enc_Notify :: "NotifyRequest \<Rightarrow> goerror + string"
  enc_Leave :: "LeaveRequest \<Rightarrow> goerror + string"
  enc_Register :: "NodeInfo \<Rightarrow> goerror + string"
  enc_Heartbeat :: "TrackerHeartbeat \<Rightarrow> goerror + string"
  wd_Ping :: "string \<Rightarrow> goerror + unit"
  wd_RTT :: "string \<Rightarrow> goerror + RTTResponse"
  wd_FindSuccessor :: "string \<Rightarrow> goerror + FindSuccessorResponse"
  wd_Join :: "string \<Rightarrow> goerror + JoinResponse"
  wd_Notify :: "string \<Rightarrow> goerror + NotifyResponse"
  wd_State :: "string \<Rightarrow> goerror + StateResponse"
  wd_Predecessor :: "string \<Rightarrow> goerror + PredecessorResponse"
  wd_SuccessorList :: "string \<Rightarrow> goerror + SuccessorListResponse"
  wd_Leave :: "string \<Rightarrow> goerror + unit"
  wd_Seeds :: "string \<Rightarrow> goerror + NodeInfo list"
  wd_Region :: "string \<Rightarrow> goerror + string option"
  wd_Geo :: "string \<Rightarrow> goerror + string option \<times> string option"
  wd_Heartbeat :: "string \<Rightarrow> goerror + TrackerHeartbeatResult"
  wd_Raw :: "string \<Rightarrow> goerror + string"
  wd_Error :: "string \<Rightarrow> goerror + string \<times> string"

type_synonym ('w, 'a) call = "('w, goerror + 'a) state"

section \<open>JSON over HTTP\<close>

record jsonClient =
  jc_baseURL :: string
  jc_http :: http_client
  jc_signer :: "RequestSigner option"

definition DefaultHTTPTimeout :: duration where
  "DefaultHTTPTimeout = 5 * Second"

definition newJSONClient ::
  "golib \<Rightarrow> string \<Rightarrow> duration \<Rightarrow> bool \<Rightarrow> RequestSigner option \<Rightarrow> goerror + jsonClient" where
  "newJSONClient L baseURL timeout skipTLSVerify signer =
     (case NormalizeURI L baseURL of
        Inl e \<Rightarrow> Inl e
      | Inr normalized \<Rightarrow>
          let timeout' = (if timeout \<le> 0 then DefaultHTTPTimeout else timeout)
          in Inr \<lparr>jc_baseURL = normalized, jc_http = \<lparr>hc_Timeout = timeout', hc_skipTLSVerify = skipTLSVerify\<rparr>,
                  jc_signer = signer\<rparr>)"

definition decodeAPIError :: "wire \<Rightarrow> http_response \<Rightarrow> goerror" where
  "decodeAPIError W resp =
     (case wd_Error W (hr_Body resp) of
        Inl _ \<Rightarrow> NewAPIError (hr_StatusCode resp) ErrUpstream (''upstream returned HTTP '' @ itoa (hr_StatusCode resp))
      | Inr (c, msg) \<Rightarrow>
          if c = [] then NewAPIError (hr_StatusCode resp) ErrUpstream (''upstream returned HTTP '' @ itoa (hr_StatusCode resp))
          else APIError (hr_StatusCode resp) c msg)"

definition isCertRequired :: "goerror + 'a \<Rightarrow> bool" where
  "isCertRequired r = (case r of Inl (APIError s c m) \<Rightarrow> c = ''CERTIFICATE_REQUIRED'' | _ \<Rightarrow> False)"

text \<open>\<open>in\<close> is \<open>nil\<close> (\<open>None\<close>) or what \<open>json.Marshal\<close> made of it. Header \<open>Accept\<close> and \<open>Content-Type\<close>, which nothing
  here reads, are set as in the code.\<close>

definition newRequest :: "string \<Rightarrow> string \<Rightarrow> string option \<Rightarrow> URL \<Rightarrow> request" where
  "newRequest method path body u =
     (let r = Header_Set ''Accept'' ''application/json''
                \<lparr>rq_Method = method, rq_Path = URL.Path u, rq_RequestURI = path, rq_Header = (\<lambda>_. []),
                 rq_Body = (case body of None \<Rightarrow> [] | Some b \<Rightarrow> b), rq_BodyError = None\<rparr>
      in if body = None then r else Header_Set ''Content-Type'' ''application/json'' r)"

definition signRequest ::
  "codecs \<Rightarrow> ed25519 \<Rightarrow> 'w net \<Rightarrow> RequestSigner option \<Rightarrow> string option \<Rightarrow> bool \<Rightarrow> request \<Rightarrow> ('w, request) call" where
  "signRequest J K N signer body includeCert r =
     (case signer of
        None \<Rightarrow> ret (Inr r)
      | Some sg \<Rightarrow> State (\<lambda>w.
          let (rnd, w') = nt_rand N w
          in case Sign J K sg (nt_now N w) rnd body r of
               Inl e \<Rightarrow> (Inl (GoError (''sign request: '' @ errorText e)), w')
             | Inr r1 \<Rightarrow> (Inr (if includeCert then AddCertHeader J sg r1 else r1), w')))"

definition doSigned ::
  "codecs \<Rightarrow> ed25519 \<Rightarrow> wire \<Rightarrow> 'w net \<Rightarrow> jsonClient \<Rightarrow> string \<Rightarrow> string \<Rightarrow> (goerror + string) option \<Rightarrow>
   (string \<Rightarrow> goerror + 'a) \<Rightarrow> bool \<Rightarrow> ('w, 'a) call" where
  "doSigned J K W N c method path input dec includeCert =
     (case input of
        Some (Inl e) \<Rightarrow> ret (Inl e)
      | _ \<Rightarrow>
          let body = (case input of Some (Inr b) \<Rightarrow> Some (b @ newline) | _ \<Rightarrow> None)
          in case url_Parse (nt_lib N) (jc_baseURL c @ path) of
               Inl e \<Rightarrow> ret (Inl e)
             | Inr u \<Rightarrow> do {
                 s \<leftarrow> signRequest J K N (jc_signer c) body includeCert (newRequest method path body u);
                 case s of
                   Inl e \<Rightarrow> ret (Inl e)
                 | Inr req \<Rightarrow> do {
                     x \<leftarrow> State (nt_Do N (jc_http c) (jc_baseURL c) req);
                     ret (case x of
                            Inl e \<Rightarrow> Inl e
                          | Inr resp \<Rightarrow>
                              if hr_StatusCode resp \<ge> 300 then Inl (decodeAPIError W resp) else dec (hr_Body resp)) } })"

definition do_plain ::
  "codecs \<Rightarrow> ed25519 \<Rightarrow> wire \<Rightarrow> 'w net \<Rightarrow> jsonClient \<Rightarrow> string \<Rightarrow> string \<Rightarrow> (goerror + string) option \<Rightarrow>
   (string \<Rightarrow> goerror + 'a) \<Rightarrow> ('w, 'a) call" where
  "do_plain J K W N c method path input dec = doSigned J K W N c method path input dec False"

definition requireHTTPSURI :: "golib \<Rightarrow> string \<Rightarrow> goerror + unit" where
  "requireHTTPSURI L uri =
     (case NormalizeURI L uri of
        Inl e \<Rightarrow> Inl e
      | Inr normalized \<Rightarrow>
          if normalized \<noteq> uri then Inl (GoError ''uri must be normalized https URI'')
          else if \<not> HasPrefix uri ''https://'' then Inl (GoError ''uri must use https scheme'')
          else Inr ())"

definition appendQuery :: "'w net \<Rightarrow> string \<Rightarrow> (string \<times> string) list \<Rightarrow> string" where
  "appendQuery N path values =
     (let query = nt_QueryEncode N values in if query = [] then path else path @ ''?'' @ query)"

section \<open>The peer client\<close>

record TimeoutConfig =
  PingSame :: duration
  PingCross :: duration
  PingLiveness :: duration
  FindSuccessorSame :: duration
  FindSuccessorCross :: duration
  FixFingersSame :: duration
  FixFingersCross :: duration
  Default :: duration

record ChordClient =
  cl_timeout :: duration
  cl_skipTLSVerify :: bool
  cl_signer :: "RequestSigner option"
  cl_selfRegion :: string
  cl_timeouts :: TimeoutConfig
  cl_nodeRegionFunc :: "(string \<Rightarrow> string) option"

definition DefaultTimeouts :: "duration \<Rightarrow> TimeoutConfig" where
  "DefaultTimeouts timeout =
     \<lparr>PingSame = DefaultTimeoutPingSameRegion, PingCross = DefaultTimeoutPingCrossRegion,
      PingLiveness = DefaultPingLivenessTimeout, FindSuccessorSame = DefaultTimeoutFindSuccessorSame,
      FindSuccessorCross = DefaultTimeoutFindSuccessorCross, FixFingersSame = DefaultTimeoutFixFingersSame,
      FixFingersCross = DefaultTimeoutFixFingersCross, Default = timeout\<rparr>"

definition NewChordClient :: "duration \<Rightarrow> bool \<Rightarrow> RequestSigner option \<Rightarrow> ChordClient" where
  "NewChordClient timeout skipTLSVerify signer =
     \<lparr>cl_timeout = timeout, cl_skipTLSVerify = skipTLSVerify, cl_signer = signer, cl_selfRegion = [],
      cl_timeouts = DefaultTimeouts timeout, cl_nodeRegionFunc = None\<rparr>"

definition SetSelfRegion :: "string \<Rightarrow> ChordClient \<Rightarrow> ChordClient" where
  "SetSelfRegion region c = c\<lparr>cl_selfRegion := region\<rparr>"

definition SetTimeoutConfig :: "TimeoutConfig \<Rightarrow> ChordClient \<Rightarrow> ChordClient" where
  "SetTimeoutConfig tc c = c\<lparr>cl_timeouts := tc\<rparr>"

definition SetNodeRegionFunc :: "(string \<Rightarrow> string) \<Rightarrow> ChordClient \<Rightarrow> ChordClient" where
  "SetNodeRegionFunc f c = c\<lparr>cl_nodeRegionFunc := Some f\<rparr>"

definition peerRegion :: "golib \<Rightarrow> ChordClient \<Rightarrow> string \<Rightarrow> string" where
  "peerRegion L c uri =
     (case cl_nodeRegionFunc c of
        None \<Rightarrow> []
      | Some f \<Rightarrow> (case HashURI L uri of Inl _ \<Rightarrow> [] | Inr nodeID \<Rightarrow> f nodeID))"

definition isSameRegion :: "golib \<Rightarrow> ChordClient \<Rightarrow> string \<Rightarrow> bool" where
  "isSameRegion L c uri =
     (if cl_selfRegion c = [] then False
      else let pr = peerRegion L c uri in pr \<noteq> [] \<and> pr = cl_selfRegion c)"

definition timeoutFor :: "golib \<Rightarrow> ChordClient \<Rightarrow> string \<Rightarrow> string \<Rightarrow> duration" where
  "timeoutFor L c op uri =
     (let same = isSameRegion L c uri; t = cl_timeouts c
      in if op = ''ping'' then (if same then PingSame t else PingCross t)
         else if op = ''ping_liveness''
         then (if PingLiveness t > 0 then PingLiveness t else DefaultPingLivenessTimeout)
         else if op = ''find_successor'' then (if same then FindSuccessorSame t else FindSuccessorCross t)
         else if op = ''fix_fingers'' then (if same then FixFingersSame t else FixFingersCross t)
         else if Default t > 0 then Default t else cl_timeout c)"

definition endpointFor :: "golib \<Rightarrow> ChordClient \<Rightarrow> string \<Rightarrow> string \<Rightarrow> goerror + jsonClient" where
  "endpointFor L c uri op =
     (case requireHTTPSURI L uri of
        Inl e \<Rightarrow> Inl e
      | Inr _ \<Rightarrow> newJSONClient L uri (timeoutFor L c op uri) (cl_skipTLSVerify c) (cl_signer c))"

definition endpoint :: "golib \<Rightarrow> ChordClient \<Rightarrow> string \<Rightarrow> goerror + jsonClient" where
  "endpoint L c uri = endpointFor L c uri ''default''"

definition pathFor :: "NodeInfo \<Rightarrow> string \<Rightarrow> string" where
  "pathFor target op =
     (if AnchorID target \<noteq> [] then ''/chord/node/'' @ NodeID target @ ''/'' @ op else ''/chord/'' @ op)"

text \<open>The shape of the methods: an endpoint or its error; and a second attempt with the certificate.\<close>

definition with_endpoint :: "goerror + jsonClient \<Rightarrow> (jsonClient \<Rightarrow> ('w, 'a) call) \<Rightarrow> ('w, 'a) call" where
  "with_endpoint e f = (case e of Inl x \<Rightarrow> ret (Inl x) | Inr c \<Rightarrow> f c)"

definition with_cert_retry :: "(bool \<Rightarrow> ('w, 'a) call) \<Rightarrow> ('w, 'a) call" where
  "with_cert_retry m = do { r \<leftarrow> m False; if isCertRequired r then m True else ret r }"

definition Client_ping ::
  "string \<Rightarrow> codecs \<Rightarrow> ed25519 \<Rightarrow> wire \<Rightarrow> 'w net \<Rightarrow> ChordClient \<Rightarrow> string \<Rightarrow> ('w, unit) call" where
  "Client_ping op J K W N c uri =
     with_endpoint (endpointFor (nt_lib N) c uri op) (\<lambda>e. do_plain J K W N e ''GET'' ''/chord/ping'' None (wd_Ping W))"

definition Client_Ping :: "codecs \<Rightarrow> ed25519 \<Rightarrow> wire \<Rightarrow> 'w net \<Rightarrow> ChordClient \<Rightarrow> string \<Rightarrow> ('w, unit) call" where
  "Client_Ping = Client_ping ''ping''"

definition Client_PingLiveness :: "codecs \<Rightarrow> ed25519 \<Rightarrow> wire \<Rightarrow> 'w net \<Rightarrow> ChordClient \<Rightarrow> string \<Rightarrow> ('w, unit) call" where
  "Client_PingLiveness = Client_ping ''ping_liveness''"

definition Client_PingWithLatency :: "codecs \<Rightarrow> ed25519 \<Rightarrow> wire \<Rightarrow> 'w net \<Rightarrow> ChordClient \<Rightarrow> string \<Rightarrow> ('w, int) call" where
  "Client_PingWithLatency J K W N c uri =
     with_endpoint (endpointFor (nt_lib N) c uri ''ping'') (\<lambda>e. do {
       start \<leftarrow> State (\<lambda>w. (nt_now N w, w));
       r \<leftarrow> do_plain J K W N e ''GET'' ''/chord/ping'' None (wd_Ping W);
       t \<leftarrow> State (\<lambda>w. (nt_now N w, w));
       ret (case r of Inl x \<Rightarrow> Inl x | Inr _ \<Rightarrow> Inr (sgn (time_Sub t start) * (\<bar>time_Sub t start\<bar> div 1000000))) })"

definition Client_RTT :: "codecs \<Rightarrow> ed25519 \<Rightarrow> wire \<Rightarrow> 'w net \<Rightarrow> ChordClient \<Rightarrow> string \<Rightarrow> ('w, RTTResponse) call" where
  "Client_RTT J K W N c uri =
     with_endpoint (endpointFor (nt_lib N) c uri ''ping'') (\<lambda>e. do_plain J K W N e ''GET'' ''/chord/rtt'' None (wd_RTT W))"

definition Client_FindSuccessor ::
  "codecs \<Rightarrow> ed25519 \<Rightarrow> wire \<Rightarrow> 'w net \<Rightarrow> ChordClient \<Rightarrow> NodeInfo \<Rightarrow> FindSuccessorRequest \<Rightarrow> ('w, FindSuccessorResponse) call" where
  "Client_FindSuccessor J K W N c target req =
     with_endpoint (endpointFor (nt_lib N) c (URI target) ''find_successor'') (\<lambda>e.
       with_cert_retry (doSigned J K W N e ''POST'' (pathFor target ''find_successor'')
         (Some (enc_FindSuccessor W req)) (wd_FindSuccessor W)))"

definition Client_Join ::
  "codecs \<Rightarrow> ed25519 \<Rightarrow> wire \<Rightarrow> 'w net \<Rightarrow> ChordClient \<Rightarrow> string \<Rightarrow> JoinRequest \<Rightarrow> ('w, JoinResponse) call" where
  "Client_Join J K W N c uri req =
     with_endpoint (endpoint (nt_lib N) c uri) (\<lambda>e.
       doSigned J K W N e ''POST'' ''/chord/join'' (Some (enc_Join W req)) (wd_Join W) True)"

definition Client_Notify ::
  "codecs \<Rightarrow> ed25519 \<Rightarrow> wire \<Rightarrow> 'w net \<Rightarrow> ChordClient \<Rightarrow> NodeInfo \<Rightarrow> NotifyRequest \<Rightarrow> ('w, NotifyResponse) call" where
  "Client_Notify J K W N c target req =
     with_endpoint (endpoint (nt_lib N) c (URI target)) (\<lambda>e.
       doSigned J K W N e ''POST'' (pathFor target ''notify'') (Some (enc_Notify W req)) (wd_Notify W) True)"

definition Client_Rectify ::
  "codecs \<Rightarrow> ed25519 \<Rightarrow> wire \<Rightarrow> 'w net \<Rightarrow> ChordClient \<Rightarrow> NodeInfo \<Rightarrow> RectifyRequest \<Rightarrow> ('w, RectifyResponse) call" where
  "Client_Rectify J K W N c target req =
     with_endpoint (endpoint (nt_lib N) c (URI target)) (\<lambda>e.
       doSigned J K W N e ''POST'' (pathFor target ''rectify'') (Some (enc_Notify W req)) (wd_Notify W) True)"

definition Client_State :: "codecs \<Rightarrow> ed25519 \<Rightarrow> wire \<Rightarrow> 'w net \<Rightarrow> ChordClient \<Rightarrow> NodeInfo \<Rightarrow> ('w, StateResponse) call" where
  "Client_State J K W N c target =
     with_endpoint (endpoint (nt_lib N) c (URI target)) (\<lambda>e.
       with_cert_retry (doSigned J K W N e ''GET'' (pathFor target ''state'') None (wd_State W)))"

definition Client_Predecessor ::
  "codecs \<Rightarrow> ed25519 \<Rightarrow> wire \<Rightarrow> 'w net \<Rightarrow> ChordClient \<Rightarrow> NodeInfo \<Rightarrow> ('w, PredecessorResponse) call" where
  "Client_Predecessor J K W N c target =
     with_endpoint (endpoint (nt_lib N) c (URI target)) (\<lambda>e.
       with_cert_retry (doSigned J K W N e ''GET'' (pathFor target ''predecessor'') None (wd_Predecessor W)))"

definition Client_SuccessorList ::
  "codecs \<Rightarrow> ed25519 \<Rightarrow> wire \<Rightarrow> 'w net \<Rightarrow> ChordClient \<Rightarrow> NodeInfo \<Rightarrow> ('w, SuccessorListResponse) call" where
  "Client_SuccessorList J K W N c target =
     with_endpoint (endpoint (nt_lib N) c (URI target)) (\<lambda>e.
       with_cert_retry (doSigned J K W N e ''GET'' (pathFor target ''successor_list'') None (wd_SuccessorList W)))"

definition Client_Leave ::
  "codecs \<Rightarrow> ed25519 \<Rightarrow> wire \<Rightarrow> 'w net \<Rightarrow> ChordClient \<Rightarrow> NodeInfo \<Rightarrow> LeaveRequest \<Rightarrow> ('w, unit) call" where
  "Client_Leave J K W N c target req =
     with_endpoint (endpoint (nt_lib N) c (URI target)) (\<lambda>e.
       with_cert_retry (doSigned J K W N e ''POST'' (pathFor target ''leave'') (Some (enc_Leave W req)) (wd_Leave W)))"

section \<open>The tracker client\<close>

record TrackerClient =
  tc_endpoint :: jsonClient

definition NewTrackerClient :: "golib \<Rightarrow> string \<Rightarrow> duration \<Rightarrow> bool \<Rightarrow> goerror + TrackerClient" where
  "NewTrackerClient L baseURL timeout skipTLSVerify =
     (case newJSONClient L baseURL timeout skipTLSVerify None of
        Inl e \<Rightarrow> Inl e | Inr e \<Rightarrow> Inr \<lparr>tc_endpoint = e\<rparr>)"

type_synonym ('w, 'a) tracker_call = "codecs \<Rightarrow> ed25519 \<Rightarrow> wire \<Rightarrow> 'w net \<Rightarrow> TrackerClient \<Rightarrow> ('w, 'a) call"

definition Tracker_Seeds :: "int \<Rightarrow> string list \<Rightarrow> ('w, NodeInfo list) tracker_call" where
  "Tracker_Seeds n exclude J K W N c =
     (let values = (if n > 0 then [(''count'', itoa n)] else []) @
                   (if exclude \<noteq> [] then [(''exclude'', join_with '','' exclude)] else []) @ [(''include_cert'', ''true'')]
      in do_plain J K W N (tc_endpoint c) ''GET'' (appendQuery N ''/tracker/nodes/seeds'' values) None (wd_Seeds W))"

definition Tracker_Register :: "NodeInfo \<Rightarrow> ('w, string) tracker_call" where
  "Tracker_Register node J K W N c = do {
     r \<leftarrow> do_plain J K W N (tc_endpoint c) ''POST'' ''/tracker/nodes'' (Some (enc_Register W node)) (wd_Region W);
     ret (case r of Inl e \<Rightarrow> Inl e | Inr None \<Rightarrow> Inr [] | Inr (Some region) \<Rightarrow> Inr region) }"

definition Tracker_Deregister :: "string \<Rightarrow> ('w, unit) tracker_call" where
  "Tracker_Deregister nodeID J K W N c =
     do_plain J K W N (tc_endpoint c) ''DELETE'' (''/tracker/nodes/'' @ nt_PathEscape N nodeID) None (\<lambda>_. Inr ())"

definition Tracker_DetectRegion :: "('w, string) tracker_call" where
  "Tracker_DetectRegion J K W N c = do {
     r \<leftarrow> do_plain J K W N (tc_endpoint c) ''GET'' ''/tracker/geo'' None (wd_Geo W);
     ret (case r of
            Inl e \<Rightarrow> Inl e
          | Inr (region, country) \<Rightarrow>
              (case region of
                 Some (x # xs) \<Rightarrow> Inr (x # xs)
               | _ \<Rightarrow> (case country of Some (y # ys) \<Rightarrow> Inr (y # ys) | _ \<Rightarrow> Inr []))) }"

definition Tracker_Heartbeat :: "string \<Rightarrow> TrackerHeartbeat \<Rightarrow> ('w, TrackerHeartbeatResult option) tracker_call" where
  "Tracker_Heartbeat nodeID heartbeat J K W N c = do {
     r \<leftarrow> do_plain J K W N (tc_endpoint c) ''POST'' (''/tracker/nodes/'' @ nt_PathEscape N nodeID @ ''/heartbeat'')
           (Some (enc_Heartbeat W heartbeat)) (wd_Heartbeat W);
     ret (case r of Inl e \<Rightarrow> Inl e | Inr x \<Rightarrow> Inr (Some x)) }"

definition Tracker_FetchCRL :: "('w, string) tracker_call" where
  "Tracker_FetchCRL J K W N c = do_plain J K W N (tc_endpoint c) ''GET'' ''/tracker/crl'' None (wd_Raw W)"

end
