(* ===== verification/RequestFacts.thy ===== *)
theory RequestFacts
  imports RequestAuth
begin

text \<open>
  What the middleware's acceptance of a request means. \<open>verifier_step\<close> has one rule per critical section
  of the verifier. The handlers cache certificates of request bodies without verifying them
  (\<open>CacheIncomingCert\<close>); the set \<open>B\<close> of these planted certificates is a parameter of the steps, and their
  invariant is that every cached certificate verified when it was stored, or is one of \<open>B\<close>.
\<close>

section \<open>The signed text\<close>

lemma hex_digit_inj: "a < 16 \<Longrightarrow> b < 16 \<Longrightarrow> hex_digit a = hex_digit b \<longleftrightarrow> a = b"
  by (auto simp: hex_digit_def split: if_splits dest!: arg_cong [where f = "of_char :: char \<Rightarrow> nat"])

lemma hex_byte_inj: "hex_byte a = hex_byte b \<longleftrightarrow> a = b"
proof
  have lt: "(of_char c :: nat) div 16 < 16" for c :: char
    using nat_of_char_less_256 [of c] by (simp add: less_mult_imp_div_less)
  assume "hex_byte a = hex_byte b"
  then have "of_char a div 16 = (of_char b div 16 :: nat)" "of_char a mod 16 = (of_char b mod 16 :: nat)"
    using lt by (simp_all add: hex_byte_def hex_digit_inj)
  then have "of_char a = (of_char b :: nat)" by (metis div_mult_mod_eq)
  then show "a = b" by simp
qed simp

lemma hex_inj: "hex_EncodeToString a = hex_EncodeToString b \<longleftrightarrow> a = b"
proof (induction a arbitrary: b)
  case Nil
  then show ?case by (cases b) (simp_all add: hex_EncodeToString_def hex_byte_def)
next
  case IH: (Cons x a)
  have two: "length (hex_byte c) = 2" for c by (simp add: hex_byte_def)
  show ?case
  proof (cases b)
    case Nil
    then show ?thesis by (simp add: hex_EncodeToString_def hex_byte_def)
  next
    case (Cons y b')
    then show ?thesis using IH.IH [of b'] by (simp add: hex_EncodeToString_def two hex_byte_inj)
  qed
qed

lemma requestMessage_inj:
  assumes "requestMessage J m p i ts n b = requestMessage J m' p' i' ts' n' b'"
    and "list_all no_newline [m, p, i, ts, n]" and "list_all no_newline [m', p', i', ts', n']"
  shows "m = m' \<and> p = p' \<and> i = i' \<and> ts = ts' \<and> n = n' \<and> sha256_Sum J b = sha256_Sum J b'"
  using assms by (auto simp: requestMessage_def hex_inj dest!: line_split)

section \<open>The verifier's steps\<close>

inductive verifier_step ::
  "golib \<Rightarrow> ed25519 \<Rightarrow> Certificate set \<Rightarrow> RequestVerifier \<Rightarrow> RequestVerifier \<Rightarrow> bool" for L K B where
  add_nonce: "verifier_step L K B v (snd (addNonce n t v))"
| clean_nonces: "verifier_step L K B v (v\<lparr>rv_nonces := cleanupLocked t (rv_nonces v)\<rparr>)"
| store_cert: "VerifyCertificate L K cert (vc_CAPublicKey (rv_cfg v)) t (vc_ToleranceSecs (rv_cfg v)) = Inr () \<Longrightarrow>
    verifier_step L K B v (storeCert cert t v)"
| cache_incoming: "cert \<in> B \<Longrightarrow> verifier_step L K B v (CacheIncomingCert cert t v)"
| set_crl: "verifier_step L K B v (SetCRL c v)"

definition verifier_inv ::
  "golib \<Rightarrow> ed25519 \<Rightarrow> Certificate set \<Rightarrow> VerifierConfig \<Rightarrow> duration \<Rightarrow> RequestVerifier \<Rightarrow> bool" where
  "verifier_inv L K B cfg ttl v \<longleftrightarrow> rv_cfg v = cfg \<and> cc_ttl (rv_certs v) = ttl \<and>
     (\<forall>i cert st. map_of (cc_entries (rv_certs v)) i = Some (cert, st) \<longrightarrow>
        cNodeID cert = i \<and>
        (VerifyCertificate L K cert (vc_CAPublicKey cfg) st (vc_ToleranceSecs cfg) = Inr () \<or> cert \<in> B))"

lemma addNonce_simps [simp]:
  "rv_cfg (snd (addNonce n t v)) = rv_cfg v" "rv_certs (snd (addNonce n t v)) = rv_certs v"
  "rv_crl (snd (addNonce n t v)) = rv_crl v" "rv_nonces (snd (addNonce n t v)) = snd (NonceCache_Add n t (rv_nonces v))"
  "fst (addNonce n t v) = fst (NonceCache_Add n t (rv_nonces v))"
  by (simp_all add: addNonce_def split: prod.splits)

lemma storeCert_simps [simp]:
  "rv_cfg (storeCert c t v) = rv_cfg v" "rv_nonces (storeCert c t v) = rv_nonces v" "rv_crl (storeCert c t v) = rv_crl v"
  by (simp_all add: storeCert_def)

lemma StoreVerified_entry:
  "map_of (cc_entries (StoreVerified cert t c)) i = Some (x, st) \<Longrightarrow>
   map_of (cc_entries c) i = Some (x, st) \<or> i = cNodeID cert \<and> x = cert \<and> st = t"
  by (auto simp: StoreVerified_def update_conv' split: option.splits if_splits)

lemma verifier_step_mono: "verifier_step L K B v v' \<Longrightarrow> B \<subseteq> B' \<Longrightarrow> verifier_step L K B' v v'"
  by (induction rule: verifier_step.induct) (auto intro: verifier_step.intros)

lemma verifier_steps_mono: "(verifier_step L K B)\<^sup>*\<^sup>* v v' \<Longrightarrow> B \<subseteq> B' \<Longrightarrow> (verifier_step L K B')\<^sup>*\<^sup>* v v'"
  using rtranclp_mono [of "verifier_step L K B" "verifier_step L K B'"] verifier_step_mono by blast

lemma verifier_inv_step: "verifier_step L K B v v' \<Longrightarrow> verifier_inv L K B cfg ttl v \<Longrightarrow> verifier_inv L K B cfg ttl v'"
proof (induction rule: verifier_step.induct)
  case (store_cert cert v t)
  then show ?case by (auto simp: verifier_inv_def storeCert_def dest!: StoreVerified_entry)
next
  case (cache_incoming cert v t)
  then show ?case by (auto simp: verifier_inv_def CacheIncomingCert_def storeCert_def dest!: StoreVerified_entry)
qed (auto simp: verifier_inv_def SetCRL_def)

interpretation vs: kept_invariant "verifier_step L K B" "verifier_inv L K B cfg ttl" for L K B cfg ttl
  by unfold_locales (rule verifier_inv_step)

lemma verifier_inv_New: "verifier_inv L K B cfg ttl (NewRequestVerifier cfg nc (NewCertCache ttl) crl)"
  by (simp add: verifier_inv_def NewRequestVerifier_def NewCertCache_def)

lemma verifier_reachable:
  "(verifier_step L K B)\<^sup>*\<^sup>* (NewRequestVerifier cfg nc (NewCertCache ttl) crl) v \<Longrightarrow> verifier_inv L K B cfg ttl v"
  using vs.kept_steps verifier_inv_New by blast

text \<open>The middleware takes such steps only.\<close>

lemma headerCert_verified:
  "headerCert L J K cfg t r = Inr cert \<Longrightarrow>
   VerifyCertificate L K cert (vc_CAPublicKey cfg) t (vc_ToleranceSecs cfg) = Inr () \<and>
   cNodeID cert = rq_Header r ''X-Chord-Node-ID''"
  by (auto simp: headerCert_def split: sum.splits if_splits)

text \<open>\<open>vouched v t i cert\<close>: the certificate is for \<open>i\<close>, and it verified now or when it was cached, the cache's
  lifetime ago at most.\<close>

definition vouched ::
  "golib \<Rightarrow> ed25519 \<Rightarrow> VerifierConfig \<Rightarrow> duration \<Rightarrow> gotime \<Rightarrow> string \<Rightarrow> Certificate \<Rightarrow> bool" where
  "vouched L K cfg ttl t i cert \<longleftrightarrow> cNodeID cert = i \<and>
     (\<exists>st. (st = t \<or> t \<le> time_Add st ttl) \<and>
        VerifyCertificate L K cert (vc_CAPublicKey cfg) st (vc_ToleranceSecs cfg) = Inr ())"

text \<open>\<open>trusted\<close>: the certificate the middleware uses for a request is vouched for or, if the request carries
  none itself, it may be a planted one for the node.\<close>

definition trusted ::
  "golib \<Rightarrow> ed25519 \<Rightarrow> Certificate set \<Rightarrow> VerifierConfig \<Rightarrow> duration \<Rightarrow> gotime \<Rightarrow> request \<Rightarrow> Certificate \<Rightarrow> bool" where
  "trusted L K B cfg ttl t r cert \<longleftrightarrow> vouched L K cfg ttl t (rq_Header r ''X-Chord-Node-ID'') cert \<or>
     rq_Header r ''X-Chord-Certificate'' = [] \<and> cert \<in> B \<and> cNodeID cert = rq_Header r ''X-Chord-Node-ID''"

lemma trusted_for: "trusted L K B cfg ttl t r cert \<Longrightarrow> cNodeID cert = rq_Header r ''X-Chord-Node-ID''"
  by (auto simp: trusted_def vouched_def)

lemma trusted_header: "headerCert L J K cfg t r = Inr cert \<Longrightarrow> trusted L K B cfg ttl t r cert"
  by (frule headerCert_verified) (auto simp: trusted_def vouched_def)

lemma trusted_cached:
  assumes "verifier_inv L K B cfg ttl v" and "CertCache_Get (rq_Header r ''X-Chord-Node-ID'') t (rv_certs v) = Some cert"
    and "rq_Header r ''X-Chord-Certificate'' = []"
  shows "trusted L K B cfg ttl t r cert"
proof -
  obtain st where "map_of (cc_entries (rv_certs v)) (rq_Header r ''X-Chord-Node-ID'') = Some (cert, st)" "t \<le> time_Add st ttl"
    using assms(1,2) by (auto simp: CertCache_Get_def verifier_inv_def split: option.splits if_splits)
  then show ?thesis using assms(1,3) by (auto simp: verifier_inv_def trusted_def vouched_def)
qed

lemma acquireCert_safe:
  "vs.safe L K B cfg ttl (acquireCert L J K t r) (\<lambda>c. \<forall>cert. c = Inr cert \<longrightarrow> trusted L K B cfg ttl t r cert)"
proof -
  have store: "vs.safe L K B cfg ttl (modify (storeCert cert t)) (\<lambda>_. True)"
    if "headerCert L J K cfg t r = Inr cert" for cert
    using headerCert_verified [OF that]
    by (intro vs.safe_modify) (auto intro: verifier_step.store_cert simp: verifier_inv_def)
  show ?thesis
    unfolding acquireCert_def
    apply (rule vs.safe_if)
     apply (rule vs.safe_bind [OF vs.safe_asks [where D = "\<lambda>c. c = cfg"]])
      apply (simp add: verifier_inv_def)
     apply (rule vs.safe_case_sum; (rule vs.safe_ret, simp)?)
     apply (rule vs.safe_bind [OF store], simp)
     apply (rule vs.safe_ret, simp add: trusted_header)
    apply (rule vs.safe_bind [OF vs.safe_asks [where D = "\<lambda>x. \<forall>cert. x = Some cert \<longrightarrow> trusted L K B cfg ttl t r cert"]])
     apply (simp add: trusted_cached)
    apply (rule vs.safe_case_option; rule vs.safe_ret; simp)
    done
qed

lemma Middleware_moves: "vs.moves L K B cfg ttl (Middleware L J K exempt t0 t r)"
proof -
  have c: "vs.moves L K B cfg ttl (acquireCert L J K t r)" by (rule vs.safe_moves [OF acquireCert_safe])
  have n: "vs.moves L K B cfg ttl (atomically (addNonce i t))" for i
    by (rule vs.moves_atomically) (rule verifier_step.add_nonce)
  show ?thesis
    unfolding Middleware_def checkVNode_def Let_def by (intro safe_intros c n)
qed

section \<open>Accepted requests\<close>

lemma acquireCert_keeps:
  "run_state (acquireCert L J K t r) s = (c, s') \<Longrightarrow>
   rv_cfg (nd s') = rv_cfg (nd s) \<and> rv_crl (nd s') = rv_crl (nd s) \<and> rv_nonces (nd s') = rv_nonces (nd s)"
  by (auto simp: acquireCert_def split: if_splits sum.splits option.splits)

lemma checkVNode_run:
  "run_state (checkVNode L J K t r) s = (p, s') \<Longrightarrow> s' = s"
  by (auto simp: checkVNode_def Let_def split: if_splits sum.splits option.splits)

lemma Middleware_Next:
  assumes "run_state (Middleware L J K exempt t0 t r) s = (Next r', s')" and "\<not> exempt (rq_Path r)"
    and "\<not> t0 < vc_BootGracePeriodEnd (rv_cfg (nd s))"
  obtains cert where
    "checkHeaders (nd s) t r = Inr ()" "fst (NonceCache_Add (rq_Header r ''X-Chord-Nonce'') t (rv_nonces (nd s)))"
    "run_state (acquireCert L J K t r) (s\<lparr>nd := snd (addNonce (rq_Header r ''X-Chord-Nonce'') t (nd s))\<rparr>) = (Inr cert, s')"
    "\<not> IsRevoked (rv_crl (nd s)) (cNodeID cert)" "checkSignature J K cert r = Inr r'"
    "run_state (checkVNode L J K t r) s' = (Inr (), s')"
proof -
  let ?s1 = "s\<lparr>nd := snd (addNonce (rq_Header r ''X-Chord-Nonce'') t (nd s))\<rparr>"
  obtain c s2 where a: "run_state (acquireCert L J K t r) ?s1 = (c, s2)" by fastforce
  have k: "rv_crl (nd s2) = rv_crl (nd s)" using acquireCert_keeps [OF a] by simp
  obtain p s3 where v: "run_state (checkVNode L J K t r) s2 = (p, s3)" by fastforce
  have "s3 = s2" by (rule checkVNode_run [OF v])
  have h: "checkHeaders (nd s) t r \<noteq> Inl (Next x)" for x
    by (auto simp: checkHeaders_def Let_def split: option.splits)
  have c: "c \<noteq> Inl (Next x)" for x
    using a by (auto simp: acquireCert_def headerCert_def libraryFailure_def split: if_splits sum.splits option.splits goerror.splits)
  have p: "p \<noteq> Inl (Next x)" for x
    using v by (auto simp: checkVNode_def checkProof_def Let_def split: if_splits sum.splits option.splits)
  have sg: "checkSignature J K cert r \<noteq> Inl (Next x)" for cert x
    by (auto simp: checkSignature_def Let_def split: sum.splits option.splits if_splits)
  show ?thesis
    using assms a v k h c p sg \<open>s3 = s2\<close>
    by (auto simp: Middleware_def Let_def split: if_splits sum.splits intro!: that)
qed

lemma Next_keeps:
  assumes "run_state (Middleware L J K exempt t0 t r) s = (Next r', s')" and "\<not> exempt (rq_Path r)"
    and "\<not> t0 < vc_BootGracePeriodEnd (rv_cfg (nd s))"
  shows "rv_cfg (nd s') = rv_cfg (nd s) \<and> rv_crl (nd s') = rv_crl (nd s) \<and>
    rv_nonces (nd s') = snd (NonceCache_Add (rq_Header r ''X-Chord-Nonce'') t (rv_nonces (nd s)))"
proof -
  obtain cert where "run_state (acquireCert L J K t r) (s\<lparr>nd := snd (addNonce (rq_Header r ''X-Chord-Nonce'') t (nd s))\<rparr>) = (Inr cert, s')"
    using Middleware_Next [OF assms] by metis
  from acquireCert_keeps [OF this] show ?thesis by simp
qed

lemma checkSignature_iff:
  "checkSignature J K cert r = Inr r' \<longleftrightarrow>
   (\<exists>b sig pub. readBody r = Inr b \<and> r' = r\<lparr>rq_Body := b, rq_BodyError := None\<rparr> \<and>
      rawurl_Decode (rq_Header r ''X-Chord-Signature'') = Some sig \<and> length sig = 64 \<and>
      NodePublicKey cert = Inr pub \<and>
      ed_Verify K pub (requestMessage J (rq_Method r) (rq_RequestURI r) (rq_Header r ''X-Chord-Node-ID'')
        (rq_Header r ''X-Chord-Timestamp'') (rq_Header r ''X-Chord-Nonce'') b) sig)"
  by (auto simp: checkSignature_def Let_def split: sum.splits option.splits if_splits)

lemma Add_fresh: "fst (NonceCache_Add n t c) \<Longrightarrow> n \<notin> fst ` set (nc_entries c)"
  by (rule notI) (simp add: NonceCache_Add_def)

text \<open>\<open>signed_by\<close>: the request's signature is by the key of the certificate, over the body \<open>b\<close>.\<close>

definition signed_by :: "codecs \<Rightarrow> ed25519 \<Rightarrow> Certificate \<Rightarrow> request \<Rightarrow> string \<Rightarrow> bool" where
  "signed_by J K cert r b \<longleftrightarrow>
     (\<exists>sig pub. rawurl_Decode (rq_Header r ''X-Chord-Signature'') = Some sig \<and> NodePublicKey cert = Inr pub \<and>
        ed_Verify K pub (requestMessage J (rq_Method r) (rq_RequestURI r) (rq_Header r ''X-Chord-Node-ID'')
          (rq_Header r ''X-Chord-Timestamp'') (rq_Header r ''X-Chord-Nonce'') b) sig)"

lemma Next_certified:
  assumes "verifier_inv L K B cfg ttl (nd s)" and "run_state (Middleware L J K exempt t0 t r) s = (Next r', s')"
    and "\<not> exempt (rq_Path r)" and "\<not> t0 < vc_BootGracePeriodEnd cfg"
  obtains cert where "trusted L K B cfg ttl t r cert"
    "\<not> IsRevoked (rv_crl (nd s)) (rq_Header r ''X-Chord-Node-ID'')" "signed_by J K cert r (rq_Body r')"
    "r' = r\<lparr>rq_Body := rq_Body r', rq_BodyError := None\<rparr>" "rq_Body r' = take maxBodySize (rq_Body r)"
    "run_state (checkVNode L J K t r) s' = (Inr (), s')"
proof -
  have cfg: "rv_cfg (nd s) = cfg" using assms(1) by (simp add: verifier_inv_def)
  let ?s1 = "s\<lparr>nd := snd (addNonce (rq_Header r ''X-Chord-Nonce'') t (nd s))\<rparr>"
  obtain cert where c: "run_state (acquireCert L J K t r) ?s1 = (Inr cert, s')" "\<not> IsRevoked (rv_crl (nd s)) (cNodeID cert)"
    "checkSignature J K cert r = Inr r'" "run_state (checkVNode L J K t r) s' = (Inr (), s')"
    using Middleware_Next [OF assms(2,3)] assms(4) cfg by metis
  have "verifier_inv L K B cfg ttl (nd ?s1)" using assms(1) by (simp add: verifier_inv_def)
  then have v: "trusted L K B cfg ttl t r cert"
    using vs.safe_result [OF acquireCert_safe [of L K B cfg ttl J t r], of ?s1] c(1) by simp
  moreover from c(2) have "\<not> IsRevoked (rv_crl (nd s)) (rq_Header r ''X-Chord-Node-ID'')" unfolding trusted_for [OF v] .
  moreover from c(3) have "signed_by J K cert r (rq_Body r')" "r' = r\<lparr>rq_Body := rq_Body r', rq_BodyError := None\<rparr>"
    "rq_Body r' = take maxBodySize (rq_Body r)"
    by (auto simp: checkSignature_iff signed_by_def readBody_def split: if_splits option.splits)
  ultimately show ?thesis using c(4) by (rule that)
qed

lemma Next_fresh_in_window:
  assumes "run_state (Middleware L J K exempt t0 t r) s = (Next r', s')" and "\<not> exempt (rq_Path r)"
    and "\<not> t0 < vc_BootGracePeriodEnd (rv_cfg (nd s))"
  shows "(\<exists>ts. ParseInt64 (rq_Header r ''X-Chord-Timestamp'') = Some ts \<and>
      inWindow t ts (vc_TimestampTolerance (rv_cfg (nd s)))) \<and>
    rq_Header r ''X-Chord-Nonce'' \<notin> fst ` set (nc_entries (rv_nonces (nd s))) \<and>
    rq_Header r ''X-Chord-Nonce'' \<in> fst ` set (nc_entries (rv_nonces (nd s')))"
proof -
  let ?n = "rq_Header r ''X-Chord-Nonce''"
  have c: "checkHeaders (nd s) t r = Inr ()" "fst (NonceCache_Add ?n t (rv_nonces (nd s)))"
    using Middleware_Next [OF assms] by metis+
  have "rv_nonces (nd s') = snd (NonceCache_Add ?n t (rv_nonces (nd s)))" using Next_keeps [OF assms] by simp
  moreover have "(?n, time_Add t (nc_ttl (rv_nonces (nd s)))) \<in> set (nc_entries (snd (NonceCache_Add ?n t (rv_nonces (nd s)))))"
    by (rule Add_records [OF c(2)])
  ultimately have "?n \<in> fst ` set (nc_entries (rv_nonces (nd s')))" by force
  then show ?thesis
    using c(1) Add_fresh [OF c(2)] by (auto simp: checkHeaders_def Let_def split: if_splits option.splits)
qed

text \<open>C21: Authenticity. Let \<open>B\<close> be the certificates that request bodies have brought into the verifier's cache
  without being verified (see C25); \<open>B = {}\<close> is a verifier that has only cached certificates that verified.
  Outside the exempt paths and the boot grace period, a request is let through only if: the certificate
  used for it is for the node in its header, and was signed by the CA for that node (verified now, or
  when it was cached, one cache lifetime ago at most) or, when the request brings no certificate of its
  own, is one of \<open>B\<close>; the node is not revoked by the list in force; the key of that certificate signed
  the method, path, node, timestamp, nonce and the very body the handler will read, one megabyte at
  most; the timestamp is a number in the window; and the nonce was new and is now recorded.\<close>

theorem request_authentic:
  assumes "(verifier_step L K B)\<^sup>*\<^sup>* (NewRequestVerifier cfg (NewNonceCache nttl nmax) (NewCertCache ttl) crl) (nd s)"
    and "run_state (Middleware L J K exempt t0 t r) s = (Next r', s')"
    and "\<not> exempt (rq_Path r)" and "\<not> t0 < vc_BootGracePeriodEnd cfg"
  shows "\<exists>cert ts. trusted L K B cfg ttl t r cert \<and>
    \<not> IsRevoked (rv_crl (nd s)) (rq_Header r ''X-Chord-Node-ID'') \<and>
    signed_by J K cert r (rq_Body r') \<and>
    r' = r\<lparr>rq_Body := rq_Body r', rq_BodyError := None\<rparr> \<and> rq_Body r' = take maxBodySize (rq_Body r) \<and>
    ParseInt64 (rq_Header r ''X-Chord-Timestamp'') = Some ts \<and> inWindow t ts (vc_TimestampTolerance cfg) \<and>
    rq_Header r ''X-Chord-Nonce'' \<notin> fst ` set (nc_entries (rv_nonces (nd s))) \<and>
    rq_Header r ''X-Chord-Nonce'' \<in> fst ` set (nc_entries (rv_nonces (nd s')))"
proof -
  have inv: "verifier_inv L K B cfg ttl (nd s)" by (rule verifier_reachable [OF assms(1)])
  then have cfg: "rv_cfg (nd s) = cfg" by (simp add: verifier_inv_def)
  show ?thesis
    using Next_certified [OF inv assms(2-4)] Next_fresh_in_window [OF assms(2,3)] assms(4) unfolding cfg by metis
qed

section \<open>The window\<close>

lemma inWindow_near:
  assumes "\<bar>toUnix t - ts\<bar> \<le> 9223372036"
  shows "inWindow t ts tol \<longleftrightarrow> \<bar>toUnix t - ts\<bar> * Second \<le> tol"
proof -
  have scaled: "wrap64 (x * Second) = x * Second" if "0 \<le> x" "x \<le> 9223372036" for x
    by (rule wrap64_id) (use that in \<open>simp_all add: Second_def\<close>)
  have "wrap64 (toUnix t - ts) = toUnix t - ts" "abs64 (toUnix t - ts) = \<bar>toUnix t - ts\<bar>"
    "wrap64 (\<bar>toUnix t - ts\<bar> * Second) = \<bar>toUnix t - ts\<bar> * Second"
    using assms scaled [of "\<bar>toUnix t - ts\<bar>"] by (auto simp: wrap64_id abs64_def)
  then show ?thesis by (simp add: inWindow_def not_less)
qed

lemma wrap64_shift: "2 ^ 63 \<le> x \<Longrightarrow> x < 2 ^ 64 \<Longrightarrow> wrap64 x = x - 2 ^ 64"
proof -
  assume "2 ^ 63 \<le> x" "x < 2 ^ 64"
  then have "take_bit 64 x = x" "bit x 63"
    by (simp_all add: take_bit_int_eq_self_iff bit_iff_odd) (simp add: div_pos_pos_trivial odd_iff_mod_2_eq_one; presburger)
  then show ?thesis by (simp add: wrap64_def signed_take_bit_eq_take_bit_minus)
qed

text \<open>C34: The window is exact up to 292 years and open beyond. A timestamp at most 9223372036 seconds away is
  accepted exactly if its distance in seconds is within the tolerance; but the distance in
  nanoseconds is computed modulo 2^64, and every timestamp between 9223372037 and 18446744073
  seconds away is accepted, whatever the tolerance.\<close>

theorem timestamp_window:
  "(\<bar>toUnix t - ts\<bar> \<le> 9223372036 \<longrightarrow> (inWindow t ts tol \<longleftrightarrow> \<bar>toUnix t - ts\<bar> * Second \<le> tol)) \<and>
   (0 \<le> tol \<and> 9223372037 \<le> \<bar>toUnix t - ts\<bar> \<and> \<bar>toUnix t - ts\<bar> \<le> 18446744073 \<longrightarrow> inWindow t ts tol)"
proof (intro conjI impI)
  assume a: "0 \<le> tol \<and> 9223372037 \<le> \<bar>toUnix t - ts\<bar> \<and> \<bar>toUnix t - ts\<bar> \<le> 18446744073"
  have "wrap64 (toUnix t - ts) = toUnix t - ts" "abs64 (toUnix t - ts) = \<bar>toUnix t - ts\<bar>"
    using a by (auto simp: wrap64_id abs64_def)
  moreover have "wrap64 (\<bar>toUnix t - ts\<bar> * Second) \<le> tol"
    using a by (subst wrap64_shift) (auto simp: Second_def)
  ultimately show "inWindow t ts tol" by (simp add: inWindow_def)
qed (simp add: inWindow_near)

lemma timestamp_window_witness:
  "inWindow (time_Unix 1700000000) (1700000000 - 9223372037) 0 \<and> \<not> inWindow (time_Unix 1700000000) (1700000000 - 301) (300 * Second)"
proof -
  have u: "toUnix (time_Unix 1700000000) = 1700000000"
    by (simp add: toUnix_def time_Unix_def unixToInternal_def Second_def wrap64_id)
  show ?thesis
    using timestamp_window [of "time_Unix 1700000000" "1700000000 - 9223372037" 0]
      timestamp_window [of "time_Unix 1700000000" "1700000000 - 301" "300 * Second"]
    by (simp add: u Second_def)
qed

section \<open>Replay\<close>

lemma toUnix_bounds:
  "time_Unix 0 \<le> t \<Longrightarrow> t < time_Unix (2 ^ 33) \<Longrightarrow>
   0 \<le> toUnix t \<and> toUnix t < 2 ^ 33 \<and> time_Unix 0 + toUnix t * Second \<le> t \<and> t < time_Unix 0 + (toUnix t + 1) * Second"
proof -
  assume a: "time_Unix 0 \<le> t" "t < time_Unix (2 ^ 33)"
  have e: "time_Unix 0 = unixToInternal * Second" "time_Unix (2 ^ 33) = (2 ^ 33 + unixToInternal) * Second"
    by (simp_all add: time_Unix_def unixToInternal_def wrap64_id)
  define q where "q = t div Second"
  have q: "q * Second \<le> t" "t < (q + 1) * Second"
    unfolding q_def using div_mult_mod_eq [of t Second] pos_mod_bound [of Second t] pos_mod_sign [of Second t]
    by (auto simp: Second_def)
  have "unixToInternal \<le> q" "q < 2 ^ 33 + unixToInternal"
    using a e q by (auto simp: Second_def)
  moreover from this have "toUnix t = q - unixToInternal"
    unfolding toUnix_def q_def by (intro wrap64_id) (auto simp: unixToInternal_def)
  ultimately show ?thesis using q e by (auto simp: algebra_simps)
qed

text \<open>C33: No replay. When the nonce cache's lifetime is twice the window and a second more, a request that was
  let through is never let through again, nor is any other with its nonce and timestamp, whatever
  requests and clean-ups came in between, as long as no clock reading in between is later than the
  second request's. (Times lie between 1970 and 2242, and the timestamp is one of them.)\<close>

theorem accepted_request_not_replayed:
  assumes "rv_nonces (nd s) = nonce_run before (NewNonceCache nttl nmax)"
    and "run_state (Middleware L J K exempt t0 t r) s = (Next r', s')"
    and "rv_nonces (nd s2) = nonce_run es (rv_nonces (nd s'))" and "\<forall>e \<in> set es. event_time e \<le> t2"
    and "rv_cfg (nd s) = cfg" and "rv_cfg (nd s2) = cfg" and "2 * vc_TimestampTolerance cfg + Second \<le> nttl"
    and "nttl < 2 ^ 63"
    and "rq_Header r2 ''X-Chord-Nonce'' = rq_Header r ''X-Chord-Nonce''"
    and "rq_Header r2 ''X-Chord-Timestamp'' = rq_Header r ''X-Chord-Timestamp''"
    and "\<not> exempt (rq_Path r)" and "\<not> exempt (rq_Path r2)" and "\<not> t0 < vc_BootGracePeriodEnd cfg" and "\<not> t02 < vc_BootGracePeriodEnd cfg"
    and "t \<in> {time_Unix 0 ..< time_Unix (2 ^ 33)}" and "t2 \<in> {time_Unix 0 ..< time_Unix (2 ^ 33)}"
    and "ParseInt64 (rq_Header r ''X-Chord-Timestamp'') = Some ts" and "0 \<le> ts" and "ts < 2 ^ 33"
  shows "fst (run_state (Middleware L J K exempt t02 t2 r2) s2) \<noteq> Next x"
proof
  assume acc: "fst (run_state (Middleware L J K exempt t02 t2 r2) s2) = Next x"
  let ?n = "rq_Header r ''X-Chord-Nonce''" and ?tol = "vc_TimestampTolerance cfg"
  obtain s3 where acc: "run_state (Middleware L J K exempt t02 t2 r2) s2 = (Next x, s3)"
    using acc by (cases "run_state (Middleware L J K exempt t02 t2 r2) s2") auto
  obtain c where 1: "checkHeaders (nd s) t r = Inr ()" "fst (NonceCache_Add ?n t (rv_nonces (nd s)))"
    "run_state (acquireCert L J K t r) (s\<lparr>nd := snd (addNonce ?n t (nd s))\<rparr>) = (Inr c, s')"
    using Middleware_Next [OF assms(2,11)] assms(5,13) by metis
  have 2: "checkHeaders (nd s2) t2 r2 = Inr ()" "fst (NonceCache_Add ?n t2 (rv_nonces (nd s2)))"
    using Middleware_Next [OF acc assms(12)] assms(6,14) unfolding assms(9) by metis+
  have u: "0 \<le> toUnix t" "toUnix t < 2 ^ 33" "0 \<le> toUnix t2" "toUnix t2 < 2 ^ 33"
    "time_Unix 0 + toUnix t * Second \<le> t" "t2 < time_Unix 0 + (toUnix t2 + 1) * Second"
    using toUnix_bounds [of t] toUnix_bounds [of t2] assms(15,16) by auto
  have w: "\<bar>toUnix t - ts\<bar> * Second \<le> ?tol" "\<bar>toUnix t2 - ts\<bar> * Second \<le> ?tol"
    using 1(1) 2(1) assms(5,6,10,17-19) u inWindow_near [of t ts ?tol] inWindow_near [of t2 ts ?tol]
    by (auto simp: checkHeaders_def Let_def split: if_splits)
  have "(toUnix t2 - toUnix t) * Second \<le> (\<bar>toUnix t2 - ts\<bar> + \<bar>toUnix t - ts\<bar>) * Second"
    by (rule mult_right_mono) (auto simp: Second_def)
  then have "t2 \<le> t + nttl" using w u(5,6) assms(7) by (simp add: Second_def algebra_simps)
  moreover have "time_Add t nttl = t + nttl"
    using assms(7,8,15) order_trans [OF _ w(1), of 0]
    by (intro time_Add_exact) (auto simp: Second_def time_Unix_def unixToInternal_def wrap64_id)
  ultimately have t2: "t2 \<le> time_Add t nttl" by simp
  have ttl: "nc_ttl (rv_nonces (nd s)) = nttl"
  proof -
    have "nc_ttl (nonce_run es z) = nc_ttl z" for es z
      unfolding nonce_run_def by (induction es arbitrary: z) auto
    then show ?thesis by (simp add: assms(1) NewNonceCache_def)
  qed
  have "(?n, time_Add t nttl) \<in> set (nc_entries (rv_nonces (nd s')))"
    using Add_records [OF 1(2)] acquireCert_keeps [OF 1(3)] ttl by simp
  then have "(?n, time_Add t nttl) \<in> set (nc_entries (rv_nonces (nd s2)))"
    unfolding assms(3) using nonce_run_keeps assms(4) t2 by fastforce
  then have "?n \<in> fst ` set (nc_entries (rv_nonces (nd s2)))" by force
  then show False using 2(2) by (simp add: NonceCache_Add_def)
qed

section \<open>What a signer sends is accepted\<close>

lemma rawurl_Encode_64: "length sig = 64 \<Longrightarrow> rawurl_Encode sig \<noteq> []"
  using rawurl_roundtrip [of sig] by (auto simp: rawurl_Decode_def)

lemma itoa_nonempty: "itoa i \<noteq> []"
  using utoa_digits by (simp add: itoa_def)

lemma checkHeaders_ok:
  "rq_Header r ''X-Chord-Node-ID'' \<noteq> [] \<Longrightarrow> rq_Header r ''X-Chord-Timestamp'' = itoa (toUnix t0) \<Longrightarrow>
   rq_Header r ''X-Chord-Nonce'' \<noteq> [] \<Longrightarrow> rq_Header r ''X-Chord-Signature'' \<noteq> [] \<Longrightarrow>
   inWindow t (toUnix t0) (vc_TimestampTolerance (rv_cfg v)) \<Longrightarrow> checkHeaders v t r = Inr ()"
  using wrap64_bounds [of "t0 div Second - unixToInternal"]
  by (simp add: checkHeaders_def Let_def itoa_nonempty ParseInt64_itoa toUnix_def)

text \<open>\<open>plain r\<close>: nothing of the authentication is set yet, and the body can be read.\<close>

definition plain :: "request \<Rightarrow> bool" where
  "plain r \<longleftrightarrow> (\<forall>k \<in> {''X-Chord-Certificate'', ''X-Chord-Anchor-ID'', ''X-Chord-VNode-Proof''}. rq_Header r k = []) \<and>
     rq_BodyError r = None \<and> length (rq_Body r) \<le> maxBodySize"

definition body_of :: "string option \<Rightarrow> string" where
  "body_of b = (case b of None \<Rightarrow> [] | Some x \<Rightarrow> x)"

lemma Sign_headers:
  assumes "Sign J K s u (Inr nb) body r0 = Inr r" and "plain r0" and "sg_anchorID s = []"
  shows "rq_Header r ''X-Chord-Node-ID'' = sg_nodeID s \<and> rq_Header r ''X-Chord-Timestamp'' = itoa (toUnix u) \<and>
    rq_Header r ''X-Chord-Nonce'' = hex_EncodeToString nb \<and>
    rq_Header r ''X-Chord-Signature'' = rawurl_Encode (ed_Sign K (sg_privKey s)
      (requestMessage J (rq_Method r) (rq_RequestURI r) (sg_nodeID s) (itoa (toUnix u)) (hex_EncodeToString nb) (body_of body))) \<and>
    plain r \<and> rq_Path r = rq_Path r0 \<and> rq_Body r = rq_Body r0 \<and> rq_BodyError r = None"
  using assms by (auto simp: Sign_def Header_Set_def Let_def plain_def body_of_def)

lemma signed_accepted:
  assumes K: "ed25519_ok K" and sgn: "Sign J K s u (Inr nb) body r0 = Inr r1" and p: "plain r0" and b: "rq_Body r0 = body_of body"
    and nv: "sg_anchorID s = []" and id: "sg_nodeID s = cNodeID c" "cNodeID c \<noteq> []" and nb: "nb \<noteq> []"
    and key: "NodePublicKey c = Inr (ed_Public K (sg_privKey s))"
    and r: "r = r1 \<and> CertCache_Get (cNodeID c) t (rv_certs v) = Some c \<or>
      (\<exists>h. h \<noteq> [] \<and> r = Header_Set ''X-Chord-Certificate'' h r1 \<and> headerCert L J K (rv_cfg v) t r = Inr c)"
    and w: "inWindow t (toUnix u) (vc_TimestampTolerance (rv_cfg v))"
    and fresh: "fst (NonceCache_Add (hex_EncodeToString nb) t (rv_nonces v))"
    and rev: "\<not> IsRevoked (rv_crl v) (cNodeID c)"
  shows "fst (run_state (Middleware L J K exempt t0 t r) \<lparr>nd = v, wd = wd0, spawned = sp\<rparr>) = Next r"
proof -
  note h = Sign_headers [OF sgn p nv]
  have f: "rq_Header r ''X-Chord-Node-ID'' = cNodeID c" "rq_Header r ''X-Chord-Timestamp'' = itoa (toUnix u)"
    "rq_Header r ''X-Chord-Nonce'' = hex_EncodeToString nb"
    "rq_Header r ''X-Chord-Signature'' = rawurl_Encode (ed_Sign K (sg_privKey s)
      (requestMessage J (rq_Method r) (rq_RequestURI r) (cNodeID c) (itoa (toUnix u)) (hex_EncodeToString nb) (rq_Body r)))"
    "rq_Header r ''X-Chord-Anchor-ID'' = []" "readBody r = Inr (rq_Body r)" "rq_BodyError r = None"
    "r = r1 \<Longrightarrow> rq_Header r ''X-Chord-Certificate'' = []"
    using h r b id by (auto simp: plain_def Header_Set_def readBody_def)
  have hx: "hex_EncodeToString nb \<noteq> []" using nb by (cases nb) (simp_all add: hex_EncodeToString_def hex_byte_def)
  have s64: "length (ed_Sign K k m) = 64" for k m using K by (simp add: ed25519_ok_def)
  have ch: "checkHeaders v t r = Inr ()"
    by (rule checkHeaders_ok) (use f hx id w rawurl_Encode_64 [OF s64] in auto)
  have sg: "checkSignature J K c r = Inr r"
    unfolding checkSignature_iff using f key K s64 by (auto simp: rawurl_roundtrip ed25519_ok_def)
  have "fst (run_state (acquireCert L J K t r) \<lparr>nd = snd (addNonce (hex_EncodeToString nb) t v), wd = wd0, spawned = sp\<rparr>) = Inr c"
    using r f(1,8) by (auto simp: acquireCert_def Header_Set_def)
  then obtain s2 where a: "run_state (acquireCert L J K t r) \<lparr>nd = snd (addNonce (hex_EncodeToString nb) t v), wd = wd0, spawned = sp\<rparr> = (Inr c, s2)"
    by (metis prod.collapse)
  then have "rv_crl (nd s2) = rv_crl v" using acquireCert_keeps [OF a] by simp
  then show ?thesis
    using ch fresh a rev sg f(3,5) by (simp add: Middleware_def Let_def checkVNode_def)
qed

section \<open>A concrete node and its verifier\<close>

text \<open>The defaults of \<open>internal/config\<close>: 300 seconds of tolerance, nonces kept for 600 and certificates for an
  hour.\<close>

definition demo_cfg :: VerifierConfig where
  "demo_cfg = \<lparr>vc_CAPublicKey = ed_Public demo_ed ''ca'', vc_TimestampTolerance = 300 * Second, vc_ToleranceSecs = 300,
     vc_BootGracePeriodEnd = 0, vc_ClockSkewTolerance = 0\<rparr>"

definition demo_verifier :: RequestVerifier where
  "demo_verifier = NewRequestVerifier demo_cfg (NewNonceCache (600 * Second) 10000) (NewCertCache (3600 * Second)) None"

definition knowing_verifier :: RequestVerifier where
  "knowing_verifier = storeCert demo_cert (time_Unix 1200) demo_verifier"

definition demo_signer :: RequestSigner where
  "demo_signer = NewRequestSigner (cNodeID demo_cert) ''node'' (Some demo_cert)"

definition blank :: request where
  "blank = \<lparr>rq_Method = ''GET'', rq_Path = ''/chord/state'', rq_RequestURI = ''/chord/state'', rq_Header = (\<lambda>_. []),
     rq_Body = [], rq_BodyError = None\<rparr>"

definition demo_signed :: request where
  "demo_signed = projr (Sign demo_codecs demo_ed demo_signer (time_Unix 1500) (Inr ''sixteen random b'') None blank)"

lemma time_Unix_plain: "0 \<le> s \<Longrightarrow> s < 2 ^ 40 \<Longrightarrow> time_Unix s = (s + unixToInternal) * Second"
  by (simp add: time_Unix_def unixToInternal_def wrap64_id)

lemma toUnix_plain: "0 \<le> s \<Longrightarrow> s < 2 ^ 40 \<Longrightarrow> 0 \<le> f \<Longrightarrow> f < Second \<Longrightarrow> toUnix (time_Unix s + f) = s"
  by (simp add: time_Unix_plain toUnix_def unixToInternal_def Second_def wrap64_id)

lemma toUnix_time_Unix: "0 \<le> s \<Longrightarrow> s < 2 ^ 40 \<Longrightarrow> toUnix (time_Unix s) = s"
  using toUnix_plain [of s 0] by (simp add: Second_def)

lemma demo_signed_is:
  "Sign demo_codecs demo_ed demo_signer (time_Unix 1500) (Inr ''sixteen random b'') None blank = Inr demo_signed"
  by (simp add: demo_signed_def Sign_def Let_def)

lemma knowing_reachable_by:
  assumes "HashURI L (cURI demo_cert) = Inr (cNodeID demo_cert)"
  shows "(verifier_step L demo_ed B)\<^sup>*\<^sup>* demo_verifier knowing_verifier"
proof -
  have "length (ed_Public demo_ed ''ca'') = 32" using demo_ed_ok by (simp add: ed25519_ok_def)
  moreover have "valid_at demo_cert_content (time_Unix 1200) 300" by code_simp
  then have "valid_at demo_cert (time_Unix 1200) 300" by (simp add: valid_at_def demo_cert_def SignCertificate_def)
  ultimately have "VerifyCertificate L demo_ed demo_cert (ed_Public demo_ed ''ca'') (time_Unix 1200) 300 = Inr ()"
    using demo_cert_fields assms by (simp add: VerifyCertificate_iff)
  then show ?thesis
    unfolding knowing_verifier_def
    by (intro r_into_rtranclp verifier_step.store_cert)
      (simp add: demo_verifier_def NewRequestVerifier_def demo_cfg_def)
qed

lemmas knowing_reachable = knowing_reachable_by [OF demo_cert_fields(3)]

lemma demo_accepted_any:
  assumes "Sign demo_codecs demo_ed demo_signer (time_Unix 1500) (Inr nb) body r0 = Inr r" and "plain r0"
    and "rq_Body r0 = body_of body" and "nb \<noteq> []"
    and "1200 \<le> s" "s \<le> 1800" "0 \<le> f" "f < Second" and "rv_cfg v = demo_cfg" "rv_crl v = None"
    and "rv_certs v = rv_certs knowing_verifier"
    and "fst (NonceCache_Add (hex_EncodeToString nb) (time_Unix s + f) (rv_nonces v))"
  shows "fst (run_state (Middleware demo_lib demo_codecs demo_ed exempt t0 (time_Unix s + f) r)
    \<lparr>nd = v, wd = w, spawned = sp\<rparr>) = Next r"
proof (rule signed_accepted [OF demo_ed_ok assms(1-3)])
  show "sg_anchorID demo_signer = []" "sg_nodeID demo_signer = cNodeID demo_cert"
    by (simp_all add: demo_signer_def NewRequestSigner_def)
  show "cNodeID demo_cert \<noteq> []" using demo_cert_fields(2) by auto
  show "NodePublicKey demo_cert = Inr (ed_Public demo_ed (sg_privKey demo_signer))"
    using demo_cert_fields(4) by (simp add: demo_signer_def NewRequestSigner_def)
  have "time_Add (time_Unix 1200) (3600 * Second) = time_Unix 4800"
    by (simp add: time_Unix_plain time_Add_exact unixToInternal_def Second_def)
  then have "CertCache_Get (cNodeID demo_cert) (time_Unix s + f) (rv_certs v) = Some demo_cert"
    using assms by (simp add: knowing_verifier_def storeCert_def demo_verifier_def NewRequestVerifier_def
        StoreVerified_def NewCertCache_def CertCache_Get_def time_Unix_plain Second_def)
  then show "r = r \<and> CertCache_Get (cNodeID demo_cert) (time_Unix s + f) (rv_certs v) = Some demo_cert \<or>
      (\<exists>h. h \<noteq> [] \<and> r = Header_Set ''X-Chord-Certificate'' h r \<and>
        headerCert demo_lib demo_codecs demo_ed (rv_cfg v) (time_Unix s + f) r = Inr demo_cert)" by simp
  show "inWindow (time_Unix s + f) (toUnix (time_Unix 1500)) (vc_TimestampTolerance (rv_cfg v))"
    using assms by (subst inWindow_near) (auto simp: toUnix_plain toUnix_time_Unix demo_cfg_def Second_def)
qed (use assms in \<open>simp_all add: IsRevoked_def\<close>)

lemma demo_accepted:
  assumes "1200 \<le> s" "s \<le> 1800" "0 \<le> f" "f < Second" and "rv_cfg v = demo_cfg" "rv_crl v = None"
    and "rv_certs v = rv_certs knowing_verifier"
    and "fst (NonceCache_Add (hex_EncodeToString ''sixteen random b'') (time_Unix s + f) (rv_nonces v))"
  shows "fst (run_state (Middleware demo_lib demo_codecs demo_ed (\<lambda>_. False) t0 (time_Unix s + f) demo_signed)
    \<lparr>nd = v, wd = (), spawned = ([] :: unit list)\<rparr>) = Next demo_signed"
  by (rule demo_accepted_any [OF demo_signed_is]) (use assms in \<open>simp_all add: plain_def blank_def body_of_def\<close>)

lemma knowing_fields:
  "rv_cfg knowing_verifier = demo_cfg" "rv_crl knowing_verifier = None"
  "rv_nonces knowing_verifier = NewNonceCache (600 * Second) 10000"
  by (simp_all add: knowing_verifier_def demo_verifier_def NewRequestVerifier_def)

lemma new_cache_accepts: "fst (NonceCache_Add n t (NewNonceCache ttl 10000))"
  by (simp add: NonceCache_Add_def NewNonceCache_def NonceCache_Len_def)

lemma request_authentic_witness:
  "\<exists>cert. vouched demo_lib demo_ed demo_cfg (3600 * Second) (time_Unix 1500 + 0) (cNodeID demo_cert) cert \<and>
     signed_by demo_codecs demo_ed cert demo_signed []"
proof -
  let ?s = "\<lparr>nd = knowing_verifier, wd = (), spawned = ([] :: unit list)\<rparr>"
  let ?m = "Middleware demo_lib demo_codecs demo_ed (\<lambda>_. False) 0 (time_Unix 1500 + 0) demo_signed"
  have v: "rv_cfg knowing_verifier = demo_cfg" "rv_crl knowing_verifier = None"
    "rv_nonces knowing_verifier = NewNonceCache (600 * Second) 10000"
    by (simp_all add: knowing_verifier_def demo_verifier_def NewRequestVerifier_def)
  have "fst (NonceCache_Add n t (NewNonceCache (600 * Second) 10000))" for n t
    by (simp add: NonceCache_Add_def NewNonceCache_def NonceCache_Len_def)
  then have "fst (run_state ?m ?s) = Next demo_signed"
    by (intro demo_accepted) (simp_all add: v Second_def)
  then obtain s' where "run_state ?m ?s = (Next demo_signed, s')" by (metis prod.collapse)
  from request_authentic [OF _ this, of "{}" demo_cfg "600 * Second" 10000 "3600 * Second" None]
  have "\<exists>cert. vouched demo_lib demo_ed demo_cfg (3600 * Second) (time_Unix 1500 + 0) (rq_Header demo_signed ''X-Chord-Node-ID'') cert \<and>
      signed_by demo_codecs demo_ed cert demo_signed (rq_Body demo_signed)"
    using knowing_reachable by (auto simp: demo_verifier_def demo_cfg_def trusted_def)
  then show ?thesis by (simp add: demo_signed_def Sign_def Let_def Header_Set_def demo_signer_def NewRequestSigner_def blank_def)
qed

lemma HashURI_https:
  assumes "HashURI L u = Inr i"
  obtains n where "i = hex_EncodeToString (sha1_Sum L (''https://'' @ n))"
proof -
  have "\<exists>n. m = ''https://'' @ n" if "NormalizeURI L u = Inr m" for m
    using that by (auto simp: NormalizeURI_def Let_def split: sum.splits if_splits)
  then show ?thesis using assms that by (fastforce simp: HashURI_def split: sum.splits)
qed

text \<open>C35: A virtual node can not authenticate with certificates of the CA. Outside the exempt paths and the
  boot grace period, a request that carries a proof of a virtual node, under an anchor other than its
  own node ID, is refused unless it exhibits two texts of one SHA-1 digest (its node ID would be that of
  a normalised https URI, for the certificate, and that derived from an anchor and an index, for the
  proof), or the request brings no certificate and one for the virtual node's ID was planted
  in the verifier's cache by a request body, without verification (the set \<open>B\<close>, see C25).\<close>

theorem vnode_request_refused:
  assumes "(verifier_step L K B)\<^sup>*\<^sup>* (NewRequestVerifier cfg nonces (NewCertCache ttl) crl) (nd s)"
    and "length (vc_CAPublicKey cfg) = 32" and "\<not> exempt (rq_Path r)" and "\<not> t0 < vc_BootGracePeriodEnd cfg"
    and "rq_Header r ''X-Chord-VNode-Proof'' \<noteq> []" and "rq_Header r ''X-Chord-Anchor-ID'' \<noteq> []"
    and "rq_Header r ''X-Chord-Anchor-ID'' \<noteq> rq_Header r ''X-Chord-Node-ID''"
  shows "(\<forall>r'. fst (run_state (Middleware L J K exempt t0 t r) s) \<noteq> Next r') \<or>
    (\<exists>n a i. sha1_Sum L (''https://'' @ n) = sha1_Sum L (''chord-vnode-v4'' @ newline @ a @ newline @ itoa i)) \<or>
    rq_Header r ''X-Chord-Certificate'' = [] \<and> rq_Header r ''X-Chord-Node-ID'' \<in> cNodeID ` B"
proof (rule disjCI)
  assume "\<not> ((\<exists>n a i. sha1_Sum L (''https://'' @ n) = sha1_Sum L (''chord-vnode-v4'' @ newline @ a @ newline @ itoa i)) \<or>
    rq_Header r ''X-Chord-Certificate'' = [] \<and> rq_Header r ''X-Chord-Node-ID'' \<in> cNodeID ` B)"
  then have no: "sha1_Sum L (''https://'' @ n) \<noteq> sha1_Sum L (''chord-vnode-v4'' @ newline @ a @ newline @ itoa i)"
    and unplanted: "rq_Header r ''X-Chord-Certificate'' = [] \<longrightarrow> rq_Header r ''X-Chord-Node-ID'' \<notin> cNodeID ` B" for n a i
    by blast+
  have inv: "verifier_inv L K B cfg ttl (nd s)" by (rule verifier_reachable [OF assms(1)])
  let ?i = "rq_Header r ''X-Chord-Node-ID''"
  show "\<forall>r'. fst (run_state (Middleware L J K exempt t0 t r) s) \<noteq> Next r'"
  proof (intro allI notI)
    fix r' assume "fst (run_state (Middleware L J K exempt t0 t r) s) = Next r'"
    then obtain s' where run: "run_state (Middleware L J K exempt t0 t r) s = (Next r', s')" by (metis prod.collapse)
    obtain cert where c: "trusted L K B cfg ttl t r cert" "run_state (checkVNode L J K t r) s' = (Inr (), s')"
      using Next_certified [OF inv run assms(3,4)] by metis
    then have "vouched L K cfg ttl t ?i cert" using unplanted unfolding trusted_def by (metis imageI)
    then have "HashURI L (cURI cert) = Inr ?i" by (auto simp: vouched_def VerifyCertificate_iff [OF assms(2)])
    then obtain n where "?i = hex_EncodeToString (sha1_Sum L (''https://'' @ n))" by (rule HashURI_https)
    moreover have "\<exists>a i. ?i = deriveVNodeID L a i"
      using c(2) assms(5-7)
      by (auto simp: checkVNode_def checkProof_def Let_def simp flip: ex_simps split: if_splits sum.splits option.splits) metis
    then obtain a i where "?i = deriveVNodeID L a i" by blast
    ultimately have "sha1_Sum L (''https://'' @ n) = sha1_Sum L (''chord-vnode-v4'' @ newline @ a @ newline @ itoa i)"
      by (simp add: deriveVNodeID_def hex_inj)
    then show False using no by blast
  qed
qed

text \<open>A digest that tells the two kinds of text apart.\<close>

definition telling_lib :: golib where
  "telling_lib = demo_lib\<lparr>sha1_Sum := (\<lambda>m. if HasPrefix m ''chord'' then [] else sha1_Sum demo_lib m)\<rparr>"

lemma vnode_request_refused_witness:
  "\<forall>r'. fst (run_state (Middleware telling_lib demo_codecs demo_ed (\<lambda>_. False) 0 (time_Unix 1500)
      (Header_Set ''X-Chord-Anchor-ID'' ''anchor'' (Header_Set ''X-Chord-VNode-Proof'' ''proof'' demo_signed)))
      \<lparr>nd = knowing_verifier, wd = (), spawned = ([] :: unit list)\<rparr>) \<noteq> Next r'"
proof -
  let ?s = "\<lparr>nd = knowing_verifier, wd = (), spawned = ([] :: unit list)\<rparr>"
  let ?r = "Header_Set ''X-Chord-Anchor-ID'' ''anchor'' (Header_Set ''X-Chord-VNode-Proof'' ''proof'' demo_signed)"
  have no: "sha1_Sum telling_lib (''https://'' @ n) \<noteq> sha1_Sum telling_lib (''chord-vnode-v4'' @ newline @ a @ newline @ itoa i)" for n a i
    using demo_lib_ok(1) by (auto simp: telling_lib_def HasPrefix_def sha1_ok_def dest!: arg_cong [where f = length])
  have "NormalizeURI telling_lib ''https://a'' = Inr ''https://a''" by code_simp
  then have reach: "(verifier_step telling_lib demo_ed {})\<^sup>*\<^sup>* demo_verifier knowing_verifier"
    by (intro knowing_reachable_by)
      (simp add: demo_cert_def SignCertificate_def demo_cert_content_def HashURI_def telling_lib_def HasPrefix_def)
  have id: "rq_Header ?r ''X-Chord-Node-ID'' = cNodeID demo_cert"
    by (simp add: demo_signed_def Sign_def Let_def Header_Set_def demo_signer_def NewRequestSigner_def)
  have "cNodeID demo_cert \<noteq> ''anchor''" using demo_cert_fields(2) by auto
  then show ?thesis
    using vnode_request_refused [of telling_lib demo_ed "{}" demo_cfg "NewNonceCache (600 * Second) 10000" "3600 * Second" None ?s
        "\<lambda>_. False" ?r 0 demo_codecs "time_Unix 1500"] no reach id demo_ed_ok
    by (simp add: demo_verifier_def demo_cfg_def ed25519_ok_def) (simp add: Header_Set_def)
qed

text \<open>The default lifetimes leave a gap. With 300 seconds of tolerance and nonces kept for 600, a request
  whose signer's clock is 300 seconds ahead is accepted, and accepted a second time, unchanged, 600.5
  seconds later, if the periodic clean-up ran before: its nonce has expired by half a second, and its
  timestamp is still in the window.\<close>

theorem default_lifetimes_allow_replay:
  "let v = knowing_verifier; run = (\<lambda>t v. run_state (Middleware demo_lib demo_codecs demo_ed (\<lambda>_. False) t t demo_signed)
       \<lparr>nd = v, wd = (), spawned = ([] :: unit list)\<rparr>);
     t = time_Unix 1200; t2 = time_Unix 1800 + 500000000;
     v1 = nd (snd (run t v)); v2 = v1\<lparr>rv_nonces := cleanupLocked t2 (rv_nonces v1)\<rparr>
   in fst (run t v) = Next demo_signed \<and> fst (run t2 v2) = Next demo_signed"
proof -
  let ?n = "hex_EncodeToString ''sixteen random b''" and ?t2 = "time_Unix 1800 + 500000000"
  define run where "run t v = run_state (Middleware demo_lib demo_codecs demo_ed (\<lambda>_. False) t t demo_signed)
       \<lparr>nd = v, wd = (), spawned = ([] :: unit list)\<rparr>" for t v
  have v: "rv_cfg knowing_verifier = demo_cfg" "rv_crl knowing_verifier = None"
    "rv_nonces knowing_verifier = NewNonceCache (600 * Second) 10000"
    by (simp_all add: knowing_verifier_def demo_verifier_def NewRequestVerifier_def)
  have new: "NonceCache_Add n t (NewNonceCache (600 * Second) 10000) =
      (True, (NewNonceCache (600 * Second) 10000)\<lparr>nc_entries := [(n, time_Add t (600 * Second))]\<rparr>)" for n t
    by (simp add: NonceCache_Add_def NewNonceCache_def NonceCache_Len_def)
  have 1: "fst (run (time_Unix 1200) knowing_verifier) = Next demo_signed"
    using demo_accepted [of 1200 0 knowing_verifier "time_Unix 1200"] v by (simp add: run_def new) (simp add: Second_def)
  define v1 where "v1 = nd (snd (run (time_Unix 1200) knowing_verifier))"
  have h: "rq_Header demo_signed ''X-Chord-Certificate'' = []" "rq_Header demo_signed ''X-Chord-Nonce'' = ?n"
    by (simp_all add: demo_signed_def Sign_def Let_def Header_Set_def demo_signer_def NewRequestSigner_def blank_def)
  obtain s' where s': "run (time_Unix 1200) knowing_verifier = (Next demo_signed, s')" using 1 by (metis prod.collapse)
  obtain c where a: "run_state (acquireCert demo_lib demo_codecs demo_ed (time_Unix 1200) demo_signed)
      \<lparr>nd = snd (addNonce ?n (time_Unix 1200) knowing_verifier), wd = (), spawned = ([] :: unit list)\<rparr> = (Inr c, s')"
    using Middleware_Next [OF s' [unfolded run_def]] h(2) v(1) by (auto simp: demo_cfg_def time_Unix_plain unixToInternal_def Second_def)
  then have "nd s' = snd (addNonce ?n (time_Unix 1200) knowing_verifier)"
    using h(1) by (auto simp: acquireCert_def split: option.splits)
  then have v1: "rv_cfg v1 = demo_cfg" "rv_crl v1 = None" "rv_certs v1 = rv_certs knowing_verifier"
    "rv_nonces v1 = (NewNonceCache (600 * Second) 10000)\<lparr>nc_entries := [(?n, time_Add (time_Unix 1200) (600 * Second))]\<rparr>"
    using s' v new by (simp_all add: v1_def)
  define v2 where "v2 = v1\<lparr>rv_nonces := cleanupLocked ?t2 (rv_nonces v1)\<rparr>"
  have "time_Add (time_Unix 1200) (600 * Second) < ?t2"
    by (simp add: time_Unix_plain time_Add_exact unixToInternal_def Second_def)
  then have "rv_nonces v2 = NewNonceCache (600 * Second) 10000"
    by (simp add: v2_def v1(4) cleanupLocked_def NewNonceCache_def)
  then have 2: "fst (run ?t2 v2) = Next demo_signed"
    using demo_accepted [of 1800 500000000 v2 ?t2] v1 by (simp add: run_def new) (simp add: v2_def Second_def)
  show ?thesis using 1 2 unfolding v2_def v1_def run_def by (simp add: Let_def)
qed

lemma accepted_request_not_replayed_witness:
  "\<exists>v. rv_nonces v = NewNonceCache (601 * Second) 10000 \<and>
    (let run = (\<lambda>t v. run_state (Middleware demo_lib demo_codecs demo_ed (\<lambda>_. False) t t demo_signed)
           \<lparr>nd = v, wd = (), spawned = ([] :: unit list)\<rparr>); v1 = nd (snd (run (time_Unix 1200) v))
     in fst (run (time_Unix 1200) v) = Next demo_signed \<and> fst (run (time_Unix 1800) v1) \<noteq> Next demo_signed)"
proof -
  define v where "v = knowing_verifier\<lparr>rv_nonces := NewNonceCache (601 * Second) 10000\<rparr>"
  define run where "run t v = run_state (Middleware demo_lib demo_codecs demo_ed (\<lambda>_. False) t t demo_signed)
       \<lparr>nd = v, wd = (), spawned = ([] :: unit list)\<rparr>" for t v
  have v: "rv_cfg v = demo_cfg" "rv_crl v = None" "rv_certs v = rv_certs knowing_verifier"
    "rv_nonces v = NewNonceCache (601 * Second) 10000"
    by (simp_all add: v_def knowing_verifier_def demo_verifier_def NewRequestVerifier_def)
  have "fst (NonceCache_Add n t (NewNonceCache (601 * Second) 10000))" for n t
    by (simp add: NonceCache_Add_def NewNonceCache_def NonceCache_Len_def)
  then have 1: "fst (run (time_Unix 1200) v) = Next demo_signed"
    using demo_accepted [of 1200 0 v "time_Unix 1200"] v by (simp add: run_def) (simp add: Second_def)
  then obtain s' where s': "run (time_Unix 1200) v = (Next demo_signed, s')" by (metis prod.collapse)
  have cfg: "rv_cfg (nd s') = demo_cfg" "rv_nonces (nd s') = nonce_run [] (rv_nonces (nd s'))"
    using Next_keeps [OF s' [unfolded run_def]] v(1)
    by (simp_all add: demo_cfg_def nonce_run_def time_Unix_plain unixToInternal_def Second_def)
  have ts: "ParseInt64 (rq_Header demo_signed ''X-Chord-Timestamp'') = Some 1500"
    using ParseInt64_itoa [of 1500]
    by (simp add: demo_signed_def Sign_def Let_def Header_Set_def demo_signer_def NewRequestSigner_def toUnix_time_Unix)
  have "fst (run (time_Unix 1800) (nd s')) \<noteq> Next demo_signed"
    unfolding run_def
    by (rule accepted_request_not_replayed [where before = "[]" and es = "[]" and nttl = "601 * Second" and nmax = 10000 and cfg = demo_cfg
          and r = demo_signed and t = "time_Unix 1200" and ts = 1500, OF _ s' [unfolded run_def]])
      (use v cfg ts in \<open>simp_all add: nonce_run_def demo_cfg_def Second_def time_Unix_plain unixToInternal_def\<close>)
  then show ?thesis using v(4) s' 1 unfolding run_def by (intro exI [of _ v]) (simp add: Let_def)
qed

end
