(* ===== verification/HttpApi.thy ===== *)
theory HttpApi
  imports RequestFacts Membership
begin

text \<open>
  The HTTP server of a host (\<open>internal/httpapi/server.go\<close>, \<open>errors.go\<close>): the pool of the anchor and its
  virtual nodes, the route table, the handlers, and the verifier's middleware before them. A response
  is its status and the value encoded as JSON; the decoders of the request bodies (with unknown fields
  disallowed) are the record \<open>decoders\<close>. Request logging has no effect and is left out.
\<close>

section \<open>Messages\<close>

record ListVNodesResponse =
  lvAnchorID :: string
  lvVnodes :: "VNodeEntry list"

record TransferKeysRequest =
  tkFromID :: string
  tkBatchSeq :: int

record TransferKeysResponse =
  tkReceived :: int
  tkRespBatchSeq :: int
  tkAckToken :: string

record TransferAckRequest =
  taFromID :: string
  taAckToken :: string

datatype payload =
    PNode NodeInfo | PState StateResponse | PPing PingResponse | PFindSuccessor FindSuccessorResponse
  | PPredecessor PredecessorResponse | PRectify RectifyResponse | PSuccessorList SuccessorListResponse
  | PJoin JoinResponse | PLeave LeaveResponse | PFingerTable FingerTableResponse | PRTT RTTResponse
  | PStatus NodeStatusResponse | PInvariant InvariantReportResponse | PVNodeInfo VNodeInfoResponse
  | PVNodes ListVNodesResponse | PTransferKeys TransferKeysResponse | PTransferAck string
  | PError string string

datatype response = Response (rsp_status: int) (rsp_payload: payload) | MuxRedirect | MuxNotFound | Aborted string

record decoders =
  dec_FindSuccessor :: "string \<Rightarrow> goerror option \<Rightarrow> goerror + FindSuccessorRequest"
  dec_Notify :: "string \<Rightarrow> goerror option \<Rightarrow> goerror + NotifyRequest"
  dec_Join :: "string \<Rightarrow> goerror option \<Rightarrow> goerror + JoinRequest"
  dec_Leave :: "string \<Rightarrow> goerror option \<Rightarrow> goerror + LeaveRequest"
  dec_TransferKeys :: "string \<Rightarrow> goerror option \<Rightarrow> goerror + TransferKeysRequest"
  dec_TransferAck :: "string \<Rightarrow> goerror option \<Rightarrow> goerror + TransferAckRequest"

section \<open>The server's state\<close>

record NodePool =
  Anchor :: Node
  VNodes :: "Node list"

record Server =
  sv_pool :: NodePool
  sv_verifier :: "RequestVerifier option"

datatype server_task = NodeTask nat task | RunStabilize nat

type_synonym ('w, 'a) sact = "(Server, 'w, server_task, 'a) act"

definition NewNodePool :: "Node \<Rightarrow> Node list \<Rightarrow> NodePool" where
  "NewNodePool anchor vnodes = \<lparr>Anchor = anchor, VNodes = vnodes\<rparr>"

definition NewServer :: "NodePool \<Rightarrow> RequestVerifier option \<Rightarrow> Server" where
  "NewServer pool verifier = \<lparr>sv_pool = pool, sv_verifier = verifier\<rparr>"

text \<open>\<open>byID\<close>: the first node of the pool with that ID.\<close>

definition byID :: "string \<Rightarrow> NodePool \<Rightarrow> Node option" where
  "byID nodeID p =
     (if NodeID (identityLocked (Anchor p)) = nodeID then Some (Anchor p)
      else List.find (\<lambda>vn. NodeID (identityLocked vn) = nodeID) (VNodes p))"

text \<open>Node 0 is the anchor, the others are the virtual nodes in order.\<close>

definition node_at :: "nat \<Rightarrow> NodePool \<Rightarrow> Node" where
  "node_at i p = (if i = 0 then Anchor p else VNodes p ! (i - 1))"

definition set_node :: "nat \<Rightarrow> Node \<Rightarrow> NodePool \<Rightarrow> NodePool" where
  "set_node i n p = (if i = 0 then p\<lparr>Anchor := n\<rparr> else p\<lparr>VNodes := (VNodes p)[i - 1 := n]\<rparr>)"

text \<open>A node's method, run on node \<open>i\<close> of the pool, and the verifier's.\<close>

definition on_node :: "nat \<Rightarrow> ('w, 'a) nact \<Rightarrow> ('w, 'a) sact" where
  "on_node i m = State (\<lambda>s.
     let r = run_state m \<lparr>nd = node_at i (sv_pool (nd s)), wd = wd s, spawned = []\<rparr>
     in (fst r, s\<lparr>nd := (nd s)\<lparr>sv_pool := set_node i (nd (snd r)) (sv_pool (nd s))\<rparr>, wd := wd (snd r),
                  spawned := spawned s @ map (NodeTask i) (spawned (snd r))\<rparr>))"

definition on_verifier :: "'a \<Rightarrow> ('w, unit, 'a) vact \<Rightarrow> ('w, 'a) sact" where
  "on_verifier d m = State (\<lambda>s.
     case sv_verifier (nd s) of
       None \<Rightarrow> (d, s)
     | Some v \<Rightarrow>
         let r = run_state m \<lparr>nd = v, wd = wd s, spawned = []\<rparr>
         in (fst r, s\<lparr>nd := (nd s)\<lparr>sv_verifier := Some (nd (snd r))\<rparr>, wd := wd (snd r)\<rparr>))"

section \<open>Responses\<close>

definition writeError :: "goerror \<Rightarrow> response" where
  "writeError e =
     (case e of
        APIError s c msg \<Rightarrow> Response s (PError c msg)
      | GoError t \<Rightarrow> Response 500 (PError ErrUpstream t)
      | GoPanic t \<Rightarrow> Aborted t)"

definition methodNotAllowed :: response where
  "methodNotAllowed = Response 405 (PError ''METHOD_NOT_ALLOWED'' ''method not allowed'')"

definition answer :: "('a \<Rightarrow> payload) \<Rightarrow> goerror + 'a \<Rightarrow> response" where
  "answer f r = (case r of Inl e \<Rightarrow> writeError e | Inr x \<Rightarrow> Response 200 (f x))"

definition decodeJSON ::
  "(string \<Rightarrow> goerror option \<Rightarrow> goerror + 'b) \<Rightarrow> request \<Rightarrow> ('b \<Rightarrow> ('s, response) state) \<Rightarrow> ('s, response) state" where
  "decodeJSON dec r f =
     (case dec (rq_Body r) (rq_BodyError r) of
        Inl e \<Rightarrow> ret (writeError (NewAPIError 400 ErrInvalidRequest (errorText e)))
      | Inr req \<Rightarrow> f req)"

definition with_method :: "string \<Rightarrow> request \<Rightarrow> ('s, response) state \<Rightarrow> ('s, response) state" where
  "with_method k r m = (if rq_Method r \<noteq> k then ret methodNotAllowed else m)"

section \<open>Handlers\<close>

datatype endpoint =
    EpIdentity | EpState | EpPing | EpFindSuccessor | EpPredecessor | EpNotify | EpRectify | EpSuccessorList
  | EpJoin | EpLeave | EpFingerTable | EpRTT | EpStatus | EpInvariant | EpTransferKeys | EpTransferAck
  | EpVNodeInfo | EpListVNodes | EpUnknownNode

definition cacheNodeCert :: "codecs \<Rightarrow> 'w env \<Rightarrow> string \<Rightarrow> ('w, unit) sact" where
  "cacheNodeCert J E raw =
     do {
       v \<leftarrow> asks sv_verifier;
       if v = None \<or> raw = [] then ret ()
       else case ParseCertificate J raw of
         Inl _ \<Rightarrow> ret ()
       | Inr cert \<Rightarrow> do {
           t \<leftarrow> observe (e_now E);
           on_verifier () (modify (CacheIncomingCert cert t)) } }"

definition get_node :: "nat \<Rightarrow> (Node \<Rightarrow> payload) \<Rightarrow> request \<Rightarrow> ('w, response) sact" where
  "get_node i f r =
     with_method ''GET'' r (do {
       p \<leftarrow> asks (\<lambda>v. f (node_at i (sv_pool v)));
       ret (Response 200 p) })"

definition get_node_at :: "'w env \<Rightarrow> nat \<Rightarrow> (gotime \<Rightarrow> Node \<Rightarrow> payload) \<Rightarrow> request \<Rightarrow> ('w, response) sact" where
  "get_node_at E i f r =
     with_method ''GET'' r (do {
       t \<leftarrow> observe (e_now E);
       p \<leftarrow> asks (\<lambda>v. f t (node_at i (sv_pool v)));
       ret (Response 200 p) })"

definition rectify_handler :: "codecs \<Rightarrow> decoders \<Rightarrow> 'w env \<Rightarrow> nat \<Rightarrow> request \<Rightarrow> ('w, response) sact" where
  "rectify_handler J D E i r =
     decodeJSON (dec_Notify D) r (\<lambda>req. do {
       cacheNodeCert J E (Certificate (nqNode req));
       x \<leftarrow> on_node i (HandleRectify E req);
       ret (answer PRectify x) })"

definition listVnodes :: "request \<Rightarrow> ('w, response) sact" where
  "listVnodes r =
     with_method ''GET'' r (do {
       p \<leftarrow> asks sv_pool;
       let entries = map (\<lambda>vn. \<lparr>veVNodeID = NodeID (identityLocked vn), veIndex = viIndex (VNodeInfo vn),
                                 veStatus = niStatus (identityLocked vn), veProof = None\<rparr>) (VNodes p);
       ret (Response 200 (PVNodes \<lparr>lvAnchorID = NodeID (identityLocked (Anchor p)), lvVnodes = entries\<rparr>)) })"

definition makeVNodeInfoHandler :: "nat \<Rightarrow> request \<Rightarrow> ('w, response) sact" where
  "makeVNodeInfoHandler i r = get_node i (PVNodeInfo \<circ> VNodeInfo) r"

definition makeTransferKeysHandler :: "decoders \<Rightarrow> request \<Rightarrow> ('w, response) sact" where
  "makeTransferKeysHandler D r =
     with_method ''POST'' r (decodeJSON (dec_TransferKeys D) r (\<lambda>req.
       ret (Response 200 (PTransferKeys \<lparr>tkReceived = 0, tkRespBatchSeq = tkBatchSeq req, tkAckToken = ''stub''\<rparr>))))"

definition makeTransferAckHandler :: "decoders \<Rightarrow> request \<Rightarrow> ('w, response) sact" where
  "makeTransferAckHandler D r =
     with_method ''POST'' r (decodeJSON (dec_TransferAck D) r (\<lambda>_. ret (Response 200 (PTransferAck ''ok''))))"

fun handler :: "codecs \<Rightarrow> decoders \<Rightarrow> 'w env \<Rightarrow> nat \<Rightarrow> endpoint \<Rightarrow> request \<Rightarrow> ('w, response) sact" where
  "handler J D E i EpIdentity r = get_node i (PNode \<circ> identityLocked) r"
| "handler J D E i EpState r = get_node_at E i (\<lambda>t n. PState (StateOf t n)) r"
| "handler J D E i EpPing r = get_node_at E i (\<lambda>t n. PPing (PingOf t n)) r"
| "handler J D E i EpFindSuccessor r =
     with_method ''POST'' r (decodeJSON (dec_FindSuccessor D) r (\<lambda>req. do {
       x \<leftarrow> on_node i (HandleFindSuccessor E req);
       ret (answer PFindSuccessor x) }))"
| "handler J D E i EpPredecessor r = get_node i (PPredecessor \<circ> PredecessorOf) r"
| "handler J D E i EpNotify r =
     with_method ''POST'' r (do {
       alias \<leftarrow> asks (\<lambda>v. o_RectifyEndpointAlias (n_options (node_at i (sv_pool v))));
       if \<not> alias then ret (writeError (NewAPIError 404 ErrNodeNotFound ''notify alias is disabled''))
       else rectify_handler J D E i r })"
| "handler J D E i EpRectify r = with_method ''POST'' r (rectify_handler J D E i r)"
| "handler J D E i EpSuccessorList r = get_node i (PSuccessorList \<circ> SuccessorListOf) r"
| "handler J D E i EpJoin r =
     with_method ''POST'' r (decodeJSON (dec_Join D) r (\<lambda>req. do {
       cacheNodeCert J E (Certificate (jqNode req));
       x \<leftarrow> on_node i (HandleJoin E req);
       ret (answer PJoin x) }))"
| "handler J D E i EpLeave r =
     with_method ''POST'' r (decodeJSON (dec_Leave D) r (\<lambda>req. do {
       x \<leftarrow> on_node i (HandleLeave req);
       case x of
         Inl e \<Rightarrow> ret (writeError e)
       | Inr resp \<Rightarrow> do { spawn (RunStabilize i); ret (Response 200 (PLeave resp)) } }))"
| "handler J D E i EpFingerTable r = get_node i (PFingerTable \<circ> FingerTable) r"
| "handler J D E i EpRTT r = get_node_at E i (\<lambda>t n. PRTT (RTTData t n)) r"
| "handler J D E i EpStatus r = get_node i (PStatus \<circ> NodeStatusInfo) r"
| "handler J D E i EpInvariant r = get_node_at E i (\<lambda>t n. PInvariant (InvariantReport t n)) r"
| "handler J D E i EpTransferKeys r = makeTransferKeysHandler D r"
| "handler J D E i EpTransferAck r = makeTransferAckHandler D r"
| "handler J D E i EpVNodeInfo r = makeVNodeInfoHandler i r"
| "handler J D E i EpListVNodes r = listVnodes r"
| "handler J D E i EpUnknownNode r = ret (writeError (NewAPIError 404 ErrNodeNotFound ''node not found''))"

section \<open>Routes\<close>

definition standard_ops :: "(string \<times> endpoint) list" where
  "standard_ops =
     [(''identity'', EpIdentity), (''state'', EpState), (''ping'', EpPing), (''find_successor'', EpFindSuccessor),
      (''predecessor'', EpPredecessor), (''notify'', EpNotify), (''rectify'', EpRectify),
      (''successor_list'', EpSuccessorList), (''join'', EpJoin), (''leave'', EpLeave),
      (''finger_table'', EpFingerTable), (''rtt'', EpRTT), (''status'', EpStatus), (''invariant'', EpInvariant),
      (''transfer_keys'', EpTransferKeys), (''transfer_ack'', EpTransferAck)]"

type_synonym routes = "(string \<times> nat \<times> endpoint) list"

definition registerNodeRoutes :: "string \<Rightarrow> nat \<Rightarrow> routes" where
  "registerNodeRoutes base i = map (\<lambda>(name, op). (base @ name, i, op)) standard_ops"

definition node_base :: "Node \<Rightarrow> string" where
  "node_base n = ''/chord/node/'' @ NodeID (identityLocked n) @ ''/''"

fun register_nodes :: "nat \<Rightarrow> Node list \<Rightarrow> routes" where
  "register_nodes i [] = []"
| "register_nodes i (n # r) =
     registerNodeRoutes (node_base n) i @
     (if IsVNode n then (node_base n @ ''vnode_info'', i, EpVNodeInfo)
      else (node_base n @ ''list_vnodes'', i, EpListVNodes)) # register_nodes (Suc i) r"

definition mux_routes :: "NodePool \<Rightarrow> routes" where
  "mux_routes p = registerNodeRoutes ''/chord/'' 0 @ register_nodes 0 (Anchor p # VNodes p)"

text \<open>\<open>http.ServeMux\<close>: an exact pattern, else the subtree \<open>/chord/node/\<close>. A path that is not in clean form is
  redirected first, as is the subtree's root without its slash.\<close>

definition clean_path :: "string \<Rightarrow> bool" where
  "clean_path p \<longleftrightarrow>
     (case split_on (CHR ''/'') p of
        first # rest \<Rightarrow> first = [] \<and> rest \<noteq> [] \<and> list_all (\<lambda>x. x \<notin> {[], ''.'', ''..''}) (butlast rest) \<and>
                        last rest \<notin> {''.'', ''..''}
      | [] \<Rightarrow> False)"

definition mux_match :: "NodePool \<Rightarrow> string \<Rightarrow> (nat \<times> endpoint) option" where
  "mux_match p path =
     (case map_of (mux_routes p) path of
        Some x \<Rightarrow> Some x
      | None \<Rightarrow> if HasPrefix path ''/chord/node/'' then Some (0, EpUnknownNode) else None)"

definition mux :: "codecs \<Rightarrow> decoders \<Rightarrow> 'w env \<Rightarrow> request \<Rightarrow> ('w, response) sact" where
  "mux J D E r =
     do {
       p \<leftarrow> asks sv_pool;
       if \<not> clean_path (rq_Path r) \<or> rq_Path r = ''/chord/node'' then ret MuxRedirect
       else case mux_match p (rq_Path r) of
         None \<Rightarrow> ret MuxNotFound
       | Some (i, op) \<Rightarrow> handler J D E i op r }"

definition exempt_ops :: "string set" where
  "exempt_ops = {''ping'', ''identity'', ''rtt'', ''status''}"

definition exemptPaths :: "string \<Rightarrow> bool" where
  "exemptPaths path =
     (if path \<in> {''/chord/ping'', ''/chord/identity'', ''/chord/rtt'', ''/chord/status''} then True
      else if HasPrefix path ''/chord/node/''
      then let rest = TrimPrefix path ''/chord/node/''
           in case IndexByte rest (CHR ''/'') of
                None \<Rightarrow> False
              | Some slash \<Rightarrow> drop (slash + 1) rest \<in> exempt_ops
      else False)"

definition authResponse :: "outcome \<Rightarrow> response" where
  "authResponse x =
     (case x of Next _ \<Rightarrow> Aborted [] | AuthFailure s c msg \<Rightarrow> Response s (PError c msg) | HandlerPanic t \<Rightarrow> Aborted t)"

text \<open>\<open>Handler\<close>: the middleware when there is a verifier, then the routes.\<close>

definition Handler :: "codecs \<Rightarrow> ed25519 \<Rightarrow> decoders \<Rightarrow> 'w env \<Rightarrow> request \<Rightarrow> ('w, response) sact" where
  "Handler J K D E r =
     do {
       v \<leftarrow> asks sv_verifier;
       if v = None then mux J D E r
       else do {
         t0 \<leftarrow> observe (e_now E);
         t \<leftarrow> observe (e_now E);
         x \<leftarrow> on_verifier (Next r) (Middleware (e_lib E) J K exemptPaths t0 t r);
         case x of
           Next r' \<Rightarrow> mux J D E r'
         | _ \<Rightarrow> ret (authResponse x) } }"

definition runServerTask :: "'w env \<Rightarrow> server_task \<Rightarrow> ('w, unit) sact" where
  "runServerTask E task =
     (case task of NodeTask i t \<Rightarrow> on_node i (runTask E t) | RunStabilize i \<Rightarrow> on_node i (Stabilize E))"

end
