(* ===== verification/HttpFacts.thy ===== *)
theory HttpFacts
  imports HttpApi NodeInvariant
begin

text \<open>
  The server as a whole. \<open>server_step\<close> is a critical section of one of its nodes or a change of its
  verifier; every handler consists of such steps, so that no request can break a node's invariant.
  A request on an exempt path changes nothing, and what changes the pool is authenticated.
\<close>

section \<open>Steps of the server\<close>

type_synonym node_params = "(string \<times> int \<times> int) list"

definition pool_size :: "NodePool \<Rightarrow> nat" where
  "pool_size p = Suc (length (VNodes p))"

inductive server_step :: "Server \<Rightarrow> Server \<Rightarrow> bool" where
  node: "i < pool_size (sv_pool v) \<Longrightarrow> node_step (node_at i (sv_pool v)) n \<Longrightarrow>
    server_step v (v\<lparr>sv_pool := set_node i n (sv_pool v)\<rparr>)"
| verifier: "server_step v (v\<lparr>sv_verifier := Some w\<rparr>)"

definition server_inv :: "node_params \<Rightarrow> Server \<Rightarrow> bool" where
  "server_inv ps v \<longleftrightarrow> pool_size (sv_pool v) = length ps \<and>
     (\<forall>i < length ps. node_inv (fst (ps ! i)) (fst (snd (ps ! i))) (snd (snd (ps ! i))) (node_at i (sv_pool v)))"

lemma pool_size_set [simp]: "pool_size (set_node i n p) = pool_size p"
  by (simp add: pool_size_def set_node_def)

lemma node_at_set: "i < pool_size p \<Longrightarrow> node_at j (set_node i n p) = (if i = j then n else node_at j p)"
  by (auto simp: node_at_def set_node_def pool_size_def nth_list_update)

lemma set_node_same [simp]: "i < pool_size p \<Longrightarrow> set_node i (node_at i p) p = p"
  by (auto simp: node_at_def set_node_def)

lemma set_node_twice [simp]: "set_node i n (set_node i m p) = set_node i n p"
  by (auto simp: set_node_def)

lemma server_inv_step: "server_step v v' \<Longrightarrow> server_inv ps v \<Longrightarrow> server_inv ps v'"
proof (induction rule: server_step.induct)
  case (node i v n)
  then show ?case
    using ns.kept by (auto simp: server_inv_def node_at_set)
qed (simp add: server_inv_def)

interpretation sv: kept_invariant server_step "server_inv ps" for ps
  by unfold_locales (rule server_inv_step)

lemma node_steps_server:
  assumes "i < pool_size (sv_pool v)" and "node_step\<^sup>*\<^sup>* (node_at i (sv_pool v)) n"
  shows "server_step\<^sup>*\<^sup>* v (v\<lparr>sv_pool := set_node i n (sv_pool v)\<rparr>)"
  using assms(2)
proof (induction rule: rtranclp_induct)
  case base
  then show ?case using assms(1) by simp
next
  case (step m n)
  let ?v = "v\<lparr>sv_pool := set_node i m (sv_pool v)\<rparr>"
  have "server_step ?v (?v\<lparr>sv_pool := set_node i n (sv_pool ?v)\<rparr>)"
    by (rule server_step.node) (use assms(1) step(2) in \<open>auto simp: node_at_set\<close>)
  then show ?case using step.IH by (simp add: rtranclp.rtrancl_into_rtrancl)
qed

lemma moves_on_node:
  fixes m :: "('w, 'a) nact"
  assumes "i < length ps" and "\<And>me lm pl. ns.moves True me lm pl m"
  shows "sv.moves ps (on_node i m)"
  unfolding sv.moves_def sv.safe_def
proof (intro allI impI conjI TrueI)
  fix s :: "(Server, 'w, server_task) gst" assume i: "server_inv ps (nd s)"
  let ?t = "\<lparr>nd = node_at i (sv_pool (nd s)), wd = wd s, spawned = ([] :: task list)\<rparr>"
  have "node_inv (fst (ps ! i)) (fst (snd (ps ! i))) (snd (snd (ps ! i))) (nd ?t)"
    using i assms(1) by (simp add: server_inv_def)
  from ns.moves_steps [OF assms(2) this]
  show "server_step\<^sup>*\<^sup>* (nd s) (nd (snd (run_state (on_node i m) s)))"
    using node_steps_server [of i "nd s"] i assms(1) by (simp add: on_node_def Let_def server_inv_def)
qed

lemma moves_on_verifier [safe_intros]: "sv.moves ps (on_verifier d m)"
  unfolding sv.moves_def sv.safe_def on_verifier_def
  by (auto simp: Let_def split: option.split intro: server_step.verifier)

lemma moves_guards [safe_intros]:
  "sv.moves ps m \<Longrightarrow> sv.moves ps (with_method k r m)"
  "(\<And>x. sv.moves ps (f x)) \<Longrightarrow> sv.moves ps (decodeJSON dec r f)"
  unfolding with_method_def decodeJSON_def by (intro safe_intros | assumption)+

lemma moves_handler: "i < length ps \<Longrightarrow> sv.moves ps (handler J D E i op r)"
proof -
  assume i: "i < length ps"
  have n: "sv.moves ps (on_node i (HandleRectify E a))" "sv.moves ps (on_node i (HandleJoin E b))"
    "sv.moves ps (on_node i (HandleFindSuccessor E c))" "sv.moves ps (on_node i (HandleLeave d))" for a b c d
    by (intro moves_on_node [OF i] safe_intros)+
  show ?thesis
    by (cases op; simp only: handler.simps get_node_def get_node_at_def rectify_handler_def listVnodes_def
        makeVNodeInfoHandler_def makeTransferKeysHandler_def makeTransferAckHandler_def cacheNodeCert_def Let_def; intro safe_intros n)
qed

lemma registered:
  "(path, i, op) \<in> set (registerNodeRoutes base k) \<longleftrightarrow> i = k \<and> (\<exists>name. path = base @ name \<and> (name, op) \<in> set standard_ops)"
  by (auto simp: registerNodeRoutes_def)

lemma registered_nodes:
  "(path, i, op) \<in> set (register_nodes k ns) \<Longrightarrow>
   k \<le> i \<and> i < k + length ns \<and>
   (\<exists>name. path = node_base (ns ! (i - k)) @ name \<and>
      ((name, op) \<in> set standard_ops \<or> op = EpVNodeInfo \<and> name = ''vnode_info'' \<or> op = EpListVNodes \<and> name = ''list_vnodes''))"
proof (induction k ns rule: register_nodes.induct)
  case (2 k n r)
  then show ?case
    by (auto simp: registered split: if_splits simp: nth_Cons' Suc_le_eq)
qed simp

lemma mux_match_index: "mux_match p path = Some (i, op) \<Longrightarrow> i < pool_size p"
  by (auto simp: mux_match_def mux_routes_def pool_size_def split: option.splits if_splits
      dest!: map_of_SomeD simp: registered dest!: registered_nodes)

lemma moves_mux: "sv.moves ps (mux J D E r)"
proof -
  have "sv.safe ps (asks sv_pool) (\<lambda>p. pool_size p = length ps)"
    by (rule sv.safe_asks) (simp add: server_inv_def)
  then show ?thesis
    unfolding mux_def
    by (rule sv.moves_after) (auto intro!: sv.moves_basic moves_handler dest: mux_match_index split: option.split)
qed

lemma moves_Handler: "sv.moves ps (Handler J K D E r)"
proof -
  have "sv.moves ps (case x of Next r' \<Rightarrow> mux J D E r' | _ \<Rightarrow> ret (authResponse x))" for x
    by (cases x) (auto intro: moves_mux sv.moves_basic)
  then show ?thesis unfolding Handler_def by (intro safe_intros moves_mux) auto
qed

lemma moves_runServerTask: "(case x of NodeTask i t \<Rightarrow> i | RunStabilize i \<Rightarrow> i) < length ps \<Longrightarrow> sv.moves ps (runServerTask E x)"
  unfolding runServerTask_def
  by (cases x) (auto intro!: moves_on_node moves_loops moves_Stabilize)

text \<open>C24: No request breaks a node. Whatever a client sends to a host, to whatever path and with whatever
  body, authenticated or not, and whatever the peers answer meanwhile: every node of the pool
  keeps its invariant (its own ID, list and finger table as configured), in the steps of its critical
  sections, and so it does when the server runs the goroutines that handlers start.\<close>

theorem requests_keep_node_invariants:
  assumes "\<forall>i < pool_size (sv_pool (nd s)). node_inv (me i) (lm i) (pl i) (node_at i (sv_pool (nd s)))"
  shows "\<forall>i < pool_size (sv_pool (nd s)).
    node_inv (me i) (lm i) (pl i) (node_at i (sv_pool (nd (snd (run_state (Handler J K D E r) s)))))"
proof -
  let ?ps = "map (\<lambda>i. (me i, lm i, pl i)) [0 ..< pool_size (sv_pool (nd s))]"
  have "server_inv ?ps (nd s)" using assms by (simp add: server_inv_def)
  from sv.moves_inv [OF moves_Handler this] show ?thesis by (simp add: server_inv_def)
qed

section \<open>Exempt paths\<close>

lemma IndexByte_append: "c \<notin> set x \<Longrightarrow> IndexByte (x @ c # y) c = Some (length x)"
  by (induction x) auto

lemma standard_op_names:
  "(name, op) \<in> set standard_ops \<Longrightarrow> name \<in> exempt_ops \<Longrightarrow> op \<in> {EpPing, EpIdentity, EpRTT, EpStatus}"
  by (auto simp: standard_ops_def exempt_ops_def)

lemma HasPrefix_append [simp]: "HasPrefix (p @ s) p" "TrimPrefix (p @ s) p = s"
  by (simp_all add: HasPrefix_def TrimPrefix_def)

definition ids_ok :: "NodePool \<Rightarrow> bool" where
  "ids_ok p \<longleftrightarrow> (\<forall>i < pool_size p. CHR ''/'' \<notin> set (NodeID (n_self (node_at i p))))"

lemma NodeID_identity [simp]: "NodeID (identityLocked n) = NodeID (n_self n)"
  by (simp add: identityLocked_def Let_def)

lemma exempt_node_path:
  "CHR ''/'' \<notin> set i \<Longrightarrow> exemptPaths (''/chord/node/'' @ i @ ''/'' @ name) \<longleftrightarrow> name \<in> exempt_ops"
  using HasPrefix_append [of "''/chord/node/''" "i @ ''/'' @ name"]
  by (simp add: exemptPaths_def IndexByte_append)

lemma exempt_legacy_path: "(name, op) \<in> set standard_ops \<Longrightarrow> exemptPaths (''/chord/'' @ name) \<longleftrightarrow> name \<in> exempt_ops"
proof -
  have "\<forall>x \<in> set standard_ops. exemptPaths (''/chord/'' @ fst x) = (fst x \<in> exempt_ops)" by code_simp
  then show "(name, op) \<in> set standard_ops \<Longrightarrow> ?thesis" by fastforce
qed

lemma mux_routes_cases:
  assumes "(path, i, op) \<in> set (mux_routes p)"
  obtains (legacy) name where "path = ''/chord/'' @ name" "i = 0" "(name, op) \<in> set standard_ops"
    | (node) name where "i < pool_size p" "path = node_base (node_at i p) @ name"
        "(name, op) \<in> set standard_ops \<or> name \<in> {''vnode_info'', ''list_vnodes''}"
proof (cases "(path, i, op) \<in> set (registerNodeRoutes ''/chord/'' 0)")
  case True
  then show ?thesis using legacy by (auto simp: registered)
next
  case False
  then have "(path, i, op) \<in> set (register_nodes 0 (Anchor p # VNodes p))" using assms by (simp add: mux_routes_def)
  from registered_nodes [OF this] obtain name where n: "i < pool_size p"
    "path = node_base ((Anchor p # VNodes p) ! i) @ name"
    "(name, op) \<in> set standard_ops \<or> name \<in> {''vnode_info'', ''list_vnodes''}"
    by (auto simp: pool_size_def)
  moreover have "(Anchor p # VNodes p) ! i = node_at i p" by (simp add: node_at_def nth_Cons')
  ultimately show ?thesis using node by metis
qed

lemma exempt_match:
  assumes "exemptPaths path" and "ids_ok p" and "mux_match p path = Some (i, op)"
  shows "op \<in> {EpPing, EpIdentity, EpRTT, EpStatus, EpUnknownNode}"
proof (cases "map_of (mux_routes p) path")
  case None
  then show ?thesis using assms(3) by (auto simp: mux_match_def split: if_splits)
next
  case (Some x)
  then have "(path, i, op) \<in> set (mux_routes p)" using assms(3) by (auto simp: mux_match_def dest: map_of_SomeD)
  then show ?thesis
  proof (cases rule: mux_routes_cases)
    case (legacy name)
    then show ?thesis using assms(1) exempt_legacy_path standard_op_names by blast
  next
    case (node name)
    have "name \<in> exempt_ops"
      using node(1,2) assms(1,2) exempt_node_path [of "NodeID (n_self (node_at i p))" name] by (auto simp: node_base_def ids_ok_def)
    then show ?thesis using node(3) standard_op_names by (auto simp: exempt_ops_def)
  qed
qed

lemma handler_reads_only:
  "op \<in> {EpPing, EpIdentity, EpRTT, EpStatus, EpUnknownNode} \<Longrightarrow> snd (run_state (handler J D E i op r) s) = s"
  by (auto simp: get_node_def get_node_at_def with_method_def)

lemma mux_exempt:
  assumes "exemptPaths (rq_Path r)" and "ids_ok (sv_pool (nd s))"
  shows "snd (run_state (mux J D E r) s) = s"
proof -
  have "snd (run_state (handler J D E i op r) s) = s" if "mux_match (sv_pool (nd s)) (rq_Path r) = Some (i, op)" for i op
    by (rule handler_reads_only [OF exempt_match [OF assms that]])
  then show ?thesis by (simp add: mux_def split: option.split)
qed

text \<open>C23: What needs no authentication changes nothing. A request on a path the middleware exempts (with the
  method, headers and body of the client's choice) leaves the nodes, the verifier, its caches, the
  world and the goroutines exactly as they were.\<close>

theorem exempt_requests_change_nothing:
  assumes "exemptPaths (rq_Path r)" and "\<forall>i < pool_size (sv_pool (nd s)). ValidateID (NodeID (n_self (node_at i (sv_pool (nd s)))))"
  shows "snd (run_state (Handler J K D E r) s) = s"
proof -
  have "ids_ok (sv_pool (nd s))"
    using assms(2) by (fastforce simp: ids_ok_def ValidateID_def list_all_iff is_hex_code)
  then have m: "snd (run_state (mux J D E r) s) = s" by (rule mux_exempt [OF assms(1)])
  have "run_state (on_verifier (Next r) (Middleware (e_lib E) J K exemptPaths t0 t r)) s = (Next r, s)" for t0 t
    using assms(1) by (cases s; cases "nd s") (auto simp: on_verifier_def Middleware_def split: option.split)
  then show ?thesis using m by (simp add: Handler_def)
qed

section \<open>Authenticated changes\<close>

text \<open>The certificates in the body of a request, which the handlers put into the verifier's cache without
  verifying them; and what a request brings in: those of a request that the middleware lets through.\<close>

definition incoming_certs :: "codecs \<Rightarrow> decoders \<Rightarrow> request \<Rightarrow> Certificate set" where
  "incoming_certs J D r =
     {cert. (\<exists>q. dec_Notify D (rq_Body r) (rq_BodyError r) = Inr q \<and> ParseCertificate J (Certificate (nqNode q)) = Inr cert) \<or>
            (\<exists>q. dec_Join D (rq_Body r) (rq_BodyError r) = Inr q \<and> ParseCertificate J (Certificate (jqNode q)) = Inr cert)}"

definition brought_in ::
  "codecs \<Rightarrow> ed25519 \<Rightarrow> decoders \<Rightarrow> 'w env \<Rightarrow> request \<Rightarrow> RequestVerifier \<Rightarrow> 'w \<Rightarrow> Certificate set" where
  "brought_in J K D E r v w =
     (case fst (run_state (Middleware (e_lib E) J K exemptPaths (e_now E w) (e_now E w) r)
             \<lparr>nd = v, wd = w, spawned = ([] :: unit list)\<rparr>) of
        Next r' \<Rightarrow> incoming_certs J D r'
      | _ \<Rightarrow> {})"

lemma on_node_verifier [simp]: "sv_verifier (nd (snd (run_state (on_node i m) s))) = sv_verifier (nd s)"
  by (simp add: on_node_def Let_def)

text \<open>A server whose verifier is \<open>v\<close>, or \<open>v\<close> after some certificate of \<open>B\<close> was put into its cache.\<close>

definition cached_from :: "Certificate set \<Rightarrow> RequestVerifier \<Rightarrow> Server \<Rightarrow> bool" where
  "cached_from B v x \<longleftrightarrow> sv_verifier x = Some v \<or> (\<exists>cert \<in> B. \<exists>t. sv_verifier x = Some (CacheIncomingCert cert t v))"

lemma cached_from_same: "sv_verifier x = Some v \<Longrightarrow> cached_from B v x"
  by (simp add: cached_from_def)

lemma cached_from_on_node [simp]: "cached_from B v (nd (snd (run_state (on_node i m) s))) \<longleftrightarrow> cached_from B v (nd s)"
  by (simp add: cached_from_def)

lemma cacheNodeCert_from:
  assumes "sv_verifier (nd s) = Some v" and "\<And>cert. ParseCertificate J raw = Inr cert \<Longrightarrow> cert \<in> B"
  shows "cached_from B v (nd (snd (run_state (cacheNodeCert J E raw) s)))"
  using assms by (auto simp: cacheNodeCert_def cached_from_def on_verifier_def Let_def split: sum.split)

lemma rectify_handler_from:
  assumes "sv_verifier (nd s) = Some v"
  shows "cached_from (incoming_certs J D r) v (nd (snd (run_state (rectify_handler J D E i r) s)))"
proof (cases "dec_Notify D (rq_Body r) (rq_BodyError r)")
  case (Inr q)
  then have "cached_from (incoming_certs J D r) v (nd (snd (run_state (cacheNodeCert J E (Certificate (nqNode q))) s)))"
    by (intro cacheNodeCert_from [OF assms]) (auto simp: incoming_certs_def)
  then show ?thesis using Inr by (simp add: rectify_handler_def decodeJSON_def case_prod_beta)
qed (use assms in \<open>simp add: rectify_handler_def decodeJSON_def cached_from_same\<close>)

lemma join_handler_from:
  assumes "sv_verifier (nd s) = Some v"
  shows "cached_from (incoming_certs J D r) v (nd (snd (run_state (handler J D E i EpJoin r) s)))"
proof (cases "dec_Join D (rq_Body r) (rq_BodyError r)")
  case (Inr q)
  then have "cached_from (incoming_certs J D r) v (nd (snd (run_state (cacheNodeCert J E (Certificate (jqNode q))) s)))"
    by (intro cacheNodeCert_from [OF assms]) (auto simp: incoming_certs_def)
  then show ?thesis using Inr assms by (simp add: decodeJSON_def with_method_def case_prod_beta cached_from_same)
qed (use assms in \<open>simp add: decodeJSON_def with_method_def cached_from_same\<close>)

lemma handler_from:
  assumes "sv_verifier (nd s) = Some v"
  shows "cached_from (incoming_certs J D r) v (nd (snd (run_state (handler J D E i op r) s)))"
proof -
  have same: "cached_from (incoming_certs J D r) v (nd s)" by (rule cached_from_same [OF assms])
  have rec: "cached_from (incoming_certs J D r) v (nd (snd (run_state (handler J D E i EpRectify r) s)))"
    "cached_from (incoming_certs J D r) v (nd (snd (run_state (handler J D E i EpNotify r) s)))"
    using rectify_handler_from [OF assms, of J D r E i] same by (simp_all add: with_method_def)
  have n: "cached_from (incoming_certs J D r) v (nd (snd (run_state (handler J D E i EpFindSuccessor r) s)))"
    "cached_from (incoming_certs J D r) v (nd (snd (run_state (handler J D E i EpLeave r) s)))"
    using same by (simp_all add: with_method_def decodeJSON_def case_prod_beta split: sum.split)
  have t: "cached_from (incoming_certs J D r) v (nd (snd (run_state (handler J D E i EpTransferKeys r) s)))"
    "cached_from (incoming_certs J D r) v (nd (snd (run_state (handler J D E i EpTransferAck r) s)))"
    using same
    by (simp_all add: with_method_def decodeJSON_def makeTransferKeysHandler_def makeTransferAckHandler_def split: sum.split)
  show ?thesis
    by (cases op; hypsubst; (rule rec n t join_handler_from [OF assms])?)
      (simp_all add: same with_method_def get_node_def get_node_at_def listVnodes_def makeVNodeInfoHandler_def Let_def)
qed

lemma mux_from:
  assumes "sv_verifier (nd s) = Some v"
  shows "cached_from (incoming_certs J D r) v (nd (snd (run_state (mux J D E r) s)))"
  using cached_from_same [OF assms] handler_from [OF assms] by (auto simp: mux_def simp del: handler.simps split: option.split)

lemma Handler_let_through:
  assumes "sv_verifier (nd s) = Some v"
    and "run_state (Middleware (e_lib E) J K exemptPaths (e_now E (wd s)) (e_now E (wd s)) r) \<lparr>nd = v, wd = wd s, spawned = ([] :: unit list)\<rparr> = (Next r', s1)"
  shows "run_state (Handler J K D E r) s =
    run_state (mux J D E r') (s\<lparr>nd := (nd s)\<lparr>sv_verifier := Some (nd s1)\<rparr>, wd := wd s1\<rparr>)"
  using assms by (simp add: Handler_def on_verifier_def Let_def)

lemma Handler_verifier_steps:
  assumes "sv_verifier (nd s) = Some v"
    and v: "(verifier_step (e_lib E) K B)\<^sup>*\<^sup>* (NewRequestVerifier cfg nc (NewCertCache ttl) crl) v"
  shows "\<exists>v'. sv_verifier (nd (snd (run_state (Handler J K D E r) s))) = Some v' \<and>
    (verifier_step (e_lib E) K (B \<union> brought_in J K D E r v (wd s)))\<^sup>*\<^sup>* (NewRequestVerifier cfg nc (NewCertCache ttl) crl) v'"
proof -
  let ?m = "Middleware (e_lib E) J K exemptPaths (e_now E (wd s)) (e_now E (wd s)) r"
  let ?s = "\<lparr>nd = v, wd = wd s, spawned = ([] :: unit list)\<rparr>" and ?B = "brought_in J K D E r v (wd s)"
  obtain x s1 where m: "run_state ?m ?s = (x, s1)" by fastforce
  have "(verifier_step (e_lib E) K B)\<^sup>*\<^sup>* (nd ?s) (nd (snd (run_state ?m ?s)))"
    by (rule vs.moves_steps [OF Middleware_moves]) (use verifier_reachable [OF v] in simp)
  then have "(verifier_step (e_lib E) K B)\<^sup>*\<^sup>* v (nd s1)" by (simp add: m)
  from rtranclp_trans [OF v this]
  have r1: "(verifier_step (e_lib E) K (B \<union> ?B))\<^sup>*\<^sup>* (NewRequestVerifier cfg nc (NewCertCache ttl) crl) (nd s1)"
    by (rule verifier_steps_mono) simp
  show ?thesis
  proof (cases "\<exists>r'. x = Next r'")
    case True
    then obtain r' where x: "x = Next r'" ..
    have B: "?B = incoming_certs J D r'" using m x by (simp add: brought_in_def)
    let ?t = "s\<lparr>nd := (nd s)\<lparr>sv_verifier := Some (nd s1)\<rparr>, wd := wd s1\<rparr>"
    have "cached_from ?B (nd s1) (nd (snd (run_state (mux J D E r') ?t)))" unfolding B by (rule mux_from) simp
    then obtain v' where "sv_verifier (nd (snd (run_state (mux J D E r') ?t))) = Some v'"
        "(verifier_step (e_lib E) K (B \<union> ?B))\<^sup>*\<^sup>* (nd s1) v'"
      by (auto simp: cached_from_def intro: verifier_step.cache_incoming)
    then show ?thesis
      unfolding Handler_let_through [OF assms(1) m [unfolded x]] using rtranclp_trans [OF r1] by blast
  next
    case False
    then have "sv_verifier (nd (snd (run_state (Handler J K D E r) s))) = Some (nd s1)"
      using assms(1) m by (cases x) (simp_all add: Handler_def on_verifier_def Let_def)
    then show ?thesis using r1 by blast
  qed
qed

text \<open>C22: What changes a host is authenticated, up to planted certificates. A host has a verifier, and \<open>B\<close> is
  what request bodies have brought into its cache so far, unverified. If the boot grace period is over
  and handling a request changed a node of the pool or started a goroutine, then the request was
  signed, over the method, path and body that the handler read, by the key of a certificate for the
  node ID in its header, which is not revoked, and that certificate was issued by the CA or, when
  the request brought none, is one of \<open>B\<close>. After any request, in the grace period or not, the verifier
  is as it can be after what this request brought in, if it was let through, is added to \<open>B\<close>: so the
  property holds along every sequence of requests, and until a body has brought in a certificate (C25)
  it holds with certificates of the CA alone.\<close>

theorem changes_are_authenticated:
  assumes "sv_verifier (nd s) = Some v"
    and "(verifier_step (e_lib E) K B)\<^sup>*\<^sup>* (NewRequestVerifier cfg (NewNonceCache nttl nmax) (NewCertCache ttl) crl) v"
    and "\<forall>i < pool_size (sv_pool (nd s)). ValidateID (NodeID (n_self (node_at i (sv_pool (nd s)))))"
    and "run_state (Handler J K D E r) s = (resp, s')"
  shows "(\<not> e_now E (wd s) < vc_BootGracePeriodEnd cfg \<and> (sv_pool (nd s') \<noteq> sv_pool (nd s) \<or> spawned s' \<noteq> spawned s) \<longrightarrow>
      (\<exists>cert. trusted (e_lib E) K B cfg ttl (e_now E (wd s)) r cert \<and>
        \<not> IsRevoked (rv_crl v) (rq_Header r ''X-Chord-Node-ID'') \<and> signed_by J K cert r (take maxBodySize (rq_Body r)))) \<and>
    (\<exists>v'. sv_verifier (nd s') = Some v' \<and>
      (verifier_step (e_lib E) K (B \<union> brought_in J K D E r v (wd s)))\<^sup>*\<^sup>*
        (NewRequestVerifier cfg (NewNonceCache nttl nmax) (NewCertCache ttl) crl) v')"
proof (intro conjI impI)
  show "\<exists>v'. sv_verifier (nd s') = Some v' \<and>
      (verifier_step (e_lib E) K (B \<union> brought_in J K D E r v (wd s)))\<^sup>*\<^sup>*
        (NewRequestVerifier cfg (NewNonceCache nttl nmax) (NewCertCache ttl) crl) v'"
    using Handler_verifier_steps [OF assms(1,2), of J D r] assms(4) by simp
next
  assume ch: "\<not> e_now E (wd s) < vc_BootGracePeriodEnd cfg \<and> (sv_pool (nd s') \<noteq> sv_pool (nd s) \<or> spawned s' \<noteq> spawned s)"
  let ?t = "e_now E (wd s)" and ?s = "\<lparr>nd = v, wd = wd s, spawned = ([] :: unit list)\<rparr>"
  have ex: "\<not> exemptPaths (rq_Path r)"
  proof
    assume e: "exemptPaths (rq_Path r)"
    have "ids_ok (sv_pool (nd s))"
      using assms(3) by (fastforce simp: ids_ok_def ValidateID_def list_all_iff is_hex_code)
    from mux_exempt [OF e this] have m: "snd (run_state (mux J D E r) s) = s" .
    have "run_state (on_verifier (Next r) (Middleware (e_lib E) J K exemptPaths t0 t r)) s = (Next r, s)" for t0 t
      using e assms(1) by (cases s; cases "nd s") (auto simp: on_verifier_def Middleware_def)
    then have "s' = s" using m assms(4) by (simp add: Handler_def split: if_splits)
    then show False using ch by simp
  qed
  obtain x s1 where m: "run_state (Middleware (e_lib E) J K exemptPaths ?t ?t r) ?s = (x, s1)" by fastforce
  have "\<exists>r'. x = Next r'"
    using assms(1,4) ch m
    by (cases x) (auto simp: Handler_def on_verifier_def Let_def)
  then obtain r' where "x = Next r'" ..
  moreover have "verifier_inv (e_lib E) K B cfg ttl (nd ?s)" using verifier_reachable [OF assms(2)] by simp
  ultimately show "\<exists>cert. trusted (e_lib E) K B cfg ttl ?t r cert \<and>
        \<not> IsRevoked (rv_crl v) (rq_Header r ''X-Chord-Node-ID'') \<and> signed_by J K cert r (take maxBodySize (rq_Body r))"
    using Next_certified [of "e_lib E" K B cfg ttl ?s J exemptPaths ?t ?t r r' s1] m ex ch by auto
qed

section \<open>Certificates from request bodies\<close>

lemma mux_rectify:
  "rq_Path r = ''/chord/rectify'' \<Longrightarrow> run_state (mux J D E r) s = run_state (handler J D E 0 EpRectify r) s"
proof -
  have "map_of (mux_routes p) ''/chord/rectify'' = Some (0, EpRectify)" for p
    by (simp add: mux_routes_def map_of_append registerNodeRoutes_def standard_ops_def)
  moreover have "clean_path ''/chord/rectify''" by code_simp
  ultimately show "rq_Path r = ''/chord/rectify'' \<Longrightarrow> ?thesis" by (simp add: mux_def mux_match_def del: handler.simps)
qed

lemma rectify_caches:
  assumes "rq_Method r = ''POST''" and "dec_Notify D (rq_Body r) (rq_BodyError r) = Inr req"
    and "ParseCertificate J (Certificate (nqNode req)) = Inr forged" and "Certificate (nqNode req) \<noteq> []"
    and "sv_verifier (nd s) = Some v"
  shows "sv_verifier (nd (snd (run_state (handler J D E 0 EpRectify r) s))) = Some (storeCert forged (e_now E (wd s)) v)"
  using assms
  by (simp add: with_method_def rectify_handler_def decodeJSON_def cacheNodeCert_def on_verifier_def Let_def
      CacheIncomingCert_def case_prod_beta)

text \<open>C25: Impersonation. \<open>CacheIncomingCert\<close> is meant for certificates that were verified, but the handlers
  give it what the request's body holds. Any client that is let through can post a notification with
  a certificate of its own making, for any node ID that has no live certificate issued as late, with
  a key of its choice and no valid signature; whatever \<open>HandleRectify\<close> answers, the next request it
  signs with that key as that node is let through.\<close>

theorem unverified_body_certificate_is_trusted:
  assumes "sv_verifier (nd s) = Some v"
    and "run_state (Middleware (e_lib E) J K exemptPaths (e_now E (wd s)) (e_now E (wd s)) r1)
           \<lparr>nd = v, wd = wd s, spawned = ([] :: unit list)\<rparr> = (Next r1', s1)"
    and "rq_Method r1' = ''POST''" and "rq_Path r1' = ''/chord/rectify''"
    and "dec_Notify D (rq_Body r1') (rq_BodyError r1') = Inr req" and "Certificate (nqNode req) \<noteq> []"
    and "ParseCertificate J (Certificate (nqNode req)) = Inr forged"
    and "cNodeID forged \<noteq> []" and "NodePublicKey forged = Inr (ed_Public K priv)"
    and "\<forall>c st. map_of (cc_entries (rv_certs (nd s1))) (cNodeID forged) = Some (c, st) \<longrightarrow> cIssuedAt c < cIssuedAt forged"
    and "ed25519_ok K" and "Sign J K (NewRequestSigner (cNodeID forged) priv None) u (Inr nb) body r0 = Inr r2"
    and "plain r0" and "rq_Body r0 = body_of body" and "nb \<noteq> []"
    and "inWindow t2 (toUnix u) (vc_TimestampTolerance (rv_cfg (nd s1)))"
    and "t2 \<le> time_Add (e_now E (wd s1)) (cc_ttl (rv_certs (nd s1)))"
    and "fst (NonceCache_Add (hex_EncodeToString nb) t2 (rv_nonces (nd s1)))"
    and "\<not> IsRevoked (rv_crl (nd s1)) (cNodeID forged)"
  shows "\<exists>v2. sv_verifier (nd (snd (run_state (Handler J K D E r1) s))) = Some v2 \<and>
    fst (run_state (Middleware (e_lib E) J K exemptPaths t2 t2 r2) \<lparr>nd = v2, wd = w2, spawned = sp2\<rparr>) = Next r2"
proof -
  let ?v = "storeCert forged (e_now E (wd s1)) (nd s1)"
  have 1: "sv_verifier (nd (snd (run_state (Handler J K D E r1) s))) = Some ?v"
    unfolding Handler_let_through [OF assms(1,2)] mux_rectify [OF assms(4)]
    using rectify_caches [OF assms(3,5,7,6), of "s\<lparr>nd := (nd s)\<lparr>sv_verifier := Some (nd s1)\<rparr>, wd := wd s1\<rparr>"]
    by simp
  have "map_of (cc_entries (rv_certs ?v)) (cNodeID forged) = Some (forged, e_now E (wd s1))"
    using assms(10) by (auto simp: storeCert_def StoreVerified_def update_conv' split: option.split)
  then have get: "CertCache_Get (cNodeID forged) t2 (rv_certs ?v) = Some forged"
    using assms(17) by (simp add: CertCache_Get_def storeCert_def)
  have "fst (run_state (Middleware (e_lib E) J K exemptPaths t2 t2 r2) \<lparr>nd = ?v, wd = w2, spawned = sp2\<rparr>) = Next r2"
    by (rule signed_accepted [OF assms(11,12,13,14)]) (use assms get in \<open>simp_all add: NewRequestSigner_def\<close>)
  then show ?thesis using 1 by blast
qed

section \<open>Concrete hosts\<close>

definition demo_host :: "Node \<Rightarrow> RequestVerifier option \<Rightarrow> (Server, unit, server_task) gst" where
  "demo_host n v = \<lparr>nd = NewServer (NewNodePool n []) v, wd = (), spawned = []\<rparr>"

lemma demo_host_simps [simp]:
  "sv_verifier (nd (demo_host n v)) = v" "sv_pool (nd (demo_host n v)) = NewNodePool n []" "wd (demo_host n v) = ()"
  "spawned (demo_host n v) = []" "pool_size (NewNodePool n []) = 1" "node_at 0 (NewNodePool n []) = n"
  by (simp_all add: demo_host_def NewServer_def NewNodePool_def pool_size_def node_at_def)

text \<open>Decoders that give the same message for every body.\<close>

definition demo_decoders :: "Certificate \<Rightarrow> decoders" where
  "demo_decoders forged =
     \<lparr>dec_FindSuccessor = (\<lambda>b e. Inl (GoError [])),
      dec_Notify = (\<lambda>b e. Inr \<lparr>nqNode = emptyNodeInfo\<lparr>Certificate := json_MarshalCertificate demo_codecs forged\<rparr>\<rparr>),
      dec_Join = (\<lambda>b e. Inl (GoError [])),
      dec_Leave = (\<lambda>b e. Inr \<lparr>lvRole = ''predecessor_leaving'', lvNewPredecessor = None, lvNewSuccessor = None\<rparr>),
      dec_TransferKeys = (\<lambda>b e. Inl (GoError [])), dec_TransferAck = (\<lambda>b e. Inl (GoError []))\<rparr>"

lemma requests_keep_node_invariants_witness:
  "\<exists>n. NewNode demo_lib ''https://a'' DefaultOptions True True 1 = Inr n \<and>
    (\<forall>(E :: unit env) r. \<exists>me lm pl. node_inv me lm pl
       (node_at 0 (sv_pool (nd (snd (run_state (Handler demo_codecs demo_ed (demo_decoders demo_cert) E r) (demo_host n (Some knowing_verifier))))))))"
proof -
  obtain n where n: "NewNode demo_lib ''https://a'' DefaultOptions True True 1 = Inr n"
    using NewNode_demo by blast
  have "node_inv (NodeID (n_self n)) (successorLimit n) (predecessorLimit n) n"
    by (rule NewNode_inv [OF n demo_lib_ok(1)]) (simp_all add: DefaultOptions_def)
  then have "\<forall>i < pool_size (sv_pool (nd (demo_host n (Some knowing_verifier)))).
      node_inv (NodeID (n_self n)) (successorLimit n) (predecessorLimit n) (node_at i (sv_pool (nd (demo_host n (Some knowing_verifier)))))"
    by simp
  from requests_keep_node_invariants [OF this] show ?thesis using n by fastforce
qed

lemma exempt_requests_change_nothing_witness:
  "\<forall>E :: unit env. snd (run_state (Handler demo_codecs demo_ed (demo_decoders demo_cert) E (blank\<lparr>rq_Path := ''/chord/ping''\<rparr>))
     (demo_host (demo_node (CHR ''1'')) (Some knowing_verifier))) = demo_host (demo_node (CHR ''1'')) (Some knowing_verifier)"
proof -
  have "exemptPaths ''/chord/ping''" by code_simp
  moreover have "ValidateID (demo_id (CHR ''1''))" by (rule demo_id_valid) code_simp
  ultimately show ?thesis
    by (intro allI exempt_requests_change_nothing) simp_all
qed

text \<open>Node \<open>a\<close> asks to leave.\<close>

definition leave_request :: request where
  "leave_request = projr (Sign demo_codecs demo_ed demo_signer (time_Unix 1500) (Inr ''n1'') None
     (blank\<lparr>rq_Method := ''POST'', rq_Path := ''/chord/leave''\<rparr>))"

lemma changes_are_authenticated_witness:
  "\<forall>E :: unit env. \<exists>cert. vouched demo_lib demo_ed demo_cfg (3600 * Second) (time_Unix 1500) (cNodeID demo_cert) cert \<and>
     signed_by demo_codecs demo_ed cert leave_request []"
proof
  fix E0 :: "unit env"
  let ?E = "E0\<lparr>e_lib := demo_lib, e_now := \<lambda>_. time_Unix 1500 + 0\<rparr>"
  let ?s = "demo_host (demo_node (CHR ''1'')) (Some knowing_verifier)"
  have sg: "Sign demo_codecs demo_ed demo_signer (time_Unix 1500) (Inr ''n1'') None
     (blank\<lparr>rq_Method := ''POST'', rq_Path := ''/chord/leave''\<rparr>) = Inr leave_request"
    by (simp add: leave_request_def Sign_def Let_def)
  have h: "rq_Header leave_request ''X-Chord-Node-ID'' = cNodeID demo_cert" "rq_Body leave_request = []"
    "rq_Path leave_request = ''/chord/leave''" "rq_Method leave_request = ''POST''"
    by (simp_all add: leave_request_def Sign_def Let_def Header_Set_def demo_signer_def NewRequestSigner_def blank_def)
  let ?m = "run_state (Middleware demo_lib demo_codecs demo_ed exemptPaths (time_Unix 1500 + 0) (time_Unix 1500 + 0) leave_request)
     \<lparr>nd = knowing_verifier, wd = (), spawned = ([] :: unit list)\<rparr>"
  have "fst ?m = Next leave_request"
    by (rule demo_accepted_any [OF sg])
      (simp_all add: plain_def blank_def body_of_def knowing_fields new_cache_accepts Second_def)
  then obtain s1 where s1: "?m = (Next leave_request, s1)" by (metis prod.collapse)
  let ?r = "run_state (Handler demo_codecs demo_ed (demo_decoders demo_cert) ?E leave_request) ?s"
  have "map_of (mux_routes p) ''/chord/leave'' = Some (0, EpLeave)" for p
    by (simp add: mux_routes_def map_of_append registerNodeRoutes_def standard_ops_def)
  moreover have "clean_path ''/chord/leave''" by code_simp
  moreover have "?r = run_state (mux demo_codecs (demo_decoders demo_cert) ?E leave_request)
      (?s\<lparr>nd := (nd ?s)\<lparr>sv_verifier := Some (nd s1)\<rparr>, wd := wd s1\<rparr>)"
    by (rule Handler_let_through) (use s1 in simp_all)
  ultimately have "spawned (snd ?r) = [RunStabilize 0]"
    by (simp add: mux_def mux_match_def h with_method_def decodeJSON_def demo_decoders_def on_node_def Let_def
        HandleLeave_def handleLeave_def)
  then have ch: "sv_pool (nd (snd ?r)) \<noteq> sv_pool (nd ?s) \<or> spawned (snd ?r) \<noteq> spawned ?s" by simp
  have ids: "\<forall>i < pool_size (sv_pool (nd ?s)). ValidateID (NodeID (n_self (node_at i (sv_pool (nd ?s)))))"
    using demo_id_valid [of "CHR ''1''"] by (simp add: is_hex_code)
  have reach: "(verifier_step (e_lib ?E) demo_ed {})\<^sup>*\<^sup>* (NewRequestVerifier demo_cfg (NewNonceCache (600 * Second) 10000) (NewCertCache (3600 * Second)) None) knowing_verifier"
    using knowing_reachable by (simp add: demo_verifier_def)
  have gr: "\<not> e_now ?E (wd ?s) < vc_BootGracePeriodEnd demo_cfg"
    by (simp add: demo_cfg_def time_Unix_plain unixToInternal_def Second_def)
  have "\<exists>cert. trusted (e_lib ?E) demo_ed {} demo_cfg (3600 * Second) (e_now ?E (wd ?s)) leave_request cert \<and>
      \<not> IsRevoked (rv_crl knowing_verifier) (rq_Header leave_request ''X-Chord-Node-ID'') \<and>
      signed_by demo_codecs demo_ed cert leave_request (take maxBodySize (rq_Body leave_request))"
    using changes_are_authenticated [OF _ reach ids, where s' = "snd ?r" and resp = "fst ?r"] ch gr by simp
  then show "\<exists>cert. vouched demo_lib demo_ed demo_cfg (3600 * Second) (time_Unix 1500) (cNodeID demo_cert) cert \<and>
     signed_by demo_codecs demo_ed cert leave_request []" using h by (auto simp: trusted_def)
qed

text \<open>A certificate that \<open>a\<close> makes for another node, with a key of its own.\<close>

definition forged_cert :: Certificate where
  "forged_cert = \<lparr>cVersion = 1, cNodeID = demo_id (CHR ''9''), cURI = ''https://9'',
     cPublicKey = rawurl_Encode (ed_Public demo_ed ''mallory''), cIssuedAt = 0, cExpiresAt = 0, cSignature = []\<rparr>"

definition rectify_request :: request where
  "rectify_request = projr (Sign demo_codecs demo_ed demo_signer (time_Unix 1500) (Inr ''n1'') None
     (blank\<lparr>rq_Method := ''POST'', rq_Path := ''/chord/rectify''\<rparr>))"

definition impostor_request :: request where
  "impostor_request = projr (Sign demo_codecs demo_ed (NewRequestSigner (demo_id (CHR ''9'')) ''mallory'' None)
     (time_Unix 1500) (Inr ''n2'') None blank)"

lemma Header_Set_keeps [simp]:
  "rq_Path (Header_Set k v r) = rq_Path r" "rq_Method (Header_Set k v r) = rq_Method r" "rq_Body (Header_Set k v r) = rq_Body r"
  "rq_BodyError (Header_Set k v r) = rq_BodyError r"
  by (simp_all add: Header_Set_def)

lemma unverified_body_certificate_is_trusted_witness:
  "\<forall>E0 :: unit env. \<exists>v2. sv_verifier (nd (snd (run_state (Handler demo_codecs demo_ed (demo_decoders forged_cert)
       (E0\<lparr>e_lib := demo_lib, e_now := \<lambda>_. time_Unix 1500 + 0\<rparr>) rectify_request)
       (demo_host (demo_node (CHR ''1'')) (Some knowing_verifier))))) = Some v2 \<and>
    fst (run_state (Middleware demo_lib demo_codecs demo_ed exemptPaths (time_Unix 1500) (time_Unix 1500) impostor_request)
      \<lparr>nd = v2, wd = (), spawned = ([] :: unit list)\<rparr>) = Next impostor_request"
proof
  fix E0 :: "unit env"
  let ?E = "E0\<lparr>e_lib := demo_lib, e_now := \<lambda>_. time_Unix 1500 + 0\<rparr>"
  let ?s = "demo_host (demo_node (CHR ''1'')) (Some knowing_verifier)"
  have sg: "Sign demo_codecs demo_ed demo_signer (time_Unix 1500) (Inr ''n1'') None
     (blank\<lparr>rq_Method := ''POST'', rq_Path := ''/chord/rectify''\<rparr>) = Inr rectify_request"
    "Sign demo_codecs demo_ed (NewRequestSigner (cNodeID forged_cert) ''mallory'' None) (time_Unix 1500) (Inr ''n2'') None blank
       = Inr impostor_request"
    by (simp_all add: rectify_request_def impostor_request_def Sign_def Let_def forged_cert_def)
  have h: "rq_Path rectify_request = ''/chord/rectify''" "rq_Method rectify_request = ''POST''"
    "rq_Header rectify_request ''X-Chord-Nonce'' = hex_EncodeToString ''n1''"
    "rq_Header rectify_request ''X-Chord-Certificate'' = []"
    by (simp_all add: rectify_request_def Sign_def Let_def demo_signer_def NewRequestSigner_def blank_def)
      (simp_all add: Header_Set_def)
  let ?m = "run_state (Middleware demo_lib demo_codecs demo_ed exemptPaths (time_Unix 1500 + 0) (time_Unix 1500 + 0) rectify_request)
     \<lparr>nd = knowing_verifier, wd = (), spawned = ([] :: unit list)\<rparr>"
  have "fst ?m = Next rectify_request"
    by (rule demo_accepted_any [OF sg(1)])
      (simp_all add: plain_def blank_def body_of_def knowing_fields new_cache_accepts Second_def)
  then obtain s1 where s1: "?m = (Next rectify_request, s1)" by (metis prod.collapse)
  have ex: "\<not> exemptPaths (rq_Path rectify_request)" unfolding h by code_simp
  have gr: "\<not> time_Unix 1500 + 0 < vc_BootGracePeriodEnd (rv_cfg knowing_verifier)"
    by (simp add: knowing_fields demo_cfg_def time_Unix_plain unixToInternal_def Second_def)
  obtain c where a: "run_state (acquireCert demo_lib demo_codecs demo_ed (time_Unix 1500 + 0) rectify_request)
      \<lparr>nd = snd (addNonce (hex_EncodeToString ''n1'') (time_Unix 1500 + 0) knowing_verifier), wd = (), spawned = ([] :: unit list)\<rparr> = (Inr c, s1)"
    using Middleware_Next [OF s1 ex] gr h(3) by auto
  then have nd1: "nd s1 = snd (addNonce (hex_EncodeToString ''n1'') (time_Unix 1500) knowing_verifier)" "wd s1 = ()"
    using h(4) by (auto simp: acquireCert_def split: option.splits)
  have asc: "ascii_cert forged_cert" by code_simp
  have parse: "ParseCertificate demo_codecs (json_MarshalCertificate demo_codecs forged_cert) = Inr forged_cert"
    using demo_codecs_ok asc by (simp add: ParseCertificate_def codecs_ok_def)
  have ne: "json_MarshalCertificate demo_codecs forged_cert \<noteq> []" by code_simp
  have "cNodeID forged_cert \<noteq> cNodeID demo_cert_content" by code_simp
  then have other: "cNodeID forged_cert \<noteq> cNodeID demo_cert" by (simp add: demo_cert_def SignCertificate_def)
  have key: "NodePublicKey forged_cert = Inr (ed_Public demo_ed ''mallory'')"
    using demo_ed_ok by (simp add: NodePublicKey_def forged_cert_def rawurl_roundtrip ed25519_ok_def)
  have nc: "NonceCache_Add (hex_EncodeToString ''n1'') t (NewNonceCache ttl 10000) =
      (True, (NewNonceCache ttl 10000)\<lparr>nc_entries := [(hex_EncodeToString ''n1'', time_Add t ttl)]\<rparr>)" for t ttl
    by (simp add: NonceCache_Add_def NewNonceCache_def NonceCache_Len_def)
  have two: "fst (NonceCache_Add (hex_EncodeToString ''n2'') (time_Unix 1500) (rv_nonces (nd s1)))"
    unfolding nd1 by (simp add: knowing_fields nc NonceCache_Add_def NewNonceCache_def NonceCache_Len_def hex_inj)
  have certs: "rv_certs (nd s1) = StoreVerified demo_cert (time_Unix 1200) (NewCertCache (3600 * Second))"
    by (simp add: nd1 knowing_verifier_def storeCert_def demo_verifier_def NewRequestVerifier_def)
  have "\<exists>v2. sv_verifier (nd (snd (run_state (Handler demo_codecs demo_ed (demo_decoders forged_cert) ?E rectify_request) ?s))) = Some v2 \<and>
    fst (run_state (Middleware (e_lib ?E) demo_codecs demo_ed exemptPaths (time_Unix 1500) (time_Unix 1500) impostor_request)
      \<lparr>nd = v2, wd = (), spawned = ([] :: unit list)\<rparr>) = Next impostor_request"
  proof (rule unverified_body_certificate_is_trusted [OF _ _ _ _ _ _ _ _ key _ demo_ed_ok sg(2)])
    show "run_state (Middleware (e_lib ?E) demo_codecs demo_ed exemptPaths (e_now ?E (wd ?s)) (e_now ?E (wd ?s)) rectify_request)
        \<lparr>nd = knowing_verifier, wd = wd ?s, spawned = ([] :: unit list)\<rparr> = (Next rectify_request, s1)" using s1 by simp
    show "rq_Method rectify_request = ''POST''" "rq_Path rectify_request = ''/chord/rectify''" by (rule h)+
    show "dec_Notify (demo_decoders forged_cert) (rq_Body rectify_request) (rq_BodyError rectify_request) =
        Inr \<lparr>nqNode = emptyNodeInfo\<lparr>Certificate := json_MarshalCertificate demo_codecs forged_cert\<rparr>\<rparr>"
      by (simp add: demo_decoders_def)
    show "Certificate (nqNode \<lparr>nqNode = emptyNodeInfo\<lparr>Certificate := json_MarshalCertificate demo_codecs forged_cert\<rparr>\<rparr>) \<noteq> []"
      using ne by simp
    show "ParseCertificate demo_codecs (Certificate (nqNode \<lparr>nqNode = emptyNodeInfo\<lparr>Certificate := json_MarshalCertificate demo_codecs forged_cert\<rparr>\<rparr>))
        = Inr forged_cert" using parse by simp
    show "\<forall>c st. map_of (cc_entries (rv_certs (nd s1))) (cNodeID forged_cert) = Some (c, st) \<longrightarrow> cIssuedAt c < cIssuedAt forged_cert"
      using other by (simp add: certs StoreVerified_def NewCertCache_def)
    show "inWindow (time_Unix 1500) (toUnix (time_Unix 1500)) (vc_TimestampTolerance (rv_cfg (nd s1)))"
      by (subst inWindow_near) (simp_all add: nd1 knowing_fields demo_cfg_def Second_def)
    show "time_Unix 1500 \<le> time_Add (e_now ?E (wd s1)) (cc_ttl (rv_certs (nd s1)))"
      by (simp add: certs time_Unix_plain time_Add_exact unixToInternal_def Second_def)
    show "\<not> IsRevoked (rv_crl (nd s1)) (cNodeID forged_cert)" by (simp add: nd1 knowing_fields IsRevoked_def)
    show "fst (NonceCache_Add (hex_EncodeToString ''n2'') (time_Unix 1500) (rv_nonces (nd s1)))" by (rule two)
  qed (simp_all add: forged_cert_def plain_def blank_def body_of_def)
  then show "\<exists>v2. sv_verifier (nd (snd (run_state (Handler demo_codecs demo_ed (demo_decoders forged_cert) ?E rectify_request) ?s))) = Some v2 \<and>
    fst (run_state (Middleware demo_lib demo_codecs demo_ed exemptPaths (time_Unix 1500) (time_Unix 1500) impostor_request)
      \<lparr>nd = v2, wd = (), spawned = ([] :: unit list)\<rparr>) = Next impostor_request"
    by simp
qed

end
