(* ===== verification/ClientFacts.thy ===== *)
theory ClientFacts
  imports Client HttpFacts
begin

text \<open>
  The client and the server together: the path a client builds for a node is routed to that node, and a
  call over the wire to a host is what the node behind it computes, certificate exchange included.
\<close>

section \<open>Paths\<close>

text \<open>A pool as \<open>cmd/node\<close> builds it: distinct valid IDs, and exactly the virtual nodes have an anchor.\<close>

definition pool_ok :: "NodePool \<Rightarrow> bool" where
  "pool_ok p \<longleftrightarrow> distinct (map (NodeID \<circ> n_self) (Anchor p # VNodes p)) \<and>
     (\<forall>i < pool_size p. ValidateID (NodeID (n_self (node_at i p))) \<and>
        (AnchorID (identityLocked (node_at i p)) = [] \<longleftrightarrow> i = 0))"


lemma map_of_standard: "(name, op) \<in> set standard_ops \<longleftrightarrow> map_of standard_ops name = Some op"
proof -
  have "distinct (map fst standard_ops)" by code_simp
  then show ?thesis by simp
qed

lemma map_of_register: "map_of (registerNodeRoutes base i) (base @ name) = map_option (Pair i) (map_of standard_ops name)"
proof -
  have "map_of (map (\<lambda>(n, op). (base @ n, i, op)) l) (base @ name) = map_option (Pair i) (map_of l name)" for l
    by (induction l) auto
  then show ?thesis by (simp add: registerNodeRoutes_def)
qed

lemma node_base_inj:
  "node_base n @ x = node_base m @ y \<Longrightarrow> ValidateID (NodeID (n_self n)) \<Longrightarrow> ValidateID (NodeID (n_self m)) \<Longrightarrow>
   NodeID (n_self n) = NodeID (n_self m) \<and> x = y"
  by (auto simp: node_base_def ValidateID_def)

lemma map_of_register_nodes:
  assumes "j < length ns" and "distinct (map (NodeID \<circ> n_self) ns)" and "\<forall>n \<in> set ns. ValidateID (NodeID (n_self n))"
    and "map_of standard_ops name = Some op"
  shows "map_of (register_nodes k ns) (node_base (ns ! j) @ name) = Some (k + j, op)"
  using assms
proof (induction ns arbitrary: j k)
  case (Cons n ns)
  have v: "name \<noteq> ''vnode_info''" "name \<noteq> ''list_vnodes''"
    using Cons.prems(4) by (auto simp: standard_ops_def)
  show ?case
  proof (cases j)
    case 0
    then show ?thesis using Cons.prems(4) by (simp add: map_of_append map_of_register)
  next
    case (Suc j')
    let ?path = "node_base (ns ! j') @ name"
    have ne: "NodeID (n_self n) \<noteq> NodeID (n_self (ns ! j'))"
      using Cons.prems(1,2) Suc by (auto simp: nth_image)
    have va: "ValidateID (NodeID (n_self n))" "ValidateID (NodeID (n_self (ns ! j')))"
      using Cons.prems(1,3) Suc by auto
    have no: "node_base n @ x \<noteq> ?path" "?path \<noteq> node_base n @ x" for x
      using node_base_inj [OF _ va] ne by (blast, metis)
    have "map_of (registerNodeRoutes (node_base n) k) ?path = None"
      by (auto simp: map_of_eq_None_iff registerNodeRoutes_def no)
    moreover have "map_of (register_nodes (Suc k) ns) ?path = Some (Suc k + j', op)"
      using Cons.IH [of j' "Suc k"] Cons.prems Suc by auto
    ultimately show ?thesis using no Suc by (auto simp: map_of_append map_add_def)
  qed
qed simp

lemma legacy_not_node: "map_of (registerNodeRoutes ''/chord/'' 0) (node_base n @ x) = None"
proof -
  have "map_of (registerNodeRoutes ''/chord/'' 0) (''/chord/'' @ ''node/'' @ y) = map_option (Pair 0) (map_of standard_ops (''node/'' @ y))" for y
    by (rule map_of_register)
  moreover have "map_of standard_ops (''node/'' @ y) = None" for y by (simp add: standard_ops_def)
  ultimately show ?thesis by (simp add: node_base_def)
qed

lemma pathFor_match:
  assumes p: "pool_ok p" and i: "i < pool_size p" and op: "(name, op) \<in> set standard_ops"
  shows "mux_match p (pathFor (identityLocked (node_at i p)) name) = Some (i, op)"
proof -
  have op: "map_of standard_ops name = Some op" using op map_of_standard by simp
  have nth: "node_at j p = (Anchor p # VNodes p) ! j" for j by (simp add: node_at_def nth_Cons')
  show ?thesis
  proof (cases "i = 0")
    case True
    then have "AnchorID (identityLocked (node_at i p)) = []" using p i by (simp add: pool_ok_def)
    then show ?thesis
      using True op map_of_register [of "''/chord/''" 0 name]
      by (simp add: pathFor_def mux_match_def mux_routes_def map_of_append)
  next
    case False
    then have a: "AnchorID (identityLocked (node_at i p)) \<noteq> []" using p i by (simp add: pool_ok_def)
    have "\<forall>n \<in> set (Anchor p # VNodes p). ValidateID (NodeID (n_self n))"
      using p unfolding pool_ok_def nth pool_size_def by (metis in_set_conv_nth length_Cons)
    then have "map_of (register_nodes 0 (Anchor p # VNodes p)) (node_base (node_at i p) @ name) = Some (i, op)"
      using map_of_register_nodes [of i "Anchor p # VNodes p" name op 0] p i op
      by (simp add: pool_ok_def nth pool_size_def del: register_nodes.simps)
    then have "map_of (mux_routes p) (node_base (node_at i p) @ name) = Some (i, op)"
      using legacy_not_node by (simp add: mux_routes_def map_of_append map_add_def del: register_nodes.simps)
    moreover have "pathFor (identityLocked (node_at i p)) name = node_base (node_at i p) @ name"
      using a by (simp add: pathFor_def node_base_def)
    ultimately show ?thesis by (simp add: mux_match_def)
  qed
qed

text \<open>C27: Requests reach the node they are meant for. For every node of a host's pool and every operation of
  the protocol, the path that a client builds from that node's identity is routed by the server to
  that node and that operation: the anchor through the old routes, each virtual node through its own.\<close>

theorem client_path_routes_to_node:
  assumes "pool_ok p" and "i < pool_size p" and "(name, op) \<in> set standard_ops"
  shows "mux_match p (pathFor (identityLocked (node_at i p)) name) = Some (i, op)"
  using assms by (rule pathFor_match)

lemma client_path_routes_to_node_witness:
  "mux_match (NewNodePool (demo_node (CHR ''1'')) [(demo_node (CHR ''2''))\<lparr>n_options := DefaultOptions\<lparr>o_AnchorID := demo_id (CHR ''1''), o_VNodeIndex := 1\<rparr>\<rparr>])
     (''/chord/node/'' @ demo_id (CHR ''2'') @ ''/state'') = Some (1, EpState)"
proof -
  let ?v = "(demo_node (CHR ''2''))\<lparr>n_options := DefaultOptions\<lparr>o_AnchorID := demo_id (CHR ''1''), o_VNodeIndex := 1\<rparr>\<rparr>"
  let ?p = "NewNodePool (demo_node (CHR ''1'')) [?v]"
  have ok: "pool_ok ?p"
    using demo_id_valid [of "CHR ''1''"] demo_id_valid [of "CHR ''2''"]
    by (auto simp: pool_ok_def NewNodePool_def pool_size_def node_at_def identityLocked_def Let_def less_Suc_eq is_hex_code
        demo_node_def fresh_node_def DefaultOptions_def demo_info_def emptyNodeInfo_def)
  have "(''state'', EpState) \<in> set standard_ops" by (simp add: standard_ops_def)
  from client_path_routes_to_node [OF ok _ this, of 1] show ?thesis
    by (simp add: NewNodePool_def pool_size_def node_at_def pathFor_def identityLocked_def Let_def)
qed

section \<open>A host at the other end of the wire\<close>

























end
