(* ===== verification/Config.thy ===== *)
theory Config
  imports Client NodeState Logging
begin

text \<open>
  Configuration of a node (\<open>internal/config/config.go\<close>): command-line flags, environment variables that
  override them, and validation. \<open>Load\<close> is a function of the process's arguments and environment.

  \<open>strlib\<close> is what the code uses of \<open>strconv\<close> and \<open>time\<close> on flag values beyond decimal numbers:
  \<open>ParseFloat\<close>, \<open>ParseDuration\<close>, and \<open>ParseInt\<close> with base 0. Package \<open>flag\<close> ends the process on an
  argument it cannot parse and on \<open>-help\<close>; both are an error of \<open>Load\<close> here.
\<close>

section \<open>Data\<close>

record strlib =
  str_ParseFloat :: "string \<Rightarrow> f64 option"
  str_ParseDuration :: "string \<Rightarrow> duration option"
  str_ParseInt0 :: "string \<Rightarrow> int option"

record AuthConfig =
  a_Enabled :: bool
  a_CAPublicKeyBase64 :: string
  a_NodeCertificateFile :: string
  a_NodePrivateKeyFile :: string
  a_TimestampToleranceSecs :: int
  a_NonceCacheTTLSecs :: int
  a_NonceCacheMaxSize :: int
  a_CertCacheTTLSecs :: int
  a_CRLFile :: string
  a_CRLRefreshFromTracker :: bool
  a_CertExpiryWarnDays :: int
  a_BootGracePeriodSecs :: int

record Config =
  c_NodeURI :: string
  c_ListenAddr :: string
  c_TLSCertFile :: string
  c_TLSKeyFile :: string
  c_SkipTLSVerify :: bool
  c_LogLevel :: string
  c_TrackerURL :: string
  c_ManualSeeds :: "string list"
  c_HTTPTimeout :: duration
  c_MaintenanceInterval :: duration
  c_SuccessorListSize :: int
  c_MaxHops :: int
  c_SuspiciousThreshold :: int
  c_FailedThreshold :: int
  c_TrackerSeedCount :: int
  c_PingLivenessTimeout :: duration
  c_StabilizeAtomicState :: bool
  c_ValidateAfterStabilize :: bool
  c_RectifyEndpointAlias :: bool
  c_InvariantAuditInterval :: duration
  c_TrackerHeartbeatActiveInterval :: duration
  c_TrackerHeartbeatQuietInterval :: duration
  c_TrackerCRLInterval :: duration
  c_StableBaseMinSize :: int
  c_StableBaseMembers :: "string list"
  c_Auth :: AuthConfig
  c_VNodeCount :: int
  c_MaxVNodes :: int
  c_VNodeProofTTL :: duration
  c_VNodeProofRenewBefore :: duration
  c_ClockSkewTolerance :: duration
  c_VNodeGoroutineLimit :: int
  c_VNodeMaintenanceJitter :: duration
  c_SiblingRouteMaxHops :: int
  c_SuccessorListSiblingCap :: f64
  c_VNodeBootstrapPreferExt :: bool
  c_SharedNodeInfoCacheSize :: int
  c_SharedNodeInfoCacheTTL :: duration
  c_SharedRTTCacheTTL :: duration
  c_SharedRouteCacheSize :: int
  c_SharedRouteCacheTTL :: duration
  c_SharedProofVerifyCacheSize :: int
  c_TransferTimeout :: duration
  c_NodeRegion :: string
  c_PredecessorListSize :: int
  c_FixFingersBatchSizeActive :: int
  c_FixFingersBatchSizeQuiet :: int
  c_RoutingCacheEnabled :: bool
  c_RoutingCacheSize :: int
  c_RoutingCacheTTL :: duration
  c_LatencyWeightID :: f64
  c_LatencyWeightRTT :: f64
  c_LatencyWeightRegion :: f64
  c_ParallelLookupEnabled :: bool
  c_ParallelLookupCandidates :: int
  c_TimeoutPingSameRegion :: duration
  c_TimeoutPingCrossRegion :: duration
  c_TimeoutFindSuccessorSame :: duration
  c_TimeoutFindSuccessorCross :: duration
  c_TimeoutFixFingersSame :: duration
  c_TimeoutFixFingersCross :: duration
  c_LatencyProbeIntervalActive :: duration
  c_LatencyProbeIntervalQuiet :: duration
  c_RTTEWMAAlpha :: f64
  c_RTTSampleExpiry :: duration
  c_PiggybackEnabled :: bool
  c_StabilizeDebounceThreshold :: int
  c_TopologyChangeWindow :: duration
  c_StabilizeActiveInterval :: duration
  c_StabilizeQuietInterval :: duration
  c_FixFingersActiveInterval :: duration
  c_FixFingersQuietInterval :: duration
  c_CheckPredecessorActiveInterval :: duration
  c_CheckPredecessorQuietInterval :: duration

text \<open>The variables of \<open>Load\<close>: the configuration and the two comma-separated lists.\<close>

record load_state =
  ld_cfg :: Config
  ld_seeds :: string
  ld_members :: string

type_synonym ('a, 's) setter = "('a \<Rightarrow> 'a) \<Rightarrow> 's \<Rightarrow> 's"

definition in_cfg :: "(('a \<Rightarrow> 'a) \<Rightarrow> Config \<Rightarrow> Config) \<Rightarrow> ('a, load_state) setter" where
  "in_cfg upd f s = ld_cfg_update (upd f) s"

definition in_auth :: "(('a \<Rightarrow> 'a) \<Rightarrow> AuthConfig \<Rightarrow> AuthConfig) \<Rightarrow> ('a, load_state) setter" where
  "in_auth upd f s = ld_cfg_update (c_Auth_update (upd f)) s"

text \<open>\<open>strconv.ParseBool\<close>.\<close>

definition ParseBool :: "string \<Rightarrow> bool option" where
  "ParseBool s =
     (if s \<in> {''1'', ''t'', ''T'', ''true'', ''TRUE'', ''True''} then Some True
      else if s \<in> {''0'', ''f'', ''F'', ''false'', ''FALSE'', ''False''} then Some False else None)"

section \<open>Flags\<close>

type_synonym 's flag_setter = "string \<Rightarrow> 's \<Rightarrow> goerror + 's"

datatype 's flag = BoolFlag "'s flag_setter" | ValueFlag "'s flag_setter"

definition set_parsed :: "(string \<Rightarrow> 'a option) \<Rightarrow> ('a, 's) setter \<Rightarrow> 's flag_setter" where
  "set_parsed parse setv v s =
     (case parse v of None \<Rightarrow> Inl (GoError ''parse error'') | Some x \<Rightarrow> Inr (setv (\<lambda>_. x) s))"

definition flagString :: "strlib \<Rightarrow> (string, 's) setter \<Rightarrow> 's flag" where
  "flagString P setv = ValueFlag (set_parsed Some setv)"

definition flagBool :: "strlib \<Rightarrow> (bool, 's) setter \<Rightarrow> 's flag" where
  "flagBool P setv = BoolFlag (set_parsed ParseBool setv)"

definition flagInt :: "strlib \<Rightarrow> (int, 's) setter \<Rightarrow> 's flag" where
  "flagInt P setv = ValueFlag (set_parsed (str_ParseInt0 P) setv)"

definition flagDuration :: "strlib \<Rightarrow> (duration, 's) setter \<Rightarrow> 's flag" where
  "flagDuration P setv = ValueFlag (set_parsed (str_ParseDuration P) setv)"

definition flagFloat :: "strlib \<Rightarrow> (f64, 's) setter \<Rightarrow> 's flag" where
  "flagFloat P setv = ValueFlag (set_parsed (str_ParseFloat P) setv)"

definition flag_auth_defaults :: AuthConfig where
  "flag_auth_defaults =
     \<lparr>a_Enabled = False, a_CAPublicKeyBase64 = [], a_NodeCertificateFile = [], a_NodePrivateKeyFile = [],
      a_TimestampToleranceSecs = 300, a_NonceCacheTTLSecs = 600, a_NonceCacheMaxSize = 10000,
      a_CertCacheTTLSecs = 3600, a_CRLFile = [], a_CRLRefreshFromTracker = True, a_CertExpiryWarnDays = 30,
      a_BootGracePeriodSecs = 0\<rparr>"

definition flag_defaults :: Config where
  "flag_defaults =
     \<lparr>c_NodeURI = [], c_ListenAddr = [], c_TLSCertFile = [], c_TLSKeyFile = [], c_SkipTLSVerify = False,
      c_LogLevel = ''info'', c_TrackerURL = [], c_ManualSeeds = [], c_HTTPTimeout = DefaultHTTPTimeout,
      c_MaintenanceInterval = DefaultMaintenanceInterval, c_SuccessorListSize = DefaultSuccessorListSize,
      c_MaxHops = DefaultMaxHops, c_SuspiciousThreshold = DefaultSuspiciousThreshold,
      c_FailedThreshold = DefaultFailedThreshold, c_TrackerSeedCount = DefaultTrackerSeedCount,
      c_PingLivenessTimeout = DefaultPingLivenessTimeout, c_StabilizeAtomicState = True,
      c_ValidateAfterStabilize = True, c_RectifyEndpointAlias = True,
      c_InvariantAuditInterval = DefaultInvariantAuditInterval,
      c_TrackerHeartbeatActiveInterval = DefaultTrackerHeartbeatActiveInterval,
      c_TrackerHeartbeatQuietInterval = DefaultTrackerHeartbeatQuietInterval,
      c_TrackerCRLInterval = DefaultTrackerCRLInterval, c_StableBaseMinSize = 0, c_StableBaseMembers = [],
      c_Auth = flag_auth_defaults, c_VNodeCount = 0, c_MaxVNodes = 8, c_VNodeProofTTL = 86400 * Second,
      c_VNodeProofRenewBefore = 3600 * Second, c_ClockSkewTolerance = 30 * Second, c_VNodeGoroutineLimit = 32,
      c_VNodeMaintenanceJitter = 5 * Second, c_SiblingRouteMaxHops = 2,
      c_SuccessorListSiblingCap = f64_round (5 / 10), c_VNodeBootstrapPreferExt = True,
      c_SharedNodeInfoCacheSize = 2048, c_SharedNodeInfoCacheTTL = 30 * Second,
      c_SharedRTTCacheTTL = 60 * Second, c_SharedRouteCacheSize = 1024, c_SharedRouteCacheTTL = 10 * Second,
      c_SharedProofVerifyCacheSize = 256, c_TransferTimeout = 30 * Second, c_NodeRegion = [],
      c_PredecessorListSize = DefaultPredecessorListSize,
      c_FixFingersBatchSizeActive = DefaultFixFingersBatchSizeActive,
      c_FixFingersBatchSizeQuiet = DefaultFixFingersBatchSizeQuiet, c_RoutingCacheEnabled = True,
      c_RoutingCacheSize = DefaultRoutingCacheSize, c_RoutingCacheTTL = DefaultRoutingCacheTTL,
      c_LatencyWeightID = f64_round (6 / 10), c_LatencyWeightRTT = f64_round (3 / 10),
      c_LatencyWeightRegion = f64_round (1 / 10), c_ParallelLookupEnabled = False,
      c_ParallelLookupCandidates = 3, c_TimeoutPingSameRegion = DefaultTimeoutPingSameRegion,
      c_TimeoutPingCrossRegion = DefaultTimeoutPingCrossRegion,
      c_TimeoutFindSuccessorSame = DefaultTimeoutFindSuccessorSame,
      c_TimeoutFindSuccessorCross = DefaultTimeoutFindSuccessorCross,
      c_TimeoutFixFingersSame = DefaultTimeoutFixFingersSame,
      c_TimeoutFixFingersCross = DefaultTimeoutFixFingersCross,
      c_LatencyProbeIntervalActive = DefaultLatencyProbeActiveInterval,
      c_LatencyProbeIntervalQuiet = DefaultLatencyProbeQuietInterval, c_RTTEWMAAlpha = DefaultRTTEWMAAlpha,
      c_RTTSampleExpiry = DefaultRTTSampleExpiry, c_PiggybackEnabled = True,
      c_StabilizeDebounceThreshold = DefaultStabilizeDebounceThreshold,
      c_TopologyChangeWindow = DefaultTopologyChangeWindow,
      c_StabilizeActiveInterval = DefaultStabilizeActiveInterval,
      c_StabilizeQuietInterval = DefaultStabilizeQuietInterval,
      c_FixFingersActiveInterval = DefaultFixFingersActiveInterval,
      c_FixFingersQuietInterval = DefaultFixFingersQuietInterval,
      c_CheckPredecessorActiveInterval = DefaultCheckPredecessorActiveInterval,
      c_CheckPredecessorQuietInterval = DefaultCheckPredecessorQuietInterval\<rparr>"

definition flag_table :: "strlib \<Rightarrow> (string \<times> load_state flag) list" where
  "flag_table P =
     [(''uri'', flagString P (in_cfg c_NodeURI_update)),
      (''listen'', flagString P (in_cfg c_ListenAddr_update)),
      (''tls-cert'', flagString P (in_cfg c_TLSCertFile_update)),
      (''tls-key'', flagString P (in_cfg c_TLSKeyFile_update)),
      (''skip-tls-verify'', flagBool P (in_cfg c_SkipTLSVerify_update)),
      (''log-level'', flagString P (in_cfg c_LogLevel_update)),
      (''tracker-url'', flagString P (in_cfg c_TrackerURL_update)), (''seeds'', flagString P ld_seeds_update),
      (''http-timeout'', flagDuration P (in_cfg c_HTTPTimeout_update)),
      (''maintenance-interval'', flagDuration P (in_cfg c_MaintenanceInterval_update)),
      (''successor-list-size'', flagInt P (in_cfg c_SuccessorListSize_update)),
      (''max-hops'', flagInt P (in_cfg c_MaxHops_update)),
      (''suspicious-threshold'', flagInt P (in_cfg c_SuspiciousThreshold_update)),
      (''failed-threshold'', flagInt P (in_cfg c_FailedThreshold_update)),
      (''tracker-seed-count'', flagInt P (in_cfg c_TrackerSeedCount_update)),
      (''ping-liveness-timeout'', flagDuration P (in_cfg c_PingLivenessTimeout_update)),
      (''stabilize-atomic-state'', flagBool P (in_cfg c_StabilizeAtomicState_update)),
      (''validate-after-stabilize'', flagBool P (in_cfg c_ValidateAfterStabilize_update)),
      (''rectify-endpoint-alias'', flagBool P (in_cfg c_RectifyEndpointAlias_update)),
      (''invariant-audit-interval'', flagDuration P (in_cfg c_InvariantAuditInterval_update)),
      (''tracker-heartbeat-active-interval'', flagDuration P (in_cfg c_TrackerHeartbeatActiveInterval_update)),
      (''tracker-heartbeat-quiet-interval'', flagDuration P (in_cfg c_TrackerHeartbeatQuietInterval_update)),
      (''tracker-crl-interval'', flagDuration P (in_cfg c_TrackerCRLInterval_update)),
      (''stable-base-min-size'', flagInt P (in_cfg c_StableBaseMinSize_update)),
      (''stable-base-members'', flagString P ld_members_update),
      (''auth.enabled'', flagBool P (in_auth a_Enabled_update)),
      (''auth.ca-public-key-base64'', flagString P (in_auth a_CAPublicKeyBase64_update)),
      (''auth.node-certificate-file'', flagString P (in_auth a_NodeCertificateFile_update)),
      (''auth.node-private-key-file'', flagString P (in_auth a_NodePrivateKeyFile_update)),
      (''auth.timestamp-tolerance-secs'', flagInt P (in_auth a_TimestampToleranceSecs_update)),
      (''auth.nonce-cache-ttl-secs'', flagInt P (in_auth a_NonceCacheTTLSecs_update)),
      (''auth.nonce-cache-max-size'', flagInt P (in_auth a_NonceCacheMaxSize_update)),
      (''auth.cert-cache-ttl-secs'', flagInt P (in_auth a_CertCacheTTLSecs_update)),
      (''auth.crl-file'', flagString P (in_auth a_CRLFile_update)),
      (''auth.crl-refresh-from-tracker'', flagBool P (in_auth a_CRLRefreshFromTracker_update)),
      (''auth.cert-expiry-warn-days'', flagInt P (in_auth a_CertExpiryWarnDays_update)),
      (''auth.boot-grace-period-secs'', flagInt P (in_auth a_BootGracePeriodSecs_update)),
      (''vnode-count'', flagInt P (in_cfg c_VNodeCount_update)),
      (''max-vnodes'', flagInt P (in_cfg c_MaxVNodes_update)),
      (''vnodeproof-ttl'', flagDuration P (in_cfg c_VNodeProofTTL_update)),
      (''vnodeproof-renew-before'', flagDuration P (in_cfg c_VNodeProofRenewBefore_update)),
      (''clock-skew-tolerance'', flagDuration P (in_cfg c_ClockSkewTolerance_update)),
      (''vnode-goroutine-limit'', flagInt P (in_cfg c_VNodeGoroutineLimit_update)),
      (''vnode-maintenance-jitter'', flagDuration P (in_cfg c_VNodeMaintenanceJitter_update)),
      (''sibling-route-max-hops'', flagInt P (in_cfg c_SiblingRouteMaxHops_update)),
      (''successor-list-sibling-cap'', flagFloat P (in_cfg c_SuccessorListSiblingCap_update)),
      (''vnode-bootstrap-prefer-external'', flagBool P (in_cfg c_VNodeBootstrapPreferExt_update)),
      (''shared-nodeinfo-cache-size'', flagInt P (in_cfg c_SharedNodeInfoCacheSize_update)),
      (''shared-nodeinfo-cache-ttl'', flagDuration P (in_cfg c_SharedNodeInfoCacheTTL_update)),
      (''shared-rtt-cache-ttl'', flagDuration P (in_cfg c_SharedRTTCacheTTL_update)),
      (''shared-route-cache-size'', flagInt P (in_cfg c_SharedRouteCacheSize_update)),
      (''shared-route-cache-ttl'', flagDuration P (in_cfg c_SharedRouteCacheTTL_update)),
      (''shared-proof-verify-cache-size'', flagInt P (in_cfg c_SharedProofVerifyCacheSize_update)),
      (''transfer-timeout'', flagDuration P (in_cfg c_TransferTimeout_update)),
      (''node-region'', flagString P (in_cfg c_NodeRegion_update)),
      (''predecessor-list-size'', flagInt P (in_cfg c_PredecessorListSize_update)),
      (''fix-fingers-batch-active'', flagInt P (in_cfg c_FixFingersBatchSizeActive_update)),
      (''fix-fingers-batch-quiet'', flagInt P (in_cfg c_FixFingersBatchSizeQuiet_update)),
      (''routing-cache-enabled'', flagBool P (in_cfg c_RoutingCacheEnabled_update)),
      (''routing-cache-size'', flagInt P (in_cfg c_RoutingCacheSize_update)),
      (''routing-cache-ttl'', flagDuration P (in_cfg c_RoutingCacheTTL_update)),
      (''latency-weight-id'', flagFloat P (in_cfg c_LatencyWeightID_update)),
      (''latency-weight-rtt'', flagFloat P (in_cfg c_LatencyWeightRTT_update)),
      (''latency-weight-region'', flagFloat P (in_cfg c_LatencyWeightRegion_update)),
      (''parallel-lookup-enabled'', flagBool P (in_cfg c_ParallelLookupEnabled_update)),
      (''parallel-lookup-candidates'', flagInt P (in_cfg c_ParallelLookupCandidates_update)),
      (''timeout-ping-same'', flagDuration P (in_cfg c_TimeoutPingSameRegion_update)),
      (''timeout-ping-cross'', flagDuration P (in_cfg c_TimeoutPingCrossRegion_update)),
      (''timeout-find-successor-same'', flagDuration P (in_cfg c_TimeoutFindSuccessorSame_update)),
      (''timeout-find-successor-cross'', flagDuration P (in_cfg c_TimeoutFindSuccessorCross_update)),
      (''timeout-fix-fingers-same'', flagDuration P (in_cfg c_TimeoutFixFingersSame_update)),
      (''timeout-fix-fingers-cross'', flagDuration P (in_cfg c_TimeoutFixFingersCross_update)),
      (''latency-probe-interval-active'', flagDuration P (in_cfg c_LatencyProbeIntervalActive_update)),
      (''latency-probe-interval-quiet'', flagDuration P (in_cfg c_LatencyProbeIntervalQuiet_update)),
      (''rtt-ewma-alpha'', flagFloat P (in_cfg c_RTTEWMAAlpha_update)),
      (''rtt-sample-expiry'', flagDuration P (in_cfg c_RTTSampleExpiry_update)),
      (''piggyback-enabled'', flagBool P (in_cfg c_PiggybackEnabled_update)),
      (''stabilize-debounce-threshold'', flagInt P (in_cfg c_StabilizeDebounceThreshold_update)),
      (''topology-change-window'', flagDuration P (in_cfg c_TopologyChangeWindow_update)),
      (''stabilize-active-interval'', flagDuration P (in_cfg c_StabilizeActiveInterval_update)),
      (''stabilize-quiet-interval'', flagDuration P (in_cfg c_StabilizeQuietInterval_update)),
      (''fix-fingers-active-interval'', flagDuration P (in_cfg c_FixFingersActiveInterval_update)),
      (''fix-fingers-quiet-interval'', flagDuration P (in_cfg c_FixFingersQuietInterval_update)),
      (''check-predecessor-active-interval'', flagDuration P (in_cfg c_CheckPredecessorActiveInterval_update)),
      (''check-predecessor-quiet-interval'', flagDuration P (in_cfg c_CheckPredecessorQuietInterval_update))]"

text \<open>\<open>flag.Parse\<close>. An argument is \<open>-name\<close>, \<open>--name\<close>, with \<open>=value\<close> or, unless the flag is boolean, the
  value as the next argument; \<open>--\<close> and the first argument that is no flag end the flags.\<close>

definition flag_text :: "string \<Rightarrow> string option" where
  "flag_text arg =
     (if HasPrefix arg ''--'' then Some (drop 2 arg)
      else if HasPrefix arg ''-'' then Some (drop 1 arg) else None)"

definition cut_value :: "string \<Rightarrow> string \<times> string option" where
  "cut_value t =
     (case IndexByte (drop 1 t) (CHR ''='') of
        None \<Rightarrow> (t, None) | Some i \<Rightarrow> (take (Suc i) t, Some (drop (Suc (Suc i)) t)))"

fun parse_flags :: "(string \<times> 's flag) list \<Rightarrow> string list \<Rightarrow> 's \<Rightarrow> goerror + 's" where
  "parse_flags tab [] s = Inr s"
| "parse_flags tab (arg # args) s =
     (case flag_text arg of
        None \<Rightarrow> Inr s
      | Some t \<Rightarrow>
          if arg = ''-'' \<or> arg = ''--'' then Inr s
          else if t = [] \<or> hd t = CHR ''-'' \<or> hd t = CHR ''='' then Inl (GoError (''bad flag syntax: '' @ arg))
          else
            let (name, value) = cut_value t
            in case map_of tab name of
                 None \<Rightarrow> Inl (GoError (''flag provided but not defined: -'' @ name))
               | Some (BoolFlag set_to) \<Rightarrow>
                   (case set_to (case value of None \<Rightarrow> ''true'' | Some v \<Rightarrow> v) s of
                      Inl e \<Rightarrow> Inl e | Inr s' \<Rightarrow> parse_flags tab args s')
               | Some (ValueFlag set_to) \<Rightarrow>
                   (case value of
                      Some v \<Rightarrow> (case set_to v s of Inl e \<Rightarrow> Inl e | Inr s' \<Rightarrow> parse_flags tab args s')
                    | None \<Rightarrow>
                        (case args of
                           [] \<Rightarrow> Inl (GoError (''flag needs an argument: -'' @ name))
                         | v # rest \<Rightarrow>
                             (case set_to v s of Inl e \<Rightarrow> Inl e | Inr s' \<Rightarrow> parse_flags tab rest s'))))"

section \<open>Environment\<close>

definition env_parsed :: "(string \<Rightarrow> string) \<Rightarrow> string \<Rightarrow> (string \<Rightarrow> 'a option) \<Rightarrow> ('a, load_state) setter \<Rightarrow> load_state \<Rightarrow> load_state" where
  "env_parsed env key parse setv s =
     (let value = TrimSpace (env key)
      in if value = [] then s
         else case parse value of None \<Rightarrow> s | Some x \<Rightarrow> setv (\<lambda>_. x) s)"

definition applyEnv :: "strlib \<Rightarrow> (string \<Rightarrow> string) \<Rightarrow> string \<Rightarrow> (string, load_state) setter \<Rightarrow> load_state \<Rightarrow> load_state" where
  "applyEnv P env key setv = env_parsed env key Some setv"

definition applyEnvInt :: "strlib \<Rightarrow> (string \<Rightarrow> string) \<Rightarrow> string \<Rightarrow> (int, load_state) setter \<Rightarrow> load_state \<Rightarrow> load_state" where
  "applyEnvInt P env key setv = env_parsed env key ParseInt64 setv"

definition applyEnvBool :: "strlib \<Rightarrow> (string \<Rightarrow> string) \<Rightarrow> string \<Rightarrow> (bool, load_state) setter \<Rightarrow> load_state \<Rightarrow> load_state" where
  "applyEnvBool P env key setv = env_parsed env key ParseBool setv"

definition applyEnvFloat :: "strlib \<Rightarrow> (string \<Rightarrow> string) \<Rightarrow> string \<Rightarrow> (f64, load_state) setter \<Rightarrow> load_state \<Rightarrow> load_state" where
  "applyEnvFloat P env key setv = env_parsed env key (str_ParseFloat P) setv"

definition applyEnvDuration :: "strlib \<Rightarrow> (string \<Rightarrow> string) \<Rightarrow> string \<Rightarrow> (duration, load_state) setter \<Rightarrow> load_state \<Rightarrow> load_state" where
  "applyEnvDuration P env key setv = env_parsed env key (\<lambda>v. map_option SecondsDuration (ParseInt64 v)) setv"

definition env_overrides_1 :: "strlib \<Rightarrow> (string \<Rightarrow> string) \<Rightarrow> (load_state \<Rightarrow> load_state) list" where
  "env_overrides_1 P env =
     [applyEnv P env ''NODE_URI'' (in_cfg c_NodeURI_update),
      applyEnv P env ''NODE_LISTEN'' (in_cfg c_ListenAddr_update),
      applyEnv P env ''NODE_TLS_CERT_FILE'' (in_cfg c_TLSCertFile_update),
      applyEnv P env ''NODE_TLS_KEY_FILE'' (in_cfg c_TLSKeyFile_update),
      applyEnvBool P env ''CHORD_SKIP_TLS_VERIFY'' (in_cfg c_SkipTLSVerify_update),
      applyEnv P env ''CHORD_LOG_LEVEL'' (in_cfg c_LogLevel_update),
      applyEnv P env ''TRACKER_URL'' (in_cfg c_TrackerURL_update),
      applyEnv P env ''NODE_MANUAL_SEEDS'' ld_seeds_update,
      applyEnvDuration P env ''CHORD_HTTP_TIMEOUT_SECONDS'' (in_cfg c_HTTPTimeout_update),
      applyEnvDuration P env ''CHORD_MAINTENANCE_INTERVAL_SECONDS'' (in_cfg c_MaintenanceInterval_update),
      applyEnvInt P env ''CHORD_SUCCESSOR_LIST_SIZE'' (in_cfg c_SuccessorListSize_update),
      applyEnvInt P env ''CHORD_MAX_HOPS'' (in_cfg c_MaxHops_update),
      applyEnvInt P env ''CHORD_SUSPICIOUS_THRESHOLD'' (in_cfg c_SuspiciousThreshold_update),
      applyEnvInt P env ''CHORD_FAILED_THRESHOLD'' (in_cfg c_FailedThreshold_update),
      applyEnvInt P env ''TRACKER_SEED_COUNT'' (in_cfg c_TrackerSeedCount_update),
      applyEnvDuration P env ''CHORD_PING_LIVENESS_TIMEOUT_SECONDS'' (in_cfg c_PingLivenessTimeout_update),
      applyEnvBool P env ''CHORD_STABILIZE_ATOMIC_STATE'' (in_cfg c_StabilizeAtomicState_update),
      applyEnvBool P env ''CHORD_VALIDATE_AFTER_STABILIZE'' (in_cfg c_ValidateAfterStabilize_update),
      applyEnvBool P env ''CHORD_RECTIFY_ENDPOINT_ALIAS'' (in_cfg c_RectifyEndpointAlias_update),
      applyEnvDuration P env ''CHORD_INVARIANT_AUDIT_INTERVAL_SECONDS'' (in_cfg c_InvariantAuditInterval_update),
      applyEnvDuration P env ''CHORD_TRACKER_HEARTBEAT_ACTIVE'' (in_cfg c_TrackerHeartbeatActiveInterval_update),
      applyEnvDuration P env ''CHORD_TRACKER_HEARTBEAT_QUIET'' (in_cfg c_TrackerHeartbeatQuietInterval_update),
      applyEnvDuration P env ''CHORD_TRACKER_CRL_INTERVAL'' (in_cfg c_TrackerCRLInterval_update),
      applyEnvInt P env ''CHORD_STABLE_BASE_MIN_SIZE'' (in_cfg c_StableBaseMinSize_update),
      applyEnv P env ''CHORD_STABLE_BASE_MEMBERS'' ld_members_update,
      applyEnvBool P env ''CHORD_AUTH_ENABLED'' (in_auth a_Enabled_update),
      applyEnv P env ''CHORD_AUTH_CA_PUBLIC_KEY_BASE64'' (in_auth a_CAPublicKeyBase64_update),
      applyEnv P env ''CHORD_AUTH_NODE_CERT_FILE'' (in_auth a_NodeCertificateFile_update),
      applyEnv P env ''CHORD_AUTH_NODE_PRIVATE_KEY_FILE'' (in_auth a_NodePrivateKeyFile_update),
      applyEnvInt P env ''CHORD_AUTH_TIMESTAMP_TOLERANCE'' (in_auth a_TimestampToleranceSecs_update),
      applyEnvInt P env ''CHORD_AUTH_NONCE_CACHE_TTL'' (in_auth a_NonceCacheTTLSecs_update),
      applyEnvInt P env ''CHORD_AUTH_NONCE_CACHE_MAX_SIZE'' (in_auth a_NonceCacheMaxSize_update),
      applyEnvInt P env ''CHORD_AUTH_CERT_CACHE_TTL'' (in_auth a_CertCacheTTLSecs_update),
      applyEnv P env ''CHORD_AUTH_CRL_FILE'' (in_auth a_CRLFile_update),
      applyEnvBool P env ''CHORD_AUTH_CRL_REFRESH'' (in_auth a_CRLRefreshFromTracker_update),
      applyEnvInt P env ''CHORD_AUTH_CERT_EXPIRY_WARN'' (in_auth a_CertExpiryWarnDays_update),
      applyEnvInt P env ''CHORD_AUTH_BOOT_GRACE'' (in_auth a_BootGracePeriodSecs_update),
      applyEnvInt P env ''CHORD_VNODE_COUNT'' (in_cfg c_VNodeCount_update),
      applyEnvInt P env ''CHORD_MAX_VNODES'' (in_cfg c_MaxVNodes_update),
      applyEnvDuration P env ''CHORD_VNODEPROOF_TTL'' (in_cfg c_VNodeProofTTL_update),
      applyEnvDuration P env ''CHORD_VNODEPROOF_RENEW_BEFORE'' (in_cfg c_VNodeProofRenewBefore_update),
      applyEnvDuration P env ''CHORD_CLOCK_SKEW_TOLERANCE'' (in_cfg c_ClockSkewTolerance_update)]"

definition env_overrides_2 :: "strlib \<Rightarrow> (string \<Rightarrow> string) \<Rightarrow> (load_state \<Rightarrow> load_state) list" where
  "env_overrides_2 P env =
     [applyEnvInt P env ''CHORD_VNODE_GOROUTINE_LIMIT'' (in_cfg c_VNodeGoroutineLimit_update),
      applyEnvDuration P env ''CHORD_VNODE_MAINTENANCE_JITTER'' (in_cfg c_VNodeMaintenanceJitter_update),
      applyEnvInt P env ''CHORD_SIBLING_ROUTE_MAX_HOPS'' (in_cfg c_SiblingRouteMaxHops_update),
      applyEnvFloat P env ''CHORD_SUCCESSOR_LIST_SIBLING_CAP'' (in_cfg c_SuccessorListSiblingCap_update),
      applyEnvBool P env ''CHORD_VNODE_BOOTSTRAP_PREFER_EXT'' (in_cfg c_VNodeBootstrapPreferExt_update),
      applyEnvInt P env ''CHORD_SHARED_NODEINFO_CACHE_SIZE'' (in_cfg c_SharedNodeInfoCacheSize_update),
      applyEnvDuration P env ''CHORD_SHARED_NODEINFO_CACHE_TTL'' (in_cfg c_SharedNodeInfoCacheTTL_update),
      applyEnvDuration P env ''CHORD_SHARED_RTT_CACHE_TTL'' (in_cfg c_SharedRTTCacheTTL_update),
      applyEnvInt P env ''CHORD_SHARED_ROUTE_CACHE_SIZE'' (in_cfg c_SharedRouteCacheSize_update),
      applyEnvDuration P env ''CHORD_SHARED_ROUTE_CACHE_TTL'' (in_cfg c_SharedRouteCacheTTL_update),
      applyEnvInt P env ''CHORD_SHARED_PROOF_VERIFY_CACHE_SIZE'' (in_cfg c_SharedProofVerifyCacheSize_update),
      applyEnvDuration P env ''CHORD_TRANSFER_TIMEOUT'' (in_cfg c_TransferTimeout_update),
      applyEnv P env ''CHORD_NODE_REGION'' (in_cfg c_NodeRegion_update),
      applyEnvInt P env ''CHORD_PREDECESSOR_LIST_SIZE'' (in_cfg c_PredecessorListSize_update),
      applyEnvInt P env ''CHORD_FIX_FINGERS_BATCH_ACTIVE'' (in_cfg c_FixFingersBatchSizeActive_update),
      applyEnvInt P env ''CHORD_FIX_FINGERS_BATCH_QUIET'' (in_cfg c_FixFingersBatchSizeQuiet_update),
      applyEnvBool P env ''CHORD_ROUTING_CACHE_ENABLED'' (in_cfg c_RoutingCacheEnabled_update),
      applyEnvInt P env ''CHORD_ROUTING_CACHE_SIZE'' (in_cfg c_RoutingCacheSize_update),
      applyEnvDuration P env ''CHORD_ROUTING_CACHE_TTL_SECONDS'' (in_cfg c_RoutingCacheTTL_update),
      applyEnvFloat P env ''CHORD_LATENCY_WEIGHT_ID'' (in_cfg c_LatencyWeightID_update),
      applyEnvFloat P env ''CHORD_LATENCY_WEIGHT_RTT'' (in_cfg c_LatencyWeightRTT_update),
      applyEnvFloat P env ''CHORD_LATENCY_WEIGHT_REGION'' (in_cfg c_LatencyWeightRegion_update),
      applyEnvBool P env ''CHORD_PARALLEL_LOOKUP_ENABLED'' (in_cfg c_ParallelLookupEnabled_update),
      applyEnvInt P env ''CHORD_PARALLEL_LOOKUP_CANDIDATES'' (in_cfg c_ParallelLookupCandidates_update),
      applyEnvDuration P env ''CHORD_TIMEOUT_PING_SAME'' (in_cfg c_TimeoutPingSameRegion_update),
      applyEnvDuration P env ''CHORD_TIMEOUT_PING_CROSS'' (in_cfg c_TimeoutPingCrossRegion_update),
      applyEnvDuration P env ''CHORD_TIMEOUT_FIND_SUCCESSOR_SAME'' (in_cfg c_TimeoutFindSuccessorSame_update),
      applyEnvDuration P env ''CHORD_TIMEOUT_FIND_SUCCESSOR_CROSS'' (in_cfg c_TimeoutFindSuccessorCross_update),
      applyEnvDuration P env ''CHORD_TIMEOUT_FIX_FINGERS_SAME'' (in_cfg c_TimeoutFixFingersSame_update),
      applyEnvDuration P env ''CHORD_TIMEOUT_FIX_FINGERS_CROSS'' (in_cfg c_TimeoutFixFingersCross_update),
      applyEnvDuration P env ''CHORD_LATENCY_PROBE_ACTIVE'' (in_cfg c_LatencyProbeIntervalActive_update),
      applyEnvDuration P env ''CHORD_LATENCY_PROBE_QUIET'' (in_cfg c_LatencyProbeIntervalQuiet_update),
      applyEnvFloat P env ''CHORD_RTT_EWMA_ALPHA'' (in_cfg c_RTTEWMAAlpha_update),
      applyEnvDuration P env ''CHORD_RTT_SAMPLE_EXPIRY'' (in_cfg c_RTTSampleExpiry_update),
      applyEnvBool P env ''CHORD_PIGGYBACK_ENABLED'' (in_cfg c_PiggybackEnabled_update),
      applyEnvInt P env ''CHORD_STABILIZE_DEBOUNCE'' (in_cfg c_StabilizeDebounceThreshold_update),
      applyEnvDuration P env ''CHORD_TOPOLOGY_CHANGE_WINDOW'' (in_cfg c_TopologyChangeWindow_update),
      applyEnvDuration P env ''CHORD_STABILIZE_ACTIVE_INTERVAL'' (in_cfg c_StabilizeActiveInterval_update),
      applyEnvDuration P env ''CHORD_STABILIZE_QUIET_INTERVAL'' (in_cfg c_StabilizeQuietInterval_update),
      applyEnvDuration P env ''CHORD_FIX_FINGERS_ACTIVE_INTERVAL'' (in_cfg c_FixFingersActiveInterval_update),
      applyEnvDuration P env ''CHORD_FIX_FINGERS_QUIET_INTERVAL'' (in_cfg c_FixFingersQuietInterval_update),
      applyEnvDuration P env ''CHORD_CHECK_PREDECESSOR_ACTIVE_INTERVAL'' (in_cfg c_CheckPredecessorActiveInterval_update),
      applyEnvDuration P env ''CHORD_CHECK_PREDECESSOR_QUIET_INTERVAL'' (in_cfg c_CheckPredecessorQuietInterval_update)]"

section \<open>Validation\<close>

text \<open>\<open>net.SplitHostPort\<close>.\<close>

definition SplitHostPort :: "string \<Rightarrow> goerror + string \<times> string" where
  "SplitHostPort hp =
     (case LastIndexByte hp (CHR '':'') of
        None \<Rightarrow> Inl (GoError ''missing port in address'')
      | Some i \<Rightarrow>
          if hd hp = CHR ''['' then
            (case IndexByte hp (CHR '']'') of
               None \<Rightarrow> Inl (GoError ''missing ']' in address'')
             | Some j \<Rightarrow>
                 if Suc j = length hp then Inl (GoError ''missing port in address'')
                 else if Suc j \<noteq> i then
                   Inl (GoError (if hp ! Suc j = CHR '':'' then ''too many colons in address''
                                 else ''missing port in address''))
                 else if CHR ''['' \<in> set (drop 1 hp) then Inl (GoError ''unexpected '[' in address'')
                 else if CHR '']'' \<in> set (drop (Suc j) hp) then Inl (GoError ''unexpected ']' in address'')
                 else Inr (take (j - 1) (drop 1 hp), drop (Suc i) hp))
          else if CHR '':'' \<in> set (take i hp) then Inl (GoError ''too many colons in address'')
          else if CHR ''['' \<in> set hp then Inl (GoError ''unexpected '[' in address'')
          else if CHR '']'' \<in> set hp then Inl (GoError ''unexpected ']' in address'')
          else Inr (take i hp, drop (Suc i) hp))"

definition listenFromURI :: "string \<Rightarrow> string" where
  "listenFromURI uri =
     (case SplitHostPort (TrimPrefix uri ''https://'') of
        Inl _ \<Rightarrow> '':443''
      | Inr (host, port) \<Rightarrow> if host = [] then '':'' @ port else '':'' @ port)"

fun normalize_list :: "golib \<Rightarrow> string list \<Rightarrow> goerror + string list" where
  "normalize_list L [] = Inr []"
| "normalize_list L (x # xs) =
     (let x' = TrimSpace x
      in if x' = [] then normalize_list L xs
         else case NormalizeURI L x' of
                Inl e \<Rightarrow> Inl e
              | Inr u \<Rightarrow> (case normalize_list L xs of Inl e \<Rightarrow> Inl e | Inr us \<Rightarrow> Inr (u # us)))"

definition validate_auth :: "AuthConfig \<Rightarrow> goerror + unit" where
  "validate_auth a =
     (if \<not> a_Enabled a then Inr ()
      else if a_CAPublicKeyBase64 a = [] then
        Inl (GoError ''auth.ca-public-key-base64 is required when auth is enabled'')
      else if a_NodeCertificateFile a = [] then
        Inl (GoError ''auth.node-certificate-file is required when auth is enabled'')
      else if a_NodePrivateKeyFile a = [] then
        Inl (GoError ''auth.node-private-key-file is required when auth is enabled'')
      else Inr ())"

definition validate_node :: "golib \<Rightarrow> Config \<Rightarrow> goerror + Config" where
  "validate_node L c =
     (case NormalizeURI L (c_NodeURI c) of
        Inl e \<Rightarrow> Inl e
      | Inr uri \<Rightarrow>
          let listen = (if c_ListenAddr c = [] then listenFromURI uri else c_ListenAddr c)
          in if c_TLSCertFile c = [] \<or> c_TLSKeyFile c = [] then
               Inl (GoError ''strict https mode requires -tls-cert and -tls-key'')
             else case NormalizeLevel (c_LogLevel c) of
                    Inl e \<Rightarrow> Inl e
                  | Inr level \<Rightarrow> Inr (c\<lparr>c_NodeURI := uri, c_ListenAddr := listen, c_LogLevel := level\<rparr>))"

definition validate_tracker :: "golib \<Rightarrow> Config \<Rightarrow> goerror + Config" where
  "validate_tracker L c =
     (if c_TrackerURL c = [] then Inr c
      else case NormalizeURI L (c_TrackerURL c) of Inl e \<Rightarrow> Inl e | Inr t \<Rightarrow> Inr (c\<lparr>c_TrackerURL := t\<rparr>))"

definition validate_lists :: "golib \<Rightarrow> load_state \<Rightarrow> Config \<Rightarrow> goerror + Config" where
  "validate_lists L s c =
     (case normalize_list L (split_on (CHR '','') (ld_seeds s)) of
        Inl e \<Rightarrow> Inl e
      | Inr seeds \<Rightarrow>
          (case normalize_list L (split_on (CHR '','') (ld_members s)) of
             Inl e \<Rightarrow> Inl e
           | Inr members \<Rightarrow>
               Inr (c\<lparr>c_ManualSeeds := c_ManualSeeds c @ seeds, c_StableBaseMembers := c_StableBaseMembers c @ members\<rparr>)))"

definition validate :: "golib \<Rightarrow> load_state \<Rightarrow> goerror + Config" where
  "validate L s =
     (case validate_node L (ld_cfg s) of
        Inl e \<Rightarrow> Inl e
      | Inr c1 \<Rightarrow>
          (case validate_tracker L c1 of
             Inl e \<Rightarrow> Inl e
           | Inr c2 \<Rightarrow>
               (case validate_lists L s c2 of
                  Inl e \<Rightarrow> Inl e
                | Inr c3 \<Rightarrow>
                    let c4 = (if c_StableBaseMinSize c3 \<le> 0
                              then c3\<lparr>c_StableBaseMinSize := wrap64 (c_SuccessorListSize c3 + 1)\<rparr> else c3)
                    in case validate_auth (c_Auth c4) of Inl e \<Rightarrow> Inl e | Inr _ \<Rightarrow> Inr c4)))"

text \<open>\<open>Load\<close> as a function of \<open>os.Args[1:]\<close> and \<open>os.Getenv\<close>.\<close>

definition Load :: "golib \<Rightarrow> strlib \<Rightarrow> string list \<Rightarrow> (string \<Rightarrow> string) \<Rightarrow> goerror + Config" where
  "Load L P args env =
     (case parse_flags (flag_table P) args \<lparr>ld_cfg = flag_defaults, ld_seeds = [], ld_members = []\<rparr> of
        Inl e \<Rightarrow> Inl e
      | Inr s \<Rightarrow> validate L (fold (\<lambda>f. f) (env_overrides_1 P env @ env_overrides_2 P env) s))"

section \<open>Options of the node\<close>

definition ChordOptions :: "Config \<Rightarrow> Options" where
  "ChordOptions c =
     \<lparr>o_SuccessorListSize = c_SuccessorListSize c, o_MaintenanceInterval = c_MaintenanceInterval c,
      o_MaxHops = c_MaxHops c, o_SuspiciousThreshold = c_SuspiciousThreshold c,
      o_FailedThreshold = c_FailedThreshold c, o_TrackerSeedCount = c_TrackerSeedCount c,
      o_PingLivenessTimeout = c_PingLivenessTimeout c, o_StabilizeAtomicState = c_StabilizeAtomicState c,
      o_ValidateAfterStabilize = c_ValidateAfterStabilize c, o_RectifyEndpointAlias = c_RectifyEndpointAlias c,
      o_InvariantAuditInterval = c_InvariantAuditInterval c, o_StableBaseMinSize = c_StableBaseMinSize c,
      o_StableBaseMembers = c_StableBaseMembers c, o_NodeCertificate = [], o_NodeCertExpiresAt = None,
      o_OnCRLRefresh = False, o_CurrentCRLVersion = False,
      o_TrackerHeartbeatActiveInterval = c_TrackerHeartbeatActiveInterval c,
      o_TrackerHeartbeatQuietInterval = c_TrackerHeartbeatQuietInterval c,
      o_TrackerCRLInterval = c_TrackerCRLInterval c, o_VNodeIndex = 0, o_AnchorID = [], o_VNodeProofPtr = None,
      o_MaxVNodes = c_MaxVNodes c, o_VNodeMaintenanceJitter = c_VNodeMaintenanceJitter c,
      o_SuccessorListSiblingCap = c_SuccessorListSiblingCap c, o_SharedRTTCache = None,
      o_SharedRoutingCache = None, o_VNodeEntries = [], o_Region = c_NodeRegion c,
      o_PredecessorListSize = c_PredecessorListSize c,
      o_FixFingersBatchSizeActive = c_FixFingersBatchSizeActive c,
      o_FixFingersBatchSizeQuiet = c_FixFingersBatchSizeQuiet c,
      o_RoutingCacheEnabled = c_RoutingCacheEnabled c, o_RoutingCacheSize = c_RoutingCacheSize c,
      o_RoutingCacheTTL = c_RoutingCacheTTL c, o_LatencyWeightID = c_LatencyWeightID c,
      o_LatencyWeightRTT = c_LatencyWeightRTT c, o_LatencyWeightRegion = c_LatencyWeightRegion c,
      o_ParallelLookupEnabled = c_ParallelLookupEnabled c,
      o_ParallelLookupCandidates = c_ParallelLookupCandidates c,
      o_LatencyProbeIntervalActive = c_LatencyProbeIntervalActive c,
      o_LatencyProbeIntervalQuiet = c_LatencyProbeIntervalQuiet c, o_RTTEWMAAlpha = c_RTTEWMAAlpha c,
      o_RTTSampleExpiry = c_RTTSampleExpiry c, o_PiggybackEnabled = c_PiggybackEnabled c,
      o_StabilizeDebounceThreshold = c_StabilizeDebounceThreshold c,
      o_TopologyChangeWindow = c_TopologyChangeWindow c,
      o_StabilizeActiveInterval = c_StabilizeActiveInterval c,
      o_StabilizeQuietInterval = c_StabilizeQuietInterval c,
      o_FixFingersActiveInterval = c_FixFingersActiveInterval c,
      o_FixFingersQuietInterval = c_FixFingersQuietInterval c,
      o_CheckPredecessorActiveInterval = c_CheckPredecessorActiveInterval c,
      o_CheckPredecessorQuietInterval = c_CheckPredecessorQuietInterval c\<rparr>"

end
