(* ===== verification/Startup.thy ===== *)
theory Startup
  imports Config HttpFacts
begin

text \<open>
  The node process (\<open>cmd/node/main.go\<close>): credentials, clients, the anchor and its virtual nodes, joining,
  the server, shutdown. Every \<open>log.Fatalf\<close> is an error of the step it ends. The world of a process,
  \<open>proc\<close>, is what is below its clients together with what its callbacks reach: the verifier, whose
  revocation list a tracker refresh replaces, and the live virtual nodes. Steps that only read the
  clock or a file leave the world as it is, so that consecutive readings agree. Signals are left
  out; the maintenance goroutines that are started here run as \<open>Loops\<close> says.
\<close>

section \<open>Credentials\<close>

record auth_setup =
  as_signer :: RequestSigner
  as_privKey :: string
  as_verifier :: RequestVerifier
  as_caKey :: string
  as_certJSON :: string
  as_certExpiresAt :: "int option"
  as_crlRefresh :: bool

definition decode_key :: "nat \<Rightarrow> string \<Rightarrow> string \<Rightarrow> goerror + string" where
  "decode_key n msg s =
     (case rawurl_Decode s of
        None \<Rightarrow> Inl (GoError msg) | Some b \<Rightarrow> if length b \<noteq> n then Inl (GoError msg) else Inr b)"

definition load_certificate ::
  "golib \<Rightarrow> codecs \<Rightarrow> ed25519 \<Rightarrow> (string \<Rightarrow> goerror + string) \<Rightarrow> AuthConfig \<Rightarrow> string \<Rightarrow> gotime \<Rightarrow> goerror + Certificate" where
  "load_certificate L J K files a caPubKey t =
     (case files (a_NodeCertificateFile a) of
        Inl e \<Rightarrow> Inl (GoError (''read node certificate: '' @ errorText e))
      | Inr data \<Rightarrow>
          (case ParseCertificate J data of
             Inl e \<Rightarrow> Inl (GoError (''parse node certificate: '' @ errorText e))
           | Inr cert \<Rightarrow>
               (case VerifyCertificate L K cert caPubKey t (a_TimestampToleranceSecs a) of
                  Inl e \<Rightarrow> Inl (GoError (''node certificate invalid: '' @ errorText e))
                | Inr _ \<Rightarrow> Inr cert)))"

definition load_privateKey :: "(string \<Rightarrow> goerror + string) \<Rightarrow> AuthConfig \<Rightarrow> goerror + string" where
  "load_privateKey files a =
     (case files (a_NodePrivateKeyFile a) of
        Inl e \<Rightarrow> Inl (GoError (''read node private key: '' @ errorText e))
      | Inr raw \<Rightarrow> decode_key 64 ''invalid node private key: must be base64url-encoded 64-byte Ed25519 private key'' raw)"

definition load_crl ::
  "codecs \<Rightarrow> ed25519 \<Rightarrow> (string \<Rightarrow> goerror + string) \<Rightarrow> AuthConfig \<Rightarrow> string \<Rightarrow> goerror + CRL option" where
  "load_crl J K files a caPubKey =
     (if a_CRLFile a = [] then Inr None
      else case LoadCRLFromFile J K (files (a_CRLFile a)) caPubKey of
             Inl e \<Rightarrow> Inl (GoError (''load crl file: '' @ errorText e))
           | Inr c \<Rightarrow> Inr (Some c))"

definition grace_end :: "AuthConfig \<Rightarrow> gotime \<Rightarrow> gotime" where
  "grace_end a t = (if a_BootGracePeriodSecs a > 0 then time_Add t (SecondsDuration (a_BootGracePeriodSecs a)) else 0)"

text \<open>The configuration of the verifier leaves \<open>ClockSkewTolerance\<close> at its zero value.\<close>

definition verifier_config :: "AuthConfig \<Rightarrow> string \<Rightarrow> gotime \<Rightarrow> VerifierConfig" where
  "verifier_config a caPubKey t =
     \<lparr>vc_CAPublicKey = caPubKey, vc_TimestampTolerance = SecondsDuration (a_TimestampToleranceSecs a),
      vc_ToleranceSecs = a_TimestampToleranceSecs a, vc_BootGracePeriodEnd = grace_end a t,
      vc_ClockSkewTolerance = 0\<rparr>"

definition new_verifier :: "AuthConfig \<Rightarrow> string \<Rightarrow> CRL option \<Rightarrow> gotime \<Rightarrow> RequestVerifier" where
  "new_verifier a caPubKey crl t =
     NewRequestVerifier (verifier_config a caPubKey t)
       (NewNonceCache (SecondsDuration (a_NonceCacheTTLSecs a)) (a_NonceCacheMaxSize a))
       (NewCertCache (SecondsDuration (a_CertCacheTTLSecs a))) crl"

definition authSetup ::
  "golib \<Rightarrow> codecs \<Rightarrow> ed25519 \<Rightarrow> (string \<Rightarrow> goerror + string) \<Rightarrow> gotime \<Rightarrow> AuthConfig \<Rightarrow> goerror + auth_setup option" where
  "authSetup L J K files t a =
     (if \<not> a_Enabled a then Inr None
      else case decode_key 32 ''invalid auth.ca-public-key-base64: must be base64url-encoded 32-byte Ed25519 key''
                  (a_CAPublicKeyBase64 a) of
        Inl e \<Rightarrow> Inl e
      | Inr caPubKey \<Rightarrow>
          (case load_certificate L J K files a caPubKey t of
             Inl e \<Rightarrow> Inl e
           | Inr cert \<Rightarrow>
               (case load_privateKey files a of
                  Inl e \<Rightarrow> Inl e
                | Inr priv \<Rightarrow>
                    (case load_crl J K files a caPubKey of
                       Inl e \<Rightarrow> Inl e
                     | Inr crl \<Rightarrow>
                         let signer = NewRequestSigner (cNodeID cert) priv (Some cert)
                         in Inr (Some
                              \<lparr>as_signer = signer, as_privKey = priv, as_verifier = new_verifier a caPubKey crl t,
                               as_caKey = caPubKey, as_certJSON = json_MarshalCertificate J cert,
                               as_certExpiresAt = CertExpiresAt signer, as_crlRefresh = a_CRLRefreshFromTracker a\<rparr>)))))"

definition auth_options :: "auth_setup option \<Rightarrow> Options \<Rightarrow> Options" where
  "auth_options a opts =
     (case a of
        None \<Rightarrow> opts
      | Some s \<Rightarrow> opts\<lparr>o_NodeCertificate := as_certJSON s, o_NodeCertExpiresAt := as_certExpiresAt s,
                       o_OnCRLRefresh := as_crlRefresh s, o_CurrentCRLVersion := as_crlRefresh s\<rparr>)"

text \<open>The callback \<open>OnCRLRefresh\<close>.\<close>

definition onCRLRefresh :: "codecs \<Rightarrow> ed25519 \<Rightarrow> string \<Rightarrow> string \<Rightarrow> RequestVerifier \<Rightarrow> RequestVerifier" where
  "onCRLRefresh J K caPubKey crlJSON v =
     (case ParseCRL J K crlJSON caPubKey of Inl _ \<Rightarrow> v | Inr crl \<Rightarrow> SetCRL (Some crl) v)"

section \<open>The process and its clients\<close>

record 'w proc =
  p_net :: 'w
  p_verifier :: "RequestVerifier option"
  p_vnodes :: "Node list"

record process_lib =
  pl_codecs :: codecs
  pl_ed :: ed25519
  pl_wire :: wire

definition over_net :: "('w, 'a) call \<Rightarrow> 'w proc \<Rightarrow> (goerror + 'a) \<times> 'w proc" where
  "over_net c p = (case run_state c (p_net p) of (r, w) \<Rightarrow> (r, p\<lparr>p_net := w\<rparr>))"

definition tracker_call :: "TrackerClient option \<Rightarrow> (TrackerClient \<Rightarrow> ('w, 'a) call) \<Rightarrow> 'w proc \<Rightarrow> (goerror + 'a) \<times> 'w proc" where
  "tracker_call tr f p =
     (case tr of None \<Rightarrow> (Inl (GoPanic ''nil pointer dereference''), p) | Some c \<Rightarrow> over_net (f c) p)"

text \<open>What the nodes of the process see behind their interfaces and callbacks.\<close>

definition node_env ::
  "process_lib \<Rightarrow> 'w net \<Rightarrow> ('w \<Rightarrow> string list) \<Rightarrow> (duration \<Rightarrow> 'w \<Rightarrow> 'w) \<Rightarrow> string \<Rightarrow>
   ChordClient \<Rightarrow> TrackerClient option \<Rightarrow> 'w proc env" where
  "node_env X N orc sleep caPubKey c tr =
     (let J = pl_codecs X; K = pl_ed X; W = pl_wire X
      in \<lparr>e_lib = nt_lib N, e_now = (\<lambda>p. nt_now N (p_net p)), e_orc = (\<lambda>p. orc (p_net p)),
          pc_Ping = (\<lambda>u. over_net (Client_Ping J K W N c u)),
          pc_PingLiveness = (\<lambda>u. over_net (Client_PingLiveness J K W N c u)),
          pc_PingWithLatency = (\<lambda>u. over_net (Client_PingWithLatency J K W N c u)),
          pc_FindSuccessor = (\<lambda>n q. over_net (Client_FindSuccessor J K W N c n q)),
          pc_Join = (\<lambda>u q. over_net (Client_Join J K W N c u q)),
          pc_Notify = (\<lambda>n q. over_net (Client_Notify J K W N c n q)),
          pc_Rectify = (\<lambda>n q. over_net (Client_Rectify J K W N c n q)),
          pc_State = (\<lambda>n. over_net (Client_State J K W N c n)),
          pc_Predecessor = (\<lambda>n. over_net (Client_Predecessor J K W N c n)),
          pc_SuccessorList = (\<lambda>n. over_net (Client_SuccessorList J K W N c n)),
          pc_Leave = (\<lambda>n q. over_net (Client_Leave J K W N c n q)),
          tr_Seeds = (\<lambda>k ex. tracker_call tr (\<lambda>t. Tracker_Seeds k ex J K W N t)),
          tr_Register = (\<lambda>n. tracker_call tr (\<lambda>t. Tracker_Register n J K W N t)),
          tr_Deregister = (\<lambda>i. tracker_call tr (\<lambda>t. Tracker_Deregister i J K W N t)),
          tr_Heartbeat = (\<lambda>i h. tracker_call tr (\<lambda>t. Tracker_Heartbeat i h J K W N t)),
          tr_FetchCRL = tracker_call tr (\<lambda>t. Tracker_FetchCRL J K W N t),
          cb_OnCRLRefresh = (\<lambda>json p. ((), p\<lparr>p_verifier := map_option (onCRLRefresh J K caPubKey json) (p_verifier p)\<rparr>)),
          cb_CurrentCRLVersion = (\<lambda>p. (case p_verifier p of None \<Rightarrow> 0 | Some v \<Rightarrow> CRLVersion v, p)),
          cb_vnodes = (\<lambda>p. map Some (p_vnodes p)),
          e_Sleep = (\<lambda>d p. ((), p\<lparr>p_net := sleep d (p_net p)\<rparr>))\<rparr>)"

definition tracker_setup :: "golib \<Rightarrow> Config \<Rightarrow> goerror + TrackerClient option" where
  "tracker_setup L cfg =
     (if c_TrackerURL cfg = [] then Inr None
      else case NewTrackerClient L (c_TrackerURL cfg) (c_HTTPTimeout cfg) (c_SkipTLSVerify cfg) of
             Inl e \<Rightarrow> Inl (GoError (''invalid tracker URL: '' @ errorText e))
           | Inr tc \<Rightarrow> Inr (Some tc))"

definition detect_region ::
  "process_lib \<Rightarrow> 'w net \<Rightarrow> Config \<Rightarrow> TrackerClient option \<Rightarrow> 'w \<Rightarrow> string \<times> 'w" where
  "detect_region X N cfg tr w =
     (case tr of
        Some tc \<Rightarrow>
          if c_NodeRegion cfg = [] then
            (case run_state (Tracker_DetectRegion (pl_codecs X) (pl_ed X) (pl_wire X) N tc) w of
               (Inr region, w') \<Rightarrow> (region, w')
             | (Inl _, w') \<Rightarrow> ([], w'))
          else (c_NodeRegion cfg, w)
      | None \<Rightarrow> (c_NodeRegion cfg, w))"

definition timeout_config :: "Config \<Rightarrow> TimeoutConfig" where
  "timeout_config cfg =
     \<lparr>PingSame = c_TimeoutPingSameRegion cfg, PingCross = c_TimeoutPingCrossRegion cfg,
      PingLiveness = c_PingLivenessTimeout cfg, FindSuccessorSame = c_TimeoutFindSuccessorSame cfg,
      FindSuccessorCross = c_TimeoutFindSuccessorCross cfg, FixFingersSame = c_TimeoutFixFingersSame cfg,
      FixFingersCross = c_TimeoutFixFingersCross cfg, Default = c_HTTPTimeout cfg\<rparr>"

definition peer_client :: "Config \<Rightarrow> string \<Rightarrow> auth_setup option \<Rightarrow> ChordClient" where
  "peer_client cfg region a =
     SetTimeoutConfig (timeout_config cfg)
       (SetSelfRegion region (NewChordClient (c_HTTPTimeout cfg) (c_SkipTLSVerify cfg) (map_option as_signer a)))"

section \<open>Virtual nodes\<close>

definition vnode_options :: "Options \<Rightarrow> string \<Rightarrow> int \<Rightarrow> VNodeProof \<Rightarrow> RTTCache \<Rightarrow> RoutingCache option \<Rightarrow> Options" where
  "vnode_options anchorOpts anchorID i proof sharedRTT sharedRoute =
     anchorOpts\<lparr>o_VNodeIndex := i, o_AnchorID := anchorID, o_VNodeProofPtr := Some proof,
                o_SharedRTTCache := Some sharedRTT, o_SharedRoutingCache := sharedRoute\<rparr>"

definition spawn_vnode ::
  "golib \<Rightarrow> ed25519 \<Rightarrow> Config \<Rightarrow> string \<Rightarrow> string \<Rightarrow> Options \<Rightarrow> bool \<Rightarrow> gotime \<Rightarrow> int \<Rightarrow> goerror + Node" where
  "spawn_vnode L K cfg anchorID privKey anchorOpts tracker t i =
     (let sharedRTT = NewRTTCache (o_RTTEWMAAlpha anchorOpts) (c_SharedRTTCacheTTL cfg);
          sharedRoute = (if o_RoutingCacheEnabled anchorOpts
                         then Some (NewRoutingCache (c_SharedRouteCacheSize cfg) (c_SharedRouteCacheTTL cfg)) else None);
          proof = SignVNodeProof L K anchorID i privKey (c_VNodeProofTTL cfg) t
      in NewNode L (c_NodeURI cfg) (vnode_options anchorOpts anchorID i proof sharedRTT sharedRoute) True tracker t)"

definition spawnVNodes ::
  "golib \<Rightarrow> ed25519 \<Rightarrow> Config \<Rightarrow> string \<Rightarrow> string option \<Rightarrow> Options \<Rightarrow> bool \<Rightarrow> gotime \<Rightarrow> goerror + Node list" where
  "spawnVNodes L K cfg anchorID privKey anchorOpts tracker t =
     (case privKey of
        None \<Rightarrow> Inr []
      | Some priv \<Rightarrow>
          if c_VNodeCount cfg \<le> 0 then Inr []
          else collect (map (spawn_vnode L K cfg anchorID priv anchorOpts tracker t) [1 .. c_VNodeCount cfg]))"

definition vnode_entry :: "Node \<Rightarrow> VNodeEntry" where
  "vnode_entry vn =
     (let info = VNodeInfo vn in \<lparr>veVNodeID = viVNodeID info, veIndex = viIndex info, veStatus = StatusString [], veProof = viProof info\<rparr>)"

section \<open>Starting\<close>

text \<open>One node's method run on it; the nodes join one after the other.\<close>

definition on_one :: "('w, 'a) nact \<Rightarrow> Node \<Rightarrow> 'w \<Rightarrow> (Node \<times> task list) \<times> 'w" where
  "on_one m n w =
     (let s = snd (run_state m \<lparr>nd = n, wd = w, spawned = []\<rparr>) in ((nd s, spawned s), wd s))"

fun join_all :: "'w env \<Rightarrow> NodeInfo list \<Rightarrow> Node list \<Rightarrow> 'w \<Rightarrow> (Node \<times> task list) list \<times> 'w" where
  "join_all E seeds [] w = ([], w)"
| "join_all E seeds (n # ns) w =
     (let (x, w1) = on_one (JoinNetwork E seeds) n w; (xs, w2) = join_all E seeds ns w1 in (x # xs, w2))"

record 'w host =
  h_server :: Server
  h_client :: ChordClient
  h_env :: "'w proc env"
  h_world :: "'w proc"
  h_tasks :: "task list list"

text \<open>From the anchor built to the server ready: \<open>opts\<close> are the anchor's options, \<open>region\<close> the configured or
  detected region.\<close>

definition start_nodes ::
  "process_lib \<Rightarrow> 'w net \<Rightarrow> ('w \<Rightarrow> string list) \<Rightarrow> (duration \<Rightarrow> 'w \<Rightarrow> 'w) \<Rightarrow> Config \<Rightarrow> string \<Rightarrow> auth_setup option \<Rightarrow>
   TrackerClient option \<Rightarrow> Options \<Rightarrow> Node \<Rightarrow> NodeInfo list \<Rightarrow> 'w \<Rightarrow> goerror + 'w host" where
  "start_nodes X N orc sleep cfg region a tr opts anchor seeds w =
     (let caKey = (case a of None \<Rightarrow> [] | Some s \<Rightarrow> as_caKey s);
          client = peer_client cfg region a;
          p = \<lparr>p_net = w, p_verifier = map_option as_verifier a, p_vnodes = []\<rparr>;
          ((anchor1, tasks), p1) = on_one (JoinNetwork (node_env X N orc sleep caKey client tr) seeds) anchor p;
          client1 = (if region = [] then SetSelfRegion (n_region anchor1) client else client);
          E = node_env X N orc sleep caKey client1 tr
      in case spawnVNodes (nt_lib N) (pl_ed X) cfg (NodeID (n_self anchor1)) (map_option as_privKey a) opts
                (tr \<noteq> None) (nt_now N (p_net p1)) of
           Inl e \<Rightarrow> Inl (GoError (''failed to create vnode: '' @ errorText e))
         | Inr vnodes \<Rightarrow>
             let (anchor2, joined, p2) =
                   (if vnodes = [] then (anchor1, [], p1)
                    else let n = SetVNodeProvider True (SetVNodeEntries (map vnode_entry vnodes) anchor1);
                             (joined, q) = join_all E seeds vnodes p1;
                             ((n', _), q') = on_one (registerTracker E) n q
                         in (n', joined, q'))
             in Inr \<lparr>h_server = NewServer (NewNodePool anchor2 (map fst joined)) (p_verifier p2), h_client = client1,
                     h_env = E, h_world = p2\<lparr>p_vnodes := map fst joined\<rparr>, h_tasks = tasks # map snd joined\<rparr>)"

definition main ::
  "process_lib \<Rightarrow> strlib \<Rightarrow> 'w net \<Rightarrow> ('w \<Rightarrow> string list) \<Rightarrow> (duration \<Rightarrow> 'w \<Rightarrow> 'w) \<Rightarrow> ('w \<Rightarrow> string \<Rightarrow> goerror + string) \<Rightarrow>
   string list \<Rightarrow> (string \<Rightarrow> string) \<Rightarrow> Level \<Rightarrow> 'w \<Rightarrow> goerror + 'w host" where
  "main X P N orc sleep files args osenv level w =
     (case Load (nt_lib N) P args osenv of
        Inl e \<Rightarrow> Inl (GoError (''invalid configuration: '' @ errorText e))
      | Inr cfg \<Rightarrow>
          (case SetLevel (c_LogLevel cfg) level of
             (Inl e, _) \<Rightarrow> Inl (GoError (''invalid log level: '' @ errorText e))
           | (Inr _, _) \<Rightarrow>
               (case authSetup (nt_lib N) (pl_codecs X) (pl_ed X) (files w) (nt_now N w) (c_Auth cfg) of
                  Inl e \<Rightarrow> Inl e
                | Inr a \<Rightarrow>
                    (case tracker_setup (nt_lib N) cfg of
                       Inl e \<Rightarrow> Inl e
                     | Inr tr \<Rightarrow>
                         let (region, w1) = detect_region X N cfg tr w;
                             opts = (auth_options a (ChordOptions cfg))\<lparr>o_Region := region\<rparr>
                         in case NewNode (nt_lib N) (c_NodeURI cfg) opts True (tr \<noteq> None) (nt_now N w1) of
                              Inl e \<Rightarrow> Inl (GoError (''failed to initialize node: '' @ errorText e))
                            | Inr anchor \<Rightarrow>
                                (case collect (map (NewNodeInfoFromURI (nt_lib N)) (c_ManualSeeds cfg)) of
                                   Inl e \<Rightarrow> Inl (GoError (''invalid seed URI: '' @ errorText e))
                                 | Inr seeds \<Rightarrow> start_nodes X N orc sleep cfg region a tr opts anchor seeds w1)))))"

section \<open>Shutdown\<close>

text \<open>Graceful leave in reverse index order, the anchor last.\<close>

definition shutdown :: "'w env \<Rightarrow> ('w, unit) sact" where
  "shutdown E = do {
     p \<leftarrow> asks sv_pool;
     for_each (rev [1 ..< pool_size p]) (\<lambda>i. on_node i (GracefulLeave E));
     on_node 0 (GracefulLeave E) }"

end
