(* ===== verification/CATool.thy ===== *)
theory CATool
  imports Config
begin

text \<open>
  The certificate authority's tool (\<open>tools/ca/main.go\<close>): key generation, certificates, revocation lists.
  \<open>os\<close> is what the commands use of the operating system and of \<open>encoding/json\<close>'s indented output; a
  command is a state transformer of the world. What is printed besides the keys is left out.
\<close>

section \<open>The operating system\<close>

record 'w os =
  os_Now :: "'w \<Rightarrow> gotime"
  os_ReadFile :: "string \<Rightarrow> 'w \<Rightarrow> goerror + string"
  os_WriteFile :: "string \<Rightarrow> string \<Rightarrow> 'w \<Rightarrow> (goerror + unit) \<times> 'w"
  os_GenerateKey :: "'w \<Rightarrow> (goerror + string) \<times> 'w"
  os_Join :: "string \<Rightarrow> string \<Rightarrow> string"
  os_IndentCert :: "Certificate \<Rightarrow> goerror + string"
  os_IndentCRL :: "CRL \<Rightarrow> goerror + string"

section \<open>Commands\<close>

text \<open>A private CA key given on the command line.\<close>

definition decode_caKey :: "string \<Rightarrow> goerror + string" where
  "decode_caKey b64 =
     (case rawurl_Decode b64 of
        None \<Rightarrow> Inl (GoError ''--ca-key must be base64url-encoded 64-byte Ed25519 private key'')
      | Some b \<Rightarrow> if length b \<noteq> 64
                  then Inl (GoError ''--ca-key must be base64url-encoded 64-byte Ed25519 private key'') else Inr b)"

definition cmdGenCA :: "ed25519 \<Rightarrow> 'w os \<Rightarrow> string list \<Rightarrow> ('w, string list) call" where
  "cmdGenCA K os args =
     (case parse_flags [] args () of
        Inl e \<Rightarrow> ret (Inl e)
      | Inr _ \<Rightarrow> do {
          g \<leftarrow> State (os_GenerateKey os);
          ret (case g of
                 Inl e \<Rightarrow> Inl (GoError (''generate key: '' @ errorText e))
               | Inr priv \<Rightarrow> Inr [''CA_PRIVATE_KEY_BASE64='' @ rawurl_Encode priv,
                                  ''CA_PUBLIC_KEY_BASE64='' @ rawurl_Encode (ed_Public K priv)]) })"

text \<open>The third copy of \<open>chord.NormalizeURI\<close>.\<close>

definition ca_normalizeURI :: "golib \<Rightarrow> string \<Rightarrow> goerror + string" where
  "ca_normalizeURI L raw =
     (case url_Parse L (TrimSpace raw) of
        Inl e \<Rightarrow> Inl e
      | Inr u \<Rightarrow>
          if Scheme u \<noteq> ''https'' then Inl (GoError ''uri must use https scheme'')
          else if Host u = [] \<or> HasUser u \<or> RawQuery u \<noteq> [] \<or> Fragment u \<noteq> []
          then Inl (GoError ''uri must be absolute https without userinfo, query, or fragment'')
          else if Path u \<noteq> [] \<and> Path u \<noteq> ''/'' then Inl (GoError ''uri must not include a path'')
          else
            let host = ToLower (Hostname u)
            in if host = [] then Inl (GoError ''uri host is required'')
               else
                 let host' = (if CHR '':'' \<in> set host then ''['' @ host @ '']'' else host);
                     port = (if Port u = ''443'' then [] else Port u)
                 in if port \<noteq> []
                    then (if LookupPort_ok port
                          then Inr (''https://'' @ JoinHostPort (Trim host' ''[]'') port)
                          else Inl (GoError ''invalid uri port''))
                    else Inr (''https://'' @ host'))"

record issue_flags =
  is_caKey :: string
  is_uri :: string
  is_days :: int
  is_outDir :: string

definition issue_table :: "strlib \<Rightarrow> (string \<times> issue_flags flag) list" where
  "issue_table P =
     [(''ca-key'', flagString P is_caKey_update), (''uri'', flagString P is_uri_update),
      (''days'', flagInt P is_days_update), (''out-dir'', flagString P is_outDir_update)]"

definition issue_defaults :: issue_flags where
  "issue_defaults = \<lparr>is_caKey = [], is_uri = [], is_days = 365, is_outDir = ''.''\<rparr>"

text \<open>\<open>time.Duration(days) * 24 * time.Hour\<close>, and the content of the new certificate.\<close>

definition days_duration :: "int \<Rightarrow> duration" where
  "days_duration days = wrap64 (wrap64 (days * 24) * (3600 * Second))"

definition new_certificate :: "golib \<Rightarrow> string \<Rightarrow> string \<Rightarrow> int \<Rightarrow> gotime \<Rightarrow> Certificate" where
  "new_certificate L normalized nodePub days t =
     \<lparr>cVersion = 1, cNodeID = hex_EncodeToString (sha1_Sum L normalized), cURI = normalized,
      cPublicKey = rawurl_Encode nodePub, cIssuedAt = toUnix t,
      cExpiresAt = toUnix (time_Add t (days_duration days)), cSignature = []\<rparr>"

definition write_identity ::
  "'w os \<Rightarrow> string \<Rightarrow> Certificate \<Rightarrow> string \<Rightarrow> ('w, unit) call" where
  "write_identity os outDir cert nodePriv =
     (case os_IndentCert os cert of
        Inl e \<Rightarrow> ret (Inl (GoError (''marshal cert: '' @ errorText e)))
      | Inr certJSON \<Rightarrow> do {
          r \<leftarrow> State (os_WriteFile os (os_Join os outDir (cNodeID cert @ ''.cert.json'')) certJSON);
          case r of
            Inl e \<Rightarrow> ret (Inl (GoError (''write cert: '' @ errorText e)))
          | Inr _ \<Rightarrow> do {
              r \<leftarrow> State (os_WriteFile os (os_Join os outDir (cNodeID cert @ ''.privkey.b64'')) (rawurl_Encode nodePriv));
              ret (case r of Inl e \<Rightarrow> Inl (GoError (''write private key: '' @ errorText e)) | Inr _ \<Rightarrow> Inr ()) } })"

definition cmdIssue :: "golib \<Rightarrow> strlib \<Rightarrow> ed25519 \<Rightarrow> 'w os \<Rightarrow> string list \<Rightarrow> ('w, unit) call" where
  "cmdIssue L P K os args =
     (case parse_flags (issue_table P) args issue_defaults of
        Inl e \<Rightarrow> ret (Inl e)
      | Inr f \<Rightarrow>
          if is_caKey f = [] then ret (Inl (GoError ''--ca-key is required''))
          else if is_uri f = [] then ret (Inl (GoError ''--uri is required''))
          else case decode_caKey (is_caKey f) of
            Inl e \<Rightarrow> ret (Inl e)
          | Inr caPriv \<Rightarrow>
              (case ca_normalizeURI L (is_uri f) of
                 Inl e \<Rightarrow> ret (Inl (GoError (''invalid uri: '' @ errorText e)))
               | Inr normalized \<Rightarrow> do {
                   g \<leftarrow> State (os_GenerateKey os);
                   case g of
                     Inl e \<Rightarrow> ret (Inl (GoError (''generate node key: '' @ errorText e)))
                   | Inr nodePriv \<Rightarrow> do {
                       t \<leftarrow> State (\<lambda>w. (os_Now os w, w));
                       write_identity os (is_outDir f)
                         (SignCertificate K (new_certificate L normalized (ed_Public K nodePriv) (is_days f) t) caPriv)
                         nodePriv } }))"

record crl_flags =
  gc_caKey :: string
  gc_revoke :: string
  gc_crlIn :: string
  gc_out :: string

definition crl_table :: "strlib \<Rightarrow> (string \<times> crl_flags flag) list" where
  "crl_table P =
     [(''ca-key'', flagString P gc_caKey_update), (''revoke'', flagString P gc_revoke_update),
      (''crl-in'', flagString P gc_crlIn_update), (''out'', flagString P gc_out_update)]"

definition crl_defaults :: crl_flags where
  "crl_defaults = \<lparr>gc_caKey = [], gc_revoke = [], gc_crlIn = [], gc_out = ''crl.json''\<rparr>"

text \<open>The list to start from, and the IDs added to it: \<open>seen\<close> holds the IDs already listed.\<close>

definition base_crl :: "codecs \<Rightarrow> 'w os \<Rightarrow> string \<Rightarrow> 'w \<Rightarrow> goerror + CRL" where
  "base_crl J os crlIn w =
     (if crlIn = [] then Inr \<lparr>crlVersion = 1, crlUpdatedAt = 0, crlRevokedIDs = [], crlSignature = []\<rparr>
      else case os_ReadFile os crlIn w of
             Inl e \<Rightarrow> Inl (GoError (''read crl-in: '' @ errorText e))
           | Inr data \<Rightarrow>
               (case json_CRL J data of
                  Inl e \<Rightarrow> Inl (GoError (''parse crl-in: '' @ errorText e))
                | Inr crl \<Rightarrow> Inr (crl\<lparr>crlVersion := wrap64 (crlVersion crl + 1)\<rparr>)))"

fun add_revoked :: "string list \<Rightarrow> string list \<Rightarrow> string list" where
  "add_revoked ids [] = ids"
| "add_revoked ids (x # xs) =
     (let i = TrimSpace x
      in if i \<noteq> [] \<and> i \<notin> set ids then add_revoked (ids @ [i]) xs else add_revoked ids xs)"

definition cmdGenCRL :: "codecs \<Rightarrow> strlib \<Rightarrow> ed25519 \<Rightarrow> 'w os \<Rightarrow> string list \<Rightarrow> ('w, unit) call" where
  "cmdGenCRL J P K os args =
     (case parse_flags (crl_table P) args crl_defaults of
        Inl e \<Rightarrow> ret (Inl e)
      | Inr f \<Rightarrow>
          if gc_caKey f = [] then ret (Inl (GoError ''--ca-key is required''))
          else case decode_caKey (gc_caKey f) of
            Inl e \<Rightarrow> ret (Inl e)
          | Inr caPriv \<Rightarrow> do {
              b \<leftarrow> State (\<lambda>w. (base_crl J os (gc_crlIn f) w, w));
              case b of
                Inl e \<Rightarrow> ret (Inl e)
              | Inr crl \<Rightarrow> do {
                  t \<leftarrow> State (\<lambda>w. (os_Now os w, w));
                  let crl1 = crl\<lparr>crlUpdatedAt := toUnix t,
                      crlRevokedIDs := (if gc_revoke f = [] then crlRevokedIDs crl
                        else add_revoked (crlRevokedIDs crl) (split_on (CHR '','') (gc_revoke f)))\<rparr> in
                  case os_IndentCRL os (SignCRL K crl1 caPriv) of
                    Inl e \<Rightarrow> ret (Inl (GoError (''marshal crl: '' @ errorText e)))
                  | Inr data \<Rightarrow> do {
                      r \<leftarrow> State (os_WriteFile os (gc_out f) data);
                      ret (case r of Inl e \<Rightarrow> Inl (GoError (''write crl: '' @ errorText e)) | Inr _ \<Rightarrow> Inr ()) } } })"

text \<open>\<open>main\<close>: the exit code, with what the command printed.\<close>

definition ca_main ::
  "golib \<Rightarrow> codecs \<Rightarrow> strlib \<Rightarrow> ed25519 \<Rightarrow> 'w os \<Rightarrow> string list \<Rightarrow> ('w, string list) call" where
  "ca_main L J P K os args =
     (case args of
        [] \<Rightarrow> ret (Inl (GoError ''usage: ca <gen-ca|issue|gen-crl> [flags]''))
      | cmd # rest \<Rightarrow>
          if cmd = ''gen-ca'' then cmdGenCA K os rest
          else if cmd = ''issue'' then do { r \<leftarrow> cmdIssue L P K os rest; ret (map_sum id (\<lambda>_. []) r) }
          else if cmd = ''gen-crl'' then do { r \<leftarrow> cmdGenCRL J P K os rest; ret (map_sum id (\<lambda>_. []) r) }
          else ret (Inl (GoError ''usage: ca <gen-ca|issue|gen-crl> [flags]'')))"

end
