(* ===== verification/EnvFacts.thy ===== *)
theory EnvFacts
  imports Config
begin

text \<open>
  What every environment variable of \<open>Load\<close> sets. The tables name, for each variable whose value is
  taken as it is, the field of the configuration that it is for; \<open>env_wins\<close> says that a value which
  parses is what the run of overrides leaves in that field, whatever the flags said and
  whatever the other variables hold. The seven variables whose fields \<open>Load\<close> processes further are apart.
\<close>

section \<open>Variables and fields\<close>

definition env_strings :: "(string \<times> (Config \<Rightarrow> string)) list" where
  "env_strings =
    [(''NODE_TLS_CERT_FILE'', c_TLSCertFile),
     (''NODE_TLS_KEY_FILE'', c_TLSKeyFile),
     (''CHORD_AUTH_CA_PUBLIC_KEY_BASE64'', a_CAPublicKeyBase64 \<circ> c_Auth),
     (''CHORD_AUTH_NODE_CERT_FILE'', a_NodeCertificateFile \<circ> c_Auth),
     (''CHORD_AUTH_NODE_PRIVATE_KEY_FILE'', a_NodePrivateKeyFile \<circ> c_Auth),
     (''CHORD_AUTH_CRL_FILE'', a_CRLFile \<circ> c_Auth), (''CHORD_NODE_REGION'', c_NodeRegion)]"

definition env_ints :: "(string \<times> (Config \<Rightarrow> int)) list" where
  "env_ints =
    [(''CHORD_SUCCESSOR_LIST_SIZE'', c_SuccessorListSize), (''CHORD_MAX_HOPS'', c_MaxHops),
     (''CHORD_SUSPICIOUS_THRESHOLD'', c_SuspiciousThreshold), (''CHORD_FAILED_THRESHOLD'', c_FailedThreshold),
     (''TRACKER_SEED_COUNT'', c_TrackerSeedCount),
     (''CHORD_AUTH_TIMESTAMP_TOLERANCE'', a_TimestampToleranceSecs \<circ> c_Auth),
     (''CHORD_AUTH_NONCE_CACHE_TTL'', a_NonceCacheTTLSecs \<circ> c_Auth),
     (''CHORD_AUTH_NONCE_CACHE_MAX_SIZE'', a_NonceCacheMaxSize \<circ> c_Auth),
     (''CHORD_AUTH_CERT_CACHE_TTL'', a_CertCacheTTLSecs \<circ> c_Auth),
     (''CHORD_AUTH_CERT_EXPIRY_WARN'', a_CertExpiryWarnDays \<circ> c_Auth),
     (''CHORD_AUTH_BOOT_GRACE'', a_BootGracePeriodSecs \<circ> c_Auth), (''CHORD_VNODE_COUNT'', c_VNodeCount),
     (''CHORD_MAX_VNODES'', c_MaxVNodes), (''CHORD_VNODE_GOROUTINE_LIMIT'', c_VNodeGoroutineLimit),
     (''CHORD_SIBLING_ROUTE_MAX_HOPS'', c_SiblingRouteMaxHops),
     (''CHORD_SHARED_NODEINFO_CACHE_SIZE'', c_SharedNodeInfoCacheSize),
     (''CHORD_SHARED_ROUTE_CACHE_SIZE'', c_SharedRouteCacheSize),
     (''CHORD_SHARED_PROOF_VERIFY_CACHE_SIZE'', c_SharedProofVerifyCacheSize),
     (''CHORD_PREDECESSOR_LIST_SIZE'', c_PredecessorListSize),
     (''CHORD_FIX_FINGERS_BATCH_ACTIVE'', c_FixFingersBatchSizeActive),
     (''CHORD_FIX_FINGERS_BATCH_QUIET'', c_FixFingersBatchSizeQuiet),
     (''CHORD_ROUTING_CACHE_SIZE'', c_RoutingCacheSize),
     (''CHORD_PARALLEL_LOOKUP_CANDIDATES'', c_ParallelLookupCandidates),
     (''CHORD_STABILIZE_DEBOUNCE'', c_StabilizeDebounceThreshold)]"

definition env_bools :: "(string \<times> (Config \<Rightarrow> bool)) list" where
  "env_bools =
    [(''CHORD_SKIP_TLS_VERIFY'', c_SkipTLSVerify), (''CHORD_STABILIZE_ATOMIC_STATE'', c_StabilizeAtomicState),
     (''CHORD_VALIDATE_AFTER_STABILIZE'', c_ValidateAfterStabilize),
     (''CHORD_RECTIFY_ENDPOINT_ALIAS'', c_RectifyEndpointAlias),
     (''CHORD_AUTH_ENABLED'', a_Enabled \<circ> c_Auth),
     (''CHORD_AUTH_CRL_REFRESH'', a_CRLRefreshFromTracker \<circ> c_Auth),
     (''CHORD_VNODE_BOOTSTRAP_PREFER_EXT'', c_VNodeBootstrapPreferExt),
     (''CHORD_ROUTING_CACHE_ENABLED'', c_RoutingCacheEnabled),
     (''CHORD_PARALLEL_LOOKUP_ENABLED'', c_ParallelLookupEnabled),
     (''CHORD_PIGGYBACK_ENABLED'', c_PiggybackEnabled)]"

definition env_floats :: "(string \<times> (Config \<Rightarrow> f64)) list" where
  "env_floats =
    [(''CHORD_SUCCESSOR_LIST_SIBLING_CAP'', c_SuccessorListSiblingCap),
     (''CHORD_LATENCY_WEIGHT_ID'', c_LatencyWeightID), (''CHORD_LATENCY_WEIGHT_RTT'', c_LatencyWeightRTT),
     (''CHORD_LATENCY_WEIGHT_REGION'', c_LatencyWeightRegion), (''CHORD_RTT_EWMA_ALPHA'', c_RTTEWMAAlpha)]"

definition env_durations :: "(string \<times> (Config \<Rightarrow> duration)) list" where
  "env_durations =
    [(''CHORD_HTTP_TIMEOUT_SECONDS'', c_HTTPTimeout),
     (''CHORD_MAINTENANCE_INTERVAL_SECONDS'', c_MaintenanceInterval),
     (''CHORD_PING_LIVENESS_TIMEOUT_SECONDS'', c_PingLivenessTimeout),
     (''CHORD_INVARIANT_AUDIT_INTERVAL_SECONDS'', c_InvariantAuditInterval),
     (''CHORD_TRACKER_HEARTBEAT_ACTIVE'', c_TrackerHeartbeatActiveInterval),
     (''CHORD_TRACKER_HEARTBEAT_QUIET'', c_TrackerHeartbeatQuietInterval),
     (''CHORD_TRACKER_CRL_INTERVAL'', c_TrackerCRLInterval), (''CHORD_VNODEPROOF_TTL'', c_VNodeProofTTL),
     (''CHORD_VNODEPROOF_RENEW_BEFORE'', c_VNodeProofRenewBefore),
     (''CHORD_CLOCK_SKEW_TOLERANCE'', c_ClockSkewTolerance),
     (''CHORD_VNODE_MAINTENANCE_JITTER'', c_VNodeMaintenanceJitter),
     (''CHORD_SHARED_NODEINFO_CACHE_TTL'', c_SharedNodeInfoCacheTTL),
     (''CHORD_SHARED_RTT_CACHE_TTL'', c_SharedRTTCacheTTL),
     (''CHORD_SHARED_ROUTE_CACHE_TTL'', c_SharedRouteCacheTTL), (''CHORD_TRANSFER_TIMEOUT'', c_TransferTimeout),
     (''CHORD_ROUTING_CACHE_TTL_SECONDS'', c_RoutingCacheTTL),
     (''CHORD_TIMEOUT_PING_SAME'', c_TimeoutPingSameRegion),
     (''CHORD_TIMEOUT_PING_CROSS'', c_TimeoutPingCrossRegion),
     (''CHORD_TIMEOUT_FIND_SUCCESSOR_SAME'', c_TimeoutFindSuccessorSame),
     (''CHORD_TIMEOUT_FIND_SUCCESSOR_CROSS'', c_TimeoutFindSuccessorCross),
     (''CHORD_TIMEOUT_FIX_FINGERS_SAME'', c_TimeoutFixFingersSame),
     (''CHORD_TIMEOUT_FIX_FINGERS_CROSS'', c_TimeoutFixFingersCross),
     (''CHORD_LATENCY_PROBE_ACTIVE'', c_LatencyProbeIntervalActive),
     (''CHORD_LATENCY_PROBE_QUIET'', c_LatencyProbeIntervalQuiet),
     (''CHORD_RTT_SAMPLE_EXPIRY'', c_RTTSampleExpiry),
     (''CHORD_TOPOLOGY_CHANGE_WINDOW'', c_TopologyChangeWindow),
     (''CHORD_STABILIZE_ACTIVE_INTERVAL'', c_StabilizeActiveInterval),
     (''CHORD_STABILIZE_QUIET_INTERVAL'', c_StabilizeQuietInterval),
     (''CHORD_FIX_FINGERS_ACTIVE_INTERVAL'', c_FixFingersActiveInterval),
     (''CHORD_FIX_FINGERS_QUIET_INTERVAL'', c_FixFingersQuietInterval),
     (''CHORD_CHECK_PREDECESSOR_ACTIVE_INTERVAL'', c_CheckPredecessorActiveInterval),
     (''CHORD_CHECK_PREDECESSOR_QUIET_INTERVAL'', c_CheckPredecessorQuietInterval)]"

section \<open>Runs of overrides\<close>

text \<open>An override that leaves a part of the state alone; the effect of a run of overrides.\<close>

definition leaves :: "(load_state \<Rightarrow> 'a) \<Rightarrow> (load_state \<Rightarrow> load_state) \<Rightarrow> bool" where
  "leaves F f \<longleftrightarrow> (\<forall>s. F (f s) = F s)"

lemma fold_leaves: "list_all (leaves F) fs \<Longrightarrow> F (fold (\<lambda>f. f) fs s) = F s"
  by (induction fs arbitrary: s) (simp_all add: leaves_def)

lemma leaves_env_parsed: "(\<And>f s. F (setv f s) = F s) \<Longrightarrow> leaves F (env_parsed env key parse setv)"
  by (simp add: leaves_def env_parsed_def Let_def split: option.split)

lemmas applyEnv_defs = applyEnv_def applyEnvInt_def applyEnvBool_def applyEnvFloat_def applyEnvDuration_def

definition env_wins ::
  "(string \<Rightarrow> string) \<Rightarrow> (load_state \<Rightarrow> 'a) \<Rightarrow> string \<Rightarrow> (string \<Rightarrow> 'a option) \<Rightarrow> (load_state \<Rightarrow> load_state) list \<Rightarrow> bool" where
  "env_wins env F key parse fs \<longleftrightarrow>
     (\<forall>s x. TrimSpace (env key) \<noteq> [] \<longrightarrow> parse (TrimSpace (env key)) = Some x \<longrightarrow> F (fold (\<lambda>f. f) fs s) = x)"

lemma env_wins_here:
  assumes "\<And>x s. F (setv (\<lambda>_. x) s) = x" and "list_all (leaves F) fs"
  shows "env_wins env F key parse (env_parsed env key parse setv # fs)"
  using assms by (simp add: env_wins_def env_parsed_def fold_leaves)

lemma env_wins_later: "env_wins env F key parse fs \<Longrightarrow> env_wins env F key parse (f # fs)"
  by (simp add: env_wins_def)

lemma list_all_simps: "list_all P [] \<longleftrightarrow> True" "list_all P (x # xs) \<longleftrightarrow> P x \<and> list_all P xs"
  by simp_all

lemma env_strings_win:
  "list_all (\<lambda>(k, g). env_wins env (\<lambda>s. g (ld_cfg s)) k (Some) (env_overrides_1 P env @ env_overrides_2 P env)) env_strings"
  unfolding env_strings_def env_overrides_1_def env_overrides_2_def applyEnv_defs append.simps list_all_simps prod.case comp_def
  by (intro conjI TrueI; (rule env_wins_here | rule env_wins_later)+)
    (simp_all add: leaves_env_parsed in_cfg_def in_auth_def)

lemma env_ints_win:
  "list_all (\<lambda>(k, g). env_wins env (\<lambda>s. g (ld_cfg s)) k (ParseInt64) (env_overrides_1 P env @ env_overrides_2 P env)) env_ints"
  unfolding env_ints_def env_overrides_1_def env_overrides_2_def applyEnv_defs append.simps list_all_simps prod.case comp_def
  by (intro conjI TrueI; (rule env_wins_here | rule env_wins_later)+)
    (simp_all add: leaves_env_parsed in_cfg_def in_auth_def)

lemma env_bools_win:
  "list_all (\<lambda>(k, g). env_wins env (\<lambda>s. g (ld_cfg s)) k (ParseBool) (env_overrides_1 P env @ env_overrides_2 P env)) env_bools"
  unfolding env_bools_def env_overrides_1_def env_overrides_2_def applyEnv_defs append.simps list_all_simps prod.case comp_def
  by (intro conjI TrueI; (rule env_wins_here | rule env_wins_later)+)
    (simp_all add: leaves_env_parsed in_cfg_def in_auth_def)

lemma env_floats_win:
  "list_all (\<lambda>(k, g). env_wins env (\<lambda>s. g (ld_cfg s)) k (str_ParseFloat P) (env_overrides_1 P env @ env_overrides_2 P env)) env_floats"
  unfolding env_floats_def env_overrides_1_def env_overrides_2_def applyEnv_defs append.simps list_all_simps prod.case comp_def
  by (intro conjI TrueI; (rule env_wins_here | rule env_wins_later)+)
    (simp_all add: leaves_env_parsed in_cfg_def in_auth_def)

lemma env_durations_win:
  "list_all (\<lambda>(k, g). env_wins env (\<lambda>s. g (ld_cfg s)) k (\<lambda>v. map_option SecondsDuration (ParseInt64 v)) (env_overrides_1 P env @ env_overrides_2 P env)) env_durations"
  unfolding env_durations_def env_overrides_1_def env_overrides_2_def applyEnv_defs append.simps list_all_simps prod.case comp_def
  by (intro conjI TrueI; (rule env_wins_here | rule env_wins_later)+)
    (simp_all add: leaves_env_parsed in_cfg_def in_auth_def)

text \<open>The variables whose fields are processed further.\<close>

lemma env_processed_win:
  "env_wins env (\<lambda>s. c_NodeURI (ld_cfg s)) ''NODE_URI'' Some (env_overrides_1 P env @ env_overrides_2 P env)"
  "env_wins env (\<lambda>s. c_ListenAddr (ld_cfg s)) ''NODE_LISTEN'' Some (env_overrides_1 P env @ env_overrides_2 P env)"
  "env_wins env (\<lambda>s. c_TrackerURL (ld_cfg s)) ''TRACKER_URL'' Some (env_overrides_1 P env @ env_overrides_2 P env)"
  "env_wins env (\<lambda>s. c_LogLevel (ld_cfg s)) ''CHORD_LOG_LEVEL'' Some (env_overrides_1 P env @ env_overrides_2 P env)"
  "env_wins env ld_seeds ''NODE_MANUAL_SEEDS'' Some (env_overrides_1 P env @ env_overrides_2 P env)"
  "env_wins env ld_members ''CHORD_STABLE_BASE_MEMBERS'' Some (env_overrides_1 P env @ env_overrides_2 P env)"
  "env_wins env (\<lambda>s. c_StableBaseMinSize (ld_cfg s)) ''CHORD_STABLE_BASE_MIN_SIZE'' ParseInt64
     (env_overrides_1 P env @ env_overrides_2 P env)"
  unfolding env_overrides_1_def env_overrides_2_def applyEnv_defs append.simps
  by (((rule env_wins_here | rule env_wins_later)+; simp add: leaves_env_parsed in_cfg_def in_auth_def)+)

end
