(* ===== verification/ConfigFacts.thy ===== *)
theory ConfigFacts
  imports EnvFacts
begin

text \<open>
  What a loaded configuration satisfies, and that normalising a URI is idempotent: every URI \<open>Load\<close>
  hands on is the one its owner's node ID is the hash of.
\<close>

section \<open>Normalised URIs\<close>

lemma host_char_basic:
  "host_char c \<Longrightarrow> lower_char c = c" "host_char c \<Longrightarrow> \<not> is_space c" "host_char c \<Longrightarrow> c \<noteq> CHR '':''"
  "host_char c \<Longrightarrow> c \<noteq> CHR ''['' \<and> c \<noteq> CHR '']''"
  by (auto simp: host_char_def lower_char_def is_space_def is_digit_def less_eq_char_def)

lemma digit_basic: "is_digit c \<Longrightarrow> \<not> is_space c" "is_digit c \<Longrightarrow> c \<noteq> CHR '':''" "is_digit c \<Longrightarrow> c \<noteq> CHR '']''" "is_digit c \<Longrightarrow> c \<noteq> CHR ''[''"
  by (auto simp: is_space_def is_digit_def less_eq_char_def)

lemma TrimSpace_plain: "xs \<noteq> [] \<Longrightarrow> \<not> is_space (hd xs) \<Longrightarrow> \<not> is_space (last xs) \<Longrightarrow> TrimSpace xs = xs"
proof -
  assume h: "xs \<noteq> []" "\<not> is_space (hd xs)" "\<not> is_space (last xs)"
  then have "dropWhile is_space xs = xs" "dropWhile is_space (rev xs) = rev xs"
    by (simp_all add: dropWhile_eq_self_iff hd_rev)
  then show "TrimSpace xs = xs" by (simp add: TrimSpace_def)
qed

lemma LastIndexByte_None: "c \<notin> set s \<Longrightarrow> LastIndexByte s c = None"
proof -
  have "c \<notin> set t \<Longrightarrow> IndexByte t c = None" for t by (induction t) auto
  then show "c \<notin> set s \<Longrightarrow> LastIndexByte s c = None" by (simp add: LastIndexByte_def)
qed

lemma IndexByte_at_first: "c \<notin> set t \<Longrightarrow> IndexByte (t @ c # u) c = Some (length t)"
  by (induction t) auto

lemma LastIndexByte_last: "c \<notin> set t \<Longrightarrow> LastIndexByte (s @ c # t) c = Some (length s)"
  using IndexByte_at_first [of c "rev t" "rev s"] by (simp add: LastIndexByte_def)

text \<open>An authority is a host of plain characters, alone or with a port.\<close>

lemma plain_authority_cases:
  assumes "plain_authority a"
  obtains h where "a = h" "h \<noteq> []" "list_all host_char h"
  | h p where "a = h @ CHR '':'' # p" "h \<noteq> []" "list_all host_char h" "list_all is_digit p"
proof -
  let ?h = "takeWhile host_char a" and ?r = "dropWhile host_char a"
  have h: "list_all host_char ?h" using set_takeWhileD by (fastforce simp: list_all_iff)
  show thesis
  proof (cases ?r)
    case Nil
    then have "list_all host_char a" by (simp add: dropWhile_eq_Nil_conv list_all_iff)
    moreover have "a \<noteq> []" using assms by (auto simp: plain_authority_def)
    ultimately show thesis using that(1) by simp
  next
    case (Cons c ds)
    then show thesis
      using that(2) [of ?h ds] assms h takeWhile_dropWhile_id [of host_char a] by (simp add: plain_authority_def validOptionalPort_def)
  qed
qed

lemma splitHostPort_host:
  assumes "h \<noteq> []" and "list_all host_char h"
  shows "splitHostPort h = (h, [])"
proof -
  have "CHR '':'' \<notin> set h" "hd h \<noteq> CHR ''[''"
    using assms host_char_basic by (fastforce simp: list_all_iff dest: hd_in_set)+
  then show ?thesis by (simp add: splitHostPort_def LastIndexByte_None Let_def)
qed

lemma splitHostPort_port:
  assumes "h \<noteq> []" and "list_all host_char h" and "list_all is_digit p"
  shows "splitHostPort (h @ CHR '':'' # p) = (h, p)"
proof -
  have "CHR '':'' \<notin> set p" "hd h \<noteq> CHR ''[''"
    using assms host_char_basic digit_basic by (fastforce simp: list_all_iff dest: hd_in_set)+
  then show ?thesis using assms(3) by (simp add: splitHostPort_def LastIndexByte_last validOptionalPort_def Let_def)
qed

lemma ToLower_plain: "list_all host_char h \<Longrightarrow> ToLower h = h"
  by (induction h) (simp_all add: ToLower_def host_char_basic)

lemma Trim_plain: "h \<noteq> [] \<Longrightarrow> list_all host_char h \<Longrightarrow> Trim h ''[]'' = h"
proof -
  assume h: "h \<noteq> []" "list_all host_char h"
  then have "dropWhile (\<lambda>c. c \<in> set ''[]'') h = h" "dropWhile (\<lambda>c. c \<in> set ''[]'') (rev h) = rev h"
    using host_char_basic(4) by (auto simp: dropWhile_eq_self_iff list_all_iff hd_rev)
  then show ?thesis by (simp add: Trim_def)
qed

lemma https_TrimSpace:
  assumes "plain_authority a"
  shows "TrimSpace (''https://'' @ a) = ''https://'' @ a"
proof -
  have "a \<noteq> []" using assms by (auto simp: plain_authority_def)
  moreover have "\<not> is_space (last a)"
    using assms
  proof (cases rule: plain_authority_cases)
    case (1 h)
    then show ?thesis using host_char_basic(2) by (auto simp: list_all_iff)
  next
    case (2 h p)
    then show ?thesis using digit_basic(1) by (cases "p = []") (auto simp: list_all_iff is_space_def)
  qed
  ultimately show ?thesis by (intro TrimSpace_plain) (auto simp: is_space_def)
qed

text \<open>\<open>NormalizeURI\<close> on a plain authority, and what it can return.\<close>

lemma NormalizeURI_plain:
  assumes "url_Parse_ok L" and "plain_authority a"
  shows "NormalizeURI L (''https://'' @ a) =
    (let (h, p) = splitHostPort a
     in if p = [] \<or> p = ''443'' then Inr (''https://'' @ h)
        else if LookupPort_ok p then Inr (''https://'' @ h @ '':'' @ p) else Inl (GoError ''invalid uri port''))"
proof -
  have u: "url_Parse L (''https://'' @ a) = Inr (https_url a)" using assms by (simp add: url_Parse_ok_def)
  show ?thesis
    using assms(2)
  proof (cases rule: plain_authority_cases)
    case (1 h)
    then have "CHR '':'' \<notin> set h" using host_char_basic(3) by (auto simp: list_all_iff)
    then show ?thesis using u 1 https_TrimSpace [OF assms(2)]
      by (simp add: NormalizeURI_def https_url_def splitHostPort_host ToLower_plain)
  next
    case (2 h p)
    then have "CHR '':'' \<notin> set h" using host_char_basic(3) by (auto simp: list_all_iff)
    then show ?thesis using u 2 https_TrimSpace [OF assms(2)]
      by (simp add: NormalizeURI_def https_url_def splitHostPort_port ToLower_plain Trim_plain JoinHostPort_def)
  qed
qed

lemma NormalizeURI_Inr:
  assumes "NormalizeURI L raw = Inr u"
  obtains host where "u = ''https://'' @ (if CHR '':'' \<in> set host then ''['' @ host @ '']'' else host)"
  | port x where "u = ''https://'' @ JoinHostPort x port" "port \<noteq> []" "port \<noteq> ''443''" "LookupPort_ok port"
proof -
  obtain v where v: "url_Parse L (TrimSpace raw) = Inr v"
    using assms by (cases "url_Parse L (TrimSpace raw)") (simp_all add: NormalizeURI_def)
  show thesis
  proof (cases "Port v = [] \<or> Port v = ''443''")
    case True
    then show thesis
      using assms v that(1) [of "ToLower (Hostname v)"] by (auto simp: NormalizeURI_def Let_def split: if_split_asm)
  next
    case False
    then show thesis
      using assms v that(2) [of _ "Port v"] by (simp add: NormalizeURI_def Let_def split: if_split_asm) metis+
  qed
qed

lemma NormalizeURI_result:
  assumes "NormalizeURI L raw = Inr u" and "u = ''https://'' @ a" and "plain_authority a"
  shows "\<exists>h p. h \<noteq> [] \<and> list_all host_char h \<and>
    (a = h \<or> a = h @ '':'' @ p \<and> p \<noteq> [] \<and> p \<noteq> ''443'' \<and> LookupPort_ok p \<and> list_all is_digit p)"
  using assms(3)
proof (cases rule: plain_authority_cases)
  case (2 h p)
  obtain host port where r: "a = (if CHR '':'' \<in> set host then ''['' @ host @ '']'' else host) \<or>
      port \<noteq> [] \<and> port \<noteq> ''443'' \<and> LookupPort_ok port \<and> (\<exists>x. a = JoinHostPort x port)"
    using assms(1)
  proof (cases rule: NormalizeURI_Inr)
    case (1 host)
    then show thesis using that [of host undefined] assms(2) by simp
  next
    case (2 port x)
    then show thesis using that [of undefined port] assms(2) by auto
  qed
  have hd: "hd a = hd h" "hd h \<noteq> CHR ''[''" "CHR '':'' \<in> set a" "CHR '':'' \<notin> set h" "CHR '':'' \<notin> set p"
    using 2 host_char_basic(3,4) [of "hd h"] host_char_basic(3) digit_basic(2) by (auto simp: list_all_iff)
  from r show ?thesis
  proof
    assume "a = (if CHR '':'' \<in> set host then ''['' @ host @ '']'' else host)"
    then show ?thesis using hd by (auto split: if_splits)
  next
    assume *: "port \<noteq> [] \<and> port \<noteq> ''443'' \<and> LookupPort_ok port \<and> (\<exists>x. a = JoinHostPort x port)"
    then obtain x where x: "a = JoinHostPort x port" by blast
    then have "a = x @ CHR '':'' # port" using hd by (auto simp: JoinHostPort_def split: if_splits)
    moreover have "list_all is_digit port"
      using * by (auto simp: LookupPort_ok_def parse_digits_def split: option.splits if_splits)
    ultimately have "x = h \<and> port = p"
      using 2 hd(4,5) digit_basic(2) by (auto simp: append_eq_append_conv2 Cons_eq_append_conv list_all_iff append_eq_Cons_conv)
    then show ?thesis using * 2 by auto
  qed
qed auto

lemma NormalizeURI_idem:
  assumes "url_Parse_ok L" and n: "NormalizeURI L raw = Inr (''https://'' @ a)" and a: "plain_authority a"
  shows "NormalizeURI L (''https://'' @ a) = Inr (''https://'' @ a)"
proof -
  obtain h p where hp: "h \<noteq> []" "list_all host_char h"
    "a = h \<or> a = h @ '':'' @ p \<and> p \<noteq> [] \<and> p \<noteq> ''443'' \<and> LookupPort_ok p \<and> list_all is_digit p"
    using NormalizeURI_result [OF n refl a] by blast
  then show ?thesis
    unfolding NormalizeURI_plain [OF assms(1) a] by (auto simp: splitHostPort_host splitHostPort_port)
qed

section \<open>What \<open>Load\<close> returns\<close>

lemma validate_list_members: "normalize_list L xs = Inr us \<Longrightarrow> u \<in> set us \<Longrightarrow> \<exists>raw. NormalizeURI L raw = Inr u"
  by (induction xs arbitrary: us) (auto simp: Let_def split: if_splits sum.splits)

lemma listenFromURI_nonempty: "listenFromURI u \<noteq> []"
  by (auto simp: listenFromURI_def split: sum.splits prod.splits)

lemma validate_node_Inr:
  assumes "validate_node L c = Inr d"
  obtains uri level listen where "NormalizeURI L (c_NodeURI c) = Inr uri" "NormalizeLevel (c_LogLevel c) = Inr level"
    "d = c\<lparr>c_NodeURI := uri, c_ListenAddr := listen, c_LogLevel := level\<rparr>" "listen \<noteq> []"
    "c_ListenAddr c \<noteq> [] \<longrightarrow> listen = c_ListenAddr c" "c_TLSCertFile c \<noteq> []" "c_TLSKeyFile c \<noteq> []"
proof -
  obtain uri level where u: "NormalizeURI L (c_NodeURI c) = Inr uri" "NormalizeLevel (c_LogLevel c) = Inr level"
    using assms by (auto simp: validate_node_def Let_def split: sum.splits if_split_asm)
  then show thesis
    using assms listenFromURI_nonempty that [of uri level "if c_ListenAddr c = [] then listenFromURI uri else c_ListenAddr c"]
    by (simp add: validate_node_def Let_def split: if_split_asm)
qed

fun flag_leaves :: "('s \<Rightarrow> 'a) \<Rightarrow> 's flag \<Rightarrow> bool" where
  "flag_leaves F (BoolFlag g) \<longleftrightarrow> (\<forall>v s s'. g v s = Inr s' \<longrightarrow> F s' = F s)"
| "flag_leaves F (ValueFlag g) \<longleftrightarrow> (\<forall>v s s'. g v s = Inr s' \<longrightarrow> F s' = F s)"

lemma parse_flags_leaves:
  assumes tab: "list_all (flag_leaves F) (map snd tab)"
  shows "parse_flags tab args s = Inr s' \<Longrightarrow> F s' = F s"
proof (induction "length args" arbitrary: args s rule: less_induct)
  case less
  have *: "map_of tab name = Some f \<Longrightarrow> flag_leaves F f" for name f
    using tab by (fastforce simp: list_all_iff dest: map_of_SomeD)
  show ?case
  proof (cases args)
    case (Cons arg rest)
    have next_arg: "flag_leaves F (ValueFlag g) \<Longrightarrow> g v s = Inr t \<Longrightarrow> parse_flags tab rest t = Inr s' \<Longrightarrow> F s' = F s"
      "flag_leaves F (BoolFlag g) \<Longrightarrow> g v s = Inr t \<Longrightarrow> parse_flags tab rest t = Inr s' \<Longrightarrow> F s' = F s"
      "flag_leaves F (ValueFlag g) \<Longrightarrow> g v s = Inr t \<Longrightarrow> rest = v # more \<Longrightarrow> parse_flags tab more t = Inr s' \<Longrightarrow> F s' = F s"
      for g v t and more :: "string list"
      using less.hyps [of rest t] less.hyps [of more t] Cons by auto
    show ?thesis
      using less.prems unfolding Cons
      by (auto simp: Let_def split: option.splits if_split_asm prod.splits flag.splits sum.splits list.splits dest!: * intro: next_arg)
  qed (use less.prems in simp)
qed

definition lists_of :: "load_state \<Rightarrow> string list \<times> string list" where
  "lists_of s = (c_ManualSeeds (ld_cfg s), c_StableBaseMembers (ld_cfg s))"

lemma flag_table_lists: "list_all (flag_leaves lists_of) (map snd (flag_table P))"
  by (simp add: flag_table_def flagString_def flagBool_def flagInt_def flagDuration_def flagFloat_def set_parsed_def
      lists_of_def in_cfg_def in_auth_def split: option.split)

lemma overrides_lists:
  "list_all (leaves lists_of) (env_overrides_1 P env)" "list_all (leaves lists_of) (env_overrides_2 P env)"
  by (simp_all add: env_overrides_1_def env_overrides_2_def applyEnv_defs leaves_env_parsed lists_of_def in_cfg_def in_auth_def)

definition demo_str :: strlib where
  "demo_str = \<lparr>str_ParseFloat = (\<lambda>_. None), str_ParseDuration = (\<lambda>_. None), str_ParseInt0 = ParseInt64\<rparr>"

lemma Load_Inr:
  assumes "Load L P args env = Inr c"
  obtains s t where "validate L s = Inr c" "lists_of s = ([], [])"
    "s = fold (\<lambda>f. f) (env_overrides_1 P env @ env_overrides_2 P env) t"
proof -
  obtain t where t: "parse_flags (flag_table P) args \<lparr>ld_cfg = flag_defaults, ld_seeds = [], ld_members = []\<rparr> = Inr t"
    and v: "validate L (fold (\<lambda>f. f) (env_overrides_1 P env @ env_overrides_2 P env) t) = Inr c"
    using assms by (auto simp: Load_def split: sum.splits)
  have "lists_of t = ([], [])"
    using parse_flags_leaves [OF flag_table_lists t] by (simp add: lists_of_def flag_defaults_def)
  then have "lists_of (fold (\<lambda>f. f) (env_overrides_1 P env @ env_overrides_2 P env) t) = ([], [])"
    using fold_leaves [of lists_of "env_overrides_1 P env @ env_overrides_2 P env"] overrides_lists [of P env] by simp
  then show thesis using that v by blast
qed

lemma validate_tracker_Inr:
  "validate_tracker L c = Inr d \<Longrightarrow>
   \<exists>t. d = c\<lparr>c_TrackerURL := t\<rparr> \<and> (t = [] \<or> (\<exists>raw. NormalizeURI L raw = Inr t)) \<and>
     (c_TrackerURL c \<noteq> [] \<longrightarrow> NormalizeURI L (c_TrackerURL c) = Inr t)"
  by (cases c) (auto simp: validate_tracker_def split: if_splits sum.splits)

lemma validate_lists_Inr:
  assumes "validate_lists L s c = Inr d"
  obtains us vs where "d = c\<lparr>c_ManualSeeds := c_ManualSeeds c @ us, c_StableBaseMembers := c_StableBaseMembers c @ vs\<rparr>"
    "normalize_list L (split_on (CHR '','') (ld_seeds s)) = Inr us"
    "normalize_list L (split_on (CHR '','') (ld_members s)) = Inr vs"
  using assms by (auto simp: validate_lists_def split: sum.splits)

lemma validate_auth_Inr:
  "validate_auth a = Inr u \<Longrightarrow> a_Enabled a \<Longrightarrow>
   a_CAPublicKeyBase64 a \<noteq> [] \<and> a_NodeCertificateFile a \<noteq> [] \<and> a_NodePrivateKeyFile a \<noteq> []"
  by (auto simp: validate_auth_def split: if_splits)

text \<open>The configuration that \<open>validate\<close> makes of what flags and environment left: seven fields are set, the
  others are kept.\<close>

lemma validate_stages:
  assumes "validate L s = Inr c"
  obtains c1 c2 c3 where "validate_node L (ld_cfg s) = Inr c1" "validate_tracker L c1 = Inr c2" "validate_lists L s c2 = Inr c3"
    "c = (if c_StableBaseMinSize c3 \<le> 0 then c3\<lparr>c_StableBaseMinSize := wrap64 (c_SuccessorListSize c3 + 1)\<rparr> else c3)"
    "validate_auth (c_Auth c3) = Inr ()"
  using assms by (auto simp: validate_def Let_def split: sum.splits if_splits)

definition kept :: "(Config \<Rightarrow> 'a) \<Rightarrow> bool" where
  "kept g \<longleftrightarrow> (\<forall>f d. g (c_NodeURI_update f d) = g d) \<and> (\<forall>f d. g (c_ListenAddr_update f d) = g d) \<and>
     (\<forall>f d. g (c_LogLevel_update f d) = g d) \<and> (\<forall>f d. g (c_TrackerURL_update f d) = g d) \<and>
     (\<forall>f d. g (c_ManualSeeds_update f d) = g d) \<and> (\<forall>f d. g (c_StableBaseMembers_update f d) = g d) \<and>
     (\<forall>f d. g (c_StableBaseMinSize_update f d) = g d)"

lemma validate_kept:
  assumes "kept g" and "validate L s = Inr c"
  shows "g c = g (ld_cfg s)"
proof -
  obtain c1 c2 c3 where v: "validate_node L (ld_cfg s) = Inr c1" "validate_tracker L c1 = Inr c2" "validate_lists L s c2 = Inr c3"
    and c: "c = (if c_StableBaseMinSize c3 \<le> 0 then c3\<lparr>c_StableBaseMinSize := wrap64 (c_SuccessorListSize c3 + 1)\<rparr> else c3)"
    using validate_stages [OF assms(2)] by blast
  have "g c1 = g (ld_cfg s)" using validate_node_Inr [OF v(1)] assms(1) unfolding kept_def by metis
  moreover have "g c2 = g c1" using validate_tracker_Inr [OF v(2)] assms(1) unfolding kept_def by metis
  moreover have "g c3 = g c2" using validate_lists_Inr [OF v(3)] assms(1) unfolding kept_def by metis
  moreover have "g c = g c3" using c assms(1) unfolding kept_def by metis
  ultimately show ?thesis by simp
qed

lemma tables_kept:
  "list_all (\<lambda>(k, g). kept g) env_strings" "list_all (\<lambda>(k, g). kept g) env_ints"
  "list_all (\<lambda>(k, g). kept g) env_bools" "list_all (\<lambda>(k, g). kept g) env_floats"
  "list_all (\<lambda>(k, g). kept g) env_durations"
  by (simp_all add: kept_def env_strings_def env_ints_def env_bools_def env_floats_def env_durations_def)

lemma validate_Inr:
  assumes "validate L s = Inr c" and "lists_of s = ([], [])"
  shows "NormalizeURI L (c_NodeURI (ld_cfg s)) = Inr (c_NodeURI c)" "NormalizeLevel (c_LogLevel (ld_cfg s)) = Inr (c_LogLevel c)"
    "c_ListenAddr c \<noteq> []" "c_ListenAddr (ld_cfg s) \<noteq> [] \<longrightarrow> c_ListenAddr c = c_ListenAddr (ld_cfg s)"
    "c_TLSCertFile c \<noteq> []" "c_TLSKeyFile c \<noteq> []"
    "c_TrackerURL c = [] \<or> (\<exists>raw. NormalizeURI L raw = Inr (c_TrackerURL c))"
    "c_TrackerURL (ld_cfg s) \<noteq> [] \<longrightarrow> NormalizeURI L (c_TrackerURL (ld_cfg s)) = Inr (c_TrackerURL c)"
    "normalize_list L (split_on (CHR '','') (ld_seeds s)) = Inr (c_ManualSeeds c)"
    "normalize_list L (split_on (CHR '','') (ld_members s)) = Inr (c_StableBaseMembers c)"
    "c_StableBaseMinSize c = (if c_StableBaseMinSize (ld_cfg s) \<le> 0 then wrap64 (c_SuccessorListSize c + 1)
       else c_StableBaseMinSize (ld_cfg s))"
    "validate_auth (c_Auth c) = Inr ()"
proof -
  obtain c1 c2 c3 where v: "validate_node L (ld_cfg s) = Inr c1" "validate_tracker L c1 = Inr c2" "validate_lists L s c2 = Inr c3"
    and c: "c = (if c_StableBaseMinSize c3 \<le> 0 then c3\<lparr>c_StableBaseMinSize := wrap64 (c_SuccessorListSize c3 + 1)\<rparr> else c3)"
    and auth: "validate_auth (c_Auth c3) = Inr ()"
    using validate_stages [OF assms(1)] by blast
  obtain uri level listen where n: "NormalizeURI L (c_NodeURI (ld_cfg s)) = Inr uri" "NormalizeLevel (c_LogLevel (ld_cfg s)) = Inr level"
    "c1 = (ld_cfg s)\<lparr>c_NodeURI := uri, c_ListenAddr := listen, c_LogLevel := level\<rparr>" "listen \<noteq> []"
    "c_ListenAddr (ld_cfg s) \<noteq> [] \<longrightarrow> listen = c_ListenAddr (ld_cfg s)"
    "c_TLSCertFile (ld_cfg s) \<noteq> []" "c_TLSKeyFile (ld_cfg s) \<noteq> []"
    using validate_node_Inr [OF v(1)] by blast
  obtain t where t: "c2 = c1\<lparr>c_TrackerURL := t\<rparr>" "t = [] \<or> (\<exists>raw. NormalizeURI L raw = Inr t)"
    "c_TrackerURL c1 \<noteq> [] \<longrightarrow> NormalizeURI L (c_TrackerURL c1) = Inr t"
    using validate_tracker_Inr [OF v(2)] by blast
  obtain us vs where l: "c3 = c2\<lparr>c_ManualSeeds := c_ManualSeeds c2 @ us, c_StableBaseMembers := c_StableBaseMembers c2 @ vs\<rparr>"
    "normalize_list L (split_on (CHR '','') (ld_seeds s)) = Inr us"
    "normalize_list L (split_on (CHR '','') (ld_members s)) = Inr vs"
    using validate_lists_Inr [OF v(3)] by blast
  have f: "c_NodeURI c = uri" "c_ListenAddr c = listen" "c_LogLevel c = level" "c_TrackerURL c = t"
    "c_ManualSeeds c = us" "c_StableBaseMembers c = vs" "c_TLSCertFile c = c_TLSCertFile (ld_cfg s)"
    "c_TLSKeyFile c = c_TLSKeyFile (ld_cfg s)" "c_Auth c = c_Auth c3" "c_TrackerURL c1 = c_TrackerURL (ld_cfg s)"
    "c_StableBaseMinSize c3 = c_StableBaseMinSize (ld_cfg s)" "c_SuccessorListSize c = c_SuccessorListSize c3"
    using assms(2) by (simp_all add: c l(1) t(1) n(3) lists_of_def)
  have "c_StableBaseMinSize c = (if c_StableBaseMinSize c3 \<le> 0 then wrap64 (c_SuccessorListSize c3 + 1) else c_StableBaseMinSize c3)"
    by (simp add: c)
  then show "c_StableBaseMinSize c = (if c_StableBaseMinSize (ld_cfg s) \<le> 0 then wrap64 (c_SuccessorListSize c + 1)
       else c_StableBaseMinSize (ld_cfg s))" unfolding f .
  show "NormalizeURI L (c_NodeURI (ld_cfg s)) = Inr (c_NodeURI c)" "NormalizeLevel (c_LogLevel (ld_cfg s)) = Inr (c_LogLevel c)"
    "c_ListenAddr c \<noteq> []" "c_ListenAddr (ld_cfg s) \<noteq> [] \<longrightarrow> c_ListenAddr c = c_ListenAddr (ld_cfg s)"
    "c_TLSCertFile c \<noteq> []" "c_TLSKeyFile c \<noteq> []"
    using n unfolding f by blast+
  show "c_TrackerURL c = [] \<or> (\<exists>raw. NormalizeURI L raw = Inr (c_TrackerURL c))"
    "c_TrackerURL (ld_cfg s) \<noteq> [] \<longrightarrow> NormalizeURI L (c_TrackerURL (ld_cfg s)) = Inr (c_TrackerURL c)"
    using t unfolding f by blast+
  show "normalize_list L (split_on (CHR '','') (ld_seeds s)) = Inr (c_ManualSeeds c)"
    "normalize_list L (split_on (CHR '','') (ld_members s)) = Inr (c_StableBaseMembers c)" "validate_auth (c_Auth c) = Inr ()"
    using l(2,3) auth unfolding f by blast+
qed

text \<open>What the environment says: each variable's value, trimmed, is in the field it is for, parsed for its type, or
  normalised for the URIs, the log level and the two lists of URIs; a stable base of no or negative
  size is one more than the successor list.\<close>

definition env_says :: "golib \<Rightarrow> strlib \<Rightarrow> (string \<Rightarrow> string) \<Rightarrow> Config \<Rightarrow> bool" where
  "env_says L P env c \<longleftrightarrow>
     (let val = \<lambda>k. TrimSpace (env k)
      in (\<forall>(k, g) \<in> set env_strings. val k \<noteq> [] \<longrightarrow> g c = val k) \<and>
         (\<forall>(k, g) \<in> set env_ints. \<forall>x. ParseInt64 (val k) = Some x \<longrightarrow> g c = x) \<and>
         (\<forall>(k, g) \<in> set env_bools. \<forall>x. ParseBool (val k) = Some x \<longrightarrow> g c = x) \<and>
         (\<forall>(k, g) \<in> set env_floats. \<forall>x. val k \<noteq> [] \<and> str_ParseFloat P (val k) = Some x \<longrightarrow> g c = x) \<and>
         (\<forall>(k, g) \<in> set env_durations. \<forall>x. ParseInt64 (val k) = Some x \<longrightarrow> g c = SecondsDuration x) \<and>
         (val ''NODE_URI'' \<noteq> [] \<longrightarrow> NormalizeURI L (val ''NODE_URI'') = Inr (c_NodeURI c)) \<and>
         (val ''NODE_LISTEN'' \<noteq> [] \<longrightarrow> c_ListenAddr c = val ''NODE_LISTEN'') \<and>
         (val ''TRACKER_URL'' \<noteq> [] \<longrightarrow> NormalizeURI L (val ''TRACKER_URL'') = Inr (c_TrackerURL c)) \<and>
         (val ''CHORD_LOG_LEVEL'' \<noteq> [] \<longrightarrow> NormalizeLevel (val ''CHORD_LOG_LEVEL'') = Inr (c_LogLevel c)) \<and>
         (val ''NODE_MANUAL_SEEDS'' \<noteq> [] \<longrightarrow>
            normalize_list L (split_on (CHR '','') (val ''NODE_MANUAL_SEEDS'')) = Inr (c_ManualSeeds c)) \<and>
         (val ''CHORD_STABLE_BASE_MEMBERS'' \<noteq> [] \<longrightarrow>
            normalize_list L (split_on (CHR '','') (val ''CHORD_STABLE_BASE_MEMBERS'')) = Inr (c_StableBaseMembers c)) \<and>
         (\<forall>x. ParseInt64 (val ''CHORD_STABLE_BASE_MIN_SIZE'') = Some x \<longrightarrow>
            c_StableBaseMinSize c = (if x \<le> 0 then wrap64 (c_SuccessorListSize c + 1) else x)))"

lemma parse_nonempty: "ParseInt64 v = Some x \<Longrightarrow> v \<noteq> []" "ParseBool v = Some b \<Longrightarrow> v \<noteq> []"
  by (auto simp: ParseInt64_def ParseBool_def parse_digits_def)

text \<open>The value of a variable of a table that the overrides left in its field is still there after validation.\<close>

lemma env_in_field:
  assumes "list_all (\<lambda>(k, g). env_wins env (\<lambda>s. g (ld_cfg s)) k parse fs) tab" and "list_all (\<lambda>(k, g). kept g) tab"
    and "validate L (fold (\<lambda>f. f) fs t) = Inr c"
  shows "\<forall>(k, g) \<in> set tab. \<forall>x. TrimSpace (env k) \<noteq> [] \<and> parse (TrimSpace (env k)) = Some x \<longrightarrow> g c = x"
proof (intro ballI, clarify)
  fix k g x assume m: "(k, g) \<in> set tab" and v: "TrimSpace (env k) \<noteq> []" "parse (TrimSpace (env k)) = Some x"
  then have "g (ld_cfg (fold (\<lambda>f. f) fs t)) = x" "kept g"
    using assms(1,2) by (auto simp: list_all_iff env_wins_def)
  then show "g c = x" using validate_kept [of g, OF _ assms(3)] by simp
qed

lemma Load_env_says:
  assumes "Load L P args env = Inr c"
  shows "env_says L P env c"
proof -
  let ?fs = "env_overrides_1 P env @ env_overrides_2 P env"
  obtain s t where s: "validate L s = Inr c" "lists_of s = ([], [])" "s = fold (\<lambda>f. f) ?fs t"
    using Load_Inr [OF assms] by blast
  note field = env_in_field [OF _ _ s(1) [unfolded s(3)]]
  note w = env_processed_win [of env P, unfolded env_wins_def, rule_format, where s = t, folded s(3)]
  note v = validate_Inr [OF s(1,2)]
  show ?thesis
    unfolding env_says_def Let_def
  proof (intro conjI)
    show "\<forall>(k, g) \<in> set env_strings. TrimSpace (env k) \<noteq> [] \<longrightarrow> g c = TrimSpace (env k)"
      using field [OF env_strings_win tables_kept(1)] by simp
    show "\<forall>(k, g) \<in> set env_ints. \<forall>x. ParseInt64 (TrimSpace (env k)) = Some x \<longrightarrow> g c = x"
      using field [OF env_ints_win tables_kept(2)] parse_nonempty(1) by fast
    show "\<forall>(k, g) \<in> set env_bools. \<forall>x. ParseBool (TrimSpace (env k)) = Some x \<longrightarrow> g c = x"
      using field [OF env_bools_win tables_kept(3)] parse_nonempty(2) by fast
    show "\<forall>(k, g) \<in> set env_floats. \<forall>x. TrimSpace (env k) \<noteq> [] \<and> str_ParseFloat P (TrimSpace (env k)) = Some x \<longrightarrow> g c = x"
      by (rule field [OF env_floats_win tables_kept(4)])
    show "\<forall>(k, g) \<in> set env_durations. \<forall>x. ParseInt64 (TrimSpace (env k)) = Some x \<longrightarrow> g c = SecondsDuration x"
    proof (intro ballI, clarify)
      fix k g x assume m: "(k, g) \<in> set env_durations" and x: "ParseInt64 (TrimSpace (env k)) = Some x"
      then show "g c = SecondsDuration x"
        using field [OF env_durations_win tables_kept(5), THEN bspec, OF m] parse_nonempty(1) [OF x] by simp
    qed
    show "\<forall>x. ParseInt64 (TrimSpace (env ''CHORD_STABLE_BASE_MIN_SIZE'')) = Some x \<longrightarrow>
        c_StableBaseMinSize c = (if x \<le> 0 then wrap64 (c_SuccessorListSize c + 1) else x)"
      using w(7) parse_nonempty(1) v(11) by metis
    show "TrimSpace (env ''NODE_URI'') \<noteq> [] \<longrightarrow> NormalizeURI L (TrimSpace (env ''NODE_URI'')) = Inr (c_NodeURI c)"
      using v(1) w(1) by metis
    show "TrimSpace (env ''NODE_LISTEN'') \<noteq> [] \<longrightarrow> c_ListenAddr c = TrimSpace (env ''NODE_LISTEN'')"
      using v(4) w(2) by metis
    show "TrimSpace (env ''TRACKER_URL'') \<noteq> [] \<longrightarrow> NormalizeURI L (TrimSpace (env ''TRACKER_URL'')) = Inr (c_TrackerURL c)"
      using v(8) w(3) by metis
    show "TrimSpace (env ''CHORD_LOG_LEVEL'') \<noteq> [] \<longrightarrow>
        NormalizeLevel (TrimSpace (env ''CHORD_LOG_LEVEL'')) = Inr (c_LogLevel c)"
      using v(2) w(4) by metis
    show "TrimSpace (env ''NODE_MANUAL_SEEDS'') \<noteq> [] \<longrightarrow>
        normalize_list L (split_on (CHR '','') (TrimSpace (env ''NODE_MANUAL_SEEDS''))) = Inr (c_ManualSeeds c)"
      using v(9) w(5) by metis
    show "TrimSpace (env ''CHORD_STABLE_BASE_MEMBERS'') \<noteq> [] \<longrightarrow>
        normalize_list L (split_on (CHR '','') (TrimSpace (env ''CHORD_STABLE_BASE_MEMBERS''))) = Inr (c_StableBaseMembers c)"
      using v(10) w(6) by metis
  qed
qed

text \<open>C30: A configuration that \<open>Load\<close> returns is complete and normalised: the node, tracker, seed and
  stable-base URIs are results of \<open>NormalizeURI\<close>; both TLS files, the listen address and, with
  authentication, the CA key and both credential files are given; the log level is one \<open>SetLevel\<close>
  accepts. The environment wins over the flags, for each of the 85 variables (\<open>env_says\<close>): whatever the
  arguments and the other variables say, a value that parses for the variable's type is in the
  field the variable is for, as it is or, for the URIs, the log level and the two lists,
  normalised (only a size of the stable base that is not positive is replaced).\<close>

theorem config_load_valid:
  assumes load: "Load L P args env = Inr c"
  shows "(\<exists>raw. NormalizeURI L raw = Inr (c_NodeURI c)) \<and>
    (c_TrackerURL c = [] \<or> (\<exists>raw. NormalizeURI L raw = Inr (c_TrackerURL c))) \<and>
    (\<forall>u \<in> set (c_ManualSeeds c) \<union> set (c_StableBaseMembers c). \<exists>raw. NormalizeURI L raw = Inr u) \<and>
    c_ListenAddr c \<noteq> [] \<and> c_TLSCertFile c \<noteq> [] \<and> c_TLSKeyFile c \<noteq> [] \<and>
    (\<exists>l. SetLevel (c_LogLevel c) current = (Inr (), l) \<and> c_LogLevel c = Level_String l) \<and>
    (a_Enabled (c_Auth c) \<longrightarrow> a_CAPublicKeyBase64 (c_Auth c) \<noteq> [] \<and> a_NodeCertificateFile (c_Auth c) \<noteq> [] \<and>
       a_NodePrivateKeyFile (c_Auth c) \<noteq> []) \<and>
    env_says L P env c"
proof -
  obtain s where s: "validate L s = Inr c" "lists_of s = ([], [])" using Load_Inr [OF load] by blast
  note v = validate_Inr [OF s]
  have "\<forall>u \<in> set (c_ManualSeeds c) \<union> set (c_StableBaseMembers c). \<exists>raw. NormalizeURI L raw = Inr u"
    using validate_list_members [OF v(9)] validate_list_members [OF v(10)] by blast
  then show ?thesis
    using v(1,3,5-7) SetLevel_normalized [OF v(2), of current] validate_auth_Inr [OF v(12)] Load_env_says [OF load] by blast
qed

lemma config_load_valid_witness:
  "\<exists>c. Load demo_lib demo_str [''-uri'', ''https://a'', ''--tls-cert=c'', ''-tls-key'', ''k'', ''-max-hops'', ''7'']
         ((\<lambda>_. [])(''NODE_URI'' := '' https://b '', ''CHORD_AUTH_ENABLED'' := ''0'', ''CHORD_MAX_HOPS'' := ''9'',
                   ''CHORD_TIMEOUT_PING_SAME'' := ''2'')) = Inr c \<and>
       c_NodeURI c = ''https://b'' \<and> \<not> a_Enabled (c_Auth c) \<and> c_ListenAddr c \<noteq> [] \<and> c_MaxHops c = 9 \<and>
       c_TimeoutPingSameRegion c = 2 * Second"
proof -
  let ?env = "((\<lambda>_. [])(''NODE_URI'' := '' https://b '', ''CHORD_AUTH_ENABLED'' := ''0'', ''CHORD_MAX_HOPS'' := ''9'',
                   ''CHORD_TIMEOUT_PING_SAME'' := ''2'')) :: string \<Rightarrow> string"
  let ?load = "Load demo_lib demo_str [''-uri'', ''https://a'', ''--tls-cert=c'', ''-tls-key'', ''k'', ''-max-hops'', ''7''] ?env"
  have "case ?load of Inl _ \<Rightarrow> False | Inr c \<Rightarrow> True" by code_simp
  then obtain c where c: "?load = Inr c" by (auto split: sum.splits)
  have val: "ParseBool (TrimSpace (?env ''CHORD_AUTH_ENABLED'')) = Some False" "TrimSpace (?env ''NODE_URI'') \<noteq> []"
    "NormalizeURI demo_lib (TrimSpace (?env ''NODE_URI'')) = Inr ''https://b''"
    "ParseInt64 (TrimSpace (?env ''CHORD_MAX_HOPS'')) = Some 9" "ParseInt64 (TrimSpace (?env ''CHORD_TIMEOUT_PING_SAME'')) = Some 2"
    "SecondsDuration 2 = 2 * Second" by code_simp+
  have tab: "(''CHORD_AUTH_ENABLED'', a_Enabled \<circ> c_Auth) \<in> set env_bools" "(''CHORD_MAX_HOPS'', c_MaxHops) \<in> set env_ints"
    "(''CHORD_TIMEOUT_PING_SAME'', c_TimeoutPingSameRegion) \<in> set env_durations"
    by (simp_all add: env_bools_def env_ints_def env_durations_def)
  have "c_ListenAddr c \<noteq> []" and e: "env_says demo_lib demo_str ?env c" using config_load_valid [OF c] by blast+
  note says = e [unfolded env_says_def Let_def]
  have "(a_Enabled \<circ> c_Auth) c = False"
    using bspec [OF says [THEN conjunct2, THEN conjunct2, THEN conjunct1] tab(1)] val(1) unfolding prod.case by blast
  moreover have "c_MaxHops c = 9"
    using bspec [OF says [THEN conjunct2, THEN conjunct1] tab(2)] val(4) by simp
  moreover have "c_TimeoutPingSameRegion c = SecondsDuration 2"
    using bspec [OF says [THEN conjunct2, THEN conjunct2, THEN conjunct2, THEN conjunct2, THEN conjunct1] tab(3)] val(5) by simp
  moreover have "NormalizeURI demo_lib (TrimSpace (?env ''NODE_URI'')) = Inr (c_NodeURI c)"
    using says [THEN conjunct2, THEN conjunct2, THEN conjunct2, THEN conjunct2, THEN conjunct2, THEN conjunct1] val(2) by blast
  ultimately show ?thesis using c \<open>c_ListenAddr c \<noteq> []\<close> val(3,6) by simp
qed

text \<open>C32: A node describes itself in a way its peers accept: from a URI in any spelling that normalises to
  a plain host and port, \<open>NewNodeInfoFromURI\<close> makes a description that passes \<open>ValidateNodeInfo\<close>, and
  normalising its URI again changes nothing, so that two spellings of one address are one node.\<close>
theorem own_identity_validates:
  assumes "sha1_ok L" and "url_Parse_ok L"
    and n: "NewNodeInfoFromURI L raw = Inr n" and a: "URI n = ''https://'' @ a" "plain_authority a"
  shows "ValidateNodeInfo L n = Inr () \<and> NormalizeURI L (URI n) = Inr (URI n) \<and> NewNodeInfoFromURI L (URI n) = Inr n"
proof -
  obtain u where u: "NormalizeURI L raw = Inr u" "u = URI n"
    using n by (auto simp: NewNodeInfoFromURI_def split: sum.splits)
  then have idem: "NormalizeURI L u = Inr u" using NormalizeURI_idem [OF assms(2) _ a(2)] a(1) by simp
  then have "n = emptyNodeInfo\<lparr>NodeID := hex_EncodeToString (sha1_Sum L u), URI := u\<rparr>"
    using n u(1) by (simp add: NewNodeInfoFromURI_def HashURI_def)
  then have h: "HashURI L u = Inr (NodeID n)" "AnchorID n = []"
    using idem by (simp_all add: HashURI_def emptyNodeInfo_def)
  then have "ValidateID (NodeID n)" using HashURI_valid assms(1) by blast
  then show ?thesis using idem h n u by (simp add: ValidateNodeInfo_def NewNodeInfoFromURI_def)
qed

lemma own_identity_validates_witness:
  "\<exists>n. NewNodeInfoFromURI demo_lib '' https://a:443'' = Inr n \<and> ValidateNodeInfo demo_lib n = Inr ()"
proof -
  have n: "NormalizeURI demo_lib '' https://a:443'' = Inr ''https://a''" by code_simp
  have "NormalizeURI demo_lib ''https://a'' = Inr ''https://a''" by code_simp
  then have "\<exists>i. HashURI demo_lib ''https://a'' = Inr i" by (simp add: HashURI_def)
  then obtain m where m: "NewNodeInfoFromURI demo_lib '' https://a:443'' = Inr m" "URI m = ''https://'' @ ''a''"
    using n by (auto simp: NewNodeInfoFromURI_def)
  have "plain_authority ''a''" by code_simp
  then show ?thesis using own_identity_validates [OF demo_lib_ok m] m(1) by blast
qed

end
