(* ===== verification/StartupFacts.thy ===== *)
theory StartupFacts
  imports Startup CATool ConfigFacts
begin

text \<open>
  What a started process satisfies: its nodes are the configured ones, with the identities derived
  from the anchor's, and every one of them satisfies the node invariant.
\<close>

section \<open>Nodes of the process\<close>

lemma collect_map_nth: "collect (map f xs) = Inr ys \<Longrightarrow> length ys = length xs \<and> (\<forall>k < length xs. f (xs ! k) = Inr (ys ! k))"
proof (induction xs arbitrary: ys)
  case (Cons x xs)
  then obtain z zs where z: "f x = Inr z" "collect (map f xs) = Inr zs" "ys = z # zs"
    by (cases "f x") (auto split: sum.splits)
  show ?case using Cons.IH [OF z(2)] z(1,3) by (auto simp: nth_Cons split: nat.splits)
qed simp

lemma on_one_keeps:
  assumes "\<And>me lm pl. ns.moves True me lm pl m" and "node_inv me lm pl n"
  shows "node_inv me lm pl (fst (fst (on_one m n w)))"
  using ns.moves_inv [OF assms(1), of me lm pl "\<lparr>nd = n, wd = w, spawned = []\<rparr>"] assms(2)
  by (simp add: on_one_def Let_def)

lemma join_all_keeps:
  "join_all E seeds ns w = (xs, w') \<Longrightarrow> list_all2 (\<lambda>n x. \<forall>me lm pl. node_inv me lm pl n \<longrightarrow> node_inv me lm pl (fst x)) ns xs"
proof (induction E seeds ns w arbitrary: xs w' rule: join_all.induct)
  case (2 E seeds n ns w)
  then show ?case
    using on_one_keeps [OF moves_join(2), of _ _ _ n E seeds w]
    by (auto simp: Let_def split: prod.splits)
qed simp

lemma NewNode_own_id:
  assumes "NewNode L uri opts c tr t = Inr n"
  shows "o_AnchorID opts \<noteq> [] \<Longrightarrow> 0 < o_VNodeIndex opts \<Longrightarrow> NodeID (n_self n) = DeriveVNodeID L (o_AnchorID opts) (o_VNodeIndex opts)"
    and "o_AnchorID opts = [] \<Longrightarrow> \<exists>u. NormalizeURI L uri = Inr u \<and> HashURI L u = Inr (NodeID (n_self n))"
  using assms
  by (auto simp: NewNode_def NewNodeInfoFromURI_def Let_def split: sum.splits if_splits)

lemma anchor_id_options: "o_AnchorID ((auth_options a (ChordOptions cfg))\<lparr>o_Region := r\<rparr>) = []"
  "o_SharedRTTCache ((auth_options a (ChordOptions cfg))\<lparr>o_Region := r\<rparr>) = None"
  "o_SharedRoutingCache ((auth_options a (ChordOptions cfg))\<lparr>o_Region := r\<rparr>) = None"
  by (simp_all add: auth_options_def ChordOptions_def split: option.split)

lemma spawn_vnode_inv:
  assumes "spawn_vnode L K cfg anchorID priv opts tr t i = Inr n" and "sha1_ok L" and "anchorID \<noteq> []" and "0 < i"
  shows "NodeID (n_self n) = DeriveVNodeID L anchorID i" and "node_inv (DeriveVNodeID L anchorID i) (successorLimit n) (predecessorLimit n) n"
proof -
  let ?rtt = "NewRTTCache (o_RTTEWMAAlpha opts) (c_SharedRTTCacheTTL cfg)"
  let ?route = "if o_RoutingCacheEnabled opts then Some (NewRoutingCache (c_SharedRouteCacheSize cfg) (c_SharedRouteCacheTTL cfg)) else None"
  let ?opts = "vnode_options opts anchorID i (SignVNodeProof L K anchorID i priv (c_VNodeProofTTL cfg) t) ?rtt ?route"
  have n: "NewNode L (c_NodeURI cfg) ?opts True tr t = Inr n" using assms(1) by (simp add: spawn_vnode_def Let_def)
  show id: "NodeID (n_self n) = DeriveVNodeID L anchorID i"
    using NewNode_own_id(1) [OF n] assms(3,4) by (simp add: vnode_options_def)
  show "node_inv (DeriveVNodeID L anchorID i) (successorLimit n) (predecessorLimit n) n"
    using NewNode_inv(2) [OF n assms(2)] id by (simp add: vnode_options_def rtt_wf_new rc_wf_new split: if_split)
qed

lemma spawnVNodes_inv:
  assumes "spawnVNodes L K cfg anchorID priv opts tr t = Inr vs" and "sha1_ok L" and "anchorID \<noteq> []"
  shows "length vs = (if priv = None then 0 else nat (c_VNodeCount cfg))"
    and "\<forall>k < length vs. \<exists>lm pl. node_inv (DeriveVNodeID L anchorID (int k + 1)) lm pl (vs ! k)"
proof -
  have "length vs = (if priv = None then 0 else nat (c_VNodeCount cfg)) \<and>
    (\<forall>k < length vs. \<exists>lm pl. node_inv (DeriveVNodeID L anchorID (int k + 1)) lm pl (vs ! k))"
  proof (cases "priv = None \<or> c_VNodeCount cfg \<le> 0")
    case True
    then show ?thesis using assms(1) by (auto simp: spawnVNodes_def split: if_splits)
  next
    case False
    then obtain p where p: "priv = Some p" "collect (map (spawn_vnode L K cfg anchorID p opts tr t) [1 .. c_VNodeCount cfg]) = Inr vs"
      using assms(1) by (auto simp: spawnVNodes_def)
    have nth: "[1 .. c_VNodeCount cfg] ! k = int k + 1" if "k < nat (c_VNodeCount cfg)" for k
      using that by (subst nth_upto) auto
    have "\<exists>lm pl. node_inv (DeriveVNodeID L anchorID (int k + 1)) lm pl (vs ! k)" if k: "k < nat (c_VNodeCount cfg)" for k
    proof -
      have "spawn_vnode L K cfg anchorID p opts tr t (int k + 1) = Inr (vs ! k)"
        using collect_map_nth [OF p(2)] k nth [OF k] by (simp add: add.commute)
      from spawn_vnode_inv(2) [OF this assms(2,3)] show ?thesis by auto
    qed
    then show ?thesis using collect_map_nth [OF p(2)] p(1) by simp
  qed
  then show "length vs = (if priv = None then 0 else nat (c_VNodeCount cfg))"
    "\<forall>k < length vs. \<exists>lm pl. node_inv (DeriveVNodeID L anchorID (int k + 1)) lm pl (vs ! k)" by auto
qed

lemma start_nodes_inv:
  assumes s: "start_nodes X N orc sleep cfg region a tr opts anchor seeds w = Inr h" and L: "sha1_ok (nt_lib N)"
    and anchor: "node_inv me lm pl anchor"
  shows "\<exists>vs. VNodes (sv_pool (h_server h)) = vs \<and> length vs = (if a = None then 0 else nat (c_VNodeCount cfg)) \<and>
    node_inv me lm pl (Anchor (sv_pool (h_server h))) \<and>
    (\<forall>k < length vs. \<exists>lm pl. node_inv (DeriveVNodeID (nt_lib N) me (int k + 1)) lm pl (vs ! k))"
proof -
  let ?L = "nt_lib N" and ?key = "case a of None \<Rightarrow> [] | Some s \<Rightarrow> as_caKey s"
  define E0 where "E0 = node_env X N orc sleep ?key (peer_client cfg region a) tr"
  obtain anchor1 tasks p1 where j: "on_one (JoinNetwork E0 seeds) anchor \<lparr>p_net = w, p_verifier = map_option as_verifier a, p_vnodes = []\<rparr> = ((anchor1, tasks), p1)"
    by (metis prod.exhaust)
  have a1: "node_inv me lm pl anchor1"
    using on_one_keeps [OF moves_join(2) anchor, of E0 seeds "\<lparr>p_net = w, p_verifier = map_option as_verifier a, p_vnodes = []\<rparr>"] j by simp
  then have id: "NodeID (n_self anchor1) = me" "me \<noteq> []" by (simp_all add: node_inv_def)
  define client1 where "client1 = (if region = [] then SetSelfRegion (n_region anchor1) (peer_client cfg region a) else peer_client cfg region a)"
  define E where "E = node_env X N orc sleep ?key client1 tr"
  obtain vs where vs: "spawnVNodes ?L (pl_ed X) cfg me (map_option as_privKey a) opts (tr \<noteq> None) (nt_now N (p_net p1)) = Inr vs"
    using s j id by (auto simp: start_nodes_def E0_def [symmetric] Let_def split: sum.splits)
  note v = spawnVNodes_inv [OF vs L id(2)]
  show ?thesis
  proof (cases "vs = []")
    case True
    then have "h_server h = NewServer (NewNodePool anchor1 []) (p_verifier p1)"
      using s j id vs by (auto simp: start_nodes_def E0_def [symmetric] Let_def)
    then show ?thesis using True v(1) a1 by (auto simp: NewServer_def NewNodePool_def)
  next
    case False
    obtain joined q where ja: "join_all E seeds vs p1 = (joined, q)" by fastforce
    let ?n = "SetVNodeProvider True (SetVNodeEntries (map vnode_entry vs) anchor1)"
    obtain n' ts q' where r: "on_one (registerTracker E) ?n q = ((n', ts), q')" by (metis prod.exhaust)
    have h: "h_server h = NewServer (NewNodePool n' (map fst joined)) (p_verifier q')"
      using s j id vs False ja r
      by (auto simp: start_nodes_def E0_def [symmetric] client1_def [symmetric] E_def [symmetric] Let_def)
    have "node_inv me lm pl ?n"
      using a1 node_step_inv [where manager = True] section_step.set_vnode_entries section_step.set_vnode_provider by metis
    then have n': "node_inv me lm pl n'"
      using on_one_keeps [OF moves_tracker(1), of me lm pl ?n E q] r by simp
    have js: "length joined = length vs" "\<forall>k < length vs. \<forall>me lm pl. node_inv me lm pl (vs ! k) \<longrightarrow> node_inv me lm pl (fst (joined ! k))"
      using join_all_keeps [OF ja] by (auto simp: list_all2_conv_all_nth)
    then show ?thesis using h n' v by (fastforce simp: NewServer_def NewNodePool_def)
  qed
qed

lemma main_Inr:
  assumes "main X P N orc sleep files args osenv level w = Inr h"
  obtains cfg a tr region opts anchor seeds w1 where
    "Load (nt_lib N) P args osenv = Inr cfg"
    "authSetup (nt_lib N) (pl_codecs X) (pl_ed X) (files w) (nt_now N w) (c_Auth cfg) = Inr a"
    "opts = (auth_options a (ChordOptions cfg))\<lparr>o_Region := region\<rparr>"
    "NewNode (nt_lib N) (c_NodeURI cfg) opts True (tr \<noteq> None) (nt_now N w1) = Inr anchor"
    "start_nodes X N orc sleep cfg region a tr opts anchor seeds w1 = Inr h"
proof -
  obtain cfg where cfg: "Load (nt_lib N) P args osenv = Inr cfg"
    using assms by (auto simp: main_def split: sum.splits)
  obtain u where lev: "fst (SetLevel (c_LogLevel cfg) level) = Inr u"
    using assms cfg by (auto simp: main_def split: sum.splits prod.splits)
  obtain a where a: "authSetup (nt_lib N) (pl_codecs X) (pl_ed X) (files w) (nt_now N w) (c_Auth cfg) = Inr a"
    using assms cfg lev by (auto simp: main_def split: sum.splits prod.splits)
  obtain tr where tr: "tracker_setup (nt_lib N) cfg = Inr tr"
    using assms cfg lev a by (auto simp: main_def split: sum.splits prod.splits)
  obtain region w1 where r: "detect_region X N cfg tr w = (region, w1)" by fastforce
  obtain anchor where n: "NewNode (nt_lib N) (c_NodeURI cfg) ((auth_options a (ChordOptions cfg))\<lparr>o_Region := region\<rparr>) True (tr \<noteq> None) (nt_now N w1) = Inr anchor"
    using assms cfg lev a tr r by (auto simp: main_def Let_def split: sum.splits prod.splits)
  obtain seeds where "collect (map (NewNodeInfoFromURI (nt_lib N)) (c_ManualSeeds cfg)) = Inr seeds"
    using assms cfg lev a tr r n by (auto simp: main_def Let_def split: sum.splits prod.splits)
  then have "start_nodes X N orc sleep cfg region a tr ((auth_options a (ChordOptions cfg))\<lparr>o_Region := region\<rparr>) anchor seeds w1 = Inr h"
    using assms cfg lev a tr r n by (auto simp: main_def Let_def split: sum.splits prod.splits)
  then show thesis using that cfg a n by blast
qed

text \<open>C28: A process that starts is well formed. Whatever its arguments, environment, files, tracker and peers
  answered: its anchor's ID is the hash of its normalised URI; it has exactly \<open>VNodeCount\<close> virtual
  nodes, whatever \<open>MaxVNodes\<close> is, and only with authentication; each has the ID derived from the anchor's ID and its
  index, counted from 1; and every node has a valid ID and satisfies the node invariant, which the
  requests that its server handles and the loops it runs then keep.\<close>
theorem startup_establishes_invariants:
  assumes start: "main X P N orc sleep files args osenv level w = Inr h" and L: "sha1_ok (nt_lib N)"
  shows "\<exists>cfg a u. Load (nt_lib N) P args osenv = Inr cfg \<and>
    authSetup (nt_lib N) (pl_codecs X) (pl_ed X) (files w) (nt_now N w) (c_Auth cfg) = Inr a \<and>
    NormalizeURI (nt_lib N) (c_NodeURI cfg) = Inr u \<and>
    HashURI (nt_lib N) u = Inr (NodeID (n_self (Anchor (sv_pool (h_server h))))) \<and>
    length (VNodes (sv_pool (h_server h))) = (if a = None then 0 else nat (c_VNodeCount cfg)) \<and>
    (\<forall>k < length (VNodes (sv_pool (h_server h))). NodeID (n_self (VNodes (sv_pool (h_server h)) ! k)) =
       DeriveVNodeID (nt_lib N) (NodeID (n_self (Anchor (sv_pool (h_server h))))) (int k + 1)) \<and>
    (\<forall>i < pool_size (sv_pool (h_server h)). \<exists>me lm pl. ValidateID me \<and> node_inv me lm pl (node_at i (sv_pool (h_server h))))"
proof -
  obtain cfg a tr region opts anchor seeds w1 where
    cfg: "Load (nt_lib N) P args osenv = Inr cfg" and
    a: "authSetup (nt_lib N) (pl_codecs X) (pl_ed X) (files w) (nt_now N w) (c_Auth cfg) = Inr a" and
    o: "opts = (auth_options a (ChordOptions cfg))\<lparr>o_Region := region\<rparr>" and
    n: "NewNode (nt_lib N) (c_NodeURI cfg) opts True (tr \<noteq> None) (nt_now N w1) = Inr anchor" and
    s: "start_nodes X N orc sleep cfg region a tr opts anchor seeds w1 = Inr h"
    by (rule main_Inr [OF start])
  obtain u where u: "NormalizeURI (nt_lib N) (c_NodeURI cfg) = Inr u" "HashURI (nt_lib N) u = Inr (NodeID (n_self anchor))"
    using NewNode_own_id(2) [OF n] anchor_id_options(1) o by metis
  have inv: "ValidateID (NodeID (n_self anchor))" "node_inv (NodeID (n_self anchor)) (successorLimit anchor) (predecessorLimit anchor) anchor"
    using NewNode_inv [OF n L] anchor_id_options(2,3) o by simp_all
  have h: "length (VNodes (sv_pool (h_server h))) = (if a = None then 0 else nat (c_VNodeCount cfg))"
    "node_inv (NodeID (n_self anchor)) (successorLimit anchor) (predecessorLimit anchor) (Anchor (sv_pool (h_server h)))"
    "\<forall>k < length (VNodes (sv_pool (h_server h))). \<exists>lm pl.
       node_inv (DeriveVNodeID (nt_lib N) (NodeID (n_self anchor)) (int k + 1)) lm pl (VNodes (sv_pool (h_server h)) ! k)"
    using start_nodes_inv [OF s L inv(2)] by auto
  have id: "NodeID (n_self (Anchor (sv_pool (h_server h)))) = NodeID (n_self anchor)" using h(2) by (simp add: node_inv_def)
  have "\<exists>me lm pl. ValidateID me \<and> node_inv me lm pl (node_at i (sv_pool (h_server h)))"
    if i: "i < pool_size (sv_pool (h_server h))" for i
  proof (cases i)
    case 0
    then show ?thesis using inv(1) h(2) by (auto simp: node_at_def)
  next
    case (Suc k)
    then obtain lm pl where "node_inv (DeriveVNodeID (nt_lib N) (NodeID (n_self anchor)) (int k + 1)) lm pl (VNodes (sv_pool (h_server h)) ! k)"
      using h(3) i by (auto simp: pool_size_def)
    then show ?thesis using DeriveVNodeID_valid [OF L] Suc by (auto simp: node_at_def)
  qed
  moreover have "\<forall>k < length (VNodes (sv_pool (h_server h))). NodeID (n_self (VNodes (sv_pool (h_server h)) ! k)) =
       DeriveVNodeID (nt_lib N) (NodeID (n_self anchor)) (int k + 1)"
    using h(3) by (auto simp: node_inv_def)
  ultimately show ?thesis using cfg a u h(1) id by (intro exI [of _ cfg] exI [of _ a] exI [of _ u]) simp
qed

definition demo_args :: "string list" where
  "demo_args = [''-uri'', ''https://a'', ''-tls-cert=c'', ''-tls-key=k'']"

lemma demo_load:
  "\<exists>c. Load demo_lib demo_str demo_args (\<lambda>_. []) = Inr c \<and> c_NodeURI c = ''https://a'' \<and> c_LogLevel c = ''info'' \<and>
     \<not> a_Enabled (c_Auth c) \<and> c_TrackerURL c = [] \<and> c_NodeRegion c = [] \<and> c_ManualSeeds c = [] \<and> 0 \<le> c_PredecessorListSize c"
proof -
  have "case Load demo_lib demo_str demo_args (\<lambda>_. []) of Inl _ \<Rightarrow> False
    | Inr c \<Rightarrow> c_NodeURI c = ''https://a'' \<and> c_LogLevel c = ''info'' \<and>
     \<not> a_Enabled (c_Auth c) \<and> c_TrackerURL c = [] \<and> c_NodeRegion c = [] \<and> c_ManualSeeds c = [] \<and> 0 \<le> c_PredecessorListSize c"
    by code_simp
  then show ?thesis by (auto split: sum.splits)
qed

lemma start_nodes_no_auth: "\<exists>h. start_nodes X N orc sleep cfg region None tr opts anchor seeds w = Inr h"
  by (simp add: start_nodes_def Let_def spawnVNodes_def split: prod.split)

lemma demo_main:
  assumes "nt_lib N = demo_lib"
  shows "\<exists>h. main X demo_str N orc sleep files demo_args (\<lambda>_. []) LevelInfo w = Inr h"
proof -
  obtain c where c: "Load demo_lib demo_str demo_args (\<lambda>_. []) = Inr c" "c_NodeURI c = ''https://a''" "c_LogLevel c = ''info''"
    "\<not> a_Enabled (c_Auth c)" "c_TrackerURL c = []" "c_NodeRegion c = []" "c_ManualSeeds c = []" "0 \<le> c_PredecessorListSize c"
    using demo_load by blast
  have norm: "NormalizeURI demo_lib ''https://a'' = Inr ''https://a''" by code_simp
  then have "\<exists>self. NewNodeInfoFromURI demo_lib ''https://a'' = Inr self \<and> HashURI demo_lib ''https://a'' = Inr (NodeID self) \<and> Region self = []"
    by (simp add: NewNodeInfoFromURI_def HashURI_def emptyNodeInfo_def)
  then obtain self where self: "NewNodeInfoFromURI demo_lib ''https://a'' = Inr self" "HashURI demo_lib ''https://a'' = Inr (NodeID self)" "Region self = []"
    by blast
  have "\<exists>n. NewNode demo_lib ''https://a'' ((ChordOptions c)\<lparr>o_Region := []\<rparr>) True False (nt_now N w) = Inr n"
    using NewNode_fresh [OF self(1) HashURI_valid [OF demo_lib_ok(1) self(2)], of "(ChordOptions c)\<lparr>o_Region := []\<rparr>"] c self(3)
    by (simp add: ChordOptions_def)
  then obtain n where n: "NewNode demo_lib ''https://a'' ((ChordOptions c)\<lparr>o_Region := []\<rparr>) True False (nt_now N w) = Inr n" ..
  have level: "SetLevel ''info'' LevelInfo = (Inr (), LevelInfo)" by code_simp
  show ?thesis
    using c n level start_nodes_no_auth assms
    by (simp add: main_def authSetup_def tracker_setup_def detect_region_def auth_options_def Let_def)
qed

lemma startup_establishes_invariants_witness:
  "\<forall>(X :: process_lib) (N0 :: unit net) orc sleep files. \<exists>h.
     main X demo_str (N0\<lparr>nt_lib := demo_lib\<rparr>) orc sleep files demo_args (\<lambda>_. []) LevelInfo () = Inr h \<and>
     (\<exists>me lm pl. ValidateID me \<and> node_inv me lm pl (node_at 0 (sv_pool (h_server h))))"
proof (intro allI)
  fix X :: process_lib and N0 :: "unit net" and orc sleep files
  let ?N = "N0\<lparr>nt_lib := demo_lib\<rparr>"
  obtain h where h: "main X demo_str ?N orc sleep files demo_args (\<lambda>_. []) LevelInfo () = Inr h"
    using demo_main [of ?N X orc sleep files "()"] by auto
  have "sha1_ok (nt_lib ?N)" using demo_lib_ok(1) by simp
  from startup_establishes_invariants [OF h this] h
  show "\<exists>h. main X demo_str ?N orc sleep files demo_args (\<lambda>_. []) LevelInfo () = Inr h \<and>
     (\<exists>me lm pl. ValidateID me \<and> node_inv me lm pl (node_at 0 (sv_pool (h_server h))))"
    by (auto simp: pool_size_def)
qed

end
