(* ===== verification/CAFacts.thy ===== *)
theory CAFacts
  imports StartupFacts
begin

text \<open>
  The CA tool and the nodes together: the identity \<open>ca issue\<close> writes is one \<open>main\<close> accepts, and a
  revocation list that \<open>ca gen-crl\<close> updates keeps what it revoked. \<open>os_ok\<close> states the documented
  behaviour of the file system, key generation and \<open>json.MarshalIndent\<close> they rest on: a file that was written
  can be read, and writing a node's key file does not touch its certificate file.
\<close>

section \<open>The operating system's laws\<close>

definition os_ok :: "codecs \<Rightarrow> 'w os \<Rightarrow> bool" where
  "os_ok J os \<longleftrightarrow>
     (\<forall>p d w w'. os_WriteFile os p d w = (Inr (), w') \<longrightarrow>
        os_ReadFile os p w' = Inr d) \<and>
     (\<forall>d x k w w'. os_WriteFile os (os_Join os d (x @ ''.privkey.b64'')) k w = (Inr (), w') \<longrightarrow>
        os_ReadFile os (os_Join os d (x @ ''.cert.json'')) w' = os_ReadFile os (os_Join os d (x @ ''.cert.json'')) w) \<and>
     (\<forall>k w w'. os_GenerateKey os w = (Inr k, w') \<longrightarrow> length k = 64) \<and>
     (\<forall>c s. ascii_cert c \<longrightarrow> os_IndentCert os c = Inr s \<longrightarrow> json_Certificate J s = Inr c)"

text \<open>A file system in memory, for witnesses.\<close>

definition demo_os :: "(string \<Rightarrow> string option) os" where
  "demo_os =
     \<lparr>os_Now = (\<lambda>_. time_Unix 1000),
      os_ReadFile = (\<lambda>p w. case w p of None \<Rightarrow> Inl (GoError ''no such file'') | Some d \<Rightarrow> Inr d),
      os_WriteFile = (\<lambda>p d w. (Inr (), w(p \<mapsto> d))),
      os_GenerateKey = (\<lambda>w. (Inr (replicate 64 (CHR ''n'')), w)),
      os_Join = (\<lambda>d x. d @ ''/'' @ x),
      os_IndentCert = (\<lambda>c. Inr (json_MarshalCertificate demo_codecs c)), os_IndentCRL = (\<lambda>c. Inr [])\<rparr>"

lemma demo_os_ok: "os_ok demo_codecs demo_os"
  using demo_codecs_ok by (auto simp: os_ok_def demo_os_def codecs_ok_def)

definition demo_caPriv :: string where
  "demo_caPriv = replicate 64 (CHR ''c'')"

lemma demo_caKey: "decode_caKey (rawurl_Encode demo_caPriv) = Inr demo_caPriv" "rawurl_Encode demo_caPriv \<noteq> []"
proof -
  show "decode_caKey (rawurl_Encode demo_caPriv) = Inr demo_caPriv"
    by (simp add: decode_caKey_def rawurl_roundtrip demo_caPriv_def)
  show "rawurl_Encode demo_caPriv \<noteq> []"
    using rawurl_roundtrip [of demo_caPriv] by (auto simp: demo_caPriv_def rawurl_Decode_def)
qed

section \<open>Certificates are ASCII\<close>

lemma ascii_append [simp]: "ascii (x @ y) \<longleftrightarrow> ascii x \<and> ascii y"
  by (simp add: ascii_def)

lemma url_char_ascii: "d < 64 \<Longrightarrow> of_char (url_char d) < (128 :: nat)"
  by (auto simp: url_char_def of_char_b64)

lemma raw_enc_ascii: "list_all (\<lambda>b. b < 256) bs \<Longrightarrow> ascii (raw_enc bs)"
proof (induction bs rule: raw_enc.induct)
  case (2 a)
  then show ?case using b64_bounds(1,2) [of a 0] by (simp add: ascii_def url_char_ascii)
next
  case (3 a b)
  then show ?case using b64_bounds(1,3) [of a b] b64_bounds(4) [of b 0] by (simp add: ascii_def url_char_ascii)
next
  case (4 a b c r)
  then show ?case
    using b64_bounds(1,3) [of a b] b64_bounds(5) [of b c] b64_bounds(6) [of c c] by (simp add: ascii_def url_char_ascii)
qed (simp add: ascii_def)

lemma rawurl_ascii [simp]: "ascii (rawurl_Encode s)"
  by (simp add: rawurl_Encode_def raw_enc_ascii)

lemma hex_ascii [simp]: "ascii (hex_EncodeToString s)"
proof -
  have "list_all is_hex (hex_EncodeToString s)" by simp
  then show ?thesis by (auto simp: ascii_def list_all_iff is_hex_code)
qed

lemma plain_ascii:
  assumes "plain_authority a"
  shows "ascii a"
  using assms
proof (cases rule: plain_authority_cases)
  case (1 h)
  then show ?thesis by (auto simp: ascii_def list_all_iff host_char_def is_digit_def less_eq_char_def)
next
  case (2 h p)
  then show ?thesis by (auto simp: ascii_def list_all_iff host_char_def is_digit_def less_eq_char_def)
qed

lemma wrap64_wrap64 [simp]: "wrap64 (wrap64 x) = wrap64 x"
  by (rule wrap64_id) (use wrap64_bounds [of x] in auto)

lemma new_certificate_ascii:
  "plain_authority a \<Longrightarrow> ascii_cert (SignCertificate K (new_certificate L (''https://'' @ a) pub days t) priv)"
  using plain_ascii by (simp add: ascii_cert_def SignCertificate_def new_certificate_def toUnix_def wrap64_id) (simp add: ascii_def)

section \<open>Issued identities\<close>

lemma toUnix_clock: "clock_range t \<Longrightarrow> toUnix t = t div Second - unixToInternal"
  unfolding toUnix_def by (rule wrap64_id) (auto simp: clock_range_def Second_def unixToInternal_def)

lemma days_duration_exact: "1 \<le> days \<Longrightarrow> days \<le> 106751 \<Longrightarrow> days_duration days = days * 86400 * Second"
  by (simp add: days_duration_def wrap64_id Second_def)

lemma SecondsDuration_exact: "0 \<le> tol \<Longrightarrow> tol \<le> 9000000000 \<Longrightarrow> SecondsDuration tol = tol * Second \<and> wrap64 (- SecondsDuration tol) = - (tol * Second)"
  by (simp add: SecondsDuration_def wrap64_id Second_def)

lemma new_certificate_times:
  fixes L u pub days t0
  assumes t0: "clock_range t0" and d: "1 \<le> days" "days \<le> 106751"
  defines "c \<equiv> new_certificate L u pub days t0"
  shows "cIssuedAt c = t0 div Second - unixToInternal" and "cExpiresAt c = t0 div Second + days * 86400 - unixToInternal"
    and "0 \<le> tol \<Longrightarrow> tol \<le> 9000000000 \<Longrightarrow> t0 \<le> t \<Longrightarrow> t \<le> t0 + (days * 86400 - 1) * Second \<Longrightarrow> valid_at c t tol"
proof -
  have q: "0 \<le> t0 div Second" "t0 div Second < 2 ^ 62"
    using t0 by (auto simp: clock_range_def Second_def)
  have add: "time_Add t0 (days_duration days) = t0 + days * 86400 * Second"
    unfolding days_duration_exact [OF d]
    by (rule time_Add_exact) (use t0 d in \<open>auto simp: clock_range_def Second_def\<close>)
  have e: "(t0 + days * 86400 * Second) div Second = t0 div Second + days * 86400"
    by (simp add: Second_def)
  show 1: "cIssuedAt c = t0 div Second - unixToInternal" by (simp add: c_def new_certificate_def toUnix_clock [OF t0])
  show 2: "cExpiresAt c = t0 div Second + days * 86400 - unixToInternal"
  proof -
    have "toUnix (t0 + days * 86400 * Second) = t0 div Second + days * 86400 - unixToInternal"
      unfolding toUnix_def e by (rule wrap64_id) (use q d in \<open>auto simp: unixToInternal_def\<close>)
    then show ?thesis by (simp add: c_def new_certificate_def add)
  qed
  assume tol: "0 \<le> tol" "tol \<le> 9000000000" and t: "t0 \<le> t" "t \<le> t0 + (days * 86400 - 1) * Second"
  have u: "time_Unix (cIssuedAt c) = t0 div Second * Second" "time_Unix (cExpiresAt c) = (t0 div Second + days * 86400) * Second"
    unfolding time_Unix_def 1 2 using q d by (simp_all add: wrap64_id)
  have "time_Add (t0 div Second * Second) (- (tol * Second)) = t0 div Second * Second - tol * Second"
    using time_Add_exact [of "t0 div Second * Second" "- (tol * Second)"] q tol by (simp add: Second_def)
  moreover have "time_Add ((t0 div Second + days * 86400) * Second) (tol * Second) = (t0 div Second + days * 86400) * Second + tol * Second"
    by (rule time_Add_exact) (use q tol d in \<open>auto simp: Second_def\<close>)
  moreover have "t0 div Second * Second \<le> t0" "t0 < t0 div Second * Second + Second"
    by (simp_all add: Second_def)
  ultimately show "valid_at c t tol"
    using t tol SecondsDuration_exact [OF tol] unfolding valid_at_def u by (auto simp: algebra_simps Second_def)
qed

lemma cmdIssue_Inr:
  assumes "parse_flags (issue_table P) args issue_defaults = Inr f"
    and "run_state (cmdIssue L P K os args) w = (Inr (), w')"
  obtains caPriv u priv w1 where "decode_caKey (is_caKey f) = Inr caPriv" "ca_normalizeURI L (is_uri f) = Inr u"
    "os_GenerateKey os w = (Inr priv, w1)"
    "run_state (write_identity os (is_outDir f)
       (SignCertificate K (new_certificate L u (ed_Public K priv) (is_days f) (os_Now os w1)) caPriv) priv) w1 = (Inr (), w')"
  using assms by (auto simp: cmdIssue_def split: if_splits sum.splits prod.splits)

lemma write_identity_Inr:
  assumes "run_state (write_identity os d c priv) w = (Inr (), w')" and "os_ok J os" and "ascii_cert c"
  shows "\<exists>s. os_ReadFile os (os_Join os d (cNodeID c @ ''.cert.json'')) w' = Inr s \<and> json_Certificate J s = Inr c \<and>
    os_ReadFile os (os_Join os d (cNodeID c @ ''.privkey.b64'')) w' = Inr (rawurl_Encode priv)"
proof -
  let ?p = "os_Join os d (cNodeID c @ ''.cert.json'')" and ?q = "os_Join os d (cNodeID c @ ''.privkey.b64'')"
  obtain s w2 where s: "os_IndentCert os c = Inr s" "os_WriteFile os ?p s w = (Inr (), w2)"
    "os_WriteFile os ?q (rawurl_Encode priv) w2 = (Inr (), w')"
    using assms(1) by (auto simp: write_identity_def split: sum.splits prod.splits)
  have "os_ReadFile os ?p w2 = Inr s" "os_ReadFile os ?q w' = Inr (rawurl_Encode priv)" "os_ReadFile os ?p w' = os_ReadFile os ?p w2"
    using assms(2) s unfolding os_ok_def by blast+
  then show ?thesis using s assms(2,3) by (auto simp: os_ok_def)
qed

lemma ca_normalizeURI_eq: "ca_normalizeURI L raw = Inr n \<longleftrightarrow> NormalizeURI L raw = Inr n"
  by (simp add: ca_normalizeURI_def NormalizeURI_def Let_def split: sum.splits)

lemma decode_caKey_Inr: "decode_caKey s = Inr k \<Longrightarrow> rawurl_Decode s = Some k \<and> length k = 64"
  by (auto simp: decode_caKey_def split: option.splits if_splits)

text \<open>C29: The identity the CA issues starts a node. When \<open>ca issue\<close> has written its two files, a node that
  is configured with the CA's public key and these files, and with no revocation list, gets through
  the setup of its credentials at any moment from the issue until a second before the requested
  number of days is over, for 1 to 106751 days; its signer speaks for the ID that is the hash of the
  URI, with the issued certificate and the private key that belongs to the certificate's public key.\<close>
theorem issued_identity_starts_node:
  assumes libs: "ed25519_ok K" "codecs_ok J" "url_Parse_ok L" "sha1_ok L" "os_ok J os"
    and args: "parse_flags (issue_table P) args issue_defaults = Inr f" "1 \<le> is_days f" "is_days f \<le> 106751"
      "NormalizeURI L (is_uri f) = Inr (''https://'' @ a)" "plain_authority a"
    and run: "run_state (cmdIssue L P K os args) w = (Inr (), w')"
    and clock: "t0 = os_Now os (snd (os_GenerateKey os w))" "clock_range t0" "t0 \<le> t" "t \<le> t0 + (is_days f * 86400 - 1) * Second"
    and cfg: "a_Enabled A" "rawurl_Decode (is_caKey f) = Some ca" "a_CAPublicKeyBase64 A = rawurl_Encode (ed_Public K ca)"
      "HashURI L (''https://'' @ a) = Inr nodeID"
      "a_NodeCertificateFile A = os_Join os (is_outDir f) (nodeID @ ''.cert.json'')"
      "a_NodePrivateKeyFile A = os_Join os (is_outDir f) (nodeID @ ''.privkey.b64'')"
      "a_CRLFile A = []" "0 \<le> a_TimestampToleranceSecs A" "a_TimestampToleranceSecs A \<le> 9000000000"
  shows "\<exists>s cert. authSetup L J K (\<lambda>p. os_ReadFile os p w') t A = Inr (Some s) \<and>
    sg_nodeID (as_signer s) = nodeID \<and> sg_cert (as_signer s) = Some cert \<and> cURI cert = ''https://'' @ a \<and>
    NodePublicKey cert = Inr (ed_Public K (sg_privKey (as_signer s)))"
proof -
  obtain caPriv u priv w1 where i: "decode_caKey (is_caKey f) = Inr caPriv" "ca_normalizeURI L (is_uri f) = Inr u"
    "os_GenerateKey os w = (Inr priv, w1)"
    "run_state (write_identity os (is_outDir f)
       (SignCertificate K (new_certificate L u (ed_Public K priv) (is_days f) (os_Now os w1)) caPriv) priv) w1 = (Inr (), w')"
    using cmdIssue_Inr [OF args(1) run] by blast
  have eq: "caPriv = ca" "u = ''https://'' @ a" "os_Now os w1 = t0"
    using i(1,2,3) cfg(2) args(4) clock(1) decode_caKey_Inr by (auto simp: ca_normalizeURI_eq)
  define content where "content = new_certificate L u (ed_Public K priv) (is_days f) t0"
  define cert where "cert = SignCertificate K content ca"
  have idem: "NormalizeURI L u = Inr u" using NormalizeURI_idem [OF libs(3) args(4) args(5)] eq(2) by simp
  have id: "cNodeID content = nodeID" "cURI content = u" "cVersion content = 1" "HashURI L (cURI content) = Inr (cNodeID content)"
    using cfg(4) idem unfolding eq(2) [symmetric] by (simp_all add: content_def new_certificate_def HashURI_def)
  have pub: "length (ed_Public K k) = 32" for k using libs(1) by (simp add: ed25519_ok_def)
  have key: "NodePublicKey content = Inr (ed_Public K priv)"
    by (simp add: NodePublicKey_def content_def new_certificate_def rawurl_roundtrip pub)
  have times: "cIssuedAt content < cExpiresAt content" "valid_at content t (a_TimestampToleranceSecs A)"
    using new_certificate_times [OF clock(2) args(2,3), where L = L and u = u and pub = "ed_Public K priv"] clock(3,4) cfg(8,9) args(2) unfolding content_def by auto
  have len: "length (cNodeID content) = 40" using libs(4) by (simp add: content_def new_certificate_def sha1_ok_def)
  have "VerifyCertificate L K cert (ed_Public K ca) t (a_TimestampToleranceSecs A) = Inr ()"
    unfolding cert_def
    using VerifyCertificate_iff [OF pub] id(3,4) len key times ca_signed_Sign [OF libs(1), of ca content]
    by (simp add: SignCertificate_def NodePublicKey_def valid_at_def)
  moreover have asc: "ascii_cert cert"
    unfolding cert_def content_def eq(2) by (rule new_certificate_ascii [OF args(5)])
  moreover obtain s where "os_ReadFile os (os_Join os (is_outDir f) (cNodeID cert @ ''.cert.json'')) w' = Inr s" "json_Certificate J s = Inr cert"
    "os_ReadFile os (os_Join os (is_outDir f) (cNodeID cert @ ''.privkey.b64'')) w' = Inr (rawurl_Encode priv)"
    using write_identity_Inr [OF i(4) libs(5)] asc unfolding cert_def content_def eq by blast
  moreover have "length priv = 64" using libs(5) i(3) unfolding os_ok_def by blast
  moreover have "cNodeID cert = nodeID" "cURI cert = u" "NodePublicKey cert = Inr (ed_Public K priv)"
    using id key by (simp_all add: cert_def SignCertificate_def NodePublicKey_def)
  ultimately show ?thesis
    using cfg(1,3,5,6,7) pub eq(2)
    by (simp add: authSetup_def decode_key_def rawurl_roundtrip load_certificate_def load_privateKey_def load_crl_def
        ParseCertificate_def NewRequestSigner_def Let_def)
qed

lemma demo_flags:
  "parse_flags (issue_table P) [''-ca-key'', key, ''--uri=https://a''] issue_defaults =
     Inr \<lparr>is_caKey = key, is_uri = ''https://a'', is_days = 365, is_outDir = ''.''\<rparr>"
  "parse_flags (crl_table P) [''-ca-key'', key, ''-revoke=n1, n2''] crl_defaults =
     Inr \<lparr>gc_caKey = key, gc_revoke = ''n1, n2'', gc_crlIn = [], gc_out = ''crl.json''\<rparr>"
  by (simp_all add: flag_text_def HasPrefix_def cut_value_def issue_table_def crl_table_def issue_defaults_def crl_defaults_def
      flagString_def flagInt_def set_parsed_def)

lemma demo_issue:
  "\<exists>w'. run_state (cmdIssue demo_lib P demo_ed demo_os [''-ca-key'', rawurl_Encode demo_caPriv, ''--uri=https://a'']) Map.empty = (Inr (), w')"
proof -
  have "NormalizeURI demo_lib ''https://a'' = Inr ''https://a''" by code_simp
  then have "ca_normalizeURI demo_lib ''https://a'' = Inr ''https://a''" by (simp add: ca_normalizeURI_eq)
  then show ?thesis
    by (simp add: cmdIssue_def demo_flags demo_caKey write_identity_def demo_os_def del: parse_flags.simps)
qed

lemma issued_identity_starts_node_witness:
  "\<exists>w' A s. run_state (cmdIssue demo_lib demo_str demo_ed demo_os [''-ca-key'', rawurl_Encode demo_caPriv, ''--uri=https://a'']) Map.empty = (Inr (), w') \<and>
     authSetup demo_lib demo_codecs demo_ed (\<lambda>p. os_ReadFile demo_os p w') (time_Unix 1000) A = Inr (Some s)"
proof -
  obtain w' where run: "run_state (cmdIssue demo_lib demo_str demo_ed demo_os [''-ca-key'', rawurl_Encode demo_caPriv, ''--uri=https://a'']) Map.empty = (Inr (), w')"
    using demo_issue by blast
  have n: "NormalizeURI demo_lib ''https://a'' = Inr (''https://'' @ ''a'')" by code_simp
  then have "\<exists>i. HashURI demo_lib (''https://'' @ ''a'') = Inr i" by (simp add: HashURI_def)
  then obtain i where i: "HashURI demo_lib (''https://'' @ ''a'') = Inr i" ..
  define A where "A = \<lparr>a_Enabled = True, a_CAPublicKeyBase64 = rawurl_Encode (ed_Public demo_ed demo_caPriv),
    a_NodeCertificateFile = os_Join demo_os ''.'' (i @ ''.cert.json''), a_NodePrivateKeyFile = os_Join demo_os ''.'' (i @ ''.privkey.b64''),
    a_TimestampToleranceSecs = 300, a_NonceCacheTTLSecs = 600, a_NonceCacheMaxSize = 10, a_CertCacheTTLSecs = 60, a_CRLFile = [],
    a_CRLRefreshFromTracker = False, a_CertExpiryWarnDays = 30, a_BootGracePeriodSecs = 0\<rparr>"
  have c: "clock_range (time_Unix 1000)" "plain_authority ''a''" by code_simp+
  have "\<exists>s cert. authSetup demo_lib demo_codecs demo_ed (\<lambda>p. os_ReadFile demo_os p w') (time_Unix 1000) A = Inr (Some s) \<and>
    sg_nodeID (as_signer s) = i \<and> sg_cert (as_signer s) = Some cert \<and> cURI cert = ''https://'' @ ''a'' \<and>
    NodePublicKey cert = Inr (ed_Public demo_ed (sg_privKey (as_signer s)))"
    by (rule issued_identity_starts_node [OF demo_ed_ok demo_codecs_ok demo_lib_ok(2,1) demo_os_ok demo_flags(1) _ _ _ c(2) run _ c(1) _ _ _ _ _ i])
      (use n in \<open>simp_all add: A_def rawurl_roundtrip demo_os_def Second_def\<close>)
  then show ?thesis using run by blast
qed

section \<open>Revocation lists\<close>

lemma set_add_revoked: "set (add_revoked rids xs) = set rids \<union> (TrimSpace ` set xs - {[]})"
  by (induction rids xs rule: add_revoked.induct) (auto simp: Let_def)

lemma distinct_add_revoked: "distinct rids \<Longrightarrow> distinct (add_revoked rids xs)"
  by (induction rids xs rule: add_revoked.induct) (auto simp: Let_def)

text \<open>C31: Updating a revocation list never forgives anyone. When \<open>ca gen-crl\<close> succeeds, it has written a
  list signed by the given key that revokes exactly the nodes of the list it read and the non-blank
  entries of its argument, each new one once; the version is one more than before (1 for a new list),
  and nodes that know the CA's public key accept the result.\<close>
theorem crl_update_keeps_revocations:
  assumes K: "ed25519_ok K" and flags: "parse_flags (crl_table P) args crl_defaults = Inr f"
    and run: "run_state (cmdGenCRL J P K os args) w = (Inr (), w')"
    and old: "if gc_crlIn f = [] then old = \<lparr>crlVersion = 0, crlUpdatedAt = 0, crlRevokedIDs = [], crlSignature = []\<rparr>
      else \<exists>data. os_ReadFile os (gc_crlIn f) w = Inr data \<and> json_CRL J data = Inr old"
    and v: "0 \<le> crlVersion old" "crlVersion old < 2 ^ 63 - 1"
  shows "\<exists>priv crl data. rawurl_Decode (gc_caKey f) = Some priv \<and> os_IndentCRL os crl = Inr data \<and>
    os_WriteFile os (gc_out f) data w = (Inr (), w') \<and> VerifyCRL K crl (ed_Public K priv) = Inr () \<and>
    crlVersion crl = crlVersion old + 1 \<and>
    (\<forall>i. IsRevoked (Some crl) i \<longleftrightarrow> IsRevoked (Some old) i \<or> i \<noteq> [] \<and> i \<in> TrimSpace ` set (split_on (CHR '','') (gc_revoke f))) \<and>
    (distinct (crlRevokedIDs old) \<longrightarrow> distinct (crlRevokedIDs crl))"
proof -
  have "base_crl J os (gc_crlIn f) w = Inr (old\<lparr>crlVersion := crlVersion old + 1\<rparr>)"
    using old v by (auto simp: base_crl_def wrap64_id split: if_splits)
  moreover define rids where "rids = (if gc_revoke f = [] then crlRevokedIDs old
      else add_revoked (crlRevokedIDs old) (split_on (CHR '','') (gc_revoke f)))"
  moreover define content where "content = (old\<lparr>crlVersion := crlVersion old + 1\<rparr>)\<lparr>crlUpdatedAt := toUnix (os_Now os w), crlRevokedIDs := rids\<rparr>"
  ultimately obtain priv data where r: "decode_caKey (gc_caKey f) = Inr priv" "os_IndentCRL os (SignCRL K content priv) = Inr data"
    "os_WriteFile os (gc_out f) data w = (Inr (), w')"
    using run flags by (auto simp: cmdGenCRL_def Let_def split: if_splits sum.splits prod.splits)
  let ?crl = "SignCRL K content priv"
  have rs: "set rids = set (crlRevokedIDs old) \<union> (TrimSpace ` set (split_on (CHR '','') (gc_revoke f)) - {[]})"
    by (cases "gc_revoke f = []") (simp_all add: rids_def set_add_revoked, simp add: TrimSpace_def)
  have f: "crlVersion ?crl = crlVersion old + 1" "crlRevokedIDs ?crl = rids" by (simp_all add: SignCRL_def content_def)
  have "VerifyCRL K ?crl (ed_Public K priv) = Inr ()"
    using K v(1) by (simp add: VerifyCRL_def f SignCRL_def rawurl_roundtrip ed25519_ok_def ed25519_Verify_def crlSignedMessage_def content_def)
  moreover have "\<forall>i. IsRevoked (Some ?crl) i \<longleftrightarrow> IsRevoked (Some old) i \<or> i \<noteq> [] \<and> i \<in> TrimSpace ` set (split_on (CHR '','') (gc_revoke f))"
    using rs by (auto simp: IsRevoked_def f)
  moreover have "distinct (crlRevokedIDs old) \<longrightarrow> distinct (crlRevokedIDs ?crl)"
    by (simp add: f rids_def distinct_add_revoked)
  ultimately show ?thesis
    using r decode_caKey_Inr [OF r(1)] f(1) by (intro exI [of _ priv] exI [of _ ?crl] exI [of _ data]) simp
qed

lemma crl_update_keeps_revocations_witness:
  "\<exists>w' crl. run_state (cmdGenCRL demo_codecs demo_str demo_ed demo_os [''-ca-key'', rawurl_Encode demo_caPriv, ''-revoke=n1, n2'']) Map.empty = (Inr (), w') \<and>
     IsRevoked (Some crl) ''n2'' \<and> crlVersion crl = 1 \<and> VerifyCRL demo_ed crl (ed_Public demo_ed demo_caPriv) = Inr ()"
proof -
  let ?args = "[''-ca-key'', rawurl_Encode demo_caPriv, ''-revoke=n1, n2'']"
  have "\<exists>w'. run_state (cmdGenCRL demo_codecs demo_str demo_ed demo_os ?args) Map.empty = (Inr (), w')"
    by (simp add: cmdGenCRL_def demo_flags demo_caKey base_crl_def demo_os_def Let_def del: parse_flags.simps)
  then obtain w' where run: "run_state (cmdGenCRL demo_codecs demo_str demo_ed demo_os ?args) Map.empty = (Inr (), w')" ..
  have two: "''n2'' \<in> TrimSpace ` set (split_on (CHR '','') ''n1, n2'')" by code_simp
  show ?thesis
    using crl_update_keeps_revocations [OF demo_ed_ok demo_flags(2) run,
        where old = "\<lparr>crlVersion = 0, crlUpdatedAt = 0, crlRevokedIDs = [], crlSignature = []\<rparr>"] run two
    by (auto simp: rawurl_roundtrip)
qed

end
