(* ===== verification/Spec2Isabelle.thy ===== *)
theory Spec2Isabelle
  imports RingRounds SharedCaches LoopFacts ClientFacts CAFacts
begin

text \<open>
  A model of ChordDHT: a Chord ring of nodes on the 160-bit identifier space, its HTTP interface with
  signed requests, the node process and the certificate tool. All Go packages of the repository are
  modelled, function by function, under the functions' own names; where a name is taken in HOL, or two
  types share it, it carries the type's name (\<open>RTTCache_Get\<close>, \<open>Client_State\<close>).

  \<^bold>\<open>The program.\<close> A process (\<open>cmd/node\<close>) runs one anchor and some virtual nodes, whose IDs are derived
  from the anchor's. Each node (\<open>internal/chord\<close>) keeps its successor, successor list, predecessors,
  160 fingers and caches under one mutex. It serves the ring protocol through an HTTP server
  (\<open>internal/httpapi\<close>), calls its peers and a tracker through HTTP clients (\<open>internal/client\<close>), and runs
  its maintenance in goroutines. Requests are signed and verified in \<open>internal/auth\<close> against
  certificates of a CA, which \<open>tools/ca\<close> issues; \<open>internal/config\<close> reads flags and environment,
  \<open>internal/logging\<close> holds the log level.

  \<^bold>\<open>How state and effects appear.\<close> A struct is a record, an enumeration a datatype, a Go map an association
  list or a function, \<open>nil\<close> is \<open>None\<close>, a pair of a value and an error is a sum. Integers are \<open>int\<close>, with
  \<open>wrap64\<close> where the code can leave 64 bits; \<open>float64\<close> is rounded as IEEE does. A method of a node, of
  the verifier or of the server is an action of a state monad over its own state, the world around it
  and the goroutines it started; each access under a lock is one \<open>asks\<close>, \<open>modify\<close> or \<open>atomically\<close>, so that
  the interleavings of goroutines are the interleavings of these. Calls that leave the repository go
  to records of functions on the world.

  \<^bold>\<open>Theories\<close>, in the order of their dependencies.
  \<^item> Foundations: \<open>Prelude\<close> (Go's errors and results, the monad, the locale \<open>kept_invariant\<close> of actions
    made of invariant-keeping steps), \<open>GoStd\<close> (64-bit integers, time, strings), \<open>Base64\<close>, \<open>Float64\<close>.
  \<^item> The ring: \<open>Ident\<close> (\<open>id.go\<close>), \<open>Ring\<close> (the locale \<open>ring_space\<close>: owners and true successors, against
    which routing is specified), \<open>Types\<close> (\<open>types.go\<close>, \<open>errors.go\<close>).
  \<^item> Caches: \<open>Lru\<close> and the locales \<open>lru\<close> and \<open>expiring\<close>, interpreted by \<open>RttCache\<close> (\<open>rtt_cache.go\<close>),
    \<open>RoutingCache\<close> (\<open>routing_cache.go\<close>) and \<open>SharedCaches\<close> (\<open>shared_resources.go\<close>).
  \<^item> The node: \<open>NodeState\<close> and \<open>NodeOps\<close> (\<open>node.go\<close>, the critical sections), \<open>VNodeProofs\<close>
    (\<open>vnode_proof.go\<close>), \<open>Lookup\<close> (\<open>lookup.go\<close>), \<open>Protocol\<close> (\<open>protocol.go\<close>), \<open>Maintenance\<close>,
    \<open>Membership\<close> and \<open>Loops\<close> (\<open>maintenance.go\<close>, joining and leaving of \<open>node.go\<close>, the schedule of the
    loops).
  \<^item> Authentication: \<open>Certificates\<close> (\<open>cert.go\<close>, \<open>crl.go\<close>), \<open>AuthCaches\<close> (\<open>nonce_cache.go\<close>,
    \<open>cert_cache.go\<close>), \<open>RequestAuth\<close> (\<open>signer.go\<close>, \<open>verifier.go\<close>).
  \<^item> HTTP: \<open>HttpApi\<close> (\<open>server.go\<close>, \<open>errors.go\<close>), \<open>Client\<close> (\<open>chord_client.go\<close>, \<open>json.go\<close>,
    \<open>tracker_client.go\<close>).
  \<^item> Process and tools: \<open>Logging\<close>, \<open>Config\<close>, \<open>Startup\<close> (\<open>cmd/node/main.go\<close>), \<open>CATool\<close>
    (\<open>tools/ca/main.go\<close>).

  \<^bold>\<open>What is shown.\<close>
  \<^item> Routing. \<open>LookupFacts\<close> and \<open>LookupCorrect\<close>: a next hop is strictly closer to the key; on a stable
    ring a lookup from any node returns the owner within the hop budget and leaves caches sound, if
    parallel lookup is off (\<open>parallel_lookup_misroutes\<close> shows what happens if it is on).
    \<open>LookupBounds\<close>: whatever peers answer, a lookup asks boundedly many and its chain none twice.
  \<^item> The node as a concurrent object. \<open>NodeSteps\<close> lists the critical sections as a step relation with
    arbitrary data from outside and proves the invariant of successor list, predecessor list, finger
    table and caches; \<open>NodeRuns\<close> and \<open>NodeInvariant\<close> show that every operation is made of such steps,
    so the invariant holds under every interleaving.
  \<^item> Protocol and maintenance. \<open>ProtocolFacts\<close> and \<open>MaintenanceFacts\<close>: which predecessor is accepted,
    which successor is adopted, what validation leaves of the list, when a peer is dropped, when a node
    isolates itself, that the repair order reaches all fingers. \<open>RingRounds\<close> lets nodes answer each other:
    two stabilisations take a node that has joined into the ring, a graceful leave closes its gap.
    \<open>LoopFacts\<close>: the loops are paced, and the maintenance mode follows the topology changes.
  \<^item> Authentication. \<open>CertFacts\<close>, \<open>AuthCaches\<close>, \<open>RequestFacts\<close>: what an accepted request guarantees, what
    a signature covers, what the caches refuse, and where the lifetimes leave a gap. The handlers put
    certificates of request bodies into the cache without verifying them; \<open>verifier_step\<close> has them as a
    parameter, the set of planted certificates, and the theorems say what holds up to these.
  \<^item> Composition. \<open>HttpFacts\<close>: what changes a node was authenticated, up to planted certificates, and
    what a request plants; exempt paths change nothing, no request breaks the invariant.
    \<open>ClientFacts\<close>: a client's call reaches the node it names and returns what that node computes.
    \<open>EnvFacts\<close>, \<open>ConfigFacts\<close>, \<open>StartupFacts\<close>, \<open>CAFacts\<close>: loaded configurations are complete and
    follow the environment variable by variable, a started process satisfies the invariants, and what
    the CA tool writes is accepted.

  \<^bold>\<open>Bounds and fuel.\<close> No loop runs on fuel the code does not have. \<open>lookup_loop\<close> recurses on
  \<open>MaxHops\<close>, the bound of the code's own \<open>for\<close>; the one retry of a client call is unrolled as written; the
  other loops go over a list. The maintenance loops never end: they are a step relation, and what is
  said of them is said of all runs.

  \<^bold>\<open>Parameters\<close>, with what is assumed of them stated as predicates that a concrete instance satisfies:
  SHA-1 and \<open>url.Parse\<close> (\<open>golib\<close>), Ed25519 (\<open>ed25519_ok\<close>), JSON and SHA-256 (\<open>codecs_ok\<close>, \<open>wire\<close>, \<open>decoders\<close>),
  HTTP transport and random bytes (\<open>net\<close>), \<open>ParseFloat\<close>, \<open>ParseDuration\<close>, \<open>ParseInt\<close> in base 0
  (\<open>strlib\<close>), files and key generation (\<open>os_ok\<close>), peers and tracker of a single node (\<open>env\<close>).

  \<^bold>\<open>Not modelled.\<close> The text of log lines and the request log, which only write; the defensive copies, which
  are identities on values; read-only accessors no other code uses; signals, sockets and server
  timeouts; infinities and NaN; text outside ASCII in \<open>TrimSpace\<close> and \<open>ToLower\<close>. The Go tests, the
  documents and the container files are not part of the program. Goroutines that a wait group joins
  run in order in the methods; their other interleavings are covered by the step relations only.
\<close>

end
